(* ===== verification/Prelude.thy ===== *)
theory Prelude
  imports Main "HOL-Library.State_Monad" "HOL-Library.Sublist"
begin

text \<open>
  Shared material: the shape of an effectful Go function, Hoare-style rules for it, and
  generic lemmas on lists.

  A Go function that reads or writes the outside world is an action of type
  \<open>('w, 'a) state\<close> of the library's state monad. Go's \<open>x, err := m; if err != nil { h }; k\<close>
  is \<open>attempt m h k\<close>: the action \<open>m\<close> has a result of type \<open>error + 'a\<close>, \<open>h\<close> is what the code
  does with the error and \<open>k\<close> what it does with the value. \<open>valid P m Q\<close> says that a run of
  \<open>m\<close> from a state with \<open>P\<close> ends with a result and a state in \<open>Q\<close>; since actions are total
  functions this is total correctness. \<open>keeps I m\<close> is the special case of an invariant.
\<close>

section \<open>Errors\<close>

text \<open>
  Error values. \<open>Wrap c e\<close> is \<open>fmt.Errorf("c: %w", e)\<close>; \<open>ErrQ a s b\<close> is
  \<open>fmt.Errorf("a%qb", s)\<close> and \<open>WrapQ a s e\<close> is \<open>fmt.Errorf("a%q: %w", s, e)\<close>, with the quoted
  string kept apart; \<open>Err\<close> is any other text, in
  particular an error that comes from outside the program.
\<close>

datatype constraint = CheckFailed | UniqueFailed | ForeignKeyFailed

datatype num_error = ErrSyntax | ErrRange

datatype error =
    Err string
  | ErrQ string string string
  | Wrap string error
  | WrapQ string string error
  | SqlConstraint constraint
  | NumError string num_error
  | SyncErrors "(string \<times> error) list"

section \<open>Actions\<close>

definition ok :: "'a \<Rightarrow> ('w, 'e + 'a) state" where
  "ok x = State_Monad.return (Inr x)"

definition fail :: "'e \<Rightarrow> ('w, 'e + 'a) state" where
  "fail e = State_Monad.return (Inl e)"

definition attempt ::
  "('w, 'e + 'a) state \<Rightarrow> ('e \<Rightarrow> ('w, 'b) state) \<Rightarrow> ('a \<Rightarrow> ('w, 'b) state) \<Rightarrow> ('w, 'b) state"
  where "attempt m h k = State_Monad.bind m (\<lambda>r. case r of Inl e \<Rightarrow> h e | Inr x \<Rightarrow> k x)"

text \<open>\<open>if err := m; err != nil { return fmt.Errorf("c: %w", err) }\<close>\<close>

definition check :: "string \<Rightarrow> ('w, error + 'a) state \<Rightarrow> ('a \<Rightarrow> ('w, error + 'b) state)
    \<Rightarrow> ('w, error + 'b) state" where
  "check c m k = attempt m (\<lambda>e. fail (Wrap c e)) k"

text \<open>\<open>_ = m\<close>: the result of the call is dropped.\<close>

definition ignore :: "('w, 'a) state \<Rightarrow> ('w, 'b) state \<Rightarrow> ('w, 'b) state" where
  "ignore m k = State_Monad.bind m (\<lambda>_. k)"

text \<open>\<open>x, _ := m\<close>: an error leaves the zero value in \<open>x\<close>.\<close>

definition or_zero :: "'a \<Rightarrow> ('w, 'e + 'a) state \<Rightarrow> ('a \<Rightarrow> ('w, 'b) state) \<Rightarrow> ('w, 'b) state" where
  "or_zero z m k = attempt m (\<lambda>_. k z) k"

text \<open>\<open>for _, x := range xs { body }\<close> whose body may return early with an error.\<close>

fun for_each :: "'a list \<Rightarrow> ('a \<Rightarrow> ('w, 'e + unit) state) \<Rightarrow> ('w, 'e + unit) state" where
  "for_each [] f = ok ()"
| "for_each (x # xs) f = attempt (f x) fail (\<lambda>_. for_each xs f)"

text \<open>A loop that threads a value, with no early exit.\<close>

fun fold_act :: "'a list \<Rightarrow> ('a \<Rightarrow> 'b \<Rightarrow> ('w, 'b) state) \<Rightarrow> 'b \<Rightarrow> ('w, 'b) state" where
  "fold_act [] f b = State_Monad.return b"
| "fold_act (x # xs) f b = State_Monad.bind (f x b) (fold_act xs f)"

named_theorems run_simps \<open>what an action does when it runs\<close>

lemma run_ok [run_simps, simp]: "run_state (ok x) w = (Inr x, w)"
  by (simp add: ok_def)

lemma run_fail [run_simps, simp]: "run_state (fail e) w = (Inl e, w)"
  by (simp add: fail_def)

lemma run_attempt [run_simps]:
  "run_state (attempt m h k) w =
     (case run_state m w of (Inl e, w') \<Rightarrow> run_state (h e) w' | (Inr x, w') \<Rightarrow> run_state (k x) w')"
  by (auto simp: attempt_def split: prod.splits sum.splits)

lemma run_check [run_simps]:
  "run_state (check c m k) w =
     (case run_state m w of (Inl e, w') \<Rightarrow> (Inl (Wrap c e), w') | (Inr x, w') \<Rightarrow> run_state (k x) w')"
  by (simp add: check_def run_attempt split: prod.splits sum.splits)

lemma run_ignore [run_simps]: "run_state (ignore m k) w = run_state k (snd (run_state m w))"
  by (simp add: ignore_def split: prod.splits)

lemma run_or_zero [run_simps]:
  "run_state (or_zero z m k) w =
     (case run_state m w of (r, w') \<Rightarrow> run_state (k (case r of Inl _ \<Rightarrow> z | Inr x \<Rightarrow> x)) w')"
  by (auto simp: or_zero_def run_attempt split: prod.splits sum.splits)

text \<open>What is known of an action that returned a value.\<close>

named_theorems returns \<open>inversion of a run that returned a value\<close>

lemma ok_returns [returns]: "run_state (ok x) w = (Inr y, w') \<longleftrightarrow> y = x \<and> w' = w"
  by auto

lemma fail_returns [returns]: "run_state (fail e) w = (Inr y, w') \<longleftrightarrow> False"
  by simp

lemma check_returns [returns]:
  "run_state (check c m k) w = (Inr y, w') \<longleftrightarrow>
     (\<exists>x v. run_state m w = (Inr x, v) \<and> run_state (k x) v = (Inr y, w'))"
  by (auto simp: run_check split: prod.splits sum.splits)

lemma attempt_returns [returns]:
  "run_state (attempt m fail k) w = (Inr y, w') \<longleftrightarrow>
     (\<exists>x v. run_state m w = (Inr x, v) \<and> run_state (k x) v = (Inr y, w'))"
  by (auto simp: run_attempt split: prod.splits sum.splits)

lemma option_returns [returns]:
  "run_state (case r of None \<Rightarrow> fail e | Some x \<Rightarrow> k x) w = (Inr y, w') \<longleftrightarrow>
     (\<exists>x. r = Some x \<and> run_state (k x) w = (Inr y, w'))"
  by (cases r) auto

lemma case_returns [returns]:
  "(case run_state m w of (x, v) \<Rightarrow> g x v) = r \<longleftrightarrow> (\<exists>x v. run_state m w = (x, v) \<and> g x v = r)"
  by (cases "run_state m w") auto

lemma return_returns [returns]: "run_state (State_Monad.return x) w = (y, w') \<longleftrightarrow> y = x \<and> w' = w"
  by auto

section \<open>Validity triples\<close>

definition valid :: "('w \<Rightarrow> bool) \<Rightarrow> ('w, 'a) state \<Rightarrow> ('a \<Rightarrow> 'w \<Rightarrow> bool) \<Rightarrow> bool" where
  "valid P m Q \<longleftrightarrow> (\<forall>w. P w \<longrightarrow> (case run_state m w of (x, w') \<Rightarrow> Q x w'))"

abbreviation keeps :: "('w \<Rightarrow> bool) \<Rightarrow> ('w, 'a) state \<Rightarrow> bool" where
  "keeps I m \<equiv> valid I m (\<lambda>_. I)"

lemma validI: "(\<And>w x w'. P w \<Longrightarrow> run_state m w = (x, w') \<Longrightarrow> Q x w') \<Longrightarrow> valid P m Q"
  by (auto simp: valid_def)

lemma validD: "valid P m Q \<Longrightarrow> P w \<Longrightarrow> run_state m w = (x, w') \<Longrightarrow> Q x w'"
  by (auto simp: valid_def)

lemma keeps_snd: "keeps I m \<Longrightarrow> I w \<Longrightarrow> I (snd (run_state m w))"
  by (cases "run_state m w") (auto dest: validD)

lemma valid_snd: "valid P m (\<lambda>_. Q) \<Longrightarrow> P w \<Longrightarrow> Q (snd (run_state m w))"
  by (cases "run_state m w") (auto dest: validD)

lemma valid_conseq:
  "valid P m Q \<Longrightarrow> (\<And>w. P' w \<Longrightarrow> P w) \<Longrightarrow> (\<And>x w. Q x w \<Longrightarrow> Q' x w) \<Longrightarrow> valid P' m Q'"
  by (fastforce simp: valid_def)

lemma valid_return: "valid (Q x) (State_Monad.return x) Q"
  by (simp add: valid_def)

lemma valid_bind:
  "valid P m R \<Longrightarrow> (\<And>x. valid (R x) (f x) Q) \<Longrightarrow> valid P (State_Monad.bind m f) Q"
  by (fastforce simp: valid_def split: prod.splits)

lemma valid_attempt:
  assumes "valid P m R" and "\<And>e. valid (R (Inl e)) (h e) Q" and "\<And>x. valid (R (Inr x)) (k x) Q"
  shows "valid P (attempt m h k) Q"
  unfolding attempt_def
  by (rule valid_bind [OF assms(1)]) (auto split: sum.split intro: assms)

named_theorems keeps_intros \<open>rules that push an invariant through an action\<close>

lemma keeps_return [keeps_intros]: "keeps I (State_Monad.return x)"
  by (simp add: valid_def)

lemma keeps_ok [keeps_intros]: "keeps I (ok x)"
  by (simp add: ok_def keeps_return)

lemma keeps_fail [keeps_intros]: "keeps I (fail e)"
  by (simp add: fail_def keeps_return)

lemma keeps_bind [keeps_intros]:
  "keeps I m \<Longrightarrow> (\<And>x. keeps I (f x)) \<Longrightarrow> keeps I (State_Monad.bind m f)"
  by (rule valid_bind)

lemma keeps_attempt [keeps_intros]:
  "keeps I m \<Longrightarrow> (\<And>e. keeps I (h e)) \<Longrightarrow> (\<And>x. keeps I (k x)) \<Longrightarrow> keeps I (attempt m h k)"
  by (rule valid_attempt)

lemma keeps_check [keeps_intros]:
  "keeps I m \<Longrightarrow> (\<And>x. keeps I (k x)) \<Longrightarrow> keeps I (check c m k)"
  unfolding check_def by (intro keeps_attempt keeps_fail)

lemma keeps_ignore [keeps_intros]: "keeps I m \<Longrightarrow> keeps I k \<Longrightarrow> keeps I (ignore m k)"
  unfolding ignore_def by (intro keeps_bind)

lemma keeps_or_zero [keeps_intros]:
  "keeps I m \<Longrightarrow> (\<And>x. keeps I (k x)) \<Longrightarrow> keeps I (or_zero z m k)"
  unfolding or_zero_def by (intro keeps_attempt)

lemma keeps_if [keeps_intros]:
  "(b \<Longrightarrow> keeps I x) \<Longrightarrow> (\<not> b \<Longrightarrow> keeps I y) \<Longrightarrow> keeps I (if b then x else y)"
  by simp

lemma keeps_option [keeps_intros]:
  "(r = None \<Longrightarrow> keeps I x) \<Longrightarrow> (\<And>v. r = Some v \<Longrightarrow> keeps I (y v))
    \<Longrightarrow> keeps I (case r of None \<Rightarrow> x | Some v \<Rightarrow> y v)"
  by (cases r) auto

lemma keeps_sum [keeps_intros]:
  "(\<And>e. r = Inl e \<Longrightarrow> keeps I (x e)) \<Longrightarrow> (\<And>v. r = Inr v \<Longrightarrow> keeps I (y v))
    \<Longrightarrow> keeps I (case r of Inl e \<Rightarrow> x e | Inr v \<Rightarrow> y v)"
  by (cases r) auto

lemma keeps_prod [keeps_intros]:
  "(\<And>a b. r = (a, b) \<Longrightarrow> keeps I (x a b)) \<Longrightarrow> keeps I (case r of (a, b) \<Rightarrow> x a b)"
  by (cases r) auto

lemma keeps_let [keeps_intros]: "(\<And>x. keeps I (f x)) \<Longrightarrow> keeps I (let x = v in f x)"
  by simp

lemma keeps_for_each [keeps_intros]:
  "(\<And>x. x \<in> set xs \<Longrightarrow> keeps I (f x)) \<Longrightarrow> keeps I (for_each xs f)"
  by (induction xs) (auto intro!: keeps_intros)

lemma keeps_fold_act [keeps_intros]:
  "(\<And>x b. x \<in> set xs \<Longrightarrow> keeps I (f x b)) \<Longrightarrow> keeps I (fold_act xs f b)"
  by (induction xs arbitrary: b) (auto intro!: keeps_intros)

section \<open>Invariants that end weaker than they begin\<close>

text \<open>Steps that keep \<open>J\<close> in front of the write that ends in \<open>I\<close>.\<close>

named_theorems pre_intros

lemma valid_pre: "(\<And>w. J w \<Longrightarrow> I w) \<Longrightarrow> keeps J m \<Longrightarrow> valid J m (\<lambda>_. I)"
  by (erule valid_conseq) auto

lemma pre_check [pre_intros]:
  assumes "\<And>w. J w \<Longrightarrow> I w" "keeps J m" "\<And>x. valid J (k x) (\<lambda>_. I)"
  shows "valid J (check c m k) (\<lambda>_. I)"
  unfolding check_def
  by (rule valid_attempt [OF assms(2) valid_pre [OF assms(1) keeps_fail] assms(3)])

lemma pre_attempt [pre_intros]:
  assumes "\<And>w. J w \<Longrightarrow> I w" "keeps J m" "\<And>x. valid J (k x) (\<lambda>_. I)"
  shows "valid J (attempt m fail k) (\<lambda>_. I)"
  by (rule valid_attempt [OF assms(2) valid_pre [OF assms(1) keeps_fail] assms(3)])

lemma pre_option [pre_intros]:
  assumes "valid J x (\<lambda>_. I)" "\<And>v. r = Some v \<Longrightarrow> valid J (y v) (\<lambda>_. I)"
  shows "valid J (case r of None \<Rightarrow> x | Some v \<Rightarrow> y v) (\<lambda>_. I)"
  using assms by (cases r) auto

lemma pre_prod [pre_intros]:
  "(\<And>a b. valid J (x a b) (\<lambda>_. I)) \<Longrightarrow> valid J (case r of (a, b) \<Rightarrow> x a b) (\<lambda>_. I)"
  by (cases r) auto

lemma pre_if [pre_intros]: "valid J x Q \<Longrightarrow> valid J y Q \<Longrightarrow> valid J (if b then x else y) Q"
  by simp

lemma pre_fail: "(\<And>w. J w \<Longrightarrow> I w) \<Longrightarrow> valid J (fail e) (\<lambda>_. I)"
  by (rule valid_pre) (auto intro: keeps_fail)

lemma valid_check_write:
  "valid J m (\<lambda>_. I) \<Longrightarrow> (\<And>x. keeps I (k x)) \<Longrightarrow> valid J (check c m k) (\<lambda>_. I)"
  unfolding check_def by (rule valid_attempt) (auto intro: keeps_fail)

section \<open>Lists\<close>

lemma find_Some_in: "List.find P xs = Some x \<Longrightarrow> x \<in> set xs \<and> P x"
  by (induction xs) (auto split: if_splits)

lemma find_distinct_key:
  "distinct (map k xs) \<Longrightarrow> x \<in> set xs \<Longrightarrow> List.find (\<lambda>y. k y = k x) xs = Some x"
proof (induction xs)
  case (Cons a xs)
  show ?case
  proof (cases "k a = k x")
    case True
    with Cons.prems have "a = x" by (auto simp: image_iff)
    then show ?thesis by simp
  next
    case False
    with Cons show ?thesis by auto
  qed
qed simp

lemma distinct_map_inj:
  "distinct (map k xs) \<Longrightarrow> x \<in> set xs \<Longrightarrow> y \<in> set xs \<Longrightarrow> k x = k y \<Longrightarrow> x = y"
  by (auto simp: distinct_map dest: inj_onD)

lemma distinct_map_filter': "distinct (map k xs) \<Longrightarrow> distinct (map k (filter P xs))"
  by (induction xs) auto

lemma filter_filter_and: "filter P (filter Q xs) = filter (\<lambda>x. P x \<and> Q x) xs"
  by (induction xs) auto

end
