(* ===== verification/GoLib.thy ===== *)
theory GoLib
  imports Prelude
begin

text \<open>
  The parts of Go and of its standard library that the program relies on: 64-bit integers,
  \<^verbatim>\<open>strings\<close>, \<^verbatim>\<open>strconv\<close>, \<^verbatim>\<open>time\<close> and \<^verbatim>\<open>bufio.Scanner\<close>.

  A Go string is a sequence of bytes, so a \<open>string\<close> here is a list of bytes too; the functions
  that look at runes (\<^verbatim>\<open>strings.TrimSpace\<close>) are written on the UTF-8 encodings of the runes
  they treat specially. Times are nanoseconds since Go's zero time (so \<open>IsZero\<close> is \<open>= 0\<close>),
  durations are nanoseconds.
\<close>

unbundle bit_operations_syntax

section \<open>64-bit integers\<close>

definition int64 :: "int \<Rightarrow> int" where
  "int64 x = (x + 2 ^ 63) mod 2 ^ 64 - 2 ^ 63"

lemma int64_id: "- (2 ^ 63) \<le> x \<Longrightarrow> x < 2 ^ 63 \<Longrightarrow> int64 x = x"
  by (simp add: int64_def)

lemma int64_bounds: "- (2 ^ 63) \<le> int64 x \<and> int64 x < 2 ^ 63"
proof -
  have "0 \<le> (x + 2 ^ 63) mod 2 ^ 64" and "(x + 2 ^ 63) mod 2 ^ 64 < 2 ^ 64"
    by (auto intro: pos_mod_bound)
  then show ?thesis unfolding int64_def by simp
qed

section \<open>Time\<close>

type_synonym time = int
type_synonym duration = int

definition second :: duration where "second = 1000000000"
definition minute :: duration where "minute = 60 * second"
definition hour :: duration where "hour = 60 * minute"

definition is_zero :: "time \<Rightarrow> bool" where "is_zero t \<longleftrightarrow> t = 0"

text \<open>\<open>t.Sub(u)\<close> saturates at the range of a Duration.\<close>

definition time_sub :: "time \<Rightarrow> time \<Rightarrow> duration" where
  "time_sub t u = max (- (2 ^ 63)) (min (2 ^ 63 - 1) (t - u))"

text \<open>Go's integer division truncates towards zero.\<close>

definition trunc_div :: "int \<Rightarrow> int \<Rightarrow> int" where
  "trunc_div a b = sgn a * sgn b * (\<bar>a\<bar> div \<bar>b\<bar>)"

definition trunc_mod :: "int \<Rightarrow> int \<Rightarrow> int" where
  "trunc_mod a b = a - b * trunc_div a b"

text \<open>\<open>int64(d.Seconds())\<close>.\<close>

definition whole_seconds :: "duration \<Rightarrow> int" where
  "whole_seconds d = trunc_div d second"

lemma trunc_div_nonneg: "0 \<le> a \<Longrightarrow> 0 < b \<Longrightarrow> trunc_div a b = a div b"
  by (cases "a = 0") (auto simp: trunc_div_def sgn_if)

lemma trunc_mod_nonneg: "0 \<le> a \<Longrightarrow> 0 < b \<Longrightarrow> trunc_mod a b = a mod b"
  by (simp add: trunc_mod_def trunc_div_nonneg minus_mult_div_eq_mod)

lemma second_pos [simp]: "0 < second" by (simp add: second_def)
lemma minute_pos [simp]: "0 < minute" by (simp add: minute_def)
lemma hour_pos [simp]: "0 < hour" by (simp add: hour_def)

lemma time_sub_small: "\<bar>t - u\<bar> < 2 ^ 63 \<Longrightarrow> time_sub t u = t - u"
  by (auto simp: time_sub_def)

lemma time_sub_nonneg: "u \<le> t \<Longrightarrow> 0 \<le> time_sub t u"
  by (simp add: time_sub_def)

section \<open>Strings: trimming\<close>

text \<open>The UTF-8 encodings of the runes with the Unicode property White Space.\<close>

definition space_runes :: "string list" where
  "space_runes =
    [[CHR 0x09], [CHR 0x0A], [CHR 0x0B], [CHR 0x0C], [CHR 0x0D], [CHR 0x20],
     [CHR 0xC2, CHR 0x85], [CHR 0xC2, CHR 0xA0], [CHR 0xE1, CHR 0x9A, CHR 0x80],
     [CHR 0xE2, CHR 0x80, CHR 0x80], [CHR 0xE2, CHR 0x80, CHR 0x81], [CHR 0xE2, CHR 0x80, CHR 0x82],
     [CHR 0xE2, CHR 0x80, CHR 0x83], [CHR 0xE2, CHR 0x80, CHR 0x84], [CHR 0xE2, CHR 0x80, CHR 0x85],
     [CHR 0xE2, CHR 0x80, CHR 0x86], [CHR 0xE2, CHR 0x80, CHR 0x87], [CHR 0xE2, CHR 0x80, CHR 0x88],
     [CHR 0xE2, CHR 0x80, CHR 0x89], [CHR 0xE2, CHR 0x80, CHR 0x8A], [CHR 0xE2, CHR 0x80, CHR 0xA8],
     [CHR 0xE2, CHR 0x80, CHR 0xA9], [CHR 0xE2, CHR 0x80, CHR 0xAF], [CHR 0xE2, CHR 0x81, CHR 0x9F],
     [CHR 0xE3, CHR 0x80, CHR 0x80]]"

fun starts_with :: "string \<Rightarrow> string \<Rightarrow> bool" where
  "starts_with [] s = True"
| "starts_with (p # ps) [] = False"
| "starts_with (p # ps) (c # cs) = (p = c \<and> starts_with ps cs)"

definition ends_with :: "string \<Rightarrow> string \<Rightarrow> bool" where
  "ends_with s p = starts_with (rev p) (rev s)"

lemma starts_with_iff: "starts_with w s \<longleftrightarrow> prefix w s"
  by (induction w s rule: starts_with.induct) auto

text \<open>Drop words of \<open>ws\<close> from the front of \<open>s\<close> as long as one of them is a prefix.\<close>

function strip_words :: "string list \<Rightarrow> string \<Rightarrow> string" where
  "strip_words ws s =
     (case List.find (\<lambda>w. w \<noteq> [] \<and> starts_with w s) ws of
        None \<Rightarrow> s
      | Some w \<Rightarrow> strip_words ws (drop (length w) s))"
  by pat_completeness auto
termination
proof (relation "measure (length \<circ> snd)")
  fix ws s w
  assume "List.find (\<lambda>w. w \<noteq> [] \<and> starts_with w s) ws = Some w"
  then have "w \<noteq> []" and "prefix w s" by (auto dest!: find_Some_in simp: starts_with_iff)
  then have "length w > 0" and "length w \<le> length s" by (auto dest: prefix_length_le)
  then have "length s - length w < length s" by linarith
  then show "((ws, drop (length w) s), ws, s) \<in> measure (length \<circ> snd)" by simp
qed simp

declare strip_words.simps [simp del]

definition trim_left :: "string \<Rightarrow> string" where
  "trim_left s = strip_words space_runes s"

definition trim_right :: "string \<Rightarrow> string" where
  "trim_right s = rev (strip_words (map rev space_runes) (rev s))"

definition TrimSpace :: "string \<Rightarrow> string" where
  "TrimSpace s = trim_right (trim_left s)"

text \<open>A string that \<open>TrimSpace\<close> leaves alone: no white space at either end.\<close>

definition clean_left :: "string list \<Rightarrow> string \<Rightarrow> bool" where
  "clean_left ws s \<longleftrightarrow> (\<forall>w \<in> set ws. w \<noteq> [] \<longrightarrow> \<not> starts_with w s)"

definition trimmed :: "string \<Rightarrow> bool" where
  "trimmed s \<longleftrightarrow> clean_left space_runes s \<and> clean_left (map rev space_runes) (rev s)"

lemma strip_words_clean: "clean_left ws s \<Longrightarrow> strip_words ws s = s"
  by (subst strip_words.simps) (auto simp: clean_left_def split: option.split dest!: find_Some_in)

lemma strip_words_is_clean: "clean_left ws (strip_words ws s)"
proof (induction ws s rule: strip_words.induct)
  case (1 ws s)
  show ?case
  proof (cases "List.find (\<lambda>w. w \<noteq> [] \<and> starts_with w s) ws")
    case None
    then have "clean_left ws s" by (auto simp: clean_left_def find_None_iff)
    then show ?thesis by (simp add: strip_words_clean)
  next
    case (Some w)
    with "1.IH" show ?thesis by (subst strip_words.simps) simp
  qed
qed

lemma strip_words_suffix: "suffix (strip_words ws s) s"
proof (induction ws s rule: strip_words.induct)
  case (1 ws s)
  show ?case
  proof (cases "List.find (\<lambda>w. w \<noteq> [] \<and> starts_with w s) ws")
    case None
    then show ?thesis by (subst strip_words.simps) simp
  next
    case (Some w)
    with "1.IH" have "suffix (strip_words ws (drop (length w) s)) (drop (length w) s)" by simp
    also have "suffix (drop (length w) s) s" by (rule suffix_drop)
    finally show ?thesis using Some by (subst strip_words.simps) simp
  qed
qed

lemma clean_left_prefix: "clean_left ws s \<Longrightarrow> prefix t s \<Longrightarrow> clean_left ws t"
  by (auto simp: clean_left_def starts_with_iff dest: prefix_order.trans)

lemma TrimSpace_trimmed: "trimmed s \<Longrightarrow> TrimSpace s = s"
  by (simp add: TrimSpace_def trim_left_def trim_right_def trimmed_def strip_words_clean)

lemma trimmed_TrimSpace: "trimmed (TrimSpace s)"
proof -
  let ?t = "strip_words space_runes s"
  let ?u = "strip_words (map rev space_runes) (rev ?t)"
  have "suffix ?u (rev ?t)" by (rule strip_words_suffix)
  then have "prefix (rev ?u) ?t" by (simp add: suffix_to_prefix)
  then show ?thesis
    using strip_words_is_clean [of space_runes s] strip_words_is_clean [of "map rev space_runes" "rev ?t"]
    by (auto simp: trimmed_def TrimSpace_def trim_left_def trim_right_def intro: clean_left_prefix)
qed

lemma TrimSpace_idem [simp]: "TrimSpace (TrimSpace s) = TrimSpace s"
  by (rule TrimSpace_trimmed [OF trimmed_TrimSpace])

lemma TrimSpace_Nil [simp]: "TrimSpace [] = []"
  by (rule TrimSpace_trimmed) (auto simp: trimmed_def clean_left_def starts_with_iff)

lemma set_TrimSpace: "set (TrimSpace s) \<subseteq> set s"
proof -
  have "set (trim_right t) \<subseteq> set t" for t
    unfolding trim_right_def using set_mono_suffix [OF strip_words_suffix, of "map rev space_runes" "rev t"] by simp
  moreover have "set (trim_left s) \<subseteq> set s"
    unfolding trim_left_def by (rule set_mono_suffix [OF strip_words_suffix])
  ultimately show ?thesis unfolding TrimSpace_def by blast
qed

section \<open>Strings: splitting, joining, searching\<close>

text \<open>\<open>strings.Split(s, sep)\<close> for a one-byte separator.\<close>

fun split_char :: "char \<Rightarrow> string \<Rightarrow> string list" where
  "split_char c [] = [[]]"
| "split_char c (x # xs) =
     (if x = c then [] # split_char c xs
      else (case split_char c xs of [] \<Rightarrow> [[x]] | y # ys \<Rightarrow> (x # y) # ys))"

text \<open>\<open>strings.Join\<close>.\<close>

fun join :: "string \<Rightarrow> string list \<Rightarrow> string" where
  "join sep [] = []"
| "join sep [x] = x"
| "join sep (x # y # ys) = x @ sep @ join sep (y # ys)"

text \<open>Everything before and after the first \<open>c\<close>, if there is one.\<close>

fun cut :: "char \<Rightarrow> string \<Rightarrow> (string \<times> string) option" where
  "cut c [] = None"
| "cut c (x # xs) =
     (if x = c then Some ([], xs) else map_option (\<lambda>(a, b). (x # a, b)) (cut c xs))"

text \<open>\<open>strings.Contains\<close>.\<close>

fun contains :: "string \<Rightarrow> string \<Rightarrow> bool" where
  "contains [] p = (p = [])"
| "contains (x # xs) p = (starts_with p (x # xs) \<or> contains xs p)"

text \<open>\<open>strings.TrimRight(s, c)\<close> for a one-byte cutset and \<open>strings.ReplaceAll\<close> of one byte by another.\<close>

definition trim_right_char :: "char \<Rightarrow> string \<Rightarrow> string" where
  "trim_right_char c s = rev (dropWhile (\<lambda>x. x = c) (rev s))"

definition replace_char :: "char \<Rightarrow> char \<Rightarrow> string \<Rightarrow> string" where
  "replace_char a b s = map (\<lambda>x. if x = a then b else x) s"

text \<open>
  \<open>strings.ToLower\<close>, as far as a comparison with an ASCII text can tell: ASCII letters, and the
  two other runes whose lower case is ASCII (U+212A KELVIN SIGN and U+0130).
\<close>

definition lower_char :: "char \<Rightarrow> char" where
  "lower_char c = (if 65 \<le> (of_char c :: nat) \<and> (of_char c :: nat) \<le> 90
     then char_of ((of_char c :: nat) + 32) else c)"

fun ToLower :: "string \<Rightarrow> string" where
  "ToLower (a # b # c # s) =
     (if a = CHR 0xE2 \<and> b = CHR 0x84 \<and> c = CHR 0xAA then CHR ''k'' # ToLower s
      else if a = CHR 0xC4 \<and> b = CHR 0xB0 then CHR ''i'' # ToLower (c # s)
      else lower_char a # ToLower (b # c # s))"
| "ToLower [a, b] =
     (if a = CHR 0xC4 \<and> b = CHR 0xB0 then ''i'' else [lower_char a, lower_char b])"
| "ToLower [a] = [lower_char a]"
| "ToLower [] = []"

text \<open>
  \<open>strings.EqualFold(s, t)\<close> for an ASCII text \<open>t\<close> without the letters \<open>k\<close> and \<open>s\<close>, the only
  ones that fold with a rune outside ASCII.
\<close>

definition EqualFold :: "string \<Rightarrow> string \<Rightarrow> bool" where
  "EqualFold s t \<longleftrightarrow> map lower_char s = map lower_char t"

text \<open>\<open>strings.Fields\<close> on a text whose white space is ASCII.\<close>

definition ascii_space :: "char \<Rightarrow> bool" where
  "ascii_space c \<longleftrightarrow> c \<in> {CHR 0x09, CHR 0x0A, CHR 0x0B, CHR 0x0C, CHR 0x0D, CHR 0x20}"

fun fields_acc :: "string \<Rightarrow> string \<Rightarrow> string list" where
  "fields_acc acc [] = (if acc = [] then [] else [rev acc])"
| "fields_acc acc (x # xs) =
     (if ascii_space x then (if acc = [] then fields_acc [] xs else rev acc # fields_acc [] xs)
      else fields_acc (x # acc) xs)"

definition Fields :: "string \<Rightarrow> string list" where "Fields s = fields_acc [] s"

lemma split_char_nonempty [simp]: "split_char c s \<noteq> []"
  by (induction s) (auto split: list.splits)

lemma split_char_single: "c \<notin> set s \<Longrightarrow> split_char c s = [s]"
  by (induction s) auto

lemma split_char_append: "c \<notin> set s \<Longrightarrow> split_char c (s @ c # t) = s # split_char c t"
  by (induction s) auto

lemma split_char_parts: "x \<in> set (split_char c s) \<Longrightarrow> c \<notin> set x"
  by (induction s arbitrary: x) (auto split: list.splits if_splits)

lemma split_char_parts_sub: "x \<in> set (split_char c s) \<Longrightarrow> set x \<subseteq> set s"
  by (induction s arbitrary: x) (fastforce split: list.splits if_splits)+

lemma join_split_char: "join [c] (split_char c s) = s"
proof (induction s)
  case (Cons x xs)
  obtain y ys where y: "split_char c xs = y # ys" by (cases "split_char c xs") auto
  with Cons show ?case by (cases ys) auto
qed simp

lemma split_char_join:
  "xs \<noteq> [] \<Longrightarrow> (\<And>x. x \<in> set xs \<Longrightarrow> c \<notin> set x) \<Longrightarrow> split_char c (join [c] xs) = xs"
  by (induction "[c]" xs rule: join.induct) (auto simp: split_char_single split_char_append)

lemma cut_Some: "cut c s = Some (a, b) \<Longrightarrow> s = a @ c # b \<and> c \<notin> set a"
  by (induction s arbitrary: a) (auto split: if_splits)

lemma cut_None: "cut c s = None \<longleftrightarrow> c \<notin> set s"
  by (induction s) auto

lemma cut_append: "c \<notin> set a \<Longrightarrow> cut c (a @ c # b) = Some (a, b)"
  by (induction a) auto

section \<open>Numbers as text\<close>

definition is_digit :: "char \<Rightarrow> bool" where
  "is_digit c \<longleftrightarrow> 48 \<le> (of_char c :: nat) \<and> (of_char c :: nat) \<le> 57"

definition digit_val :: "char \<Rightarrow> nat" where "digit_val c = of_char c - 48"

definition digit_char :: "nat \<Rightarrow> char" where "digit_char d = char_of (48 + d)"

fun digits :: "nat \<Rightarrow> string" where
  "digits n = (if n < 10 then [digit_char n] else digits (n div 10) @ [digit_char (n mod 10)])"

declare digits.simps [simp del]

text \<open>\<open>%d\<close> and \<open>strconv.Itoa\<close>.\<close>

definition itoa :: "int \<Rightarrow> string" where
  "itoa i = (if i < 0 then CHR ''-'' # digits (nat (- i)) else digits (nat i))"

text \<open>\<open>strconv.ParseUint\<close> in base 10 and \<open>strconv.Atoi\<close> for a 64-bit \<open>int\<close>.\<close>

fun parse_uint :: "nat \<Rightarrow> string \<Rightarrow> num_error + nat" where
  "parse_uint n [] = Inr n"
| "parse_uint n (c # cs) =
     (if \<not> is_digit c then Inl ErrSyntax
      else let n' = 10 * n + digit_val c in
        if n' \<ge> 2 ^ 64 then Inl ErrRange else parse_uint n' cs)"

definition Atoi :: "string \<Rightarrow> num_error + int" where
  "Atoi s =
     (let neg = (s \<noteq> [] \<and> hd s = CHR ''-'');
          u = (if s \<noteq> [] \<and> (hd s = CHR ''-'' \<or> hd s = CHR ''+'') then tl s else s)
      in if u = [] then Inl ErrSyntax
         else (case parse_uint 0 u of
                 Inl e \<Rightarrow> Inl e
               | Inr n \<Rightarrow>
                   if \<not> neg \<and> n \<ge> 2 ^ 63 then Inl ErrRange
                   else if neg \<and> n > 2 ^ 63 then Inl ErrRange
                   else Inr (if neg then - int n else int n)))"

text \<open>Code equations that count in binary, so that both functions can be evaluated.\<close>

fun digits_int :: "int \<Rightarrow> string" where
  "digits_int j = (if j < 10 then [digit_char (nat j)]
     else digits_int (j div 10) @ [digit_char (nat (j mod 10))])"

declare digits_int.simps [simp del]

lemma digits_int: "0 \<le> j \<Longrightarrow> digits_int j = digits (nat j)"
proof (induction j rule: digits_int.induct)
  case (1 j)
  then show ?case
    by (simp add: digits_int.simps [of j] digits.simps [of "nat j"] nat_div_distrib nat_mod_distrib nat_less_iff)
qed

lemma itoa_code [code]: "itoa i = (if i < 0 then CHR ''-'' # digits_int (- i) else digits_int i)"
  by (simp add: itoa_def digits_int)

fun parse_uint_int :: "int \<Rightarrow> string \<Rightarrow> num_error + int" where
  "parse_uint_int n [] = Inr n"
| "parse_uint_int n (c # cs) =
     (if \<not> is_digit c then Inl ErrSyntax
      else let n' = 10 * n + int (digit_val c) in
        if n' \<ge> 2 ^ 64 then Inl ErrRange else parse_uint_int n' cs)"

lemma parse_uint_int: "parse_uint_int (int n) s = (case parse_uint n s of Inl e \<Rightarrow> Inl e | Inr m \<Rightarrow> Inr (int m))"
proof (induction n s rule: parse_uint.induct)
  case (2 n c cs)
  have "10 * int n + int (digit_val c) = int (10 * n + digit_val c)" by simp
  moreover have "(2 ^ 64 \<le> int (10 * n + digit_val c)) = (2 ^ 64 \<le> 10 * n + digit_val c)"
    by (rule numeral_power_le_of_nat_cancel_iff)
  ultimately show ?case using 2 by (simp only: parse_uint_int.simps parse_uint.simps Let_def) auto
qed simp

lemma Atoi_code [code]:
  "Atoi s =
     (let neg = (s \<noteq> [] \<and> hd s = CHR ''-'');
          u = (if s \<noteq> [] \<and> (hd s = CHR ''-'' \<or> hd s = CHR ''+'') then tl s else s)
      in if u = [] then Inl ErrSyntax
         else (case parse_uint_int 0 u of
                 Inl e \<Rightarrow> Inl e
               | Inr n \<Rightarrow>
                   if \<not> neg \<and> n \<ge> 2 ^ 63 then Inl ErrRange
                   else if neg \<and> n > 2 ^ 63 then Inl ErrRange
                   else Inr (if neg then - n else n)))"
proof -
  have "2 ^ 63 \<le> int m \<longleftrightarrow> 2 ^ 63 \<le> m" "2 ^ 63 < int m \<longleftrightarrow> 2 ^ 63 < m" for m :: nat
    by (rule numeral_power_le_of_nat_cancel_iff numeral_power_less_of_nat_cancel_iff)+
  then show ?thesis
    using parse_uint_int [of 0] by (simp add: Atoi_def Let_def split: sum.split)
qed

lemma of_char_digit: "d < 10 \<Longrightarrow> (of_char (digit_char d) :: nat) = 48 + d"
  unfolding digit_char_def by (simp only: of_char_of) simp

lemma is_digit_digit_char: "d < 10 \<Longrightarrow> is_digit (digit_char d)"
  by (simp add: is_digit_def of_char_digit)

lemma digit_val_digit_char: "d < 10 \<Longrightarrow> digit_val (digit_char d) = d"
  by (simp add: digit_val_def of_char_digit)

lemma digit_val_lt: "is_digit c \<Longrightarrow> digit_val c < 10"
  by (auto simp: is_digit_def digit_val_def)

lemma digit_char_digit_val: "is_digit c \<Longrightarrow> digit_char (digit_val c) = c"
  by (simp add: is_digit_def digit_val_def digit_char_def)

lemma digits_digit: "c \<in> set (digits n) \<Longrightarrow> is_digit c"
proof (induction n rule: digits.induct)
  case (1 n)
  then show ?case by (subst (asm) (2) digits.simps) (auto simp: is_digit_digit_char split: if_splits)
qed

lemma digits_nonempty [simp]: "digits n \<noteq> []"
  by (subst digits.simps) simp

lemma parse_uint_append:
  "parse_uint a (xs @ ys) =
     (case parse_uint a xs of Inl e \<Rightarrow> Inl e | Inr m \<Rightarrow> parse_uint m ys)"
  by (induction xs arbitrary: a) (auto simp: Let_def)

lemma parse_uint_digits: "n < 2 ^ 64 \<Longrightarrow> parse_uint 0 (digits n) = Inr n"
proof (induction n rule: digits.induct)
  case (1 n)
  show ?case
  proof (cases "n < 10")
    case True
    then show ?thesis
      by (subst digits.simps) (simp add: is_digit_digit_char digit_val_digit_char)
  next
    case False
    with 1 have "parse_uint 0 (digits (n div 10)) = Inr (n div 10)" by simp
    with False 1(2) show ?thesis
      by (subst digits.simps)
        (simp add: parse_uint_append is_digit_digit_char digit_val_digit_char)
  qed
qed

lemma not_digit_sign: "is_digit c \<Longrightarrow> c \<noteq> CHR ''-'' \<and> c \<noteq> CHR ''+''"
  by (auto simp: is_digit_def)

lemma Atoi_itoa: "- (2 ^ 63) \<le> i \<Longrightarrow> i < 2 ^ 63 \<Longrightarrow> Atoi (itoa i) = Inr i"
proof -
  assume lo: "- (2 ^ 63) \<le> i" and hi: "i < 2 ^ 63"
  show ?thesis
  proof (cases "i < 0")
    case True
    with lo have "parse_uint 0 (digits (nat (- i))) = Inr (nat (- i))"
      by (intro parse_uint_digits) simp
    with True lo show ?thesis by (simp add: Atoi_def itoa_def)
  next
    case False
    obtain c cs where c: "digits (nat i) = c # cs" by (cases "digits (nat i)") auto
    then have "is_digit c" using digits_digit [of c "nat i"] by simp
    then have "c \<noteq> CHR ''-''" "c \<noteq> CHR ''+''" by (auto dest: not_digit_sign)
    moreover from False hi have "parse_uint 0 (digits (nat i)) = Inr (nat i)"
      by (intro parse_uint_digits) simp
    ultimately show ?thesis using False hi c by (simp add: Atoi_def itoa_def)
  qed
qed

lemma itoa_chars: "c \<in> set (itoa i) \<Longrightarrow> is_digit c \<or> c = CHR ''-''"
  by (auto simp: itoa_def dest: digits_digit split: if_splits)

lemma itoa_nonempty [simp]: "itoa i \<noteq> []"
  by (simp add: itoa_def)

section \<open>Texts that need no trimming\<close>

definition plain_char :: "char \<Rightarrow> bool" where
  "plain_char c \<longleftrightarrow> 32 < (of_char c :: nat) \<and> (of_char c :: nat) < 127"

lemma not_starts_hd: "w \<noteq> [] \<Longrightarrow> hd w \<noteq> hd s \<Longrightarrow> \<not> starts_with w s \<or> s = []"
  by (cases w; cases s) auto

lemma space_runes_plain:
  "\<forall>w \<in> set space_runes. w \<noteq> [] \<and> \<not> plain_char (hd w) \<and> \<not> plain_char (last w)"
  by (simp add: space_runes_def plain_char_def)

lemma trimmed_plain:
  assumes "s = [] \<or> plain_char (hd s) \<and> plain_char (last s)"
  shows "trimmed s"
proof (cases "s = []")
  case True
  then show ?thesis by (auto simp: trimmed_def clean_left_def starts_with_iff)
next
  case False
  with assms have h: "plain_char (hd s)" and l: "plain_char (hd (rev s))"
    by (auto simp: hd_rev)
  have "\<not> starts_with w s" if "w \<in> set space_runes" for w
    using that space_runes_plain h False not_starts_hd [of w s] by metis
  moreover have "\<not> starts_with (rev w) (rev s)" if "w \<in> set space_runes" for w
    using that space_runes_plain l False not_starts_hd [of "rev w" "rev s"] by (metis hd_rev rev_is_Nil_conv)
  ultimately show ?thesis by (auto simp: trimmed_def clean_left_def)
qed

lemma digit_plain: "is_digit c \<Longrightarrow> plain_char c"
  by (auto simp: is_digit_def plain_char_def)

lemma trimmed_itoa: "trimmed (itoa i)"
proof (rule trimmed_plain, rule disjI2)
  have "plain_char c" if "c \<in> set (itoa i)" for c
    using itoa_chars [OF that] by (auto simp: digit_plain) (simp add: plain_char_def)
  then show "plain_char (hd (itoa i)) \<and> plain_char (last (itoa i))" by simp
qed

text \<open>A label in plain characters followed by a space and a trimmed value is trimmed on the left.\<close>

lemma clean_left_append: "s \<noteq> [] \<Longrightarrow> plain_char (hd s) \<Longrightarrow> clean_left space_runes (s @ t)"
  using space_runes_plain not_starts_hd [of _ "s @ t"]
  by (auto simp: clean_left_def) (metis append_is_Nil_conv hd_append2 not_starts_hd)

lemma space_runes_multi:
  "\<forall>w \<in> set space_runes. 1 < length w \<longrightarrow> (\<forall>c \<in> set w. 128 \<le> (of_char c :: nat))"
  by (simp add: space_runes_def)

text \<open>Nor does appending a trimmed text after an ASCII byte create white space at the end.\<close>

lemma clean_right_append:
  assumes t: "clean_left (map rev space_runes) (rev t)" "t \<noteq> []"
    and s: "s = [] \<or> (of_char (last s) :: nat) < 128"
  shows "clean_left (map rev space_runes) (rev (s @ t))"
  unfolding clean_left_def
proof (intro ballI impI notI)
  fix w assume w: "w \<in> set (map rev space_runes)" "w \<noteq> []" "starts_with w (rev (s @ t))"
  then obtain v where v: "v \<in> set space_runes" "w = rev v" by auto
  have "\<not> prefix w (rev t)" using t w by (auto simp: clean_left_def starts_with_iff)
  moreover have "prefix w (rev t @ rev s)" using w(3) by (simp add: starts_with_iff)
  ultimately obtain zs where zs: "w = rev t @ zs" "prefix zs (rev s)"
    by (auto simp: prefix_append)
  with \<open>\<not> prefix w (rev t)\<close> have "zs \<noteq> []" by auto
  with zs(2) have "s \<noteq> []" "hd zs = last s" by (auto simp: prefix_def hd_rev [symmetric])
  moreover have "1 < length v" using v(2) zs(1) \<open>zs \<noteq> []\<close> t(2)
  proof -
    have "length v = length t + length zs" using v(2) zs(1) by (metis length_append length_rev)
    moreover have "0 < length t" "0 < length zs" using t(2) \<open>zs \<noteq> []\<close> by auto
    ultimately show ?thesis by linarith
  qed
  moreover have "hd zs \<in> set v" using v(2) zs(1) \<open>zs \<noteq> []\<close> by (metis Un_iff hd_in_set set_append set_rev)
  ultimately show False using space_runes_multi v(1) s by fastforce
qed

lemma trimmed_append:
  assumes "s \<noteq> []" "plain_char (hd s)" "(of_char (last s) :: nat) < 128" "trimmed t" "t \<noteq> []"
  shows "trimmed (s @ t)"
  using assms clean_left_append [of s t] clean_right_append [of t s] by (simp add: trimmed_def)

end
