(* ===== verification/NetIP.thy ===== *)
theory NetIP
  imports GoLib
begin

text \<open>
  The part of Go's \<^verbatim>\<open>net\<close> package that the program uses (\<^verbatim>\<open>ParseIP\<close>, \<^verbatim>\<open>ParseCIDR\<close>,
  \<^verbatim>\<open>IP.To4\<close>, \<^verbatim>\<open>IP.String\<close>, \<^verbatim>\<open>IPNet\<close>), and the program's own address helpers on top of it:
  \<open>ExtractHostIP\<close> (internal/store/store.go) and \<open>ensureHost32\<close> (internal/wg/manager.go).

  A \<^verbatim>\<open>net.IP\<close> is its 16-byte form, a list of 16 numbers below 256. The central lemma is that
  \<open>ParseIP\<close> inverts \<open>IP_String\<close> on every address, IPv4 or IPv6; \<open>ExtractHostIP\<close> is therefore a
  canonical name of a host address.
\<close>

section \<open>Parsing\<close>

type_synonym ip = "nat list"

definition wf_ip :: "ip \<Rightarrow> bool" where
  "wf_ip a \<longleftrightarrow> length a = 16 \<and> (\<forall>b \<in> set a. b < 256)"

text \<open>An address as \<^verbatim>\<open>netip.ParseAddr\<close> returns it; its bit length is 32 or 128.\<close>

datatype addr = V4 "nat list" | V6 "nat list"

definition v4_in_v6 :: "nat list" where
  "v4_in_v6 = [0, 0, 0, 0, 0, 0, 0, 0, 0, 0, 255, 255]"

fun As16 :: "addr \<Rightarrow> ip" where
  "As16 (V4 b) = v4_in_v6 @ b"
| "As16 (V6 b) = b"

fun BitLen :: "addr \<Rightarrow> nat" where
  "BitLen (V4 b) = 32"
| "BitLen (V6 b) = 128"

fun nat_of_digits :: "nat \<Rightarrow> string \<Rightarrow> nat" where
  "nat_of_digits n [] = n"
| "nat_of_digits n (c # cs) = nat_of_digits (10 * n + digit_val c) cs"

text \<open>One decimal field of a dotted quad: no empty field, no leading zero, at most 255.\<close>

definition octet_ok :: "string \<Rightarrow> bool" where
  "octet_ok f \<longleftrightarrow> f \<noteq> [] \<and> list_all is_digit f \<and> (length f > 1 \<longrightarrow> hd f \<noteq> CHR ''0'')
     \<and> nat_of_digits 0 f \<le> 255"

definition parse_ipv4 :: "string \<Rightarrow> nat list option" where
  "parse_ipv4 s =
     (let fs = split_char CHR ''.'' s
      in if length fs = 4 \<and> list_all octet_ok fs then Some (map (nat_of_digits 0) fs) else None)"

definition is_hex :: "char \<Rightarrow> bool" where
  "is_hex c \<longleftrightarrow> is_digit c \<or> (97 \<le> (of_char c :: nat) \<and> (of_char c :: nat) \<le> 102)
     \<or> (65 \<le> (of_char c :: nat) \<and> (of_char c :: nat) \<le> 70)"

definition hex_val :: "char \<Rightarrow> nat" where
  "hex_val c = (if is_digit c then digit_val c
     else if 97 \<le> (of_char c :: nat) then of_char c - 87 else of_char c - 55)"

fun nat_of_hex :: "nat \<Rightarrow> string \<Rightarrow> nat" where
  "nat_of_hex n [] = n"
| "nat_of_hex n (c # cs) = nat_of_hex (16 * n + hex_val c) cs"

text \<open>
  The loop of \<^verbatim>\<open>netip.parseIPv6\<close>: the bytes read so far, and the position of the ellipsis
  among them.
\<close>

function parse6 :: "string \<Rightarrow> nat list \<Rightarrow> nat option \<Rightarrow> (nat list \<times> nat option) option" where
  "parse6 s bs el =
     (if length bs \<ge> 16 then (if s = [] then Some (bs, el) else None)
      else
        let hex = takeWhile is_hex s; rest = dropWhile is_hex s
        in if hex = [] \<or> length hex > 4 then None
        else if rest \<noteq> [] \<and> hd rest = CHR ''.'' then
          (if el = None \<and> length bs \<noteq> 12 then None
           else if length bs + 4 > 16 then None
           else map_option (\<lambda>q. (bs @ q, el)) (parse_ipv4 s))
        else
          let bs' = bs @ [nat_of_hex 0 hex div 256, nat_of_hex 0 hex mod 256]
          in case rest of
               [] \<Rightarrow> Some (bs', el)
             | c # r \<Rightarrow>
                 if c \<noteq> CHR '':'' then None
                 else (case r of
                     [] \<Rightarrow> None
                   | d # r' \<Rightarrow>
                       if d = CHR '':'' then
                         (if el \<noteq> None then None
                          else if r' = [] then Some (bs', Some (length bs'))
                          else parse6 r' bs' (Some (length bs')))
                       else parse6 r bs' el))"
  by pat_completeness auto
termination
proof (relation "measure (length \<circ> fst)")
  fix s :: string and bs el hex rest bs' c r d r'
  assume "rest = dropWhile is_hex s" "rest = c # r" "r = d # r'"
  then have "length (c # d # r') \<le> length s" by (metis length_dropWhile_le)
  then show "((r', bs', Some (length bs')), s, bs, el) \<in> measure (length \<circ> fst)" by simp
next
  fix s :: string and bs :: "nat list" and el :: "nat option" and hex rest bs' c r d r'
  assume "rest = dropWhile is_hex s" "rest = c # r" "r = d # r'"
  then have "length (c # r) \<le> length s" by (metis length_dropWhile_le)
  then show "((r, bs', el), s, bs, el) \<in> measure (length \<circ> fst)" by simp
qed simp

declare parse6.simps [simp del]

definition expand6 :: "nat list \<times> nat option \<Rightarrow> nat list option" where
  "expand6 p = (case p of (bs, el) \<Rightarrow>
     if length bs < 16 then
       (case el of None \<Rightarrow> None
        | Some e \<Rightarrow> Some (take e bs @ replicate (16 - length bs) 0 @ drop e bs))
     else if el \<noteq> None then None else Some bs)"

text \<open>\<^verbatim>\<open>net.ParseIP\<close> and \<^verbatim>\<open>net.ParseCIDR\<close> refuse an address with a zone.\<close>

definition parse_ipv6 :: "string \<Rightarrow> nat list option" where
  "parse_ipv6 s =
     (if CHR ''%'' \<in> set s then None
      else if starts_with ''::'' s then
        (if drop 2 s = [] then Some (replicate 16 0)
         else Option.bind (parse6 (drop 2 s) [] (Some 0)) expand6)
      else Option.bind (parse6 s [] None) expand6)"

definition parse_addr :: "string \<Rightarrow> addr option" where
  "parse_addr s =
     (case List.find (\<lambda>c. c \<in> {CHR ''.'', CHR '':'', CHR ''%''}) s of
        None \<Rightarrow> None
      | Some c \<Rightarrow>
          if c = CHR ''.'' then map_option V4 (parse_ipv4 s)
          else if c = CHR '':'' then map_option V6 (parse_ipv6 s) else None)"

definition ParseIP :: "string \<Rightarrow> ip option" where
  "ParseIP s = map_option As16 (parse_addr s)"

text \<open>The address, the prefix length and the bit length of the mask.\<close>

definition ParseCIDR :: "string \<Rightarrow> (ip \<times> nat \<times> nat) option" where
  "ParseCIDR s =
     (case cut CHR ''/'' s of
        None \<Rightarrow> None
      | Some (a, m) \<Rightarrow>
          (case parse_addr a of
             None \<Rightarrow> None
           | Some ad \<Rightarrow>
               if m = [] \<or> \<not> list_all is_digit m \<or> nat_of_digits 0 m > BitLen ad then None
               else Some (As16 ad, nat_of_digits 0 m, BitLen ad)))"

section \<open>Printing\<close>

definition To4 :: "ip \<Rightarrow> nat list option" where
  "To4 a = (if take 12 a = v4_in_v6 then Some (drop 12 a) else None)"

definition hex_char :: "nat \<Rightarrow> char" where
  "hex_char d = (if d < 10 then digit_char d else char_of (87 + d))"

fun hex_digits :: "nat \<Rightarrow> string" where
  "hex_digits n = (if n < 16 then [hex_char n] else hex_digits (n div 16) @ [hex_char (n mod 16)])"

declare hex_digits.simps [simp del]

fun groups :: "nat list \<Rightarrow> nat list" where
  "groups (a # b # bs) = (256 * a + b) # groups bs"
| "groups _ = []"

text \<open>The first longest run of at least two zero groups.\<close>

definition better_run :: "nat list \<Rightarrow> nat \<Rightarrow> (nat \<times> nat) option \<Rightarrow> (nat \<times> nat) option" where
  "better_run g i best =
     (let j = i + length (takeWhile (\<lambda>x. x = 0) (drop i g));
          w = (case best of None \<Rightarrow> 0 | Some (zs, ze) \<Rightarrow> ze - zs)
      in if 2 \<le> j - i \<and> w < j - i then Some (i, j) else best)"

definition zero_run :: "nat list \<Rightarrow> (nat \<times> nat) option" where
  "zero_run g = fold (better_run g) [0..<length g] None"

definition string6 :: "nat list \<Rightarrow> string" where
  "string6 a =
     (let g = groups a in case zero_run g of
        None \<Rightarrow> join '':'' (map hex_digits g)
      | Some (zs, ze) \<Rightarrow>
          join '':'' (map hex_digits (take zs g)) @ ''::'' @ join '':'' (map hex_digits (drop ze g)))"

definition string4 :: "nat list \<Rightarrow> string" where
  "string4 q = join ''.'' (map digits q)"

definition IP_String :: "ip \<Rightarrow> string" where
  "IP_String a = (case To4 a of Some q \<Rightarrow> string4 q | None \<Rightarrow> string6 a)"

section \<open>The program's helpers\<close>

definition ExtractHostIP :: "string \<Rightarrow> string" where
  "ExtractHostIP addr =
     (case ParseCIDR addr of
        Some (ip, _) \<Rightarrow> IP_String ip
      | None \<Rightarrow> (case ParseIP addr of Some ip \<Rightarrow> IP_String ip | None \<Rightarrow> ''''))"

definition ensureHost32 :: "string \<Rightarrow> string" where
  "ensureHost32 address =
     (case (case ParseCIDR address of Some (ip, _) \<Rightarrow> Some ip | None \<Rightarrow> ParseIP address) of
        None \<Rightarrow> ''''
      | Some ip \<Rightarrow> if To4 ip \<noteq> None then IP_String ip @ ''/32'' else IP_String ip @ ''/128'')"

section \<open>Round trip\<close>

lemma nat_of_digits_append: "nat_of_digits a (xs @ ys) = nat_of_digits (nat_of_digits a xs) ys"
  by (induction xs arbitrary: a) auto

lemma nat_of_digits_digits: "nat_of_digits 0 (digits n) = n"
proof (induction n rule: digits.induct)
  case (1 n)
  then show ?case
    by (subst digits.simps) (auto simp: nat_of_digits_append digit_val_digit_char)
qed

lemma hd_digits: "0 < n \<Longrightarrow> hd (digits n) \<noteq> CHR ''0''"
proof (induction n rule: digits.induct)
  case (1 n)
  show ?case
  proof (cases "n < 10")
    case True
    have "(of_char (digit_char n) :: nat) = 48 + n" using True by (rule of_char_digit)
    moreover have "(of_char (CHR ''0'') :: nat) = 48" by simp
    ultimately have "digit_char n \<noteq> CHR ''0''" using 1(2) by force
    with True show ?thesis by (subst digits.simps) simp
  next
    case False
    with 1 show ?thesis by (subst digits.simps) simp
  qed
qed

lemma octet_ok_digits: "n < 256 \<Longrightarrow> octet_ok (digits n)"
  unfolding octet_ok_def
  by (cases "n = 0")
    (auto simp: list_all_iff nat_of_digits_digits hd_digits dest: digits_digit, simp_all add: digits.simps)

lemma digits_no: "is_digit c = False \<Longrightarrow> c \<notin> set (digits n)"
  using digits_digit by blast

lemma parse_string4:
  assumes "length q = 4" "\<forall>b \<in> set q. b < 256"
  shows "parse_ipv4 (string4 q) = Some q"
proof -
  have ne: "map digits q \<noteq> []" using assms(1) by auto
  have "split_char CHR ''.'' (string4 q) = map digits q"
    unfolding string4_def by (rule split_char_join [OF ne]) (auto simp: digits_no is_digit_def)
  then show ?thesis
    using assms
    by (simp add: parse_ipv4_def list_all_iff octet_ok_digits nat_of_digits_digits map_idI)
qed

lemma set_join: "set (join sep xs) \<subseteq> set sep \<union> (\<Union>x \<in> set xs. set x)"
  by (induction sep xs rule: join.induct) auto

lemma string4_addr:
  assumes "length q = 4" "\<forall>b \<in> set q. b < 256"
  shows "parse_addr (string4 q) = Some (V4 q)"
proof -
  have sub: "set (string4 q) \<subseteq> {CHR ''.''} \<union> {c. is_digit c}"
    using set_join [of "[CHR ''.'']" "map digits q"] unfolding string4_def by (auto dest: digits_digit)
  obtain a b c d where q: "q = [a, b, c, d]"
    using assms(1) by (auto simp: length_Suc_conv numeral_eq_Suc)
  have "CHR ''.'' \<in> set (string4 q)" by (simp add: string4_def q)
  then have "List.find (\<lambda>c. c \<in> {CHR ''.'', CHR '':'', CHR ''%''}) (string4 q) \<noteq> None"
    by (auto simp: find_None_iff)
  then obtain x where x: "List.find (\<lambda>c. c \<in> {CHR ''.'', CHR '':'', CHR ''%''}) (string4 q) = Some x"
    by auto
  then have "x \<in> set (string4 q)" "x \<in> {CHR ''.'', CHR '':'', CHR ''%''}"
    using find_Some_in by fastforce+
  with sub have "x = CHR ''.''" by (auto simp: is_digit_def)
  with x show ?thesis by (simp add: parse_addr_def parse_string4 [OF assms])
qed

lemma of_hex_char: "d < 16 \<Longrightarrow> (of_char (hex_char d) :: nat) = (if d < 10 then 48 + d else 87 + d)"
  unfolding hex_char_def by (auto simp: of_char_digit)

lemma hex_char_ok: "d < 16 \<Longrightarrow> is_hex (hex_char d) \<and> hex_val (hex_char d) = d"
proof -
  assume d: "d < 16"
  show ?thesis
  proof (cases "d < 10")
    case True
    then show ?thesis by (simp add: hex_char_def is_hex_def hex_val_def is_digit_digit_char digit_val_digit_char)
  next
    case False
    with d of_hex_char [OF d] show ?thesis by (auto simp: is_hex_def hex_val_def is_digit_def)
  qed
qed

lemma nat_of_hex_append: "nat_of_hex a (xs @ ys) = nat_of_hex (nat_of_hex a xs) ys"
  by (induction xs arbitrary: a) auto

lemma nat_of_hex_digits: "nat_of_hex 0 (hex_digits n) = n"
proof (induction n rule: hex_digits.induct)
  case (1 n)
  then show ?case
    by (subst hex_digits.simps) (auto simp: nat_of_hex_append hex_char_ok)
qed

lemma hex_digits_hex: "c \<in> set (hex_digits n) \<Longrightarrow> is_hex c"
proof (induction n rule: hex_digits.induct)
  case (1 n)
  then show ?case by (subst (asm) (2) hex_digits.simps) (auto simp: hex_char_ok split: if_splits)
qed

lemma hex_digits_nonempty [simp]: "hex_digits n \<noteq> []"
  by (subst hex_digits.simps) simp

lemma length_hex_digits: "n < 65536 \<Longrightarrow> length (hex_digits n) \<le> 4"
  by (subst hex_digits.simps, auto, subst hex_digits.simps, auto, subst hex_digits.simps, auto,
      subst hex_digits.simps, auto)

definition group_bytes :: "nat \<Rightarrow> nat list" where "group_bytes g = [g div 256, g mod 256]"

lemma hd_hex: "hd (hex_digits g) \<noteq> CHR '':''" "hd (hex_digits g @ t) \<noteq> CHR '':''"
  using hex_digits_hex [of "hd (hex_digits g)" g] by (auto simp: is_hex_def is_digit_def)

lemma take_hex:
  assumes "rest = [] \<or> \<not> is_hex (hd rest)"
  shows "takeWhile is_hex (hex_digits g @ rest) = hex_digits g"
    and "dropWhile is_hex (hex_digits g @ rest) = rest"
proof -
  have all: "\<forall>c \<in> set (hex_digits g). is_hex c" by (auto dest: hex_digits_hex)
  then show "takeWhile is_hex (hex_digits g @ rest) = hex_digits g"
    using assms by (cases rest) auto
  show "dropWhile is_hex (hex_digits g @ rest) = rest"
    using all assms by (cases rest) auto
qed

lemma colon_not_hex: "\<not> is_hex CHR '':''" by (simp add: is_hex_def is_digit_def)

lemma parse6_end:
  assumes "length bs < 16" "g < 65536"
  shows "parse6 (hex_digits g) bs el = Some (bs @ group_bytes g, el)"
proof -
  have t: "takeWhile is_hex (hex_digits g) = hex_digits g" "dropWhile is_hex (hex_digits g) = []"
    using take_hex [of "[]" g] by simp_all
  show ?thesis
    using assms length_hex_digits [of g]
    by (subst parse6.simps) (simp add: Let_def t nat_of_hex_digits group_bytes_def)
qed

lemma parse6_colon:
  assumes "length bs < 16" "g < 65536" "t \<noteq> []" "hd t \<noteq> CHR '':''"
  shows "parse6 (hex_digits g @ CHR '':'' # t) bs el = parse6 t (bs @ group_bytes g) el"
  using assms take_hex [of "CHR '':'' # t" g] length_hex_digits [of g]
  by (subst parse6.simps)
    (auto simp: Let_def nat_of_hex_digits group_bytes_def colon_not_hex neq_Nil_conv)

lemma parse6_ellipsis:
  assumes "length bs < 16" "g < 65536"
  shows "parse6 (hex_digits g @ CHR '':'' # CHR '':'' # t) bs None =
    (let bs' = bs @ group_bytes g in
     if t = [] then Some (bs', Some (length bs')) else parse6 t bs' (Some (length bs')))"
  using assms take_hex [of "CHR '':'' # CHR '':'' # t" g] length_hex_digits [of g]
  by (subst parse6.simps)
    (simp add: Let_def nat_of_hex_digits group_bytes_def colon_not_hex)

lemma join_hex_hd:
  "gs \<noteq> [] \<Longrightarrow> join '':'' (map hex_digits gs) \<noteq> [] \<and> hd (join '':'' (map hex_digits gs) @ t) \<noteq> CHR '':''"
  by (cases gs; cases "tl gs") (auto simp: hd_hex)

lemma parse6_groups:
  "gs \<noteq> [] \<Longrightarrow> \<forall>g \<in> set gs. g < 65536 \<Longrightarrow> length bs + 2 * length gs \<le> 16 \<Longrightarrow>
   parse6 (join '':'' (map hex_digits gs)) bs el = Some (bs @ concat (map group_bytes gs), el)"
proof (induction gs arbitrary: bs)
  case (Cons g gs)
  show ?case
  proof (cases gs)
    case Nil
    with Cons.prems show ?thesis by (simp add: parse6_end)
  next
    case (Cons g' gs')
    then have ne: "gs \<noteq> []" by simp
    have "parse6 (join '':'' (map hex_digits (g # gs))) bs el
        = parse6 (join '':'' (map hex_digits gs)) (bs @ group_bytes g) el"
      using Cons.prems Cons join_hex_hd [OF ne, of "[]"] by (simp add: parse6_colon)
    also have "\<dots> = Some ((bs @ group_bytes g) @ concat (map group_bytes gs), el)"
      using Cons.prems ne by (intro Cons.IH) (auto simp: group_bytes_def)
    finally show ?thesis by simp
  qed
qed simp

lemma parse6_groups_ellipsis:
  "gs \<noteq> [] \<Longrightarrow> \<forall>g \<in> set gs. g < 65536 \<Longrightarrow> length bs + 2 * length gs \<le> 16 \<Longrightarrow>
   parse6 (join '':'' (map hex_digits gs) @ '':'' @ '':'' @ t) bs None =
    (let bs' = bs @ concat (map group_bytes gs) in
     if t = [] then Some (bs', Some (length bs')) else parse6 t bs' (Some (length bs')))"
proof (induction gs arbitrary: bs)
  case (Cons g gs)
  show ?case
  proof (cases gs)
    case Nil
    with Cons.prems show ?thesis by (simp add: parse6_ellipsis)
  next
    case (Cons g' gs')
    then have ne: "gs \<noteq> []" by simp
    have "parse6 (join '':'' (map hex_digits (g # gs)) @ '':'' @ '':'' @ t) bs None
        = parse6 (join '':'' (map hex_digits gs) @ '':'' @ '':'' @ t) (bs @ group_bytes g) None"
      using Cons.prems Cons join_hex_hd [OF ne, of "[]"]
        parse6_colon [of bs g "join '':'' (map hex_digits gs) @ '':'' @ '':'' @ t" None] by simp
    also have "\<dots> = (let bs' = (bs @ group_bytes g) @ concat (map group_bytes gs) in
        if t = [] then Some (bs', Some (length bs')) else parse6 t bs' (Some (length bs')))"
      using Cons.prems ne by (intro Cons.IH) (auto simp: group_bytes_def)
    finally show ?thesis by simp
  qed
qed simp

subsection \<open>The zero run\<close>

definition run_ok :: "nat list \<Rightarrow> (nat \<times> nat) option \<Rightarrow> bool" where
  "run_ok g r \<longleftrightarrow> (case r of None \<Rightarrow> True | Some (zs, ze) \<Rightarrow>
     zs + 2 \<le> ze \<and> ze \<le> length g \<and> (\<forall>k. zs \<le> k \<and> k < ze \<longrightarrow> g ! k = 0))"

lemma better_run_ok: "i < length g \<Longrightarrow> run_ok g r \<Longrightarrow> run_ok g (better_run g i r)"
proof -
  assume i: "i < length g" and r: "run_ok g r"
  let ?n = "length (takeWhile (\<lambda>x. x = 0) (drop i g))"
  have n: "i + ?n \<le> length g" using length_takeWhile_le [of "\<lambda>x. x = 0" "drop i g"] i by simp
  have "g ! k = 0" if "i \<le> k" "k < i + ?n" for k
  proof -
    from that have "k - i < ?n" by simp
    then have "takeWhile (\<lambda>x. x = 0) (drop i g) ! (k - i) = 0" using nth_mem set_takeWhileD by fastforce
    with \<open>k - i < ?n\<close> have "drop i g ! (k - i) = 0" by (simp add: takeWhile_nth)
    with that n show ?thesis by simp
  qed
  with n r show ?thesis by (auto simp: run_ok_def better_run_def Let_def split: option.splits)
qed

lemma zero_run_ok: "run_ok g (zero_run g)"
proof -
  have "run_ok g (fold (better_run g) is r)" if "\<forall>i \<in> set is. i < length g" "run_ok g r" for "is" r
    using that by (induction "is" arbitrary: r) (auto simp: better_run_ok)
  then show ?thesis unfolding zero_run_def by (auto simp: run_ok_def)
qed

lemma groups_props:
  "even (length a) \<Longrightarrow> \<forall>b \<in> set a. b < 256 \<Longrightarrow>
   length (groups a) = length a div 2 \<and> (\<forall>g \<in> set (groups a). g < 65536)
   \<and> concat (map group_bytes (groups a)) = a"
  by (induction a rule: groups.induct) (auto simp: group_bytes_def)

lemma concat_group_bytes_length: "length (concat (map group_bytes gs)) = 2 * length gs"
  by (induction gs) (auto simp: group_bytes_def)

lemma zero_groups:
  assumes "run_ok g (Some (zs, ze))"
  shows "concat (map group_bytes g) = concat (map group_bytes (take zs g))
     @ replicate (2 * (ze - zs)) 0 @ concat (map group_bytes (drop ze g))"
proof -
  have z: "take (ze - zs) (drop zs g) = replicate (ze - zs) 0"
    using assms by (intro nth_equalityI) (auto simp: run_ok_def)
  have "g = take zs g @ take (ze - zs) (drop zs g) @ drop ze g"
  proof -
    have "drop (ze - zs) (drop zs g) = drop ze g" using assms by (simp add: run_ok_def)
    then show ?thesis by (metis append_take_drop_id)
  qed
  then have "concat (map group_bytes g) = concat (map group_bytes (take zs g))
     @ concat (map group_bytes (replicate (ze - zs) 0)) @ concat (map group_bytes (drop ze g))"
    unfolding z by (metis concat_append map_append)
  moreover have "concat (map group_bytes (replicate n 0)) = replicate (2 * n) 0" for n
    by (induction n) (auto simp: group_bytes_def)
  ultimately show ?thesis by simp
qed


lemma parse6_join_nonempty:
  "gs \<noteq> [] \<Longrightarrow> \<not> starts_with ''::'' (join '':'' (map hex_digits gs) @ t)"
  using join_hex_hd [of gs t] by (cases "join '':'' (map hex_digits gs) @ t") auto

lemma join_hex_no_percent: "CHR ''%'' \<notin> set (join '':'' (map hex_digits gs))"
proof
  assume "CHR ''%'' \<in> set (join '':'' (map hex_digits gs))"
  then obtain g where "CHR ''%'' \<in> set (hex_digits g)"
    using set_join [of "'':''" "map hex_digits gs"] by auto
  then show False using hex_digits_hex by (fastforce simp: is_hex_def is_digit_def)
qed

lemma string6_parse:
  assumes "wf_ip a"
  shows "parse_ipv6 (string6 a) = Some a"
proof -
  let ?g = "groups a"
  have g: "length ?g = 8" "\<forall>x \<in> set ?g. x < 65536" "concat (map group_bytes ?g) = a"
    using assms groups_props [of a] by (auto simp: wf_ip_def)
  show ?thesis
  proof (cases "zero_run ?g")
    case None
    have "parse6 (join '':'' (map hex_digits ?g)) [] None = Some (a, None)"
      using g by (subst parse6_groups) auto
    moreover note join_hex_no_percent [of ?g]
    moreover have "?g \<noteq> []" using g(1) by auto
    then have "\<not> starts_with ''::'' (join '':'' (map hex_digits ?g))"
      using parse6_join_nonempty [of ?g "[]"] by simp
    ultimately show ?thesis
      using assms None by (simp add: parse_ipv6_def string6_def Let_def expand6_def wf_ip_def)
  next
    case (Some p)
    then obtain zs ze where p: "zero_run ?g = Some (zs, ze)" by (cases p) auto
    then have run: "run_ok ?g (Some (zs, ze))" using zero_run_ok [of ?g] by simp
    let ?l = "take zs ?g" and ?r = "drop ze ?g"
    let ?R = "join '':'' (map hex_digits ?r)"
    let ?lb = "concat (map group_bytes ?l)" and ?rb = "concat (map group_bytes ?r)"
    have len: "length ?lb = 2 * zs" "length ?rb = 2 * (8 - ze)" "zs + 2 \<le> ze" "ze \<le> 8"
      using run g(1) by (auto simp: concat_group_bytes_length run_ok_def)
    have a: "a = ?lb @ replicate (16 - (2 * zs + 2 * (8 - ze))) 0 @ ?rb"
      using zero_groups [OF run] g(3) len by (simp add: diff_mult_distrib2 [symmetric] algebra_simps)
    have bounds: "\<forall>x \<in> set ?l. x < 65536" "\<forall>x \<in> set ?r. x < 65536"
      using g(2) by (meson in_set_takeD in_set_dropD)+
    have no: "CHR ''%'' \<notin> set (join '':'' (map hex_digits ?l) @ ''::'' @ ?R)"
      using join_hex_no_percent [of ?l] join_hex_no_percent [of ?r] by simp
    have R: "?R = [] \<longleftrightarrow> ?r = []" using join_hex_hd [of ?r] by auto
    have tail: "(if ?R = [] then Some (bs, Some (length bs)) else parse6 ?R bs (Some (length bs)))
        = Some (bs @ ?rb, Some (length bs))" if "length bs = 2 * zs" for bs
      using that len g(1) bounds R by (auto simp: parse6_groups)
    have ex: "expand6 (?lb @ ?rb, Some (length ?lb)) = Some a"
      using a len by (simp add: expand6_def)
    show ?thesis
    proof (cases "?l = []")
      case True
      then show ?thesis
        using p no tail [of "[]"] ex len g(1) assms R a
        by (auto simp: parse_ipv6_def string6_def Let_def split: if_splits)
    next
      case False
      have "parse6 (join '':'' (map hex_digits ?l) @ ''::'' @ ?R) [] None
          = Some (?lb @ ?rb, Some (length ?lb))"
        using parse6_groups_ellipsis [of ?l "[]" ?R] False bounds len g(1) tail [of ?lb] by (simp add: Let_def)
      then show ?thesis
        using p no ex parse6_join_nonempty [OF False, of "''::'' @ ?R"]
        by (simp add: parse_ipv6_def string6_def Let_def)
    qed
  qed
qed

subsection \<open>Addresses that were parsed are well formed\<close>

lemma find_colon:
  assumes "CHR '':'' \<in> set s" "CHR ''.'' \<notin> set s" "CHR ''%'' \<notin> set s"
  shows "List.find (\<lambda>c. c = CHR ''.'' \<or> c = CHR '':'' \<or> c = CHR ''%'') s = Some CHR '':''"
proof -
  obtain x where "List.find (\<lambda>c. c = CHR ''.'' \<or> c = CHR '':'' \<or> c = CHR ''%'') s = Some x"
    using assms(1) by (cases "List.find (\<lambda>c. c = CHR ''.'' \<or> c = CHR '':'' \<or> c = CHR ''%'') s") (auto simp: find_None_iff)
  moreover from this have "x = CHR '':''" using assms find_Some_in by fastforce
  ultimately show ?thesis by simp
qed

lemma join_hex_chars: "c \<in> set (join '':'' (map hex_digits gs)) \<Longrightarrow> c = CHR '':'' \<or> is_hex c"
  using set_join [of "'':''" "map hex_digits gs"] by (auto dest: hex_digits_hex)

lemma string6_addr:
  assumes "wf_ip a"
  shows "parse_addr (string6 a) = Some (V6 a)"
proof -
  have g: "length (groups a) = 8" using assms groups_props [of a] by (auto simp: wf_ip_def)
  have chars: "c = CHR '':'' \<or> is_hex c" if "c \<in> set (string6 a)" for c
    using that by (auto simp: string6_def Let_def split: option.splits dest: join_hex_chars)
  have "CHR '':'' \<in> set (join '':'' (map hex_digits (groups a)))"
    using g by (cases "groups a"; cases "tl (groups a)") auto
  then have "CHR '':'' \<in> set (string6 a)"
    by (auto simp: string6_def Let_def split: option.splits)
  moreover have "CHR ''.'' \<notin> set (string6 a)" "CHR ''%'' \<notin> set (string6 a)"
    using chars by (fastforce simp: is_hex_def is_digit_def)+
  ultimately show ?thesis by (simp add: parse_addr_def find_colon string6_parse [OF assms])
qed

lemma To4_Some: "wf_ip a \<Longrightarrow> To4 a = Some q \<Longrightarrow> a = v4_in_v6 @ q \<and> length q = 4 \<and> (\<forall>b \<in> set q. b < 256)"
  by (auto simp: To4_def wf_ip_def split: if_splits dest: in_set_dropD) (metis append_take_drop_id)

lemma ParseIP_IP_String: "wf_ip a \<Longrightarrow> ParseIP (IP_String a) = Some a"
  by (auto simp: ParseIP_def IP_String_def string6_addr string4_addr split: option.split dest!: To4_Some)

lemma IP_String_nonempty: "wf_ip a \<Longrightarrow> IP_String a \<noteq> []"
  using ParseIP_IP_String [of a] by (auto simp: ParseIP_def parse_addr_def)

lemma IP_String_inj: "wf_ip a \<Longrightarrow> wf_ip b \<Longrightarrow> IP_String a = IP_String b \<Longrightarrow> a = b"
  using ParseIP_IP_String by (metis option.inject)

lemma octet_ok_lt: "octet_ok f \<Longrightarrow> nat_of_digits 0 f < 256"
  by (simp add: octet_ok_def)

lemma parse_ipv4_wf: "parse_ipv4 s = Some q \<Longrightarrow> length q = 4 \<and> (\<forall>b \<in> set q. b < 256)"
  by (auto simp: parse_ipv4_def Let_def list_all_iff octet_ok_lt split: if_splits)

lemma parse_ipv4_len: "parse_ipv4 s = Some q \<Longrightarrow> length q = 4"
  and parse_ipv4_byte: "parse_ipv4 s = Some q \<Longrightarrow> b \<in> set q \<Longrightarrow> b < 256"
  using parse_ipv4_wf by blast+

lemma hex_val_lt: "is_hex c \<Longrightarrow> hex_val c < 16"
  by (auto simp: is_hex_def hex_val_def dest: digit_val_lt)

lemma nat_of_hex_lt: "\<forall>c \<in> set s. is_hex c \<Longrightarrow> nat_of_hex n s < (n + 1) * 16 ^ length s"
proof (induction s arbitrary: n)
  case (Cons c cs)
  then have "nat_of_hex (16 * n + hex_val c) cs < (16 * n + hex_val c + 1) * 16 ^ length cs" by simp
  also have "\<dots> \<le> (16 * (n + 1)) * 16 ^ length cs" using Cons.prems hex_val_lt [of c]
    by (intro mult_le_mono1) simp
  finally show ?case by (simp add: algebra_simps)
qed simp

lemma nat_of_hex_group:
  assumes "length (takeWhile is_hex s) \<le> 4"
  shows "nat_of_hex 0 (takeWhile is_hex s) div 256 < 256"
proof -
  have "nat_of_hex 0 (takeWhile is_hex s) < 16 ^ length (takeWhile is_hex s)"
    using nat_of_hex_lt [of "takeWhile is_hex s" 0] by (auto dest: set_takeWhileD)
  also have "(16::nat) ^ length (takeWhile is_hex s) \<le> 16 ^ 4" using assms by (intro power_increasing) auto
  finally show ?thesis by simp
qed

definition pos_ok :: "nat list \<times> nat option \<Rightarrow> bool" where
  "pos_ok p \<longleftrightarrow> (case p of (bs, el) \<Rightarrow> length bs \<le> 16 \<and> even (length bs) \<and> (\<forall>b \<in> set bs. b < 256)
     \<and> (case el of None \<Rightarrow> True | Some e \<Rightarrow> e \<le> length bs))"

lemma parse6_pos_ok: "parse6 s bs el = Some p \<Longrightarrow> pos_ok (bs, el) \<Longrightarrow> pos_ok p"
proof (induction s bs el rule: parse6.induct)
  case (1 s bs el)
  obtain h r where hr: "takeWhile is_hex s = h" "dropWhile is_hex s = r" by blast
  let ?bs = "bs @ [nat_of_hex 0 h div 256, nat_of_hex 0 h mod 256]"
  have ev: "length bs < 16 \<Longrightarrow> length bs + 2 \<le> 16" using 1(4) by (auto simp: pos_ok_def elim!: evenE)
  have h: "length h \<le> 4 \<Longrightarrow> nat_of_hex 0 h div 256 < 256" using nat_of_hex_group [of s] hr by simp
  have ok: "pos_ok (?bs, el)" "pos_ok (?bs, Some (length ?bs))" if "length bs < 16" "length h \<le> 4"
    using 1(4) that ev h by (auto simp: pos_ok_def split: option.splits)
  show ?case
  proof (cases "length bs \<ge> 16 \<or> h = [] \<or> length h > 4 \<or> r = [] \<or> hd r = CHR ''.''")
    case True
    then show ?thesis
      using 1(3,4) ev h
      by (subst (asm) parse6.simps)
        (auto simp: hr Let_def pos_ok_def split: if_splits option.splits list.splits dest: parse_ipv4_len parse_ipv4_byte)
  next
    case False
    then obtain c t where r: "r = c # t" by (cases r) auto
    show ?thesis
      using 1(3) 1(1,2) False r ok
      by (subst (asm) parse6.simps) (auto simp: hr Let_def split: if_splits list.splits)
  qed
qed

lemma expand6_wf: "expand6 p = Some a \<Longrightarrow> pos_ok p \<Longrightarrow> wf_ip a"
  using set_take_subset set_drop_subset
  by (cases p) (fastforce simp: expand6_def pos_ok_def wf_ip_def split: if_splits option.splits)

lemma parse_ipv6_wf: "parse_ipv6 s = Some a \<Longrightarrow> wf_ip a"
proof -
  assume a: "parse_ipv6 s = Some a"
  have "wf_ip x" if "Option.bind (parse6 t [] el) expand6 = Some x" "el = None \<or> el = Some 0" for x t el
  proof -
    from that(1) obtain p where p: "parse6 t [] el = Some p" "expand6 p = Some x"
      by (cases "parse6 t [] el") auto
    have "pos_ok ([], el)" using that(2) by (auto simp: pos_ok_def)
    then show ?thesis using p parse6_pos_ok expand6_wf by blast
  qed
  moreover have "wf_ip (replicate 16 0)" by (simp add: wf_ip_def)
  ultimately show ?thesis using a by (auto simp: parse_ipv6_def split: if_splits)
qed

lemma wf_v4: "length q = 4 \<Longrightarrow> \<forall>b \<in> set q. b < 256 \<Longrightarrow> wf_ip (v4_in_v6 @ q)"
  by (auto simp: wf_ip_def v4_in_v6_def)

lemma parse_addr_wf: "parse_addr s = Some ad \<Longrightarrow> wf_ip (As16 ad)"
  using parse_ipv4_wf parse_ipv6_wf wf_v4
  by (auto simp: parse_addr_def split: option.splits if_splits)

lemma ParseIP_wf: "ParseIP s = Some a \<Longrightarrow> wf_ip a"
  by (auto simp: ParseIP_def dest: parse_addr_wf)

lemma ParseCIDR_wf: "ParseCIDR s = Some (a, n, b) \<Longrightarrow> wf_ip a \<and> n \<le> b"
  by (auto simp: ParseCIDR_def split: option.splits prod.splits if_splits dest: parse_addr_wf)

text \<open>The address a text names, with or without a prefix length.\<close>

definition host_addr :: "string \<Rightarrow> ip option" where
  "host_addr s = (case ParseCIDR s of Some (a, _) \<Rightarrow> Some a | None \<Rightarrow> ParseIP s)"

lemma host_addr_wf: "host_addr s = Some a \<Longrightarrow> wf_ip a"
  by (auto simp: host_addr_def split: option.splits dest: ParseCIDR_wf ParseIP_wf)

lemma ExtractHostIP_host_addr:
  "ExtractHostIP s = (case host_addr s of Some a \<Rightarrow> IP_String a | None \<Rightarrow> '''')"
  by (auto simp: ExtractHostIP_def host_addr_def split: option.splits)

lemma ExtractHostIP_empty: "ExtractHostIP s = [] \<longleftrightarrow> host_addr s = None"
  using IP_String_nonempty host_addr_wf by (auto simp: ExtractHostIP_host_addr split: option.splits)

lemma ExtractHostIP_eq_iff:
  "ExtractHostIP s \<noteq> [] \<Longrightarrow> ExtractHostIP s = ExtractHostIP t \<longleftrightarrow> host_addr s = host_addr t"
  using IP_String_inj host_addr_wf IP_String_nonempty
  by (auto simp: ExtractHostIP_host_addr split: option.splits)

lemma IP_String_no_slash: "wf_ip a \<Longrightarrow> cut CHR ''/'' (IP_String a) = None"
proof -
  assume a: "wf_ip a"
  have "CHR ''/'' \<notin> set (string6 a)"
    by (auto simp: string6_def Let_def is_hex_def is_digit_def split: option.splits dest!: join_hex_chars)
  moreover have "CHR ''/'' \<notin> set (string4 q)" for q
    using set_join [of "[CHR ''.'']" "map digits q"]
    by (auto simp: string4_def is_digit_def dest!: digits_digit subsetD)
  ultimately show ?thesis by (auto simp: cut_None IP_String_def split: option.splits)
qed

lemma host_addr_IP_String: "wf_ip a \<Longrightarrow> host_addr (IP_String a) = Some a"
  by (simp add: host_addr_def ParseCIDR_def IP_String_no_slash ParseIP_IP_String)

lemma ExtractHostIP_idem [simp]: "ExtractHostIP (ExtractHostIP s) = ExtractHostIP s"
proof (cases "host_addr s")
  case None
  then have "ExtractHostIP s = []" by (simp add: ExtractHostIP_empty)
  then show ?thesis by (simp add: ExtractHostIP_def ParseCIDR_def ParseIP_def parse_addr_def)
next
  case (Some a)
  then show ?thesis
    using host_addr_wf by (simp add: ExtractHostIP_host_addr host_addr_IP_String)
qed

lemma ensureHost32_host_addr:
  "ensureHost32 s = (case host_addr s of None \<Rightarrow> ''''
     | Some a \<Rightarrow> IP_String a @ (if To4 a \<noteq> None then ''/32'' else ''/128''))"
  by (auto simp: ensureHost32_def host_addr_def split: option.splits)

end
