(* ===== verification/Models.thy ===== *)
theory Models
  imports NetIP
begin

text \<open>
  The data model (internal/models/models.go), the database schema it is stored in
  (internal/store/migrations), and the world the program runs in.

  The outside of the program is an \<open>env\<close>: the clock, the random source, the database
  driver's failures, the kernel behind \<^verbatim>\<open>NetManager\<close> and \<^verbatim>\<open>wgctrl\<close>, \<^verbatim>\<open>age\<close>, \<^verbatim>\<open>bcrypt\<close>, the
  OIDC provider, the mail server. Each of them may answer anything at any moment, so it is a function of the
  moment: a counter \<open>tick\<close> in the \<open>world\<close> that every interaction advances. The calls that act
  on the machine (\<^verbatim>\<open>wg\<close>, \<^verbatim>\<open>wg-quick\<close>, netlink) are also kept in the order they were made.
\<close>

section \<open>Models\<close>

definition InterfaceTypeSiteToSite :: string where "InterfaceTypeSiteToSite = ''site-to-site''"
definition InterfaceTypeClientAccess :: string where "InterfaceTypeClientAccess = ''client-access''"
definition PeerTypeClient :: string where "PeerTypeClient = ''client''"
definition PeerTypeSite :: string where "PeerTypeSite = ''site''"

record iface =
  if_ID :: string
  if_Type :: string
  if_ListenPort :: int
  if_PrivateKeyEncrypted :: string
  if_Address :: string
  if_DNS :: string
  if_MTU :: int
  if_Endpoint :: string
  if_PostUp :: string
  if_PostDown :: string
  if_Enabled :: bool
  if_CreatedAt :: time
  if_UpdatedAt :: time

record peer =
  p_ID :: string
  p_InterfaceID :: string
  p_Type :: string
  p_Name :: string
  p_PublicKey :: string
  p_PrivateKeyEncrypted :: string
  p_PresharedKeyEncrypted :: string
  p_Address :: string
  p_AllowedIPs :: string
  p_ClientAllowedIPs :: string
  p_DNS :: string
  p_Endpoint :: string
  p_PersistentKeepalive :: int
  p_AlertOnConnect :: bool
  p_AlertOnDisconnect :: bool
  p_AlertEmails :: string
  p_Enabled :: bool
  p_ExpiresAt :: "time option"
  p_LastHandshake :: "time option"
  p_TransferRx :: int
  p_TransferTx :: int
  p_CreatedAt :: time
  p_UpdatedAt :: time

record user =
  u_ID :: string
  u_Username :: string
  u_PasswordHash :: string
  u_DisplayName :: string
  u_Role :: string
  u_IsInitial :: bool
  u_OIDCProvider :: string
  u_OIDCSubject :: string
  u_OIDCIssuer :: string
  u_CreatedAt :: time
  u_UpdatedAt :: time

record oidc_provider =
  op_ID :: string
  op_Name :: string
  op_Issuer :: string
  op_ClientID :: string
  op_ClientSecretEncrypted :: string
  op_Scopes :: string
  op_AutoDiscover :: bool
  op_AdminClaim :: string
  op_AdminValue :: string
  op_DefaultRole :: string
  op_Enabled :: bool
  op_CreatedAt :: time
  op_UpdatedAt :: time

record oidc_state =
  os_State :: string
  os_ProviderID :: string
  os_Nonce :: string
  os_RedirectURL :: string
  os_CreatedAt :: time

record session =
  se_ID :: string
  se_UserID :: string
  se_CSRFToken :: string
  se_ExpiresAt :: time
  se_CreatedAt :: time
  se_LastSeenAt :: time
  se_IPAddress :: string
  se_UserAgent :: string

record conn_log =
  cl_ID :: int
  cl_PeerID :: string
  cl_PeerName :: string
  cl_InterfaceID :: string
  cl_Event :: string
  cl_Endpoint :: string
  cl_TransferRx :: int
  cl_TransferTx :: int
  cl_RecordedAt :: time
  cl_Duration :: int

text \<open>The zero values that a Go struct literal leaves in the fields it does not name.\<close>

definition zero_iface :: iface where
  "zero_iface = \<lparr>if_ID = [], if_Type = [], if_ListenPort = 0, if_PrivateKeyEncrypted = [],
     if_Address = [], if_DNS = [], if_MTU = 0, if_Endpoint = [], if_PostUp = [], if_PostDown = [],
     if_Enabled = False, if_CreatedAt = 0, if_UpdatedAt = 0\<rparr>"

definition zero_peer :: peer where
  "zero_peer = \<lparr>p_ID = [], p_InterfaceID = [], p_Type = [], p_Name = [], p_PublicKey = [],
     p_PrivateKeyEncrypted = [], p_PresharedKeyEncrypted = [], p_Address = [], p_AllowedIPs = [],
     p_ClientAllowedIPs = [], p_DNS = [], p_Endpoint = [], p_PersistentKeepalive = 0,
     p_AlertOnConnect = False, p_AlertOnDisconnect = False, p_AlertEmails = [], p_Enabled = False,
     p_ExpiresAt = None, p_LastHandshake = None, p_TransferRx = 0, p_TransferTx = 0,
     p_CreatedAt = 0, p_UpdatedAt = 0\<rparr>"

definition zero_user :: user where
  "zero_user = \<lparr>u_ID = [], u_Username = [], u_PasswordHash = [], u_DisplayName = [], u_Role = [],
     u_IsInitial = False, u_OIDCProvider = [], u_OIDCSubject = [], u_OIDCIssuer = [],
     u_CreatedAt = 0, u_UpdatedAt = 0\<rparr>"

definition zero_log :: conn_log where
  "zero_log = \<lparr>cl_ID = 0, cl_PeerID = [], cl_PeerName = [], cl_InterfaceID = [], cl_Event = [],
     cl_Endpoint = [], cl_TransferRx = 0, cl_TransferTx = 0, cl_RecordedAt = 0, cl_Duration = 0\<rparr>"

section \<open>The database\<close>

text \<open>Each table is the list of its rows in the order of insertion (SQLite's rowid).\<close>

record db =
  t_interfaces :: "iface list"
  t_peers :: "peer list"
  t_users :: "user list"
  t_sessions :: "session list"
  t_settings :: "(string \<times> string) list"
  t_providers :: "oidc_provider list"
  t_states :: "oidc_state list"
  t_logs :: "conn_log list"
  next_log_id :: int

definition empty_db :: db where
  "empty_db = \<lparr>t_interfaces = [], t_peers = [], t_users = [], t_sessions = [], t_settings = [],
     t_providers = [], t_states = [], t_logs = [], next_log_id = 1\<rparr>"

section \<open>The world\<close>

text \<open>Calls on \<^verbatim>\<open>wg.NetManager\<close> (internal/wg/netmanager.go).\<close>

datatype net_op =
    NetDelete string
  | NetSetDown string
  | NetExists string
  | NetQuickUp string
  | NetQuickDown string
  | NetSyncConf string string
  | NetSaveConf string string

text \<open>What \<^verbatim>\<open>wgctrl\<close> reports for one peer of a device (the fields the program reads).\<close>

record live_peer =
  lp_PublicKey :: string
  lp_LastHandshakeTime :: time
  lp_ReceiveBytes :: int
  lp_TransmitBytes :: int
  lp_Endpoint :: "string option"

text \<open>
  How a statement can fail in the driver: when it is executed or prepared, when a row is
  scanned (after some rows), or when the iteration is cut short after some rows.
\<close>

datatype fault = StmtFault string | ScanFault nat string | IterFault nat string

record peer_snapshot =
  sn_Connected :: bool
  sn_ConnectedSince :: time
  sn_TransferRx :: int
  sn_TransferTx :: int
  sn_Endpoint :: string

text \<open>An alert as handed to \<^verbatim>\<open>alertFn\<close>: peer, interface, event, endpoint, duration.\<close>

record alert =
  al_Peer :: peer
  al_Iface :: iface
  al_Event :: string
  al_Endpoint :: string
  al_Duration :: duration

text \<open>
  OpenID Connect. A claim of an ID token is a JSON value, of which the code looks at strings and
  lists. \<open>oc_Endpoint\<close> stands for the endpoints that discovery found.
\<close>

datatype claim = ClaimString string | ClaimList "claim list" | ClaimOther

record user_claims =
  uc_Subject :: string
  uc_PreferredUsername :: string
  uc_Email :: string
  uc_Name :: string

record id_token =
  it_Nonce :: string
  it_Claims :: "error + user_claims"
  it_AllClaims :: "error + (string \<Rightarrow> claim option)"

record oauth_config =
  oc_ClientID :: string
  oc_ClientSecret :: string
  oc_Scopes :: "string list"
  oc_Endpoint :: string
  oc_RedirectURL :: string

record resolved_provider =
  rp_model :: oidc_provider
  rp_oauth :: oauth_config

text \<open>Mail: the settings of a server and the messages the program sends (internal/mail).\<close>

record SMTPSettings =
  sm_Host :: string
  sm_Port :: int
  sm_Username :: string
  sm_Password :: string
  sm_From :: string
  sm_TLS :: string

record AlertEmail =
  ae_To :: string
  ae_PeerName :: string
  ae_PublicKey :: string
  ae_InterfaceName :: string
  ae_Event :: string
  ae_Endpoint :: string
  ae_TransferRx :: int
  ae_TransferTx :: int
  ae_Duration :: string
  ae_ServerName :: string

record PeerConfigEmail =
  pe_To :: string
  pe_PeerName :: string
  pe_Note :: string
  pe_ConfData :: string
  pe_QRCodePNG :: string
  pe_ServerName :: string

datatype email =
    TestMail string string
  | AlertMail AlertEmail
  | PeerConfigMail PeerConfigEmail

text \<open>
  The answers of everything outside the program, and the two values the server is started with
  (the passphrase of the encryptor and the external address). \<open>age_writer\<close>, \<open>age_write\<close> and
  \<open>age_seal\<close> are the three calls that write an age file, \<open>age_header\<close> and \<open>age_payload\<close> the two
  that read one; \<open>wg_\<close> functions are those of \<^verbatim>\<open>wgtypes\<close>, on the raw bytes of a key.
\<close>

record env =
  now_at :: "nat \<Rightarrow> time"
  db_fault :: "nat \<Rightarrow> fault option"
  fk_on :: "nat \<Rightarrow> bool"
  uuid_at :: "nat \<Rightarrow> string"
  rand_bytes_at :: "nat \<Rightarrow> error + string"
  wg_private_key_at :: "nat \<Rightarrow> error + string"
  wg_key_at :: "nat \<Rightarrow> error + string"
  passphrase :: string
  scrypt_ok :: "string \<Rightarrow> error + unit"
  age_writer :: "nat \<Rightarrow> error + unit"
  age_write :: "nat \<Rightarrow> error + unit"
  age_seal :: "nat \<Rightarrow> string \<Rightarrow> string \<Rightarrow> error + string"
  age_header :: "string \<Rightarrow> string \<Rightarrow> error + unit"
  age_payload :: "string \<Rightarrow> string \<Rightarrow> error + string"
  wg_parse_key :: "string \<Rightarrow> error + string"
  wg_new_key :: "string \<Rightarrow> error + string"
  wg_public :: "string \<Rightarrow> string"
  curve25519_base :: "string \<Rightarrow> string"
  external_ip :: string
  bcrypt_hash :: "nat \<Rightarrow> string \<Rightarrow> error + string"
  bcrypt_match :: "string \<Rightarrow> string \<Rightarrow> bool"
  net_result :: "nat \<Rightarrow> net_op \<Rightarrow> error + bool"
  wg_device :: "nat \<Rightarrow> string \<Rightarrow> error + live_peer list"
  oidc_discover :: "nat \<Rightarrow> string \<Rightarrow> error + string"
  auth_code_url :: "oauth_config \<Rightarrow> string \<Rightarrow> string \<Rightarrow> string"
  exchange_code :: "nat \<Rightarrow> oauth_config \<Rightarrow> string \<Rightarrow> error + string option"
  verify_token :: "nat \<Rightarrow> resolved_provider \<Rightarrow> string \<Rightarrow> error + id_token"
  mail_address_ok :: "string \<Rightarrow> bool"
  send_mail_at :: "nat \<Rightarrow> SMTPSettings \<Rightarrow> email \<Rightarrow> error + unit"
  qr_png :: "string \<Rightarrow> error + string"
  read_file_at :: "nat \<Rightarrow> string \<Rightarrow> error + string"
  unicode_lower :: "string \<Rightarrow> string"
  getenv :: "string \<Rightarrow> string"

record world =
  wdb :: db
  tick :: nat
  net_log :: "net_op list"
  last_state :: "string \<Rightarrow> peer_snapshot option"
  seed_connected :: "string \<Rightarrow> time option"
  alerts :: "alert list"
  oidc_providers :: "(string \<times> resolved_provider) list"
  oidc_ready :: bool
  outbox :: "(SMTPSettings \<times> email) list"
  kicked :: bool

type_synonym 'a io = "(world, 'a) state"

text \<open>One interaction with the outside: read an answer at the current tick and advance it.\<close>

definition ask :: "(nat \<Rightarrow> 'a) \<Rightarrow> 'a io" where
  "ask f = State (\<lambda>w. (f (tick w), w\<lparr>tick := Suc (tick w)\<rparr>))"

definition time_now :: "env \<Rightarrow> time io" where
  "time_now env = ask (now_at env)"

definition net_call :: "env \<Rightarrow> net_op \<Rightarrow> (error + bool) io" where
  "net_call env c = State (\<lambda>w. (net_result env (tick w) c,
     w\<lparr>tick := Suc (tick w), net_log := net_log w @ [c]\<rparr>))"

text \<open>Sending a message; \<open>outbox\<close> keeps every attempt.\<close>

definition send_mail :: "env \<Rightarrow> SMTPSettings \<Rightarrow> email \<Rightarrow> (error + unit) io" where
  "send_mail env sm m = State (\<lambda>w. (send_mail_at env (tick w) sm m,
     w\<lparr>tick := Suc (tick w), outbox := outbox w @ [(sm, m)]\<rparr>))"

text \<open>Reading and writing the process's own memory (the poller's and the OIDC service's maps).\<close>

definition gets :: "(world \<Rightarrow> 'a) \<Rightarrow> 'a io" where
  "gets f = State (\<lambda>w. (f w, w))"

definition modify :: "(world \<Rightarrow> world) \<Rightarrow> unit io" where
  "modify f = State (\<lambda>w. ((), f w))"

lemma run_ask [run_simps]: "run_state (ask f) w = (f (tick w), w\<lparr>tick := Suc (tick w)\<rparr>)"
  by (simp add: ask_def)

lemma run_time_now [run_simps]:
  "run_state (time_now env) w = (now_at env (tick w), w\<lparr>tick := Suc (tick w)\<rparr>)"
  by (simp add: time_now_def run_ask)

lemma run_net_call [run_simps]:
  "run_state (net_call env c) w = (net_result env (tick w) c,
     w\<lparr>tick := Suc (tick w), net_log := net_log w @ [c]\<rparr>)"
  by (simp add: net_call_def)

lemma run_send_mail [run_simps]:
  "run_state (send_mail env sm m) w = (send_mail_at env (tick w) sm m,
     w\<lparr>tick := Suc (tick w), outbox := outbox w @ [(sm, m)]\<rparr>)"
  by (simp add: send_mail_def)

lemma run_gets [run_simps]: "run_state (gets f) w = (f w, w)"
  by (simp add: gets_def)

lemma run_modify [run_simps]: "run_state (modify f) w = ((), f w)"
  by (simp add: modify_def)

text \<open>A predicate on the database is untouched by everything but statements.\<close>

abbreviation on_db :: "(db \<Rightarrow> bool) \<Rightarrow> world \<Rightarrow> bool" where
  "on_db I w \<equiv> I (wdb w)"

lemma keeps_ask [keeps_intros]: "keeps (on_db I) (ask f)"
  by (simp add: valid_def run_ask)

lemma keeps_time_now [keeps_intros]: "keeps (on_db I) (time_now env)"
  by (simp add: valid_def run_time_now)

lemma keeps_net_call [keeps_intros]: "keeps (on_db I) (net_call env c)"
  by (simp add: valid_def run_net_call)

lemma keeps_send_mail [keeps_intros]: "keeps (on_db I) (send_mail env sm m)"
  by (simp add: valid_def run_send_mail)

text \<open>Updates of the other fields of the world.\<close>

definition set_memory :: "(world \<Rightarrow> world) \<Rightarrow> unit io" where
  "set_memory f = modify (\<lambda>w. (f w)\<lparr>wdb := wdb w, tick := tick w, net_log := net_log w\<rparr>)"

lemma run_set_memory [run_simps]:
  "run_state (set_memory f) w = ((), (f w)\<lparr>wdb := wdb w, tick := tick w, net_log := net_log w\<rparr>)"
  by (simp add: set_memory_def run_modify)

lemma keeps_set_memory [keeps_intros]: "keeps (on_db I) (set_memory f)"
  by (simp add: valid_def run_set_memory)

lemma keeps_gets [keeps_intros]: "keeps I (gets f)"
  by (simp add: valid_def run_gets)

end
