(* ===== verification/Tables.thy ===== *)
theory Tables
  imports Models "HOL-Library.Char_ord" "HOL-Library.List_Lexorder"
begin

text \<open>
  The effect of the SQL statements of internal/store/*.go on the tables, with the constraints
  of internal/store/migrations/*.sql: primary keys, UNIQUE indexes, CHECK clauses, and foreign
  keys with ON DELETE CASCADE. SQLite enforces foreign keys per connection
  (\<^verbatim>\<open>PRAGMA foreign_keys\<close>), so the statements that involve one take a flag \<open>fk\<close>: whether the
  connection that executes them has the enforcement on.

  The locale \<open>db_table\<close> is the contract of a keyed table, in the shape of a map interface:
  \<open>get\<close> after \<open>ins\<close>, \<open>upd\<close> and \<open>del\<close>. It is interpreted on the tables below.
\<close>

section \<open>Rows by key\<close>

definition row :: "('r \<Rightarrow> 'k) \<Rightarrow> 'k \<Rightarrow> 'r list \<Rightarrow> 'r option" where
  "row key k t = List.find (\<lambda>r. key r = k) t"

definition set_rows :: "('r \<Rightarrow> 'k) \<Rightarrow> 'k \<Rightarrow> ('r \<Rightarrow> 'r) \<Rightarrow> 'r list \<Rightarrow> 'r list" where
  "set_rows key k f t = map (\<lambda>r. if key r = k then f r else r) t"

definition del_rows :: "('r \<Rightarrow> 'k) \<Rightarrow> 'k \<Rightarrow> 'r list \<Rightarrow> 'r list" where
  "del_rows key k t = filter (\<lambda>r. key r \<noteq> k) t"

definition has_row :: "('r \<Rightarrow> 'k) \<Rightarrow> 'k \<Rightarrow> 'r list \<Rightarrow> bool" where
  "has_row key k t \<longleftrightarrow> list_ex (\<lambda>r. key r = k) t"

lemma row_Some: "row key k t = Some r \<Longrightarrow> r \<in> set t \<and> key r = k"
  by (auto simp: row_def dest: find_Some_in)

lemma row_None: "row key k t = None \<longleftrightarrow> k \<notin> key ` set t"
  by (auto simp: row_def find_None_iff)

lemma has_row_iff: "has_row key k t \<longleftrightarrow> k \<in> key ` set t"
  by (auto simp: has_row_def list_ex_iff)

lemma row_append:
  "row key k (t @ [r]) = (case row key k t of Some x \<Rightarrow> Some x | None \<Rightarrow> if key r = k then Some r else None)"
  unfolding row_def by (induction t) auto

lemma row_set_rows:
  "(\<And>r. key r = k \<Longrightarrow> key (f r) = k) \<Longrightarrow>
   row key j (set_rows key k f t) = (if j = k then map_option f (row key k t) else row key j t)"
  unfolding row_def set_rows_def by (induction t) auto

lemma row_del_rows: "row key j (del_rows key k t) = (if j = k then None else row key j t)"
  unfolding row_def del_rows_def by (induction t) auto

lemma map_set_rows:
  "(\<And>r. key r = k \<Longrightarrow> g (f r) = g r) \<Longrightarrow> map g (set_rows key k f t) = map g t"
  by (auto simp: set_rows_def)

lemma set_set_rows: "x \<in> set (set_rows key k f t) \<Longrightarrow> x \<in> set t \<or> (\<exists>r \<in> set t. key r = k \<and> x = f r)"
  by (auto simp: set_rows_def)

lemma set_rows_in: "r \<in> set t \<Longrightarrow> (if key r = k then f r else r) \<in> set (set_rows key k f t)"
  by (auto simp: set_rows_def)

lemma set_del_rows [simp]: "set (del_rows key k t) = {r \<in> set t. key r \<noteq> k}"
  by (auto simp: del_rows_def)

lemma distinct_del_rows: "distinct (map g t) \<Longrightarrow> distinct (map g (del_rows key k t))"
  by (simp add: del_rows_def distinct_map_filter')

lemma distinct_set_rows:
  assumes "distinct (map g t)" and "distinct (map key t)"
    and "\<And>r s. r \<in> set t \<Longrightarrow> s \<in> set t \<Longrightarrow> key r = k \<Longrightarrow> key s \<noteq> k \<Longrightarrow> g s \<noteq> g (f r)"
  shows "distinct (map g (set_rows key k f t))"
  using assms
proof (induction t)
  case (Cons a t)
  have IH: "distinct (map g (set_rows key k f t))" using Cons by (intro Cons.IH) auto
  have "g (if key a = k then f a else a) \<notin> g ` set (set_rows key k f t)"
  proof
    assume "g (if key a = k then f a else a) \<in> g ` set (set_rows key k f t)"
    then obtain x where x: "x \<in> set (set_rows key k f t)" "g x = g (if key a = k then f a else a)" by auto
    from x(1) obtain r where r: "r \<in> set t" "x = (if key r = k then f r else r)"
      by (auto simp: set_rows_def)
    have ne: "key r \<noteq> key a" "g r \<noteq> g a" using Cons.prems(1,2) r(1) by (auto simp: image_iff)
    show False
      using x(2) r(2) ne Cons.prems(3) [of a r] Cons.prems(3) [of r a] r(1) by (auto split: if_splits)
  qed
  moreover have "set_rows key k f (a # t) = (if key a = k then f a else a) # set_rows key k f t"
    by (simp add: set_rows_def)
  ultimately show ?case using IH by (simp only: list.map distinct.simps set_map) simp
qed (simp add: set_rows_def)

section \<open>Statements on the tables\<close>

definition iface_type_ok :: "string \<Rightarrow> bool" where
  "iface_type_ok s \<longleftrightarrow> s = ''site-to-site'' \<or> s = ''client-access''"

definition peer_type_ok :: "string \<Rightarrow> bool" where
  "peer_type_ok s \<longleftrightarrow> s = ''client'' \<or> s = ''site''"

definition role_ok :: "string \<Rightarrow> bool" where
  "role_ok s \<longleftrightarrow> s = ''admin'' \<or> s = ''viewer''"

definition event_ok :: "string \<Rightarrow> bool" where
  "event_ok s \<longleftrightarrow> s = ''connected'' \<or> s = ''disconnected''"

definition sql_insert_interface :: "iface \<Rightarrow> db \<Rightarrow> constraint + db" where
  "sql_insert_interface i d =
     (if \<not> iface_type_ok (if_Type i) then Inl CheckFailed
      else if has_row if_ID (if_ID i) (t_interfaces d) then Inl UniqueFailed
      else Inr (d\<lparr>t_interfaces := t_interfaces d @ [i]\<rparr>))"

definition sql_update_interface :: "iface \<Rightarrow> db \<Rightarrow> constraint + db" where
  "sql_update_interface i d =
     (if has_row if_ID (if_ID i) (t_interfaces d) \<and> \<not> iface_type_ok (if_Type i) then Inl CheckFailed
      else Inr (d\<lparr>t_interfaces := set_rows if_ID (if_ID i)
                   (\<lambda>r. i\<lparr>if_CreatedAt := if_CreatedAt r\<rparr>) (t_interfaces d)\<rparr>))"

text \<open>Deleting an interface deletes its peers, and deleting a peer its connection logs.\<close>

definition sql_delete_interface :: "bool \<Rightarrow> string \<Rightarrow> db \<Rightarrow> db" where
  "sql_delete_interface fk k d =
     (let d' = d\<lparr>t_interfaces := del_rows if_ID k (t_interfaces d)\<rparr> in
      if fk then
        d'\<lparr>t_peers := del_rows p_InterfaceID k (t_peers d),
           t_logs := filter (\<lambda>l. \<not> list_ex (\<lambda>p. p_ID p = cl_PeerID l \<and> p_InterfaceID p = k) (t_peers d))
                       (t_logs d)\<rparr>
      else d')"

text \<open>The columns that \<open>CreatePeer\<close> does not name get their defaults.\<close>

definition inserted_peer :: "peer \<Rightarrow> peer" where
  "inserted_peer p = p\<lparr>p_LastHandshake := None, p_TransferRx := 0, p_TransferTx := 0\<rparr>"

definition sql_insert_peer :: "bool \<Rightarrow> peer \<Rightarrow> db \<Rightarrow> constraint + db" where
  "sql_insert_peer fk p d =
     (if \<not> peer_type_ok (p_Type p) then Inl CheckFailed
      else if has_row p_ID (p_ID p) (t_peers d) \<or> has_row p_PublicKey (p_PublicKey p) (t_peers d)
        then Inl UniqueFailed
      else if fk \<and> \<not> has_row if_ID (p_InterfaceID p) (t_interfaces d) then Inl ForeignKeyFailed
      else Inr (d\<lparr>t_peers := t_peers d @ [inserted_peer p]\<rparr>))"

definition sql_update_peer :: "bool \<Rightarrow> peer \<Rightarrow> db \<Rightarrow> constraint + db" where
  "sql_update_peer fk p d =
     (if \<not> has_row p_ID (p_ID p) (t_peers d) then Inr d
      else if \<not> peer_type_ok (p_Type p) then Inl CheckFailed
      else if list_ex (\<lambda>r. p_ID r \<noteq> p_ID p \<and> p_PublicKey r = p_PublicKey p) (t_peers d)
        then Inl UniqueFailed
      else if fk \<and> \<not> has_row if_ID (p_InterfaceID p) (t_interfaces d) then Inl ForeignKeyFailed
      else Inr (d\<lparr>t_peers := set_rows p_ID (p_ID p)
                   (\<lambda>r. p\<lparr>p_CreatedAt := p_CreatedAt r\<rparr>) (t_peers d)\<rparr>))"

definition sql_delete_peer :: "bool \<Rightarrow> string \<Rightarrow> db \<Rightarrow> db" where
  "sql_delete_peer fk k d =
     (let d' = d\<lparr>t_peers := del_rows p_ID k (t_peers d)\<rparr>
      in if fk then d'\<lparr>t_logs := del_rows cl_PeerID k (t_logs d)\<rparr> else d')"

definition oidc_identity_taken :: "user \<Rightarrow> user list \<Rightarrow> bool" where
  "oidc_identity_taken u t \<longleftrightarrow> u_OIDCProvider u \<noteq> [] \<and>
     list_ex (\<lambda>r. u_OIDCProvider r = u_OIDCProvider u \<and> u_OIDCSubject r = u_OIDCSubject u) t"

text \<open>\<open>OIDCIssuer\<close> is not a column.\<close>

definition stored_user :: "user \<Rightarrow> user" where "stored_user u = u\<lparr>u_OIDCIssuer := []\<rparr>"

definition sql_insert_user :: "user \<Rightarrow> db \<Rightarrow> constraint + db" where
  "sql_insert_user u d =
     (if \<not> role_ok (u_Role u) then Inl CheckFailed
      else if has_row u_ID (u_ID u) (t_users d) \<or> has_row u_Username (u_Username u) (t_users d)
        \<or> oidc_identity_taken u (t_users d) then Inl UniqueFailed
      else Inr (d\<lparr>t_users := t_users d @ [stored_user u]\<rparr>))"

definition sql_update_user :: "user \<Rightarrow> db \<Rightarrow> constraint + db" where
  "sql_update_user u d =
     (let others = del_rows u_ID (u_ID u) (t_users d) in
      if \<not> has_row u_ID (u_ID u) (t_users d) then Inr d
      else if \<not> role_ok (u_Role u) then Inl CheckFailed
      else if has_row u_Username (u_Username u) others \<or> oidc_identity_taken u others then Inl UniqueFailed
      else Inr (d\<lparr>t_users := set_rows u_ID (u_ID u)
                   (\<lambda>r. (stored_user u)\<lparr>u_CreatedAt := u_CreatedAt r\<rparr>) (t_users d)\<rparr>))"

definition sql_delete_user :: "bool \<Rightarrow> string \<Rightarrow> db \<Rightarrow> db" where
  "sql_delete_user fk k d =
     (let d' = d\<lparr>t_users := del_rows u_ID k (t_users d)\<rparr>
      in if fk then d'\<lparr>t_sessions := del_rows se_UserID k (t_sessions d)\<rparr> else d')"

definition sql_insert_session :: "bool \<Rightarrow> session \<Rightarrow> db \<Rightarrow> constraint + db" where
  "sql_insert_session fk s d =
     (if has_row se_ID (se_ID s) (t_sessions d) then Inl UniqueFailed
      else if fk \<and> \<not> has_row u_ID (se_UserID s) (t_users d) then Inl ForeignKeyFailed
      else Inr (d\<lparr>t_sessions := t_sessions d @ [s]\<rparr>))"

definition sql_touch_session :: "string \<Rightarrow> time \<Rightarrow> db \<Rightarrow> db" where
  "sql_touch_session k now d =
     d\<lparr>t_sessions := set_rows se_ID k (\<lambda>r. r\<lparr>se_LastSeenAt := now\<rparr>) (t_sessions d)\<rparr>"

definition sql_set_setting :: "string \<Rightarrow> string \<Rightarrow> db \<Rightarrow> db" where
  "sql_set_setting k v d =
     d\<lparr>t_settings := (if has_row fst k (t_settings d)
        then set_rows fst k (\<lambda>_. (k, v)) (t_settings d) else t_settings d @ [(k, v)])\<rparr>"

definition sql_insert_provider :: "oidc_provider \<Rightarrow> db \<Rightarrow> constraint + db" where
  "sql_insert_provider p d =
     (if has_row op_ID (op_ID p) (t_providers d) \<or> has_row op_Name (op_Name p) (t_providers d)
        then Inl UniqueFailed
      else Inr (d\<lparr>t_providers := t_providers d @ [p]\<rparr>))"

definition sql_update_provider :: "oidc_provider \<Rightarrow> db \<Rightarrow> constraint + db" where
  "sql_update_provider p d =
     (if has_row op_ID (op_ID p) (t_providers d)
         \<and> has_row op_Name (op_Name p) (del_rows op_ID (op_ID p) (t_providers d)) then Inl UniqueFailed
      else Inr (d\<lparr>t_providers := set_rows op_ID (op_ID p)
                   (\<lambda>r. p\<lparr>op_CreatedAt := op_CreatedAt r\<rparr>) (t_providers d)\<rparr>))"

definition sql_insert_state :: "oidc_state \<Rightarrow> db \<Rightarrow> constraint + db" where
  "sql_insert_state s d =
     (if has_row os_State (os_State s) (t_states d) then Inl UniqueFailed
      else Inr (d\<lparr>t_states := t_states d @ [s]\<rparr>))"

text \<open>\<open>peer_name\<close> and \<open>duration\<close> are not columns of \<open>connection_logs\<close>.\<close>

definition sql_insert_log :: "bool \<Rightarrow> conn_log \<Rightarrow> db \<Rightarrow> constraint + db" where
  "sql_insert_log fk l d =
     (if \<not> event_ok (cl_Event l) then Inl CheckFailed
      else if fk \<and> \<not> has_row p_ID (cl_PeerID l) (t_peers d) then Inl ForeignKeyFailed
      else Inr (d\<lparr>t_logs := t_logs d @ [l\<lparr>cl_ID := next_log_id d, cl_PeerName := [], cl_Duration := 0\<rparr>],
                  next_log_id := next_log_id d + 1\<rparr>))"

section \<open>The contract of a keyed table\<close>

locale db_table =
  fixes get :: "'k \<Rightarrow> db \<Rightarrow> 'r option"
    and ins :: "'r \<Rightarrow> db \<Rightarrow> constraint + db"
    and del :: "'k \<Rightarrow> db \<Rightarrow> db"
    and key :: "'r \<Rightarrow> 'k"
    and stored :: "'r \<Rightarrow> 'r"
  assumes get_ins: "ins r d = Inr d' \<Longrightarrow> get k d' = (if k = key r then Some (stored r) else get k d)"
    and ins_taken: "get (key r) d \<noteq> None \<Longrightarrow> \<exists>c. ins r d = Inl c"
    and get_del: "get k (del j d) = (if k = j then None else get k d)"
begin

lemma ins_fresh: "ins r d = Inr d' \<Longrightarrow> get (key r) d = None"
  using ins_taken by fastforce

lemma get_after_ins: "ins r d = Inr d' \<Longrightarrow> get (key r) d' = Some (stored r)"
  by (simp add: get_ins)

lemma ins_twice: "ins r d = Inr d' \<Longrightarrow> key s = key r \<Longrightarrow> \<exists>c. ins s d' = Inl c"
  by (rule ins_taken) (simp add: get_ins)

lemma del_undoes_ins: "ins r d = Inr d' \<Longrightarrow> get k (del (key r) d') = get k d"
  using ins_fresh [of r d d'] by (simp add: get_ins get_del)

lemma del_idem: "get k (del j (del j d)) = get k (del j d)"
  by (simp add: get_del)

end

definition get_iface :: "string \<Rightarrow> db \<Rightarrow> iface option" where
  "get_iface k d = row if_ID k (t_interfaces d)"

definition get_peer :: "string \<Rightarrow> db \<Rightarrow> peer option" where
  "get_peer k d = row p_ID k (t_peers d)"

definition get_user :: "string \<Rightarrow> db \<Rightarrow> user option" where
  "get_user k d = row u_ID k (t_users d)"

definition get_session :: "string \<Rightarrow> db \<Rightarrow> session option" where
  "get_session k d = row se_ID k (t_sessions d)"

definition get_provider :: "string \<Rightarrow> db \<Rightarrow> oidc_provider option" where
  "get_provider k d = row op_ID k (t_providers d)"

definition get_state :: "string \<Rightarrow> db \<Rightarrow> oidc_state option" where
  "get_state k d = row os_State k (t_states d)"

text \<open>\<open>SELECT value FROM settings WHERE key = ?\<close>, with the empty string for no row.\<close>

definition get_setting :: "string \<Rightarrow> db \<Rightarrow> string" where
  "get_setting k d = (case row fst k (t_settings d) of None \<Rightarrow> [] | Some (_, v) \<Rightarrow> v)"

definition sql_delete_session :: "string \<Rightarrow> db \<Rightarrow> db" where
  "sql_delete_session k d = d\<lparr>t_sessions := del_rows se_ID k (t_sessions d)\<rparr>"

definition sql_delete_provider :: "string \<Rightarrow> db \<Rightarrow> db" where
  "sql_delete_provider k d = d\<lparr>t_providers := del_rows op_ID k (t_providers d)\<rparr>"

definition sql_delete_state :: "string \<Rightarrow> db \<Rightarrow> db" where
  "sql_delete_state k d = d\<lparr>t_states := del_rows os_State k (t_states d)\<rparr>"

lemmas get_defs = get_iface_def get_peer_def get_user_def get_session_def get_provider_def
  get_state_def

lemma row_taken: "row key k t \<noteq> None \<longleftrightarrow> has_row key k t"
  by (simp add: row_None has_row_iff)

lemma row_not_has: "\<not> has_row key k t \<Longrightarrow> row key k t = None"
  by (simp add: row_None has_row_iff)

lemma row_has: "row key k t = Some r \<Longrightarrow> has_row key k t"
  using row_taken by fastforce

interpretation interfaces: db_table get_iface sql_insert_interface "sql_delete_interface fk" if_ID "\<lambda>r. r"
  for fk
  by unfold_locales
    (auto simp: get_defs sql_insert_interface_def sql_delete_interface_def row_append row_del_rows
      row_has row_not_has Let_def split: if_splits option.splits)

interpretation peers: db_table get_peer "sql_insert_peer fk" "sql_delete_peer fk" p_ID inserted_peer
  for fk
  by unfold_locales
    (auto simp: get_defs sql_insert_peer_def sql_delete_peer_def row_append row_del_rows
      row_has row_not_has Let_def inserted_peer_def split: if_splits option.splits)

interpretation users: db_table get_user sql_insert_user "sql_delete_user fk" u_ID stored_user
  for fk
  by unfold_locales
    (auto simp: get_defs sql_insert_user_def sql_delete_user_def row_append row_del_rows
      row_has row_not_has Let_def stored_user_def split: if_splits option.splits)

interpretation sessions: db_table get_session "sql_insert_session fk" sql_delete_session se_ID "\<lambda>r. r"
  for fk
  by unfold_locales
    (auto simp: get_defs sql_insert_session_def sql_delete_session_def row_append row_del_rows
      row_has row_not_has Let_def split: if_splits option.splits)

interpretation providers: db_table get_provider sql_insert_provider sql_delete_provider op_ID "\<lambda>r. r"
  by unfold_locales
    (auto simp: get_defs sql_insert_provider_def sql_delete_provider_def row_append row_del_rows
      row_has row_not_has Let_def split: if_splits option.splits)

interpretation states: db_table get_state sql_insert_state sql_delete_state os_State "\<lambda>r. r"
  by unfold_locales
    (auto simp: get_defs sql_insert_state_def sql_delete_state_def row_append row_del_rows
      row_has row_not_has Let_def split: if_splits option.splits)

lemma sql_update_peer_row:
  assumes "sql_update_peer fk p d = Inr d'" and "get_peer (p_ID p) d = Some q"
  shows "d' = d\<lparr>t_peers := set_rows p_ID (p_ID p) (\<lambda>r. p\<lparr>p_CreatedAt := p_CreatedAt r\<rparr>) (t_peers d)\<rparr>"
    and "get_peer j d' = (if j = p_ID p then Some (p\<lparr>p_CreatedAt := p_CreatedAt q\<rparr>) else get_peer j d)"
proof -
  have "has_row p_ID (p_ID p) (t_peers d)" using assms(2) row_has by (auto simp: get_peer_def)
  then show d': "d' = d\<lparr>t_peers := set_rows p_ID (p_ID p) (\<lambda>r. p\<lparr>p_CreatedAt := p_CreatedAt r\<rparr>) (t_peers d)\<rparr>"
    using assms(1) by (auto simp: sql_update_peer_def split: if_splits)
  show "get_peer j d' = (if j = p_ID p then Some (p\<lparr>p_CreatedAt := p_CreatedAt q\<rparr>) else get_peer j d)"
    using assms(2) by (simp add: d' get_peer_def row_set_rows)
qed

end
