(* ===== verification/Store.thy ===== *)
theory Store
  imports Tables
begin

text \<open>
  The data access layer: \<^verbatim>\<open>SQLiteStore\<close> of internal/store/store.go, store_users.go,
  store_settings.go and store_logs.go, one definition per method of the \<^verbatim>\<open>Store\<close> interface.

  A method that fills in fields of the struct it is given (identifiers, timestamps) returns the
  updated struct. A statement is atomic. It may fail in the driver (\<open>db_fault\<close>) or because of a
  constraint of the schema. Timestamps are stored in UTC, so that the order of the stored texts
  is the order of time; rows with equal sort keys come in the order of insertion.
\<close>

section \<open>Statements through database/sql\<close>

fun fault_text :: "fault \<Rightarrow> string" where
  "fault_text (StmtFault m) = m"
| "fault_text (ScanFault n m) = m"
| "fault_text (IterFault n m) = m"

text \<open>\<open>db.Exec\<close>\<close>

definition exec_stmt :: "env \<Rightarrow> (bool \<Rightarrow> db \<Rightarrow> constraint + db) \<Rightarrow> (error + unit) io" where
  "exec_stmt env f = State (\<lambda>w.
     let w' = w\<lparr>tick := Suc (tick w)\<rparr> in
     case db_fault env (tick w) of
       Some x \<Rightarrow> (Inl (Err (fault_text x)), w')
     | None \<Rightarrow> (case f (fk_on env (tick w)) (wdb w) of
           Inl c \<Rightarrow> (Inl (SqlConstraint c), w')
         | Inr d \<Rightarrow> (Inr (), w'\<lparr>wdb := d\<rparr>)))"

text \<open>\<open>db.QueryRow(...).Scan(...)\<close>\<close>

definition query_row :: "env \<Rightarrow> (db \<Rightarrow> 'a) \<Rightarrow> (error + 'a) io" where
  "query_row env f = State (\<lambda>w.
     (case db_fault env (tick w) of Some x \<Rightarrow> Inl (Err (fault_text x)) | None \<Rightarrow> Inr (f (wdb w)),
      w\<lparr>tick := Suc (tick w)\<rparr>))"

text \<open>
  \<open>db.Query\<close> and the loop over \<open>rows.Next()\<close> that appends each row; \<open>q\<close> and \<open>s\<close> are the texts
  that wrap an error of the query and of a scan.
\<close>

definition query_partial ::
  "env \<Rightarrow> string \<Rightarrow> string \<Rightarrow> (db \<Rightarrow> 'r list) \<Rightarrow> ('r list \<times> error option) io" where
  "query_partial env q s f = State (\<lambda>w.
     (case db_fault env (tick w) of
        None \<Rightarrow> (f (wdb w), None)
      | Some (StmtFault m) \<Rightarrow> ([], Some (Wrap q (Err m)))
      | Some (ScanFault n m) \<Rightarrow>
          if n < length (f (wdb w)) then ([], Some (Wrap s (Err m))) else (f (wdb w), None)
      | Some (IterFault n m) \<Rightarrow> (take n (f (wdb w)), Some (Err m)),
      w\<lparr>tick := Suc (tick w)\<rparr>))"

text \<open>The rows when the caller drops them on an error, as all but one do.\<close>

definition query_rows :: "env \<Rightarrow> string \<Rightarrow> string \<Rightarrow> (db \<Rightarrow> 'r list) \<Rightarrow> (error + 'r list) io" where
  "query_rows env q s f = State_Monad.bind (query_partial env q s f) (\<lambda>(rows, e).
     State_Monad.return (case e of Some x \<Rightarrow> Inl x | None \<Rightarrow> Inr rows))"

text \<open>A statement with no constraint to violate.\<close>

abbreviation always :: "(db \<Rightarrow> db) \<Rightarrow> bool \<Rightarrow> db \<Rightarrow> constraint + db" where
  "always f \<equiv> \<lambda>_ d. Inr (f d)"

lemma run_exec_stmt [run_simps]:
  "run_state (exec_stmt env f) w =
     (case db_fault env (tick w) of
       Some x \<Rightarrow> (Inl (Err (fault_text x)), w\<lparr>tick := Suc (tick w)\<rparr>)
     | None \<Rightarrow> (case f (fk_on env (tick w)) (wdb w) of
           Inl c \<Rightarrow> (Inl (SqlConstraint c), w\<lparr>tick := Suc (tick w)\<rparr>)
         | Inr d \<Rightarrow> (Inr (), w\<lparr>tick := Suc (tick w), wdb := d\<rparr>)))"
  by (simp add: exec_stmt_def Let_def split: option.split sum.split)

lemma run_query_row [run_simps]:
  "run_state (query_row env f) w =
     (case db_fault env (tick w) of Some x \<Rightarrow> Inl (Err (fault_text x)) | None \<Rightarrow> Inr (f (wdb w)),
      w\<lparr>tick := Suc (tick w)\<rparr>)"
  by (simp add: query_row_def)

lemma run_query_partial [run_simps]:
  "run_state (query_partial env q s f) w =
     (case db_fault env (tick w) of
        None \<Rightarrow> (f (wdb w), None)
      | Some (StmtFault m) \<Rightarrow> ([], Some (Wrap q (Err m)))
      | Some (ScanFault n m) \<Rightarrow>
          if n < length (f (wdb w)) then ([], Some (Wrap s (Err m))) else (f (wdb w), None)
      | Some (IterFault n m) \<Rightarrow> (take n (f (wdb w)), Some (Err m)),
      w\<lparr>tick := Suc (tick w)\<rparr>)"
  by (simp add: query_partial_def)

lemma run_query_rows [run_simps]:
  "run_state (query_rows env q s f) w =
     (case db_fault env (tick w) of
        None \<Rightarrow> Inr (f (wdb w))
      | Some (StmtFault m) \<Rightarrow> Inl (Wrap q (Err m))
      | Some (ScanFault n m) \<Rightarrow> if n < length (f (wdb w)) then Inl (Wrap s (Err m)) else Inr (f (wdb w))
      | Some (IterFault n m) \<Rightarrow> Inl (Err m),
      w\<lparr>tick := Suc (tick w)\<rparr>)"
  by (simp add: query_rows_def run_query_partial split: option.split fault.split)

lemma keeps_query_partial [keeps_intros]: "keeps (on_db I) (query_partial env q s f)"
  by (simp add: valid_def run_query_partial)

lemma keeps_query_row [keeps_intros]: "keeps (on_db I) (query_row env f)"
  by (simp add: valid_def run_query_row)

lemma keeps_query_rows [keeps_intros]: "keeps (on_db I) (query_rows env q s f)"
  by (simp add: valid_def run_query_rows)

lemma keeps_exec_stmt:
  assumes "\<And>t d d'. I d \<Longrightarrow> f (fk_on env t) d = Inr d' \<Longrightarrow> I d'"
  shows "keeps (on_db I) (exec_stmt env f)"
  by (auto simp: valid_def run_exec_stmt dest: assms split: option.split sum.split)

section \<open>Interfaces\<close>

definition CreateInterface :: "env \<Rightarrow> iface \<Rightarrow> (error + iface) io" where
  "CreateInterface env i =
     State_Monad.bind (time_now env) (\<lambda>now.
     let i' = i\<lparr>if_CreatedAt := now, if_UpdatedAt := now\<rparr> in
     check ''inserting interface'' (exec_stmt env (\<lambda>_. sql_insert_interface i')) (\<lambda>_. ok i'))"

definition GetInterface :: "env \<Rightarrow> string \<Rightarrow> (error + iface option) io" where
  "GetInterface env k = check ''querying interface'' (query_row env (get_iface k)) ok"

definition ListInterfaces :: "env \<Rightarrow> (error + iface list) io" where
  "ListInterfaces env = query_rows env ''querying interfaces'' ''scanning interface''
     (\<lambda>d. sort_key if_CreatedAt (t_interfaces d))"

definition UpdateInterface :: "env \<Rightarrow> iface \<Rightarrow> (error + iface) io" where
  "UpdateInterface env i =
     State_Monad.bind (time_now env) (\<lambda>now.
     let i' = i\<lparr>if_UpdatedAt := now\<rparr> in
     check ''updating interface'' (exec_stmt env (\<lambda>_. sql_update_interface i')) (\<lambda>_. ok i'))"

definition DeleteInterface :: "env \<Rightarrow> string \<Rightarrow> (error + unit) io" where
  "DeleteInterface env k =
     check ''deleting interface'' (exec_stmt env (\<lambda>fk d. Inr (sql_delete_interface fk k d))) ok"

section \<open>Peers\<close>

text \<open>\<open>if x.ID == "" { x.ID = uuid.New().String() }\<close>\<close>

definition fresh_id :: "env \<Rightarrow> string \<Rightarrow> string io" where
  "fresh_id env k = (if k = [] then ask (uuid_at env) else State_Monad.return k)"

definition CreatePeer :: "env \<Rightarrow> peer \<Rightarrow> (error + peer) io" where
  "CreatePeer env p =
     State_Monad.bind (fresh_id env (p_ID p)) (\<lambda>k.
     State_Monad.bind (time_now env) (\<lambda>now.
     let p' = p\<lparr>p_ID := k, p_CreatedAt := now, p_UpdatedAt := now\<rparr> in
     check ''inserting peer'' (exec_stmt env (\<lambda>fk. sql_insert_peer fk p')) (\<lambda>_. ok p')))"

definition GetPeer :: "env \<Rightarrow> string \<Rightarrow> (error + peer option) io" where
  "GetPeer env k = check ''querying peer'' (query_row env (get_peer k)) ok"

definition peers_of :: "string \<Rightarrow> db \<Rightarrow> peer list" where
  "peers_of k d = sort_key p_CreatedAt (filter (\<lambda>p. p_InterfaceID p = k) (t_peers d))"

definition ListPeers :: "env \<Rightarrow> string \<Rightarrow> (error + peer list) io" where
  "ListPeers env k = query_rows env ''querying peers'' ''scanning peer'' (peers_of k)"

definition ListAllPeers :: "env \<Rightarrow> (error + peer list) io" where
  "ListAllPeers env = query_rows env ''querying all peers'' ''scanning peer''
     (\<lambda>d. sort_key p_CreatedAt (t_peers d))"

definition UpdatePeer :: "env \<Rightarrow> peer \<Rightarrow> (error + peer) io" where
  "UpdatePeer env p =
     State_Monad.bind (time_now env) (\<lambda>now.
     let p' = p\<lparr>p_UpdatedAt := now\<rparr> in
     check ''updating peer'' (exec_stmt env (\<lambda>fk. sql_update_peer fk p')) (\<lambda>_. ok p'))"

definition DeletePeer :: "env \<Rightarrow> string \<Rightarrow> (error + unit) io" where
  "DeletePeer env k =
     check ''deleting peer'' (exec_stmt env (\<lambda>fk d. Inr (sql_delete_peer fk k d))) ok"

section \<open>Tunnel addresses\<close>

datatype scan_result = Found | Ended | Broke

text \<open>
  The loop over \<open>(id, address)\<close> rows of \<open>IsTunnelIPInUse\<close>: stop at the first other row with the
  target address, or at the row whose scan fails.
\<close>

fun scan_addresses :: "string \<Rightarrow> string \<Rightarrow> nat option \<Rightarrow> (string \<times> string) list \<Rightarrow> scan_result" where
  "scan_addresses tgt x n [] = Ended"
| "scan_addresses tgt x n ((k, a) # rs) =
     (if n = Some 0 then Broke
      else if k \<noteq> x \<and> ExtractHostIP a = tgt then Found
      else scan_addresses tgt x (map_option (\<lambda>m. m - 1) n) rs)"

definition query_addresses :: "env \<Rightarrow> string \<Rightarrow> string \<Rightarrow> string \<Rightarrow> string
    \<Rightarrow> (db \<Rightarrow> (string \<times> string) list) \<Rightarrow> (error + bool) io" where
  "query_addresses env q s tgt x f = State (\<lambda>w.
     (case db_fault env (tick w) of
        None \<Rightarrow> Inr (scan_addresses tgt x None (f (wdb w)) = Found)
      | Some (StmtFault m) \<Rightarrow> Inl (Wrap q (Err m))
      | Some (ScanFault n m) \<Rightarrow>
          (case scan_addresses tgt x (Some n) (f (wdb w)) of
             Found \<Rightarrow> Inr True | Ended \<Rightarrow> Inr False | Broke \<Rightarrow> Inl (Wrap s (Err m)))
      | Some (IterFault n m) \<Rightarrow>
          if scan_addresses tgt x None (take n (f (wdb w))) = Found then Inr True else Inl (Err m),
      w\<lparr>tick := Suc (tick w)\<rparr>))"

definition peer_addresses :: "db \<Rightarrow> (string \<times> string) list" where
  "peer_addresses d = map (\<lambda>p. (p_ID p, p_Address p)) (filter (\<lambda>p. p_Address p \<noteq> []) (t_peers d))"

definition iface_addresses :: "db \<Rightarrow> (string \<times> string) list" where
  "iface_addresses d =
     map (\<lambda>i. (if_ID i, if_Address i)) (filter (\<lambda>i. if_Address i \<noteq> []) (t_interfaces d))"

definition IsTunnelIPInUse :: "env \<Rightarrow> string \<Rightarrow> string \<Rightarrow> string \<Rightarrow> (error + bool) io" where
  "IsTunnelIPInUse env ip excludePeerID excludeIfaceID =
     (let tgt = ExtractHostIP ip in
      if tgt = [] then ok False
      else attempt (query_addresses env ''querying peer addresses'' ''scanning peer address''
               tgt excludePeerID peer_addresses) fail (\<lambda>used.
           if used then ok True
           else query_addresses env ''querying interface addresses'' ''scanning interface address''
               tgt excludeIfaceID iface_addresses))"

lemma run_query_addresses [run_simps]:
  "run_state (query_addresses env q s tgt x f) w =
     (case db_fault env (tick w) of
        None \<Rightarrow> Inr (scan_addresses tgt x None (f (wdb w)) = Found)
      | Some (StmtFault m) \<Rightarrow> Inl (Wrap q (Err m))
      | Some (ScanFault n m) \<Rightarrow>
          (case scan_addresses tgt x (Some n) (f (wdb w)) of
             Found \<Rightarrow> Inr True | Ended \<Rightarrow> Inr False | Broke \<Rightarrow> Inl (Wrap s (Err m)))
      | Some (IterFault n m) \<Rightarrow>
          if scan_addresses tgt x None (take n (f (wdb w))) = Found then Inr True else Inl (Err m),
      w\<lparr>tick := Suc (tick w)\<rparr>)"
  by (simp add: query_addresses_def)

lemma keeps_query_addresses [keeps_intros]: "keeps (on_db I) (query_addresses env q s tgt x f)"
  by (simp add: valid_def run_query_addresses)

section \<open>Users\<close>

definition CreateUser :: "env \<Rightarrow> user \<Rightarrow> (error + user) io" where
  "CreateUser env u =
     State_Monad.bind (fresh_id env (u_ID u)) (\<lambda>k.
     State_Monad.bind (time_now env) (\<lambda>now.
     let u' = u\<lparr>u_ID := k, u_CreatedAt := now, u_UpdatedAt := now\<rparr> in
     check ''inserting user'' (exec_stmt env (\<lambda>_. sql_insert_user u')) (\<lambda>_. ok u')))"

definition GetUser :: "env \<Rightarrow> string \<Rightarrow> (error + user option) io" where
  "GetUser env k = check ''querying user'' (query_row env (get_user k)) ok"

definition GetUserByUsername :: "env \<Rightarrow> string \<Rightarrow> (error + user option) io" where
  "GetUserByUsername env n =
     check ''querying user by username'' (query_row env (\<lambda>d. row u_Username n (t_users d))) ok"

definition GetUserByOIDCIdentity :: "env \<Rightarrow> string \<Rightarrow> string \<Rightarrow> (error + user option) io" where
  "GetUserByOIDCIdentity env provider subject =
     check ''querying user by OIDC identity''
       (query_row env (\<lambda>d. List.find (\<lambda>u. u_OIDCProvider u = provider \<and> u_OIDCSubject u = subject)
          (t_users d))) ok"

definition ListUsers :: "env \<Rightarrow> (error + user list) io" where
  "ListUsers env = query_rows env ''querying users'' ''scanning user''
     (\<lambda>d. sort_key u_CreatedAt (t_users d))"

definition UpdateUser :: "env \<Rightarrow> user \<Rightarrow> (error + user) io" where
  "UpdateUser env u =
     State_Monad.bind (time_now env) (\<lambda>now.
     let u' = u\<lparr>u_UpdatedAt := now\<rparr> in
     check ''updating user'' (exec_stmt env (\<lambda>_. sql_update_user u')) (\<lambda>_. ok u'))"

definition DeleteUser :: "env \<Rightarrow> string \<Rightarrow> (error + unit) io" where
  "DeleteUser env k =
     check ''deleting user'' (exec_stmt env (\<lambda>fk d. Inr (sql_delete_user fk k d))) ok"

definition CountUsers :: "env \<Rightarrow> (error + nat) io" where
  "CountUsers env = check ''counting users'' (query_row env (\<lambda>d. length (t_users d))) ok"

section \<open>Sessions\<close>

definition CreateSession :: "env \<Rightarrow> session \<Rightarrow> (error + session) io" where
  "CreateSession env s =
     State_Monad.bind (time_now env) (\<lambda>now.
     let s' = s\<lparr>se_CreatedAt := now, se_LastSeenAt := now\<rparr> in
     check ''inserting session'' (exec_stmt env (\<lambda>fk. sql_insert_session fk s')) (\<lambda>_. ok s'))"

definition GetSession :: "env \<Rightarrow> string \<Rightarrow> (error + session option) io" where
  "GetSession env k = check ''querying session'' (query_row env (get_session k)) ok"

definition TouchSession :: "env \<Rightarrow> string \<Rightarrow> (error + unit) io" where
  "TouchSession env k =
     State_Monad.bind (time_now env) (\<lambda>now.
     check ''touching session'' (exec_stmt env (always (sql_touch_session k now))) ok)"

definition DeleteSession :: "env \<Rightarrow> string \<Rightarrow> (error + unit) io" where
  "DeleteSession env k =
     check ''deleting session'' (exec_stmt env (always (sql_delete_session k))) ok"

definition sql_delete_expired_sessions :: "time \<Rightarrow> db \<Rightarrow> db" where
  "sql_delete_expired_sessions now d =
     d\<lparr>t_sessions := filter (\<lambda>s. \<not> se_ExpiresAt s < now) (t_sessions d)\<rparr>"

definition DeleteExpiredSessions :: "env \<Rightarrow> (error + unit) io" where
  "DeleteExpiredSessions env =
     State_Monad.bind (time_now env) (\<lambda>now.
     check ''deleting expired sessions'' (exec_stmt env (always (sql_delete_expired_sessions now))) ok)"

definition sql_delete_user_sessions :: "string \<Rightarrow> db \<Rightarrow> db" where
  "sql_delete_user_sessions k d = d\<lparr>t_sessions := del_rows se_UserID k (t_sessions d)\<rparr>"

definition DeleteUserSessions :: "env \<Rightarrow> string \<Rightarrow> (error + unit) io" where
  "DeleteUserSessions env k =
     check ''deleting user sessions'' (exec_stmt env (always (sql_delete_user_sessions k))) ok"

section \<open>Settings\<close>

definition GetSetting :: "env \<Rightarrow> string \<Rightarrow> (error + string) io" where
  "GetSetting env k = check (''querying setting '' @ k) (query_row env (get_setting k)) ok"

definition SetSetting :: "env \<Rightarrow> string \<Rightarrow> string \<Rightarrow> (error + unit) io" where
  "SetSetting env k v =
     State_Monad.bind (time_now env) (\<lambda>now.
     check (''setting '' @ k) (exec_stmt env (always (sql_set_setting k v))) ok)"

section \<open>OIDC providers and login states\<close>

definition CreateOIDCProvider :: "env \<Rightarrow> oidc_provider \<Rightarrow> (error + oidc_provider) io" where
  "CreateOIDCProvider env p =
     State_Monad.bind (fresh_id env (op_ID p)) (\<lambda>k.
     State_Monad.bind (time_now env) (\<lambda>now.
     let p' = p\<lparr>op_ID := k, op_CreatedAt := now, op_UpdatedAt := now\<rparr> in
     check ''inserting OIDC provider'' (exec_stmt env (\<lambda>_. sql_insert_provider p')) (\<lambda>_. ok p')))"

definition GetOIDCProvider :: "env \<Rightarrow> string \<Rightarrow> (error + oidc_provider option) io" where
  "GetOIDCProvider env k = check ''querying OIDC provider'' (query_row env (get_provider k)) ok"

definition GetOIDCProviderByName :: "env \<Rightarrow> string \<Rightarrow> (error + oidc_provider option) io" where
  "GetOIDCProviderByName env n =
     check ''querying OIDC provider by name'' (query_row env (\<lambda>d. row op_Name n (t_providers d))) ok"

definition ListOIDCProviders :: "env \<Rightarrow> (error + oidc_provider list) io" where
  "ListOIDCProviders env = query_rows env ''querying OIDC providers'' ''scanning OIDC provider''
     (\<lambda>d. sort_key op_Name (t_providers d))"

definition UpdateOIDCProvider :: "env \<Rightarrow> oidc_provider \<Rightarrow> (error + oidc_provider) io" where
  "UpdateOIDCProvider env p =
     State_Monad.bind (time_now env) (\<lambda>now.
     let p' = p\<lparr>op_UpdatedAt := now\<rparr> in
     check ''updating OIDC provider'' (exec_stmt env (\<lambda>_. sql_update_provider p')) (\<lambda>_. ok p'))"

definition DeleteOIDCProvider :: "env \<Rightarrow> string \<Rightarrow> (error + unit) io" where
  "DeleteOIDCProvider env k =
     check ''deleting OIDC provider'' (exec_stmt env (always (sql_delete_provider k))) ok"

definition CreateOIDCState :: "env \<Rightarrow> oidc_state \<Rightarrow> (error + oidc_state) io" where
  "CreateOIDCState env s =
     State_Monad.bind (time_now env) (\<lambda>now.
     let s' = s\<lparr>os_CreatedAt := now\<rparr> in
     check ''inserting OIDC state'' (exec_stmt env (\<lambda>_. sql_insert_state s')) (\<lambda>_. ok s'))"

definition GetOIDCState :: "env \<Rightarrow> string \<Rightarrow> (error + oidc_state option) io" where
  "GetOIDCState env k = check ''querying OIDC state'' (query_row env (get_state k)) ok"

definition DeleteOIDCState :: "env \<Rightarrow> string \<Rightarrow> (error + unit) io" where
  "DeleteOIDCState env k =
     check ''deleting OIDC state'' (exec_stmt env (always (sql_delete_state k))) ok"

definition sql_delete_expired_states :: "time \<Rightarrow> db \<Rightarrow> db" where
  "sql_delete_expired_states before d =
     d\<lparr>t_states := filter (\<lambda>s. \<not> os_CreatedAt s < before) (t_states d)\<rparr>"

definition DeleteExpiredOIDCStates :: "env \<Rightarrow> (error + unit) io" where
  "DeleteExpiredOIDCStates env =
     State_Monad.bind (time_now env) (\<lambda>now.
     check ''deleting expired OIDC states''
       (exec_stmt env (always (sql_delete_expired_states (now - 10 * minute)))) ok)"

section \<open>Connection logs\<close>

text \<open>The row that \<open>CreateConnectionLog\<close> wrote has the next identifier.\<close>

definition CreateConnectionLog :: "env \<Rightarrow> conn_log \<Rightarrow> (error + conn_log) io" where
  "CreateConnectionLog env l =
     State_Monad.bind (if is_zero (cl_RecordedAt l) then time_now env
                       else State_Monad.return (cl_RecordedAt l)) (\<lambda>now.
     let l' = l\<lparr>cl_RecordedAt := now\<rparr> in
     State_Monad.bind (gets (\<lambda>w. next_log_id (wdb w))) (\<lambda>k.
     check ''inserting connection log'' (exec_stmt env (\<lambda>fk. sql_insert_log fk l'))
       (\<lambda>_. ok (l'\<lparr>cl_ID := k\<rparr>))))"

text \<open>\<open>LIMIT ? OFFSET ?\<close>: SQLite reads a negative limit as no limit, a negative offset as 0.\<close>

definition limit_offset :: "int \<Rightarrow> int \<Rightarrow> 'a list \<Rightarrow> 'a list" where
  "limit_offset lim off xs =
     (let ys = drop (nat off) xs in if lim < 0 then ys else take (nat lim) ys)"

text \<open>The columns of the joined query, \<open>COALESCE(p.name, '')\<close> included.\<close>

definition joined_log :: "db \<Rightarrow> conn_log \<Rightarrow> conn_log" where
  "joined_log d l = l\<lparr>cl_PeerName := (case get_peer (cl_PeerID l) d of None \<Rightarrow> [] | Some p \<Rightarrow> p_Name p)\<rparr>"

definition logs_page :: "(conn_log \<Rightarrow> bool) \<Rightarrow> int \<Rightarrow> int \<Rightarrow> db \<Rightarrow> conn_log list" where
  "logs_page P lim off d = limit_offset lim off
     (sort_key (\<lambda>l. - cl_RecordedAt l) (map (joined_log d) (filter P (t_logs d))))"

fun computeLogDurations :: "conn_log list \<Rightarrow> conn_log list" where
  "computeLogDurations [] = []"
| "computeLogDurations (l # ls) =
     (if cl_Event l \<noteq> ''disconnected'' then l
      else case List.find (\<lambda>m. cl_PeerID m = cl_PeerID l \<and> cl_Event m = ''connected'') ls of
             None \<Rightarrow> l
           | Some m \<Rightarrow> l\<lparr>cl_Duration := whole_seconds (time_sub (cl_RecordedAt l) (cl_RecordedAt m))\<rparr>)
     # computeLogDurations ls"

definition ListConnectionLogs :: "env \<Rightarrow> string \<Rightarrow> int \<Rightarrow> int \<Rightarrow> (error + conn_log list \<times> int) io" where
  "ListConnectionLogs env k limit offset =
     check ''counting connection logs''
       (query_row env (\<lambda>d. int (length (filter (\<lambda>l. cl_InterfaceID l = k) (t_logs d))))) (\<lambda>total.
     attempt (query_rows env ''querying connection logs'' ''scanning connection log''
         (logs_page (\<lambda>l. cl_InterfaceID l = k) limit offset)) fail (\<lambda>logs.
     ok (computeLogDurations logs, total)))"

definition ListPeerConnectionLogs ::
  "env \<Rightarrow> string \<Rightarrow> int \<Rightarrow> int \<Rightarrow> (error + conn_log list \<times> int) io" where
  "ListPeerConnectionLogs env k limit offset =
     check ''counting peer connection logs''
       (query_row env (\<lambda>d. int (length (filter (\<lambda>l. cl_PeerID l = k) (t_logs d))))) (\<lambda>total.
     attempt (query_rows env ''querying peer connection logs'' ''scanning connection log''
         (logs_page (\<lambda>l. cl_PeerID l = k) limit offset)) fail (\<lambda>logs.
     ok (computeLogDurations logs, total)))"

text \<open>
  The rows of the query of \<open>LastConnectedEvents\<close>: the latest \<open>connected\<close> event of a peer, unless
  a \<open>disconnected\<close> event of the same peer comes after it. The method returns the
  map it has filled so far together with the error.
\<close>

definition open_connections :: "db \<Rightarrow> conn_log list" where
  "open_connections d = filter (\<lambda>l.
     cl_Event l = ''connected''
     \<and> list_all (\<lambda>m. cl_PeerID m = cl_PeerID l \<and> cl_Event m = ''connected'' \<longrightarrow> cl_ID m \<le> cl_ID l) (t_logs d)
     \<and> \<not> list_ex (\<lambda>m. cl_PeerID m = cl_PeerID l \<and> cl_Event m = ''disconnected'' \<and> cl_ID m > cl_ID l)
          (t_logs d)) (t_logs d)"

definition LastConnectedEvents :: "env \<Rightarrow> ((string \<Rightarrow> time option) \<times> error option) io" where
  "LastConnectedEvents env =
     State_Monad.bind (query_partial env ''querying last connected events'' ''scanning last connected event''
        open_connections)
       (\<lambda>(ls, e). State_Monad.return
          (foldl (\<lambda>m l. m(cl_PeerID l \<mapsto> cl_RecordedAt l)) Map.empty ls, e))"

definition sql_delete_old_logs :: "time \<Rightarrow> db \<Rightarrow> db" where
  "sql_delete_old_logs before d = d\<lparr>t_logs := filter (\<lambda>l. \<not> cl_RecordedAt l < before) (t_logs d)\<rparr>"

definition DeleteOldConnectionLogs :: "env \<Rightarrow> time \<Rightarrow> (error + unit) io" where
  "DeleteOldConnectionLogs env before =
     check ''deleting old connection logs'' (exec_stmt env (always (sql_delete_old_logs before))) ok"

section \<open>Methods that only read\<close>

lemma keeps_fresh_id [keeps_intros]: "keeps (on_db J) (fresh_id env k)"
  unfolding fresh_id_def by (intro keeps_intros)

lemma keeps_reads [keeps_intros]:
  "keeps (on_db J) (GetInterface env k)"
  "keeps (on_db J) (ListInterfaces env)"
  "keeps (on_db J) (GetPeer env k)"
  "keeps (on_db J) (ListPeers env k)"
  "keeps (on_db J) (ListAllPeers env)"
  "keeps (on_db J) (IsTunnelIPInUse env ip k j)"
  "keeps (on_db J) (GetUser env k)"
  "keeps (on_db J) (GetUserByUsername env k)"
  "keeps (on_db J) (GetUserByOIDCIdentity env k j)"
  "keeps (on_db J) (ListUsers env)"
  "keeps (on_db J) (CountUsers env)"
  "keeps (on_db J) (GetSession env k)"
  "keeps (on_db J) (GetSetting env k)"
  "keeps (on_db J) (GetOIDCProvider env k)"
  "keeps (on_db J) (GetOIDCProviderByName env k)"
  "keeps (on_db J) (ListOIDCProviders env)"
  "keeps (on_db J) (GetOIDCState env k)"
  "keeps (on_db J) (ListConnectionLogs env k n m)"
  "keeps (on_db J) (ListPeerConnectionLogs env k n m)"
  "keeps (on_db J) (LastConnectedEvents env)"
  unfolding GetInterface_def ListInterfaces_def GetPeer_def ListPeers_def ListAllPeers_def
    IsTunnelIPInUse_def GetUser_def GetUserByUsername_def GetUserByOIDCIdentity_def ListUsers_def
    CountUsers_def GetSession_def GetSetting_def GetOIDCProvider_def GetOIDCProviderByName_def
    ListOIDCProviders_def GetOIDCState_def ListConnectionLogs_def ListPeerConnectionLogs_def
    LastConnectedEvents_def
  by (intro keeps_intros)+

text \<open>An action that leaves the database alone and whose value is read from it.\<close>

definition reads :: "(db \<Rightarrow> 'a) \<Rightarrow> (error + 'a) io \<Rightarrow> bool" where
  "reads f m \<longleftrightarrow> (\<forall>w r w'. run_state m w = (r, w') \<longrightarrow>
     wdb w' = wdb w \<and> (\<forall>x. r = Inr x \<longrightarrow> x = f (wdb w)))"

lemma reads_methods:
  "reads (get_iface k) (GetInterface env k)"
  "reads (get_peer k) (GetPeer env k)"
  "reads (peers_of k) (ListPeers env k)"
  "reads (get_user k) (GetUser env k)"
  "reads (get_session k) (GetSession env k)"
  "reads (get_provider k) (GetOIDCProvider env k)"
  "reads (get_state k) (GetOIDCState env k)"
  "reads (get_setting k) (GetSetting env k)"
  "reads (\<lambda>d. row u_Username k (t_users d)) (GetUserByUsername env k)"
  "reads (\<lambda>d. length (t_users d)) (CountUsers env)"
  unfolding reads_def GetInterface_def GetPeer_def ListPeers_def GetUser_def GetSession_def
    GetOIDCProvider_def GetOIDCState_def GetSetting_def GetUserByUsername_def CountUsers_def
  by (auto simp: run_simps split: option.splits fault.splits if_splits)

lemma readsD: "reads f m \<Longrightarrow> run_state m w = (Inr x, w') \<Longrightarrow> x = f (wdb w) \<and> wdb w' = wdb w"
  by (simp add: reads_def)

lemma reads_wdb: "reads f m \<Longrightarrow> run_state m w = (r, w') \<Longrightarrow> wdb w' = wdb w"
  by (simp add: reads_def)

lemmas GetInterface_result = readsD [OF reads_methods(1)]
lemmas GetPeer_result = readsD [OF reads_methods(2)]
lemmas ListPeers_result = readsD [OF reads_methods(3)]
lemmas GetUser_result = readsD [OF reads_methods(4)]
lemmas GetSession_result = readsD [OF reads_methods(5)]

lemma valid_attempt_reads:
  assumes "reads f m" and "\<And>e. valid (on_db J) (h e) Q"
    and "\<And>x. valid (on_db (\<lambda>d. J d \<and> f d = x)) (k x) Q"
  shows "valid (on_db J) (attempt m h k) Q"
proof (rule valid_attempt [where R = "\<lambda>r w. on_db J w \<and> (\<forall>x. r = Inr x \<longrightarrow> f (wdb w) = x)"])
  show "valid (on_db J) m (\<lambda>r w. on_db J w \<and> (\<forall>x. r = Inr x \<longrightarrow> f (wdb w) = x))"
    using assms(1) by (fastforce simp: valid_def reads_def split: prod.splits)
qed (use assms(2,3) in \<open>simp_all\<close>)

lemma keeps_check_reads:
  assumes "reads f m" and "\<And>x. valid (on_db (\<lambda>d. I d \<and> f d = x)) (k x) (\<lambda>_. on_db I)"
  shows "keeps (on_db I) (check c m k)"
  unfolding check_def using assms by (intro valid_attempt_reads keeps_fail)

lemma valid_exec_stmt:
  assumes "\<And>d. J d \<Longrightarrow> I d" "\<And>t d d'. J d \<Longrightarrow> f (fk_on env t) d = Inr d' \<Longrightarrow> I d'"
  shows "valid (on_db J) (exec_stmt env f) (\<lambda>_. on_db I)"
  using assms by (auto simp: valid_def run_exec_stmt split: option.split sum.split)

lemma Some_row_cases:
  assumes "valid (on_db (\<lambda>d. I d \<and> f d = None)) x Q" "\<And>v. valid (on_db (\<lambda>d. I d \<and> f d = Some v)) (y v) Q"
  shows "valid (on_db (\<lambda>d. I d \<and> f d = r)) (case r of None \<Rightarrow> x | Some v \<Rightarrow> y v) Q"
  using assms by (cases r) auto

lemma UpdatePeer_returns:
  assumes "run_state (UpdatePeer env p) w = (Inr p', w')"
  shows "\<exists>now fk. p' = p\<lparr>p_UpdatedAt := now\<rparr> \<and> sql_update_peer fk p' (wdb w) = Inr (wdb w')
    \<and> net_log w' = net_log w"
  using assms by (auto simp: UpdatePeer_def run_simps returns Let_def split: option.splits sum.splits)

lemma GetPeer_log: "run_state (GetPeer env k) w = (r, w') \<Longrightarrow> net_log w' = net_log w"
  by (auto simp: GetPeer_def run_simps split: option.splits)

end
