(* ===== verification/Schema.thy ===== *)
theory Schema
  imports Store
begin

text \<open>
  What the schema guarantees of the stored data, and the rule by which every operation of the
  program keeps it: the locales \<open>account_invariant\<close> and \<open>net_invariant\<close> have one assumption per SQL
  statement; inside them every method of the store keeps the invariant, and the later theories add
  their own operations. \<open>db_invariant\<close> joins the two and
  is interpreted on the two invariants of the schema: \<open>constraints_ok\<close> (keys, UNIQUE and CHECK),
  which holds whatever happens, and \<open>refs_ok\<close> (foreign keys), which holds as long as every
  connection enforces them.
\<close>

section \<open>Keys, UNIQUE and CHECK\<close>

definition ifaces_ok :: "iface list \<Rightarrow> bool" where
  "ifaces_ok t \<longleftrightarrow> distinct (map if_ID t) \<and> (\<forall>i \<in> set t. iface_type_ok (if_Type i))"

definition peers_ok :: "peer list \<Rightarrow> bool" where
  "peers_ok t \<longleftrightarrow> distinct (map p_ID t) \<and> distinct (map p_PublicKey t)
     \<and> (\<forall>p \<in> set t. peer_type_ok (p_Type p))"

definition same_oidc_identity :: "user \<Rightarrow> user \<Rightarrow> bool" where
  "same_oidc_identity u v \<longleftrightarrow> u_OIDCProvider u \<noteq> [] \<and> u_OIDCProvider u = u_OIDCProvider v
     \<and> u_OIDCSubject u = u_OIDCSubject v"

definition users_ok :: "user list \<Rightarrow> bool" where
  "users_ok t \<longleftrightarrow> distinct (map u_ID t) \<and> distinct (map u_Username t)
     \<and> (\<forall>u \<in> set t. role_ok (u_Role u))
     \<and> (\<forall>u \<in> set t. \<forall>v \<in> set t. same_oidc_identity u v \<longrightarrow> u = v)"

definition providers_ok :: "oidc_provider list \<Rightarrow> bool" where
  "providers_ok t \<longleftrightarrow> distinct (map op_ID t) \<and> distinct (map op_Name t)"

definition logs_ok :: "int \<Rightarrow> conn_log list \<Rightarrow> bool" where
  "logs_ok n t \<longleftrightarrow> sorted_wrt (<) (map cl_ID t) \<and> (\<forall>l \<in> set t. cl_ID l < n \<and> event_ok (cl_Event l))"

definition constraints_ok :: "db \<Rightarrow> bool" where
  "constraints_ok d \<longleftrightarrow> ifaces_ok (t_interfaces d) \<and> peers_ok (t_peers d) \<and> users_ok (t_users d)
     \<and> distinct (map se_ID (t_sessions d)) \<and> distinct (map fst (t_settings d))
     \<and> providers_ok (t_providers d) \<and> distinct (map os_State (t_states d))
     \<and> logs_ok (next_log_id d) (t_logs d)"

lemma constraints_ok_empty: "constraints_ok empty_db"
  by (simp add: constraints_ok_def empty_db_def ifaces_ok_def peers_ok_def users_ok_def
      providers_ok_def logs_ok_def)

lemma ifaces_ok_del: "ifaces_ok t \<Longrightarrow> ifaces_ok (del_rows key k t)"
  by (auto simp: ifaces_ok_def intro: distinct_del_rows)

lemma peers_ok_del: "peers_ok t \<Longrightarrow> peers_ok (del_rows key k t)"
  by (auto simp: peers_ok_def intro: distinct_del_rows)

lemma users_ok_del: "users_ok t \<Longrightarrow> users_ok (del_rows key k t)"
  by (auto simp: users_ok_def intro: distinct_del_rows)

lemma providers_ok_del: "providers_ok t \<Longrightarrow> providers_ok (del_rows key k t)"
  by (auto simp: providers_ok_def intro: distinct_del_rows)

lemma sorted_wrt_map_filter: "sorted_wrt R (map f t) \<Longrightarrow> sorted_wrt R (map f (filter P t))"
  by (induction t) auto

lemma logs_ok_filter: "logs_ok n t \<Longrightarrow> logs_ok n (filter P t)"
  by (auto simp: logs_ok_def sorted_wrt_map_filter)

lemma distinct_append_row:
  "\<not> has_row key (key r) t \<Longrightarrow> distinct (map key t) \<Longrightarrow> distinct (map key (t @ [r]))"
  by (auto simp: has_row_iff)

lemma distinct_update_key:
  assumes "distinct (map key t)" and "\<And>r. key (f r) = k"
  shows "distinct (map key (set_rows key k f t))"
  using assms by (subst map_set_rows) auto

lemma distinct_update_unique:
  assumes "distinct (map g t)" and "distinct (map key t)"
    and "\<And>r. g (f r) = v" and "\<And>s. s \<in> set t \<Longrightarrow> key s \<noteq> k \<Longrightarrow> g s \<noteq> v"
  shows "distinct (map g (set_rows key k f t))"
  using assms by (intro distinct_set_rows) auto

lemma has_row_ex: "has_row key k t \<longleftrightarrow> (\<exists>r \<in> set t. key r = k)"
  by (auto simp: has_row_iff)

lemma constraints_insert_interface:
  "constraints_ok d \<Longrightarrow> sql_insert_interface i d = Inr d' \<Longrightarrow> constraints_ok d'"
  by (auto simp: constraints_ok_def sql_insert_interface_def ifaces_ok_def has_row_iff
      split: if_splits)

lemma constraints_update_interface:
  "constraints_ok d \<Longrightarrow> sql_update_interface i d = Inr d' \<Longrightarrow> constraints_ok d'"
  by (auto simp: constraints_ok_def sql_update_interface_def ifaces_ok_def has_row_ex map_set_rows
      split: if_splits dest!: set_set_rows)

lemma constraints_delete_interface:
  "constraints_ok d \<Longrightarrow> constraints_ok (sql_delete_interface fk k d)"
  by (auto simp: constraints_ok_def sql_delete_interface_def Let_def
      intro: ifaces_ok_del peers_ok_del logs_ok_filter)

lemma constraints_insert_peer:
  "constraints_ok d \<Longrightarrow> sql_insert_peer fk p d = Inr d' \<Longrightarrow> constraints_ok d'"
  by (auto simp: constraints_ok_def sql_insert_peer_def peers_ok_def has_row_iff inserted_peer_def
      split: if_splits)

lemma constraints_update_peer:
  assumes ok: "constraints_ok d" and upd: "sql_update_peer fk p d = Inr d'"
  shows "constraints_ok d'"
proof (cases "has_row p_ID (p_ID p) (t_peers d)")
  case False
  with assms show ?thesis by (simp add: sql_update_peer_def)
next
  case True
  let ?t = "set_rows p_ID (p_ID p) (\<lambda>r. p\<lparr>p_CreatedAt := p_CreatedAt r\<rparr>) (t_peers d)"
  have P: "peers_ok (t_peers d)" using ok by (simp add: constraints_ok_def)
  have type: "peer_type_ok (p_Type p)" and d': "d' = d\<lparr>t_peers := ?t\<rparr>"
    and key: "\<And>s. s \<in> set (t_peers d) \<Longrightarrow> p_ID s \<noteq> p_ID p \<Longrightarrow> p_PublicKey s \<noteq> p_PublicKey p"
    using True upd by (auto simp: sql_update_peer_def list_ex_iff split: if_splits)
  have "distinct (map p_PublicKey ?t)"
    using P key by (intro distinct_update_unique [where v = "p_PublicKey p"]) (auto simp: peers_ok_def)
  moreover have "distinct (map p_ID ?t)" using P by (simp add: peers_ok_def map_set_rows)
  moreover have "\<forall>q \<in> set ?t. peer_type_ok (p_Type q)"
    using P type by (auto simp: peers_ok_def dest!: set_set_rows)
  ultimately have "peers_ok ?t" by (simp add: peers_ok_def)
  with ok d' show ?thesis by (simp add: constraints_ok_def)
qed

lemma constraints_delete_peer:
  "constraints_ok d \<Longrightarrow> constraints_ok (sql_delete_peer fk k d)"
  by (auto simp: constraints_ok_def sql_delete_peer_def Let_def del_rows_def [of cl_PeerID]
      intro: peers_ok_del logs_ok_filter)

lemma constraints_insert_user:
  assumes ok: "constraints_ok d" and ins: "sql_insert_user u d = Inr d'"
  shows "constraints_ok d'"
proof -
  have U: "users_ok (t_users d)" using ok by (simp add: constraints_ok_def)
  have d': "d' = d\<lparr>t_users := t_users d @ [stored_user u]\<rparr>" and role: "role_ok (u_Role u)"
    and new: "\<forall>v \<in> set (t_users d). u_ID v \<noteq> u_ID u \<and> u_Username v \<noteq> u_Username u"
    and oidc: "\<forall>v \<in> set (t_users d). \<not> same_oidc_identity u v \<and> \<not> same_oidc_identity v u"
    using ins by (auto simp: sql_insert_user_def has_row_ex oidc_identity_taken_def list_ex_iff
        same_oidc_identity_def split: if_splits)
  have "same_oidc_identity (stored_user u) v = same_oidc_identity u v"
    "same_oidc_identity v (stored_user u) = same_oidc_identity v u" for v
    by (simp_all add: same_oidc_identity_def stored_user_def)
  with U role new oidc have "users_ok (t_users d @ [stored_user u])"
    by (auto simp: users_ok_def stored_user_def)
  with ok d' show ?thesis by (simp add: constraints_ok_def)
qed

lemma oidc_unique_set_rows:
  assumes u: "\<forall>a \<in> set t. \<forall>b \<in> set t. same_oidc_identity a b \<longrightarrow> a = b" and d: "distinct (map u_ID t)"
    and id: "\<And>r. u_OIDCProvider (f r) = p" "\<And>r. u_OIDCSubject (f r) = s"
    and fresh: "p \<noteq> [] \<Longrightarrow> \<forall>r \<in> set t. u_ID r \<noteq> k \<longrightarrow> \<not> (u_OIDCProvider r = p \<and> u_OIDCSubject r = s)"
    and a: "a \<in> set (set_rows u_ID k f t)" and b: "b \<in> set (set_rows u_ID k f t)"
    and ab: "same_oidc_identity a b"
  shows "a = b"
proof -
  obtain r where r: "r \<in> set t" "a = (if u_ID r = k then f r else r)"
    using a by (auto simp: set_rows_def)
  obtain q where q: "q \<in> set t" "b = (if u_ID q = k then f q else q)"
    using b by (auto simp: set_rows_def)
  consider "u_ID r = k" "u_ID q = k" | "u_ID r = k" "u_ID q \<noteq> k" | "u_ID r \<noteq> k" "u_ID q = k"
    | "u_ID r \<noteq> k" "u_ID q \<noteq> k" by blast
  then show ?thesis
  proof cases
    case 1 with d r q have "r = q" by (metis distinct_map_inj)
    with 1 r q show ?thesis by simp
  next
    case 2 with r q ab id fresh show ?thesis by (auto simp: same_oidc_identity_def)
  next
    case 3 with r q ab id fresh show ?thesis by (auto simp: same_oidc_identity_def)
  next
    case 4 with r q ab u show ?thesis by simp
  qed
qed

lemma constraints_update_user:
  assumes ok: "constraints_ok d" and upd: "sql_update_user u d = Inr d'"
  shows "constraints_ok d'"
proof (cases "has_row u_ID (u_ID u) (t_users d)")
  case False
  with assms show ?thesis by (simp add: sql_update_user_def)
next
  case True
  let ?f = "\<lambda>r. (stored_user u)\<lparr>u_CreatedAt := u_CreatedAt r\<rparr>"
  let ?t = "set_rows u_ID (u_ID u) ?f (t_users d)"
  have U: "users_ok (t_users d)" using ok by (simp add: constraints_ok_def)
  have role: "role_ok (u_Role u)"
    and name: "\<And>s. s \<in> set (t_users d) \<Longrightarrow> u_ID s \<noteq> u_ID u \<Longrightarrow> u_Username s \<noteq> u_Username u"
    and oidc: "u_OIDCProvider u \<noteq> [] \<Longrightarrow> \<forall>r \<in> set (t_users d). u_ID r \<noteq> u_ID u \<longrightarrow>
      \<not> (u_OIDCProvider r = u_OIDCProvider u \<and> u_OIDCSubject r = u_OIDCSubject u)"
    and d': "d' = d\<lparr>t_users := ?t\<rparr>"
    using True upd
    by (auto simp: sql_update_user_def Let_def has_row_ex oidc_identity_taken_def list_ex_iff
        split: if_splits)
  have "users_ok ?t"
    unfolding users_ok_def
  proof (intro conjI ballI impI)
    show "distinct (map u_ID ?t)"
      using U by (intro distinct_update_key) (auto simp: users_ok_def stored_user_def)
    show "distinct (map u_Username ?t)"
      using U name by (intro distinct_update_unique [where v = "u_Username u"])
        (auto simp: users_ok_def stored_user_def)
    show "role_ok (u_Role v)" if "v \<in> set ?t" for v
      using that role U by (auto simp: users_ok_def stored_user_def dest!: set_set_rows)
    show "a = b" if "a \<in> set ?t" "b \<in> set ?t" "same_oidc_identity a b" for a b
      by (rule oidc_unique_set_rows [OF _ _ _ _ oidc that])
        (use U in \<open>auto simp: users_ok_def stored_user_def\<close>)
  qed
  with ok d' show ?thesis by (simp add: constraints_ok_def)
qed

lemma constraints_delete_user:
  "constraints_ok d \<Longrightarrow> constraints_ok (sql_delete_user fk k d)"
  by (auto simp: constraints_ok_def sql_delete_user_def Let_def intro: users_ok_del distinct_del_rows)

lemma constraints_insert_session:
  "constraints_ok d \<Longrightarrow> sql_insert_session fk s d = Inr d' \<Longrightarrow> constraints_ok d'"
  by (auto simp: constraints_ok_def sql_insert_session_def has_row_iff split: if_splits)

lemma constraints_sessions:
  "constraints_ok d \<Longrightarrow> distinct (map se_ID t) \<Longrightarrow> constraints_ok (d\<lparr>t_sessions := t\<rparr>)"
  by (simp add: constraints_ok_def)

lemma constraints_touch_session:
  "constraints_ok d \<Longrightarrow> constraints_ok (sql_touch_session k now d)"
  unfolding sql_touch_session_def
  by (rule constraints_sessions) (auto simp: constraints_ok_def map_set_rows)

lemma constraints_delete_sessions:
  "constraints_ok d \<Longrightarrow> constraints_ok (sql_delete_session k d)"
  "constraints_ok d \<Longrightarrow> constraints_ok (sql_delete_expired_sessions now d)"
  "constraints_ok d \<Longrightarrow> constraints_ok (sql_delete_user_sessions u d)"
  by (simp_all add: sql_delete_session_def sql_delete_expired_sessions_def sql_delete_user_sessions_def
      constraints_ok_def distinct_del_rows distinct_map_filter')

lemma constraints_set_setting:
  "constraints_ok d \<Longrightarrow> constraints_ok (sql_set_setting k v d)"
  by (auto simp: constraints_ok_def sql_set_setting_def has_row_ex map_set_rows)

lemma constraints_insert_provider:
  "constraints_ok d \<Longrightarrow> sql_insert_provider p d = Inr d' \<Longrightarrow> constraints_ok d'"
  by (auto simp: constraints_ok_def sql_insert_provider_def providers_ok_def has_row_iff
      split: if_splits)

lemma constraints_update_provider:
  assumes ok: "constraints_ok d" and upd: "sql_update_provider p d = Inr d'"
  shows "constraints_ok d'"
proof (cases "has_row op_ID (op_ID p) (t_providers d)")
  case False
  have "set_rows op_ID (op_ID p) f (t_providers d) = t_providers d" for f
    using False unfolding set_rows_def has_row_ex by (intro map_idI) auto
  with assms False show ?thesis by (simp add: sql_update_provider_def)
next
  case True
  let ?t = "set_rows op_ID (op_ID p) (\<lambda>r. p\<lparr>op_CreatedAt := op_CreatedAt r\<rparr>) (t_providers d)"
  have P: "providers_ok (t_providers d)" using ok by (simp add: constraints_ok_def)
  have d': "d' = d\<lparr>t_providers := ?t\<rparr>"
    and name: "\<And>s. s \<in> set (t_providers d) \<Longrightarrow> op_ID s \<noteq> op_ID p \<Longrightarrow> op_Name s \<noteq> op_Name p"
    using True upd by (auto simp: sql_update_provider_def has_row_ex split: if_splits)
  have "distinct (map op_Name ?t)"
    using P name by (intro distinct_update_unique [where v = "op_Name p"]) (auto simp: providers_ok_def)
  moreover have "distinct (map op_ID ?t)" using P by (simp add: providers_ok_def map_set_rows)
  ultimately have "providers_ok ?t" by (simp add: providers_ok_def)
  with ok d' show ?thesis by (simp add: constraints_ok_def)
qed

lemma constraints_delete_provider:
  "constraints_ok d \<Longrightarrow> constraints_ok (sql_delete_provider k d)"
  by (auto simp: constraints_ok_def sql_delete_provider_def intro: providers_ok_del)

lemma constraints_insert_state:
  "constraints_ok d \<Longrightarrow> sql_insert_state s d = Inr d' \<Longrightarrow> constraints_ok d'"
  by (auto simp: constraints_ok_def sql_insert_state_def has_row_iff split: if_splits)

lemma constraints_delete_states:
  "constraints_ok d \<Longrightarrow> constraints_ok (sql_delete_state k d)"
  "constraints_ok d \<Longrightarrow> constraints_ok (sql_delete_expired_states t d)"
  by (auto simp: constraints_ok_def sql_delete_state_def sql_delete_expired_states_def
      intro: distinct_del_rows distinct_map_filter')

lemma logs_ok_append:
  assumes "logs_ok n t" and "cl_ID l = n" and "event_ok (cl_Event l)"
  shows "logs_ok (n + 1) (t @ [l])"
  using assms less_imp_le unfolding logs_ok_def by (fastforce simp: sorted_wrt_append)

lemma constraints_insert_log:
  "constraints_ok d \<Longrightarrow> sql_insert_log fk l d = Inr d' \<Longrightarrow> constraints_ok d'"
  by (auto simp: constraints_ok_def sql_insert_log_def logs_ok_append split: if_splits)

lemma constraints_delete_old_logs:
  "constraints_ok d \<Longrightarrow> constraints_ok (sql_delete_old_logs t d)"
  by (auto simp: constraints_ok_def sql_delete_old_logs_def intro: logs_ok_filter)

section \<open>Foreign keys\<close>

definition refs_ok :: "db \<Rightarrow> bool" where
  "refs_ok d \<longleftrightarrow>
     (\<forall>p \<in> set (t_peers d). has_row if_ID (p_InterfaceID p) (t_interfaces d))
     \<and> (\<forall>s \<in> set (t_sessions d). has_row u_ID (se_UserID s) (t_users d))
     \<and> (\<forall>l \<in> set (t_logs d). has_row p_ID (cl_PeerID l) (t_peers d))"

lemma refs_ok_empty: "refs_ok empty_db"
  by (simp add: refs_ok_def empty_db_def)

lemma has_row_append: "has_row key k (t @ [r]) \<longleftrightarrow> has_row key k t \<or> key r = k"
  by (auto simp: has_row_iff)

lemma has_row_set_rows:
  "(\<And>r. key r = k \<Longrightarrow> key (f r) = k) \<Longrightarrow> has_row key j (set_rows key k f t) = has_row key j t"
  unfolding has_row_def set_rows_def by (induction t) auto

lemma has_row_del_rows: "has_row key j (del_rows key k t) \<longleftrightarrow> j \<noteq> k \<and> has_row key j t"
  by (auto simp: has_row_iff)

lemmas has_row_simps = has_row_append has_row_set_rows has_row_del_rows

lemma refs_interfaces:
  "refs_ok d \<Longrightarrow> sql_insert_interface i d = Inr d' \<Longrightarrow> refs_ok d'"
  "refs_ok d \<Longrightarrow> sql_update_interface i d = Inr d' \<Longrightarrow> refs_ok d'"
  by (auto simp: refs_ok_def sql_insert_interface_def sql_update_interface_def has_row_simps
      split: if_splits)

lemma refs_delete_interface:
  assumes "refs_ok d" shows "refs_ok (sql_delete_interface True k d)"
  using assms
  by (fastforce simp: refs_ok_def sql_delete_interface_def has_row_simps has_row_ex list_ex_iff)

lemma refs_peers:
  "refs_ok d \<Longrightarrow> sql_insert_peer True p d = Inr d' \<Longrightarrow> refs_ok d'"
  "refs_ok d \<Longrightarrow> sql_update_peer True p d = Inr d' \<Longrightarrow> refs_ok d'"
  by (auto simp: refs_ok_def sql_insert_peer_def sql_update_peer_def has_row_simps inserted_peer_def
      split: if_splits dest!: set_set_rows)

lemma refs_delete_peer:
  "refs_ok d \<Longrightarrow> refs_ok (sql_delete_peer True k d)"
  by (auto simp: refs_ok_def sql_delete_peer_def has_row_simps)

lemma refs_users:
  "refs_ok d \<Longrightarrow> sql_insert_user u d = Inr d' \<Longrightarrow> refs_ok d'"
  "refs_ok d \<Longrightarrow> sql_update_user u d = Inr d' \<Longrightarrow> refs_ok d'"
  "refs_ok d \<Longrightarrow> refs_ok (sql_delete_user True k d)"
  by (auto simp: refs_ok_def sql_insert_user_def sql_update_user_def sql_delete_user_def
      has_row_simps stored_user_def Let_def split: if_splits)

lemma refs_sessions:
  "refs_ok d \<Longrightarrow> sql_insert_session True s d = Inr d' \<Longrightarrow> refs_ok d'"
  "refs_ok d \<Longrightarrow> refs_ok (sql_touch_session k now d)"
  "refs_ok d \<Longrightarrow> refs_ok (sql_delete_session k d)"
  "refs_ok d \<Longrightarrow> refs_ok (sql_delete_expired_sessions now d)"
  "refs_ok d \<Longrightarrow> refs_ok (sql_delete_user_sessions k d)"
  by (auto simp: refs_ok_def sql_insert_session_def sql_touch_session_def sql_delete_session_def
      sql_delete_expired_sessions_def sql_delete_user_sessions_def split: if_splits
      dest!: set_set_rows)

lemma refs_logs:
  "refs_ok d \<Longrightarrow> sql_insert_log True l d = Inr d' \<Longrightarrow> refs_ok d'"
  "refs_ok d \<Longrightarrow> refs_ok (sql_delete_old_logs t d)"
  by (auto simp: refs_ok_def sql_insert_log_def sql_delete_old_logs_def split: if_splits)

lemma refs_others:
  "refs_ok d \<Longrightarrow> refs_ok (sql_set_setting k v d)"
  "refs_ok d \<Longrightarrow> sql_insert_provider p d = Inr d' \<Longrightarrow> refs_ok d'"
  "refs_ok d \<Longrightarrow> sql_update_provider p d = Inr d' \<Longrightarrow> refs_ok d'"
  "refs_ok d \<Longrightarrow> refs_ok (sql_delete_provider k d)"
  "refs_ok d \<Longrightarrow> sql_insert_state s d = Inr d' \<Longrightarrow> refs_ok d'"
  "refs_ok d \<Longrightarrow> refs_ok (sql_delete_state k d)"
  "refs_ok d \<Longrightarrow> refs_ok (sql_delete_expired_states t d)"
  by (auto simp: refs_ok_def sql_set_setting_def sql_insert_provider_def sql_update_provider_def
      sql_delete_provider_def sql_insert_state_def sql_delete_state_def sql_delete_expired_states_def
      split: if_splits)

section \<open>The contract of an invariant\<close>

text \<open>The statements of users, sessions, settings and single sign-on.\<close>

locale account_invariant =
  fixes env :: env and I :: "db \<Rightarrow> bool"
  assumes inv_insert_user: "I d \<Longrightarrow> sql_insert_user u d = Inr d' \<Longrightarrow> I d'"
    and inv_update_user: "I d \<Longrightarrow> sql_update_user u d = Inr d' \<Longrightarrow> I d'"
    and inv_delete_user: "I d \<Longrightarrow> I (sql_delete_user (fk_on env t) k d)"
    and inv_insert_session: "I d \<Longrightarrow> sql_insert_session (fk_on env t) s d = Inr d' \<Longrightarrow> I d'"
    and inv_touch_session: "I d \<Longrightarrow> I (sql_touch_session k now d)"
    and inv_delete_session: "I d \<Longrightarrow> I (sql_delete_session k d)"
    and inv_delete_expired_sessions: "I d \<Longrightarrow> I (sql_delete_expired_sessions now d)"
    and inv_delete_user_sessions: "I d \<Longrightarrow> I (sql_delete_user_sessions k d)"
    and inv_set_setting: "I d \<Longrightarrow> I (sql_set_setting k v d)"
    and inv_insert_provider: "I d \<Longrightarrow> sql_insert_provider q d = Inr d' \<Longrightarrow> I d'"
    and inv_update_provider: "I d \<Longrightarrow> sql_update_provider q d = Inr d' \<Longrightarrow> I d'"
    and inv_delete_provider: "I d \<Longrightarrow> I (sql_delete_provider k d)"
    and inv_insert_state: "I d \<Longrightarrow> sql_insert_state os d = Inr d' \<Longrightarrow> I d'"
    and inv_delete_state: "I d \<Longrightarrow> I (sql_delete_state k d)"
    and inv_delete_expired_states: "I d \<Longrightarrow> I (sql_delete_expired_states now d)"
begin

lemmas account_statements = inv_insert_user inv_update_user inv_delete_user
  inv_insert_session inv_touch_session inv_delete_session inv_delete_expired_sessions
  inv_delete_user_sessions inv_set_setting inv_insert_provider inv_update_provider
  inv_delete_provider inv_insert_state inv_delete_state inv_delete_expired_states

lemma keeps_user_methods [keeps_intros]:
  "keeps (on_db I) (CreateUser env u)"
  "keeps (on_db I) (UpdateUser env u)"
  "keeps (on_db I) (DeleteUser env k)"
  unfolding CreateUser_def UpdateUser_def DeleteUser_def
  by (auto intro!: keeps_intros keeps_exec_stmt dest: account_statements)

lemma keeps_session_methods [keeps_intros]:
  "keeps (on_db I) (CreateSession env s)"
  "keeps (on_db I) (TouchSession env k)"
  "keeps (on_db I) (DeleteSession env k)"
  "keeps (on_db I) (DeleteExpiredSessions env)"
  "keeps (on_db I) (DeleteUserSessions env k)"
  unfolding CreateSession_def TouchSession_def DeleteSession_def DeleteExpiredSessions_def
    DeleteUserSessions_def
  by (auto intro!: keeps_intros keeps_exec_stmt dest: account_statements)

lemma keeps_setting_methods [keeps_intros]:
  "keeps (on_db I) (SetSetting env k v)"
  "keeps (on_db I) (CreateOIDCProvider env q)"
  "keeps (on_db I) (UpdateOIDCProvider env q)"
  "keeps (on_db I) (DeleteOIDCProvider env k)"
  "keeps (on_db I) (CreateOIDCState env os)"
  "keeps (on_db I) (DeleteOIDCState env k)"
  "keeps (on_db I) (DeleteExpiredOIDCStates env)"
  unfolding SetSetting_def CreateOIDCProvider_def UpdateOIDCProvider_def DeleteOIDCProvider_def
    CreateOIDCState_def DeleteOIDCState_def DeleteExpiredOIDCStates_def
  by (auto intro!: keeps_intros keeps_exec_stmt dest: account_statements)

end

text \<open>And those of interfaces, peers and connection logs.\<close>

locale net_invariant =
  fixes env :: env and I :: "db \<Rightarrow> bool"
  assumes inv_insert_interface: "I d \<Longrightarrow> sql_insert_interface i d = Inr d' \<Longrightarrow> I d'"
    and inv_update_interface: "I d \<Longrightarrow> sql_update_interface i d = Inr d' \<Longrightarrow> I d'"
    and inv_delete_interface: "I d \<Longrightarrow> I (sql_delete_interface (fk_on env t) k d)"
    and inv_insert_peer: "I d \<Longrightarrow> sql_insert_peer (fk_on env t) p d = Inr d' \<Longrightarrow> I d'"
    and inv_update_peer: "I d \<Longrightarrow> sql_update_peer (fk_on env t) p d = Inr d' \<Longrightarrow> I d'"
    and inv_delete_peer: "I d \<Longrightarrow> I (sql_delete_peer (fk_on env t) k d)"
    and inv_insert_log: "I d \<Longrightarrow> sql_insert_log (fk_on env t) l d = Inr d' \<Longrightarrow> I d'"
    and inv_delete_old_logs: "I d \<Longrightarrow> I (sql_delete_old_logs now d)"
begin

lemmas statements = inv_insert_interface inv_update_interface inv_delete_interface inv_insert_peer
  inv_update_peer inv_delete_peer inv_insert_log inv_delete_old_logs

lemma keeps_interface_methods [keeps_intros]:
  "keeps (on_db I) (CreateInterface env i)"
  "keeps (on_db I) (UpdateInterface env i)"
  "keeps (on_db I) (DeleteInterface env k)"
  unfolding CreateInterface_def UpdateInterface_def DeleteInterface_def
  by (auto intro!: keeps_intros keeps_exec_stmt dest: statements)

lemma keeps_peer_methods [keeps_intros]:
  "keeps (on_db I) (CreatePeer env p)"
  "keeps (on_db I) (UpdatePeer env p)"
  "keeps (on_db I) (DeletePeer env k)"
  unfolding CreatePeer_def UpdatePeer_def DeletePeer_def
  by (auto intro!: keeps_intros keeps_exec_stmt dest: statements)

lemma keeps_log_methods [keeps_intros]:
  "keeps (on_db I) (CreateConnectionLog env l)"
  "keeps (on_db I) (DeleteOldConnectionLogs env t)"
  unfolding CreateConnectionLog_def DeleteOldConnectionLogs_def
  by (auto intro!: keeps_intros keeps_exec_stmt dest: statements)

end

locale db_invariant = account_invariant + net_invariant

interpretation constraints: db_invariant env constraints_ok for env
  by unfold_locales
    (fact constraints_insert_interface constraints_update_interface constraints_delete_interface
      constraints_insert_peer constraints_update_peer constraints_delete_peer
      constraints_insert_user constraints_update_user constraints_delete_user
      constraints_insert_session constraints_touch_session constraints_delete_sessions
      constraints_set_setting constraints_insert_provider constraints_update_provider
      constraints_delete_provider constraints_insert_state constraints_delete_states
      constraints_insert_log constraints_delete_old_logs)+

interpretation references: db_invariant env "\<lambda>d. (\<forall>t. fk_on env t) \<longrightarrow> refs_ok d" for env
  by unfold_locales
    (auto intro: refs_interfaces refs_delete_interface refs_peers refs_delete_peer refs_users
      refs_sessions refs_logs refs_others)

end
