(* ===== verification/Crypto.thy ===== *)
theory Crypto
  imports Models
begin

text \<open>
  Secrets at rest and WireGuard keys (internal/crypto/crypto.go and keys.go). The standard
  library's base64 is modelled in full; \<^verbatim>\<open>age\<close>, \<^verbatim>\<open>wgtypes\<close> and the curve are parameters of the
  environment. The law that decryption of the program relies on is \<open>age_law\<close>: what was sealed
  under a passphrase is opened by it. \<open>Decrypt\<close> then undoes \<open>Encrypt\<close>.
\<close>

section \<open>encoding/base64\<close>

definition b64_alphabet :: string where
  "b64_alphabet = ''ABCDEFGHIJKLMNOPQRSTUVWXYZabcdefghijklmnopqrstuvwxyz0123456789+/''"

definition b64_char :: "nat \<Rightarrow> char" where "b64_char n = b64_alphabet ! n"

definition b64_val :: "char \<Rightarrow> nat option" where
  "b64_val c = List.find (\<lambda>n. b64_char n = c) [0..<64]"

fun EncodeToString :: "string \<Rightarrow> string" where
  "EncodeToString [] = []"
| "EncodeToString [a] =
     (let x = of_char a :: nat in [b64_char (x div 4), b64_char (x mod 4 * 16), CHR ''='', CHR ''=''])"
| "EncodeToString [a, b] =
     (let x = of_char a :: nat; y = of_char b :: nat in
      [b64_char (x div 4), b64_char (x mod 4 * 16 + y div 16), b64_char (y mod 16 * 4), CHR ''=''])"
| "EncodeToString (a # b # c # s) =
     (let x = of_char a :: nat; y = of_char b :: nat; z = of_char c :: nat in
      [b64_char (x div 4), b64_char (x mod 4 * 16 + y div 16), b64_char (y mod 16 * 4 + z div 64),
       b64_char (z mod 64)] @ EncodeToString s)"

fun decode_quanta :: "string \<Rightarrow> string option" where
  "decode_quanta [] = Some []"
| "decode_quanta (a # b # c # d # s) =
     (if d = CHR ''='' then
        if s \<noteq> [] then None
        else if c = CHR ''='' then
          (case (b64_val a, b64_val b) of
             (Some v, Some w) \<Rightarrow> Some [char_of (v * 4 + w div 16)]
           | _ \<Rightarrow> None)
        else
          (case (b64_val a, b64_val b, b64_val c) of
             (Some v, Some w, Some x) \<Rightarrow>
               Some [char_of (v * 4 + w div 16), char_of (w mod 16 * 16 + x div 4)]
           | _ \<Rightarrow> None)
      else
        (case (b64_val a, b64_val b, b64_val c, b64_val d, decode_quanta s) of
           (Some v, Some w, Some x, Some y, Some r) \<Rightarrow>
             Some (char_of (v * 4 + w div 16) # char_of (w mod 16 * 16 + x div 4)
                   # char_of (x mod 4 * 64 + y) # r)
         | _ \<Rightarrow> None))"
| "decode_quanta _ = None"

text \<open>The decoder skips line ends; the byte offset in its error is left out.\<close>

definition DecodeString :: "string \<Rightarrow> error + string" where
  "DecodeString s =
     (case decode_quanta (filter (\<lambda>c. c \<noteq> CHR 0x0A \<and> c \<noteq> CHR 0x0D) s) of
        None \<Rightarrow> Inl (Err ''illegal base64 data'') | Some r \<Rightarrow> Inr r)"

lemma b64_all: "\<forall>n \<in> set [0..<64]. b64_val (b64_char n) = Some n \<and> b64_char n \<noteq> CHR ''=''
    \<and> b64_char n \<noteq> CHR 0x0A \<and> b64_char n \<noteq> CHR 0x0D"
  by code_simp

lemma b64_char: "n < 64 \<Longrightarrow> b64_val (b64_char n) = Some n" "n < 64 \<Longrightarrow> b64_char n \<noteq> CHR ''=''"
  "n < 64 \<Longrightarrow> b64_char n \<noteq> CHR 0x0A" "n < 64 \<Longrightarrow> b64_char n \<noteq> CHR 0x0D"
  using b64_all by auto

lemma byte_lt: "(of_char c :: nat) < 256"
  by simp

lemma byte_div_mod: "(of_char c :: nat) div 4 < 64" "(of_char c :: nat) div 16 < 16"
  "(of_char c :: nat) div 64 < 4" "(of_char c :: nat) mod 64 < 64" "(of_char c :: nat) mod 16 < 16"
  "(of_char c :: nat) mod 4 < 4"
  using byte_lt [of c] by (simp_all add: div_less_iff_less_mult)

lemma sextet_bounds:
  fixes x y :: nat
  shows "x < 4 \<Longrightarrow> x * 16 < 64" "x < 4 \<Longrightarrow> y < 16 \<Longrightarrow> x * 16 + y < 64" "x < 16 \<Longrightarrow> x * 4 < 64"
    "x < 16 \<Longrightarrow> y < 4 \<Longrightarrow> x * 4 + y < 64"
  by linarith+

lemma sextet_split:
  fixes x y :: nat
  shows "y < 16 \<Longrightarrow> (x * 16 + y) div 16 = x" "y < 16 \<Longrightarrow> (x * 16 + y) mod 16 = y"
    "y < 4 \<Longrightarrow> (x * 4 + y) div 4 = x" "y < 4 \<Longrightarrow> (x * 4 + y) mod 4 = y"
  by simp_all

lemma byte_join:
  fixes x :: nat
  shows "x div 4 * 4 + x mod 4 = x" "x div 16 * 16 + x mod 16 = x" "x div 64 * 64 + x mod 64 = x"
  by (rule div_mult_mod_eq)+

lemmas sextets = b64_char sextet_bounds byte_div_mod sextet_split byte_join

lemma decode_quanta_Encode: "decode_quanta (EncodeToString s) = Some s"
  by (induction s rule: EncodeToString.induct) (simp_all add: Let_def sextets)

lemma Encode_chars: "c \<in> set (EncodeToString s) \<Longrightarrow> c \<noteq> CHR 0x0A \<and> c \<noteq> CHR 0x0D"
  by (induction s rule: EncodeToString.induct) (auto simp: Let_def sextets)

lemma DecodeString_Encode: "DecodeString (EncodeToString s) = Inr s"
proof -
  have "filter (\<lambda>c. c \<noteq> CHR 0x0A \<and> c \<noteq> CHR 0x0D) (EncodeToString s) = EncodeToString s"
    using Encode_chars by (intro filter_True) blast
  then show ?thesis by (simp add: DecodeString_def decode_quanta_Encode)
qed

section \<open>Encryptor\<close>

definition Encrypt :: "env \<Rightarrow> string \<Rightarrow> (error + string) io" where
  "Encrypt env plaintext =
     check ''creating scrypt recipient'' (State_Monad.return (scrypt_ok env (passphrase env))) (\<lambda>_.
     check ''creating encrypt writer'' (ask (age_writer env)) (\<lambda>_.
     check ''writing plaintext'' (ask (age_write env)) (\<lambda>_.
     check ''closing encrypt writer'' (ask (\<lambda>t. age_seal env t (passphrase env) plaintext)) (\<lambda>c.
     ok (EncodeToString c)))))"

definition Decrypt :: "env \<Rightarrow> string \<Rightarrow> error + string" where
  "Decrypt env encoded =
     (case DecodeString encoded of Inl e \<Rightarrow> Inl (Wrap ''decoding base64'' e) | Inr c \<Rightarrow>
      (case scrypt_ok env (passphrase env) of
         Inl e \<Rightarrow> Inl (Wrap ''creating scrypt identity'' e) | Inr _ \<Rightarrow>
      (case age_header env (passphrase env) c of Inl e \<Rightarrow> Inl (Wrap ''decrypting'' e) | Inr _ \<Rightarrow>
      (case age_payload env (passphrase env) c of Inl e \<Rightarrow> Inl (Wrap ''reading plaintext'' e)
       | Inr p \<Rightarrow> Inr p))))"

text \<open>The armored form, which no code calls. \<open>seal\<close> is what the armor holds once the inner writer is
  closed, \<open>close\<close> what closing the armor itself returns.\<close>

definition EncryptArmored ::
  "env \<Rightarrow> (nat \<Rightarrow> string \<Rightarrow> string \<Rightarrow> error + string) \<Rightarrow> (nat \<Rightarrow> string \<Rightarrow> error + string) \<Rightarrow> string \<Rightarrow> (error + string) io" where
  "EncryptArmored env seal close plaintext =
     check ''creating scrypt recipient'' (State_Monad.return (scrypt_ok env (passphrase env))) (\<lambda>_.
     check ''creating encrypt writer'' (ask (age_writer env)) (\<lambda>_.
     check ''writing plaintext'' (ask (age_write env)) (\<lambda>_.
     check ''closing encrypt writer'' (ask (\<lambda>t. seal t (passphrase env) plaintext)) (\<lambda>c.
     check ''closing armor writer'' (ask (\<lambda>t. close t c)) ok))))"

text \<open>What age promises: a file sealed under a passphrase opens under it.\<close>

definition age_law :: "env \<Rightarrow> bool" where
  "age_law env \<longleftrightarrow> (\<forall>t p m c. age_seal env t p m = Inr c \<longrightarrow>
     age_header env p c = Inr () \<and> age_payload env p c = Inr m)"

lemma Encrypt_result:
  assumes "run_state (Encrypt env m) w = (Inr c, w')"
  shows "\<exists>t b. c = EncodeToString b \<and> age_seal env t (passphrase env) m = Inr b
    \<and> scrypt_ok env (passphrase env) = Inr ()"
  using assms
  by (auto simp: Encrypt_def run_simps split: sum.splits prod.splits)

lemma keeps_Encrypt [keeps_intros]: "keeps (on_db I) (Encrypt env m)"
  unfolding Encrypt_def by (intro keeps_intros)

section \<open>Keys\<close>

definition GenerateKeyPair :: "env \<Rightarrow> (error + string \<times> string) io" where
  "GenerateKeyPair env = check ''generating private key'' (ask (wg_private_key_at env)) (\<lambda>k.
     ok (EncodeToString k, EncodeToString (wg_public env k)))"

definition GeneratePresharedKey :: "env \<Rightarrow> (error + string) io" where
  "GeneratePresharedKey env =
     check ''generating preshared key'' (ask (wg_key_at env)) (\<lambda>k. ok (EncodeToString k))"

definition PublicKeyFromPrivate :: "env \<Rightarrow> string \<Rightarrow> error + string" where
  "PublicKeyFromPrivate env s =
     (case wg_parse_key env s of Inl e \<Rightarrow> Inl (Wrap ''parsing private key'' e) | Inr k \<Rightarrow>
      (case wg_new_key env (curve25519_base env k) of
         Inl e \<Rightarrow> Inl (Wrap ''creating public key'' e) | Inr p \<Rightarrow> Inr (EncodeToString p)))"

text \<open>\<open>read\<close> fills a buffer of \<open>n\<close> bytes.\<close>

definition GenerateRandomBytes :: "(nat \<Rightarrow> nat \<Rightarrow> error + string) \<Rightarrow> nat \<Rightarrow> (error + string) io" where
  "GenerateRandomBytes read n = check ''reading random bytes'' (ask (\<lambda>t. read t n)) ok"

lemma keeps_keys [keeps_intros]:
  "keeps (on_db I) (GenerateKeyPair env)" "keeps (on_db I) (GeneratePresharedKey env)"
  unfolding GenerateKeyPair_def GeneratePresharedKey_def by (intro keeps_intros)+

end
