(* ===== verification/Confgen.thy ===== *)
theory Confgen
  imports NetIP
begin

text \<open>
  WireGuard configuration files: the three generators of internal/confgen/confgen.go and the
  parser of internal/confgen/parse.go. The parser reads what \<open>GenerateServerConf\<close> writes back
  (\<open>ParseConfig_GenerateServerConf\<close>), provided no field carries a line end or surrounding white
  space; a name that does carry a line end can inject directives (\<open>name_injects_PostUp\<close>).
\<close>

section \<open>Generators\<close>

record PeerConfParams =
  cp_Name :: string
  cp_PrivateKey :: string
  cp_Address :: string
  cp_DNS :: string
  cp_ServerPublicKey :: string
  cp_ServerEndpoint :: string
  cp_AllowedIPs :: string
  cp_PresharedKey :: string
  cp_PersistentKeepalive :: int
  cp_MTU :: int

record ServerPeerBlock =
  pb_Name :: string
  pb_PublicKey :: string
  pb_PresharedKey :: string
  pb_AllowedIPs :: string
  pb_Endpoint :: string
  pb_PersistentKeepalive :: int

record ServerConfParams =
  sc_PrivateKey :: string
  sc_Address :: string
  sc_ListenPort :: int
  sc_MTU :: int
  sc_DNS :: string
  sc_PostUp :: string
  sc_PostDown :: string
  sc_Peers :: "ServerPeerBlock list"

abbreviation nl :: string where "nl \<equiv> [CHR 0x0A]"

text \<open>\<open>fmt.Fprintf(&b, "k = %s\n", v)\<close>\<close>

definition key_value :: "string \<Rightarrow> string \<Rightarrow> string" where
  "key_value k v = k @ '' = '' @ v"

definition field :: "string \<Rightarrow> string \<Rightarrow> string" where
  "field k v = key_value k v @ nl"

definition GeneratePeerConf :: "PeerConfParams \<Rightarrow> string" where
  "GeneratePeerConf p =
     ''[Interface]'' @ nl
     @ field ''PrivateKey'' (cp_PrivateKey p)
     @ field ''Address'' (cp_Address p)
     @ (if cp_DNS p \<noteq> [] then field ''DNS'' (cp_DNS p) else [])
     @ (if cp_MTU p > 0 then field ''MTU'' (itoa (cp_MTU p)) else [])
     @ nl @ ''[Peer]'' @ nl
     @ field ''PublicKey'' (cp_ServerPublicKey p)
     @ (if cp_PresharedKey p \<noteq> [] then field ''PresharedKey'' (cp_PresharedKey p) else [])
     @ field ''AllowedIPs'' (cp_AllowedIPs p)
     @ (if cp_ServerEndpoint p \<noteq> [] then field ''Endpoint'' (cp_ServerEndpoint p) else [])
     @ (if cp_PersistentKeepalive p > 0
        then field ''PersistentKeepalive'' (itoa (cp_PersistentKeepalive p)) else [])"

text \<open>The loop over the lines of \<open>PostUp\<close> and \<open>PostDown\<close>.\<close>

definition commands :: "string \<Rightarrow> string list" where
  "commands s = filter (\<lambda>c. c \<noteq> []) (map TrimSpace (split_char (CHR 0x0A) s))"

definition post_lines :: "string \<Rightarrow> string \<Rightarrow> string" where
  "post_lines k s = (if s \<noteq> [] then concat (map (field k) (commands s)) else [])"

text \<open>The key-value lines of a \<open>[Peer]\<close> block, the same in both server files.\<close>

definition peer_fields :: "ServerPeerBlock \<Rightarrow> string" where
  "peer_fields b =
     field ''PublicKey'' (pb_PublicKey b)
     @ (if pb_PresharedKey b \<noteq> [] then field ''PresharedKey'' (pb_PresharedKey b) else [])
     @ field ''AllowedIPs'' (pb_AllowedIPs b)
     @ (if pb_Endpoint b \<noteq> [] then field ''Endpoint'' (pb_Endpoint b) else [])
     @ (if pb_PersistentKeepalive b > 0
        then field ''PersistentKeepalive'' (itoa (pb_PersistentKeepalive b)) else [])"

definition GenerateServerConf :: "ServerConfParams \<Rightarrow> string" where
  "GenerateServerConf p =
     ''[Interface]'' @ nl
     @ field ''PrivateKey'' (sc_PrivateKey p)
     @ field ''Address'' (sc_Address p)
     @ field ''ListenPort'' (itoa (sc_ListenPort p))
     @ (if sc_MTU p > 0 then field ''MTU'' (itoa (sc_MTU p)) else [])
     @ post_lines ''PostUp'' (sc_PostUp p)
     @ post_lines ''PostDown'' (sc_PostDown p)
     @ concat (map (\<lambda>b. nl @ ''[Peer]'' @ nl
         @ (if pb_Name b \<noteq> [] then ''# '' @ pb_Name b @ nl else [])
         @ peer_fields b) (sc_Peers p))"

definition GenerateStrippedConf :: "ServerConfParams \<Rightarrow> string" where
  "GenerateStrippedConf p =
     ''[Interface]'' @ nl
     @ field ''PrivateKey'' (sc_PrivateKey p)
     @ field ''ListenPort'' (itoa (sc_ListenPort p))
     @ concat (map (\<lambda>b. nl @ ''[Peer]'' @ nl @ peer_fields b) (sc_Peers p))"

section \<open>Parser\<close>

record ParsedInterface =
  pi_PrivateKey :: string
  pi_Address :: string
  pi_ListenPort :: int
  pi_DNS :: string
  pi_MTU :: int
  pi_PostUp :: "string list"
  pi_PostDown :: "string list"

record ParsedPeer =
  pp_Name :: string
  pp_PublicKey :: string
  pp_PresharedKey :: string
  pp_AllowedIPs :: string
  pp_Endpoint :: string
  pp_PersistentKeepalive :: int

record ParsedConfig =
  pc_Interface :: ParsedInterface
  pc_Peers :: "ParsedPeer list"

datatype config_section = sectionNone | sectionInterface | sectionPeer

definition zero_parsed_interface :: ParsedInterface where
  "zero_parsed_interface = \<lparr>pi_PrivateKey = [], pi_Address = [], pi_ListenPort = 0, pi_DNS = [],
     pi_MTU = 0, pi_PostUp = [], pi_PostDown = []\<rparr>"

definition zero_parsed_peer :: ParsedPeer where
  "zero_parsed_peer = \<lparr>pp_Name = [], pp_PublicKey = [], pp_PresharedKey = [], pp_AllowedIPs = [],
     pp_Endpoint = [], pp_PersistentKeepalive = 0\<rparr>"

text \<open>\<open>parseKeyValue\<close>; \<open>None\<close> is its third result \<open>false\<close>.\<close>

definition parseKeyValue :: "string \<Rightarrow> (string \<times> string) option" where
  "parseKeyValue line =
     (case cut CHR ''='' line of
        None \<Rightarrow> None
      | Some (a, b) \<Rightarrow>
          let key = TrimSpace a; value = TrimSpace b in
          if key = [] then None else Some (key, value))"

text \<open>
  The variables of the loop: the configuration so far, the current section and the last comment.
  \<open>peerIndex\<close> is always the index of the last peer, and -1 when there is none.
\<close>

record parser =
  ps_Interface :: ParsedInterface
  ps_Peers :: "ParsedPeer list"
  ps_current :: config_section
  ps_lastComment :: string

definition set_last :: "('a \<Rightarrow> 'a) \<Rightarrow> 'a list \<Rightarrow> 'a list" where
  "set_last f xs = (if xs = [] then [] else butlast xs @ [f (last xs)])"

definition parse_int :: "string \<Rightarrow> string \<Rightarrow> error + int" where
  "parse_int what value = (case Atoi value of
     Inl e \<Rightarrow> Inl (WrapQ (''invalid '' @ what @ '' '') value (NumError value e)) | Inr n \<Rightarrow> Inr n)"

definition interface_field ::
  "string \<Rightarrow> string \<Rightarrow> ParsedInterface \<Rightarrow> error + ParsedInterface" where
  "interface_field key value i =
     (let k = ToLower key in
      if k = ''privatekey'' then Inr (i\<lparr>pi_PrivateKey := value\<rparr>)
      else if k = ''address'' then Inr (i\<lparr>pi_Address := value\<rparr>)
      else if k = ''listenport'' then
        (case parse_int ''ListenPort'' value of Inl e \<Rightarrow> Inl e | Inr n \<Rightarrow> Inr (i\<lparr>pi_ListenPort := n\<rparr>))
      else if k = ''dns'' then Inr (i\<lparr>pi_DNS := value\<rparr>)
      else if k = ''mtu'' then
        (case parse_int ''MTU'' value of Inl e \<Rightarrow> Inl e | Inr n \<Rightarrow> Inr (i\<lparr>pi_MTU := n\<rparr>))
      else if k = ''postup'' then Inr (i\<lparr>pi_PostUp := pi_PostUp i @ [value]\<rparr>)
      else if k = ''postdown'' then Inr (i\<lparr>pi_PostDown := pi_PostDown i @ [value]\<rparr>)
      else Inr i)"

definition peer_field :: "string \<Rightarrow> string \<Rightarrow> ParsedPeer \<Rightarrow> error + ParsedPeer" where
  "peer_field key value p =
     (let k = ToLower key in
      if k = ''publickey'' then Inr (p\<lparr>pp_PublicKey := value\<rparr>)
      else if k = ''presharedkey'' then Inr (p\<lparr>pp_PresharedKey := value\<rparr>)
      else if k = ''allowedips'' then Inr (p\<lparr>pp_AllowedIPs := value\<rparr>)
      else if k = ''endpoint'' then Inr (p\<lparr>pp_Endpoint := value\<rparr>)
      else if k = ''persistentkeepalive'' then
        (case parse_int ''PersistentKeepalive'' value of
           Inl e \<Rightarrow> Inl e | Inr n \<Rightarrow> Inr (p\<lparr>pp_PersistentKeepalive := n\<rparr>))
      else Inr p)"

text \<open>The switch on the current section.\<close>

definition parse_switch :: "string \<Rightarrow> string \<Rightarrow> parser \<Rightarrow> error + parser" where
  "parse_switch key value st =
     (case ps_current st of
        sectionNone \<Rightarrow> Inr st
      | sectionInterface \<Rightarrow>
          (case interface_field key value (ps_Interface st) of
             Inl e \<Rightarrow> Inl e | Inr i \<Rightarrow> Inr (st\<lparr>ps_Interface := i\<rparr>))
      | sectionPeer \<Rightarrow>
          if ps_Peers st = [] then Inr st
          else (case peer_field key value (last (ps_Peers st)) of
                  Inl e \<Rightarrow> Inl e
                | Inr p \<Rightarrow> Inr (st\<lparr>ps_Peers := set_last (\<lambda>_. p) (ps_Peers st)\<rparr>)))"

text \<open>The body of the loop, on the text of one line.\<close>

definition parse_line :: "string \<Rightarrow> parser \<Rightarrow> error + parser" where
  "parse_line raw st =
     (let line = TrimSpace raw in
      if starts_with ''#'' line then
        let comment = TrimSpace (drop 1 line); st' = st\<lparr>ps_lastComment := comment\<rparr> in
        Inr (if ps_current st = sectionPeer \<and> ps_Peers st \<noteq> [] \<and> pp_Name (last (ps_Peers st)) = []
             then st'\<lparr>ps_Peers := set_last (\<lambda>p. p\<lparr>pp_Name := comment\<rparr>) (ps_Peers st)\<rparr> else st')
      else if line = [] then Inr st
      else if EqualFold line ''[interface]'' then
        Inr (st\<lparr>ps_current := sectionInterface, ps_lastComment := []\<rparr>)
      else if EqualFold line ''[peer]'' then
        Inr (st\<lparr>ps_current := sectionPeer, ps_lastComment := [],
               ps_Peers := ps_Peers st @ [if ps_lastComment st \<noteq> []
                 then zero_parsed_peer\<lparr>pp_Name := ps_lastComment st\<rparr> else zero_parsed_peer]\<rparr>)
      else
        let st' = st\<lparr>ps_lastComment := []\<rparr> in
        (case parseKeyValue line of
           None \<Rightarrow> Inr st'
         | Some (key, value) \<Rightarrow> parse_switch key value st'))"

text \<open>
  \<open>bufio.Scanner\<close> splits at line ends, without a last empty line, drops a trailing carriage
  return, and stops with \<open>ErrTooLong\<close> at a line of more than 65535 bytes (its buffer of 64 KiB is
  full before it has seen the line end).
\<close>

definition scan_lines :: "string \<Rightarrow> string list" where
  "scan_lines s = (let ls = split_char (CHR 0x0A) s in if last ls = [] then butlast ls else ls)"

definition drop_cr :: "string \<Rightarrow> string" where
  "drop_cr s = (if s \<noteq> [] \<and> last s = CHR 0x0D then butlast s else s)"

definition max_line :: nat where "max_line = 65535"

fun parse_lines :: "string list \<Rightarrow> parser \<Rightarrow> error + parser" where
  "parse_lines [] st = Inr st"
| "parse_lines (l # ls) st =
     (if length l > max_line then Inl (Wrap ''reading config'' (Err ''bufio.Scanner: token too long''))
      else case parse_line (drop_cr l) st of Inl e \<Rightarrow> Inl e | Inr st' \<Rightarrow> parse_lines ls st')"

definition initial_parser :: parser where
  "initial_parser = \<lparr>ps_Interface = zero_parsed_interface, ps_Peers = [], ps_current = sectionNone,
     ps_lastComment = []\<rparr>"

definition ParseConfig :: "string \<Rightarrow> error + ParsedConfig" where
  "ParseConfig input =
     (case parse_lines (scan_lines input) initial_parser of
        Inl e \<Rightarrow> Inl e
      | Inr st \<Rightarrow>
          if pi_PrivateKey (ps_Interface st) = []
          then Inl (Err ''missing PrivateKey in [Interface] section'')
          else Inr \<lparr>pc_Interface = ps_Interface st, pc_Peers = ps_Peers st\<rparr>)"

section \<open>Reading back what was generated\<close>

lemma parse_lines_append:
  "parse_lines (xs @ ys) st =
     (case parse_lines xs st of Inl e \<Rightarrow> Inl e | Inr s \<Rightarrow> parse_lines ys s)"
  by (induction xs arbitrary: st) (auto split: sum.split)

definition good_key :: "string \<Rightarrow> bool" where
  "good_key k \<longleftrightarrow> k \<noteq> [] \<and> (\<forall>c \<in> set k. plain_char c \<and> c \<noteq> CHR ''='')
     \<and> hd k \<noteq> CHR ''#'' \<and> lower_char (hd k) \<noteq> CHR ''['' \<and> length k \<le> 100"

definition clean_value :: "string \<Rightarrow> bool" where
  "clean_value v \<longleftrightarrow> trimmed v \<and> CHR 0x0A \<notin> set v \<and> length v \<le> 65000"

lemma good_keys: "good_key ''PrivateKey''" "good_key ''Address''" "good_key ''ListenPort''"
  "good_key ''MTU''" "good_key ''PostUp''" "good_key ''PostDown''" "good_key ''PublicKey''"
  "good_key ''PresharedKey''" "good_key ''AllowedIPs''" "good_key ''Endpoint''"
  "good_key ''PersistentKeepalive''"
  by (simp_all add: good_key_def plain_char_def) (code_simp)+

lemma TrimSpace_trailing_space:
  assumes "trimmed s" and "s \<noteq> []" and "plain_char (hd s)"
  shows "TrimSpace (s @ '' '') = s"
proof -
  have "trim_left (s @ '' '') = s @ '' ''"
    unfolding trim_left_def using assms by (intro strip_words_clean clean_left_append)
  moreover have "strip_words (map rev space_runes) (CHR '' '' # rev s) = strip_words (map rev space_runes) (rev s)"
    by (subst strip_words.simps) (simp add: space_runes_def)
  moreover have "strip_words (map rev space_runes) (rev s) = rev s"
    using assms by (intro strip_words_clean) (simp add: trimmed_def)
  ultimately show ?thesis by (simp add: TrimSpace_def trim_right_def)
qed

lemma TrimSpace_leading_space: "TrimSpace (CHR '' '' # s) = TrimSpace s"
proof -
  have "strip_words space_runes (CHR '' '' # s) = strip_words space_runes s"
    by (subst strip_words.simps) (simp add: space_runes_def)
  then show ?thesis by (simp add: TrimSpace_def trim_left_def)
qed

lemma trimmed_key_eq: "good_key k \<Longrightarrow> trimmed (k @ '' ='')"
  by (rule trimmed_plain) (auto simp: good_key_def plain_char_def)

lemma TrimSpace_key_value:
  assumes k: "good_key k" and v: "trimmed v"
  shows "TrimSpace (key_value k v) = (if v = [] then k @ '' ='' else key_value k v)"
proof (cases "v = []")
  case True
  have "TrimSpace ((k @ '' ='') @ '' '') = k @ '' =''"
    using k by (intro TrimSpace_trailing_space trimmed_key_eq) (auto simp: good_key_def hd_append)
  with True show ?thesis by (simp add: key_value_def)
next
  case False
  have "trimmed ((k @ '' = '') @ v)"
    using k v False by (intro trimmed_append) (auto simp: good_key_def hd_append)
  with False show ?thesis by (simp add: key_value_def TrimSpace_trimmed)
qed

lemma TrimSpace_good_key: "good_key k \<Longrightarrow> TrimSpace (k @ '' '') = k"
  by (intro TrimSpace_trailing_space trimmed_plain) (auto simp: good_key_def)

lemma parseKeyValue_key_value:
  assumes k: "good_key k" and v: "trimmed v"
  shows "parseKeyValue (TrimSpace (key_value k v)) = Some (k, v)"
proof -
  have "CHR ''='' \<notin> set (k @ '' '')" using k by (auto simp: good_key_def)
  then have c: "cut CHR ''='' (k @ '' ='') = Some (k @ '' '', [])"
    "cut CHR ''='' (key_value k v) = Some (k @ '' '', CHR '' '' # v)"
    using cut_append [of "CHR ''=''" "k @ '' ''" "[]"] cut_append [of "CHR ''=''" "k @ '' ''" "CHR '' '' # v"]
    by (simp_all add: key_value_def)
  show ?thesis
    using k v by (auto simp: TrimSpace_key_value parseKeyValue_def c TrimSpace_good_key
        TrimSpace_leading_space TrimSpace_trimmed good_key_def)
qed

lemma trimmed_no_cr: "trimmed s \<Longrightarrow> drop_cr s = s"
proof -
  assume s: "trimmed s"
  have "[CHR 0x0D] \<in> set (map rev space_runes)" by (simp add: space_runes_def)
  with s have "\<not> starts_with [CHR 0x0D] (rev s)" by (auto simp: trimmed_def clean_left_def)
  then show ?thesis by (cases s rule: rev_cases) (auto simp: drop_cr_def)
qed

lemma drop_cr_key_value: "trimmed v \<Longrightarrow> drop_cr (key_value k v) = key_value k v"
  using trimmed_no_cr [of v] by (cases v rule: rev_cases) (auto simp: drop_cr_def key_value_def split: if_splits)

lemma hd_TrimSpace_key_value:
  assumes "good_key k" and "trimmed v"
  shows "\<exists>r. TrimSpace (key_value k v) = hd k # r"
proof -
  obtain c cs where "k = c # cs" using assms(1) by (cases k) (auto simp: good_key_def)
  then show ?thesis unfolding TrimSpace_key_value [OF assms] by (auto simp: key_value_def)
qed

lemma EqualFold_Cons: "lower_char c \<noteq> lower_char d \<Longrightarrow> \<not> EqualFold (c # s) (d # t)"
  by (simp add: EqualFold_def)

lemma lower_bracket: "lower_char CHR ''['' = CHR ''[''"
  by code_simp

lemma parse_key_value:
  assumes k: "good_key k" and v: "trimmed v"
  shows "parse_line (drop_cr (key_value k v)) st = parse_switch k v (st\<lparr>ps_lastComment := []\<rparr>)"
proof -
  obtain r where r: "TrimSpace (key_value k v) = hd k # r"
    using hd_TrimSpace_key_value [OF k v] by blast
  have k': "hd k \<noteq> CHR ''#''" "lower_char (hd k) \<noteq> CHR ''[''"
    using k unfolding good_key_def by blast+
  then have "\<not> starts_with ''#'' (hd k # r)" "\<not> EqualFold (hd k # r) ''[interface]''"
    "\<not> EqualFold (hd k # r) ''[peer]''"
    by (simp, intro EqualFold_Cons, simp add: lower_bracket, intro EqualFold_Cons, simp add: lower_bracket)
  then show ?thesis
    using parseKeyValue_key_value [OF k v]
    unfolding parse_line_def drop_cr_key_value [OF v] r Let_def by simp
qed

lemma parse_lines_key_value:
  assumes k: "good_key k" and v: "clean_value v"
  shows "parse_lines (key_value k v # ls) st =
     (case parse_switch k v (st\<lparr>ps_lastComment := []\<rparr>) of Inl e \<Rightarrow> Inl e | Inr s \<Rightarrow> parse_lines ls s)"
proof -
  have "length k \<le> 100" "length v \<le> 65000" "trimmed v"
    using k v by (simp_all add: good_key_def clean_value_def)
  then show ?thesis
    using parse_key_value [OF k, of v st] by (simp add: max_line_def) (simp add: key_value_def)
qed

subsection \<open>The lines of a generated file\<close>

definition opt_line :: "bool \<Rightarrow> string \<Rightarrow> string list" where
  "opt_line b l = (if b then [l] else [])"

definition peer_lines :: "ServerPeerBlock \<Rightarrow> string list" where
  "peer_lines b = [[], ''[Peer]''] @ opt_line (pb_Name b \<noteq> []) (''# '' @ pb_Name b)
     @ [key_value ''PublicKey'' (pb_PublicKey b)]
     @ opt_line (pb_PresharedKey b \<noteq> []) (key_value ''PresharedKey'' (pb_PresharedKey b))
     @ [key_value ''AllowedIPs'' (pb_AllowedIPs b)]
     @ opt_line (pb_Endpoint b \<noteq> []) (key_value ''Endpoint'' (pb_Endpoint b))
     @ opt_line (pb_PersistentKeepalive b > 0)
         (key_value ''PersistentKeepalive'' (itoa (pb_PersistentKeepalive b)))"

definition server_lines :: "ServerConfParams \<Rightarrow> string list" where
  "server_lines p =
     [''[Interface]'', key_value ''PrivateKey'' (sc_PrivateKey p), key_value ''Address'' (sc_Address p),
      key_value ''ListenPort'' (itoa (sc_ListenPort p))]
     @ opt_line (sc_MTU p > 0) (key_value ''MTU'' (itoa (sc_MTU p)))
     @ map (key_value ''PostUp'') (commands (sc_PostUp p))
     @ map (key_value ''PostDown'') (commands (sc_PostDown p))
     @ concat (map peer_lines (sc_Peers p))"

definition unlines :: "string list \<Rightarrow> string" where
  "unlines ls = concat (map (\<lambda>l. l @ nl) ls)"

lemma unlines_simps: "unlines [] = []" "unlines (l # ls) = l @ nl @ unlines ls"
  "unlines (ls @ ms) = unlines ls @ unlines ms" "unlines (if b then ls else ms) = (if b then unlines ls else unlines ms)"
  by (simp_all add: unlines_def)

lemma unlines_concat: "unlines (concat lss) = concat (map unlines lss)"
  by (induction lss) (simp_all add: unlines_simps)

lemma unlines_fields: "unlines (map (key_value k) vs) = concat (map (field k) vs)"
  by (simp add: unlines_def field_def [abs_def] comp_def)

lemma post_lines_commands: "post_lines k s = concat (map (field k) (commands s))"
  by (simp add: post_lines_def commands_def)

lemma unlines_peer_lines:
  "unlines (peer_lines b) = nl @ ''[Peer]'' @ nl
     @ (if pb_Name b \<noteq> [] then ''# '' @ pb_Name b @ nl else []) @ peer_fields b"
  by (simp add: peer_lines_def peer_fields_def opt_line_def unlines_simps field_def)

lemma unlines_opt: "unlines (opt_line b (key_value k v)) = (if b then field k v else [])"
  by (simp add: opt_line_def unlines_simps field_def)

lemma GenerateServerConf_lines: "GenerateServerConf p = unlines (server_lines p)"
  by (simp add: GenerateServerConf_def server_lines_def unlines_simps unlines_opt unlines_concat
      unlines_fields unlines_peer_lines post_lines_commands field_def comp_def)

lemma split_unlines:
  "(\<And>l. l \<in> set ls \<Longrightarrow> CHR 0x0A \<notin> set l) \<Longrightarrow> split_char (CHR 0x0A) (unlines ls) = ls @ [[]]"
  by (induction ls) (simp_all add: unlines_simps split_char_append)

lemma scan_lines_unlines:
  "(\<And>l. l \<in> set ls \<Longrightarrow> CHR 0x0A \<notin> set l) \<Longrightarrow> scan_lines (unlines ls) = ls"
  by (simp add: scan_lines_def split_unlines)

subsection \<open>Parsing the lines\<close>

lemma length_digits: "n < 10 ^ k \<Longrightarrow> 0 < k \<Longrightarrow> length (digits n) \<le> k"
proof (induction k arbitrary: n)
  case (Suc k)
  show ?case
  proof (cases "n < 10")
    case True
    then show ?thesis by (simp add: digits.simps)
  next
    case False
    then have "0 < k" using Suc.prems(1) by (cases k) auto
    moreover have "n div 10 < 10 ^ k" using Suc.prems(1) by (simp add: less_mult_imp_div_less)
    ultimately show ?thesis using Suc.IH False by (subst digits.simps) simp
  qed
qed simp

lemma itoa_clean:
  assumes "0 \<le> i" and "i < 2 ^ 63" shows "clean_value (itoa i)"
proof -
  have "nat i < 10 ^ 20" using assms by simp
  then have "length (itoa i) \<le> 20" using assms length_digits [of "nat i" 20] by (simp add: itoa_def)
  moreover have "CHR 0x0A \<notin> set (itoa i)" using itoa_chars [of "CHR 0x0A" i] by (auto simp: is_digit_def)
  ultimately show ?thesis by (simp add: clean_value_def trimmed_itoa)
qed

lemma parse_int_itoa: "0 \<le> i \<Longrightarrow> i < 2 ^ 63 \<Longrightarrow> parse_int what (itoa i) = Inr i"
  by (simp add: parse_int_def Atoi_itoa)

declare ToLower.simps [simp del]

lemma no_comment [simp]: "ps_lastComment st = [] \<Longrightarrow> st\<lparr>ps_lastComment := []\<rparr> = st"
  by (cases st) simp

lemma ToLower_keys: "ToLower ''PrivateKey'' = ''privatekey''" "ToLower ''Address'' = ''address''"
  "ToLower ''ListenPort'' = ''listenport''" "ToLower ''MTU'' = ''mtu''" "ToLower ''PostUp'' = ''postup''"
  "ToLower ''PostDown'' = ''postdown''" "ToLower ''PublicKey'' = ''publickey''"
  "ToLower ''PresharedKey'' = ''presharedkey''" "ToLower ''AllowedIPs'' = ''allowedips''"
  "ToLower ''Endpoint'' = ''endpoint''" "ToLower ''PersistentKeepalive'' = ''persistentkeepalive''"
  by code_simp+

lemmas generated_fields = parse_lines_key_value good_keys parse_switch_def interface_field_def
  peer_field_def ToLower_keys parse_int_itoa itoa_clean Let_def

lemma parse_header_lines:
  "parse_line (drop_cr []) st = Inr st"
  "parse_line (drop_cr ''[Interface]'') st =
     Inr (st\<lparr>ps_current := sectionInterface, ps_lastComment := []\<rparr>)"
  "ps_lastComment st = [] \<Longrightarrow> parse_line (drop_cr ''[Peer]'') st =
     Inr (st\<lparr>ps_current := sectionPeer, ps_lastComment := [],
             ps_Peers := ps_Peers st @ [zero_parsed_peer]\<rparr>)"
proof -
  have t: "TrimSpace ''[Interface]'' = ''[Interface]''" "TrimSpace ''[Peer]'' = ''[Peer]''"
    by (intro TrimSpace_trimmed trimmed_plain, simp add: plain_char_def)+
  have e: "EqualFold ''[Interface]'' ''[interface]''" "EqualFold ''[Peer]'' ''[peer]''"
    "\<not> EqualFold ''[Peer]'' ''[interface]''" by code_simp+
  show "parse_line (drop_cr []) st = Inr st" by (simp add: parse_line_def drop_cr_def Let_def)
  show "parse_line (drop_cr ''[Interface]'') st =
     Inr (st\<lparr>ps_current := sectionInterface, ps_lastComment := []\<rparr>)"
    by (simp add: parse_line_def drop_cr_def t e Let_def)
  show "ps_lastComment st = [] \<Longrightarrow> parse_line (drop_cr ''[Peer]'') st =
     Inr (st\<lparr>ps_current := sectionPeer, ps_lastComment := [],
             ps_Peers := ps_Peers st @ [zero_parsed_peer]\<rparr>)"
    by (simp add: parse_line_def drop_cr_def t e Let_def)
qed

lemma parse_comment:
  assumes "trimmed n" and "n \<noteq> []" and "ps_current st = sectionPeer" and "ps_Peers st = ps @ [q]"
    and "pp_Name q = []"
  shows "parse_line (drop_cr (''# '' @ n)) st =
     Inr (st\<lparr>ps_lastComment := n, ps_Peers := ps @ [q\<lparr>pp_Name := n\<rparr>]\<rparr>)"
proof -
  have t: "trimmed (''# '' @ n)" using assms(1,2) by (intro trimmed_append) (auto simp: plain_char_def)
  then have "drop_cr (''# '' @ n) = ''# '' @ n" "TrimSpace (''# '' @ n) = ''# '' @ n"
    by (simp_all only: trimmed_no_cr TrimSpace_trimmed)
  with assms show ?thesis
    by (simp add: parse_line_def Let_def TrimSpace_leading_space TrimSpace_trimmed set_last_def)
qed

lemma parse_commands:
  assumes "\<And>c. c \<in> set cs \<Longrightarrow> clean_value c" and "ps_current st = sectionInterface"
    and "ps_lastComment st = []"
  shows "parse_lines (map (key_value ''PostUp'') cs) st =
       Inr (st\<lparr>ps_Interface := (ps_Interface st)\<lparr>pi_PostUp := pi_PostUp (ps_Interface st) @ cs\<rparr>\<rparr>)"
    and "parse_lines (map (key_value ''PostDown'') cs) st =
       Inr (st\<lparr>ps_Interface := (ps_Interface st)\<lparr>pi_PostDown := pi_PostDown (ps_Interface st) @ cs\<rparr>\<rparr>)"
  using assms by (induction cs arbitrary: st) (simp_all add: generated_fields del: parse_lines.simps(2))

definition parsed_block :: "ServerPeerBlock \<Rightarrow> ParsedPeer" where
  "parsed_block b = \<lparr>pp_Name = pb_Name b, pp_PublicKey = pb_PublicKey b,
     pp_PresharedKey = pb_PresharedKey b, pp_AllowedIPs = pb_AllowedIPs b, pp_Endpoint = pb_Endpoint b,
     pp_PersistentKeepalive = max 0 (pb_PersistentKeepalive b)\<rparr>"

definition clean_block :: "ServerPeerBlock \<Rightarrow> bool" where
  "clean_block b \<longleftrightarrow> clean_value (pb_Name b) \<and> clean_value (pb_PublicKey b)
     \<and> clean_value (pb_PresharedKey b) \<and> clean_value (pb_AllowedIPs b) \<and> clean_value (pb_Endpoint b)
     \<and> pb_PersistentKeepalive b < 2 ^ 63"

definition after_block :: "ServerPeerBlock \<Rightarrow> parser \<Rightarrow> parser" where
  "after_block b st = st\<lparr>ps_current := sectionPeer, ps_lastComment := [],
     ps_Peers := ps_Peers st @ [parsed_block b]\<rparr>"

lemma parse_peer_fields:
  assumes b: "clean_block b" and st: "ps_current st = sectionPeer" "ps_Peers st = ps @ [q]"
    and q: "q = zero_parsed_peer\<lparr>pp_Name := n\<rparr>"
  shows "parse_lines ([key_value ''PublicKey'' (pb_PublicKey b)]
     @ opt_line (pb_PresharedKey b \<noteq> []) (key_value ''PresharedKey'' (pb_PresharedKey b))
     @ [key_value ''AllowedIPs'' (pb_AllowedIPs b)]
     @ opt_line (pb_Endpoint b \<noteq> []) (key_value ''Endpoint'' (pb_Endpoint b))
     @ opt_line (pb_PersistentKeepalive b > 0)
         (key_value ''PersistentKeepalive'' (itoa (pb_PersistentKeepalive b)))) st =
     Inr (st\<lparr>ps_lastComment := [], ps_Peers := ps @ [(parsed_block b)\<lparr>pp_Name := n\<rparr>]\<rparr>)"
  using assms
  by (simp add: generated_fields clean_block_def opt_line_def parsed_block_def zero_parsed_peer_def
      set_last_def del: parse_lines.simps(2))

lemma parse_peer_lines:
  assumes b: "clean_block b" and st: "ps_lastComment st = []"
  shows "parse_lines (peer_lines b) st = Inr (after_block b st)"
proof -
  let ?st = "st\<lparr>ps_current := sectionPeer, ps_lastComment := [], ps_Peers := ps_Peers st @ [zero_parsed_peer]\<rparr>"
  let ?st' = "?st\<lparr>ps_lastComment := pb_Name b, ps_Peers := ps_Peers st @ [zero_parsed_peer\<lparr>pp_Name := pb_Name b\<rparr>]\<rparr>"
  have two: "parse_lines ([[], ''[Peer]''] @ ls) st = parse_lines ls ?st" for ls
    using st by (simp add: parse_header_lines max_line_def)
  have name: "parse_lines (opt_line (pb_Name b \<noteq> []) (''# '' @ pb_Name b) @ ls) ?st = parse_lines ls ?st'" for ls
  proof (cases "pb_Name b = []")
    case True
    then show ?thesis by (simp add: opt_line_def zero_parsed_peer_def)
  next
    case False
    then have "parse_line (drop_cr (''# '' @ pb_Name b)) ?st = Inr ?st'"
      using b parse_comment [of "pb_Name b" ?st "ps_Peers st" zero_parsed_peer]
      by (simp add: clean_block_def clean_value_def zero_parsed_peer_def)
    moreover have "\<not> max_line < length (''# '' @ pb_Name b)"
      using b by (simp add: clean_block_def clean_value_def max_line_def)
    ultimately show ?thesis using False by (simp add: opt_line_def)
  qed
  show ?thesis
    unfolding peer_lines_def two name
    by (subst parse_peer_fields [OF b, of ?st' "ps_Peers st" _ "pb_Name b"])
      (simp_all add: after_block_def parsed_block_def)
qed

lemma parse_all_peer_lines:
  "(\<And>b. b \<in> set bs \<Longrightarrow> clean_block b) \<Longrightarrow> ps_lastComment st = [] \<Longrightarrow>
   \<exists>c. parse_lines (concat (map peer_lines bs)) st =
     Inr (st\<lparr>ps_current := c, ps_Peers := ps_Peers st @ map parsed_block bs\<rparr>)"
proof (induction bs arbitrary: st)
  case Nil
  then show ?case by (intro exI [of _ "ps_current st"]) simp
next
  case (Cons b bs)
  have "ps_lastComment (after_block b st) = []" by (simp add: after_block_def)
  with Cons obtain c where
    "parse_lines (concat (map peer_lines bs)) (after_block b st) =
      Inr ((after_block b st)\<lparr>ps_current := c, ps_Peers := ps_Peers (after_block b st) @ map parsed_block bs\<rparr>)"
    by fastforce
  moreover have "st\<lparr>ps_lastComment := []\<rparr> = st" using Cons.prems by simp
  ultimately show ?case
    using Cons.prems by (intro exI [of _ c]) (simp add: parse_lines_append parse_peer_lines after_block_def)
qed

definition clean_conf :: "ServerConfParams \<Rightarrow> bool" where
  "clean_conf p \<longleftrightarrow> clean_value (sc_PrivateKey p) \<and> sc_PrivateKey p \<noteq> [] \<and> clean_value (sc_Address p)
     \<and> 0 \<le> sc_ListenPort p \<and> sc_ListenPort p < 2 ^ 63 \<and> sc_MTU p < 2 ^ 63
     \<and> length (sc_PostUp p) \<le> 65000 \<and> length (sc_PostDown p) \<le> 65000
     \<and> (\<forall>b \<in> set (sc_Peers p). clean_block b)"

definition parsed_conf :: "ServerConfParams \<Rightarrow> ParsedConfig" where
  "parsed_conf p = \<lparr>pc_Interface = \<lparr>pi_PrivateKey = sc_PrivateKey p, pi_Address = sc_Address p,
       pi_ListenPort = sc_ListenPort p, pi_DNS = [], pi_MTU = max 0 (sc_MTU p),
       pi_PostUp = commands (sc_PostUp p), pi_PostDown = commands (sc_PostDown p)\<rparr>,
     pc_Peers = map parsed_block (sc_Peers p)\<rparr>"

lemma length_join: "x \<in> set ls \<Longrightarrow> length x \<le> length (join sep ls)"
  by (induction sep ls rule: join.induct) auto

lemma length_split_char: "x \<in> set (split_char c s) \<Longrightarrow> length x \<le> length s"
  using length_join [of x "split_char c s" "[c]"] by (simp add: join_split_char)

lemma length_TrimSpace: "length (TrimSpace s) \<le> length s"
proof -
  have "length (trim_left s) \<le> length s" for s
    unfolding trim_left_def using strip_words_suffix by (rule suffix_length_le)
  moreover have "length (trim_right s) \<le> length s" for s
    using suffix_length_le [OF strip_words_suffix, of "map rev space_runes" "rev s"]
    by (simp add: trim_right_def)
  ultimately show ?thesis unfolding TrimSpace_def by (meson order_trans)
qed

lemma commands_clean:
  assumes "length s \<le> 65000" and "c \<in> set (commands s)" shows "clean_value c"
proof -
  obtain x where x: "x \<in> set (split_char (CHR 0x0A) s)" "c = TrimSpace x"
    using assms(2) by (auto simp: commands_def)
  have "CHR 0x0A \<notin> set c" using x split_char_parts set_TrimSpace by blast
  moreover have "length c \<le> 65000"
    using x assms(1) length_split_char [OF x(1)] length_TrimSpace [of x] by simp
  ultimately show ?thesis using x by (simp add: clean_value_def trimmed_TrimSpace)
qed

lemma nl_key_value: "good_key k \<Longrightarrow> CHR 0x0A \<in> set (key_value k v) \<longleftrightarrow> CHR 0x0A \<in> set v"
proof -
  assume "good_key k"
  moreover have "\<not> plain_char (CHR 0x0A)" by (simp add: plain_char_def)
  ultimately have "CHR 0x0A \<notin> set k" unfolding good_key_def by blast
  then show ?thesis by (simp add: key_value_def)
qed

lemma clean_value_nl: "clean_value v \<Longrightarrow> CHR 0x0A \<notin> set v"
  by (simp add: clean_value_def)

lemma opt_line_in: "l \<in> set (opt_line b m) \<longleftrightarrow> b \<and> l = m"
  by (auto simp: opt_line_def)

lemma peer_lines_no_nl:
  assumes b: "clean_block b" and l: "l \<in> set (peer_lines b)" shows "CHR 0x0A \<notin> set l"
proof -
  have f: "CHR 0x0A \<notin> set (pb_Name b)" "CHR 0x0A \<notin> set (pb_PublicKey b)"
    "CHR 0x0A \<notin> set (pb_PresharedKey b)" "CHR 0x0A \<notin> set (pb_AllowedIPs b)"
    "CHR 0x0A \<notin> set (pb_Endpoint b)"
    using b by (simp_all add: clean_block_def clean_value_def)
  have i: "CHR 0x0A \<notin> set (itoa i)" for i
    using itoa_chars [of "CHR 0x0A" i] by (auto simp: is_digit_def)
  show ?thesis
    using l f i unfolding peer_lines_def by (auto simp: opt_line_in nl_key_value good_keys)
qed

lemma server_lines_no_nl:
  assumes p: "clean_conf p" and l: "l \<in> set (server_lines p)"
  shows "CHR 0x0A \<notin> set l"
proof -
  have i: "CHR 0x0A \<notin> set (itoa i)" for i
    using itoa_chars [of "CHR 0x0A" i] by (auto simp: is_digit_def)
  have f: "CHR 0x0A \<notin> set (sc_PrivateKey p)" "CHR 0x0A \<notin> set (sc_Address p)"
    using p by (simp_all add: clean_conf_def clean_value_def)
  have c: "CHR 0x0A \<notin> set c" if "c \<in> set (commands s)" for c s
    using that split_char_parts set_TrimSpace unfolding commands_def by fastforce
  have b: "CHR 0x0A \<notin> set m" if "b \<in> set (sc_Peers p)" "m \<in> set (peer_lines b)" for b m
    using p that peer_lines_no_nl unfolding clean_conf_def by blast
  show ?thesis
    using l i f c b unfolding server_lines_def
    by (auto simp: opt_line_in nl_key_value good_keys)
qed

lemma parse_server_lines:
  assumes p: "clean_conf p"
  shows "\<exists>c. parse_lines (server_lines p) initial_parser =
    Inr \<lparr>ps_Interface = pc_Interface (parsed_conf p), ps_Peers = pc_Peers (parsed_conf p),
         ps_current = c, ps_lastComment = []\<rparr>"
proof -
  let ?i = "\<lparr>pi_PrivateKey = sc_PrivateKey p, pi_Address = sc_Address p, pi_ListenPort = sc_ListenPort p,
     pi_DNS = [], pi_MTU = max 0 (sc_MTU p), pi_PostUp = [], pi_PostDown = []\<rparr>"
  let ?st = "\<lambda>i. \<lparr>ps_Interface = i, ps_Peers = [], ps_current = sectionInterface, ps_lastComment = []\<rparr>"
  have head: "parse_lines ([''[Interface]'', key_value ''PrivateKey'' (sc_PrivateKey p),
      key_value ''Address'' (sc_Address p), key_value ''ListenPort'' (itoa (sc_ListenPort p))]
     @ opt_line (sc_MTU p > 0) (key_value ''MTU'' (itoa (sc_MTU p)))) initial_parser = Inr (?st ?i)"
  proof -
    have one: "parse_lines (''[Interface]'' # ls) initial_parser =
        parse_lines ls (?st zero_parsed_interface)" for ls
      by (simp add: parse_header_lines max_line_def initial_parser_def)
    show ?thesis
      unfolding append_Cons one using p
      by (simp add: generated_fields clean_conf_def opt_line_def zero_parsed_interface_def
          del: parse_lines.simps(2))
  qed
  have up: "\<And>c. c \<in> set (commands (sc_PostUp p)) \<Longrightarrow> clean_value c"
    and down: "\<And>c. c \<in> set (commands (sc_PostDown p)) \<Longrightarrow> clean_value c"
    and blocks: "\<And>b. b \<in> set (sc_Peers p) \<Longrightarrow> clean_block b"
    using p commands_clean unfolding clean_conf_def by blast+
  obtain c where c: "parse_lines (concat (map peer_lines (sc_Peers p))) (?st (pc_Interface (parsed_conf p))) =
      Inr ((?st (pc_Interface (parsed_conf p)))\<lparr>ps_current := c, ps_Peers := map parsed_block (sc_Peers p)\<rparr>)"
    using parse_all_peer_lines [OF blocks, of "sc_Peers p" "?st (pc_Interface (parsed_conf p))"] by auto
  show ?thesis
    unfolding server_lines_def append_assoc [symmetric]
    by (subst append_assoc, subst append_assoc, subst parse_lines_append, subst head)
      (use c in \<open>simp add: parse_lines_append parse_commands up down parsed_conf_def\<close>)
qed

lemma parse_server_conf:
  assumes "clean_conf p"
  shows "ParseConfig (GenerateServerConf p) = Inr (parsed_conf p)"
proof -
  obtain c where "parse_lines (server_lines p) initial_parser =
    Inr \<lparr>ps_Interface = pc_Interface (parsed_conf p), ps_Peers = pc_Peers (parsed_conf p),
         ps_current = c, ps_lastComment = []\<rparr>"
    using parse_server_lines [OF assms] by blast
  moreover have "scan_lines (GenerateServerConf p) = server_lines p"
    unfolding GenerateServerConf_lines
    by (rule scan_lines_unlines) (rule server_lines_no_nl [OF assms])
  moreover have "pi_PrivateKey (pc_Interface (parsed_conf p)) \<noteq> []"
    using assms by (simp add: clean_conf_def parsed_conf_def)
  ultimately show ?thesis by (simp add: ParseConfig_def)
qed

section \<open>Properties\<close>

text \<open>C1. What \<open>GenerateServerConf\<close> writes, \<open>ParseConfig\<close> reads back: every field of the interface
  and of every peer, in order, except DNS, which a server file never carries. The fields must be
  free of line ends and of white space at the ends.\<close>

theorem ParseConfig_GenerateServerConf:
  assumes "clean_conf p"
  shows "ParseConfig (GenerateServerConf p) = Inr (parsed_conf p)"
  by (rule parse_server_conf [OF assms])

definition sample_block :: ServerPeerBlock where
  "sample_block = \<lparr>pb_Name = ''laptop'', pb_PublicKey = ''cHVi'', pb_PresharedKey = [],
     pb_AllowedIPs = ''10.0.0.2/32'', pb_Endpoint = [], pb_PersistentKeepalive = 25\<rparr>"

definition sample_conf :: ServerConfParams where
  "sample_conf = \<lparr>sc_PrivateKey = ''cHJpdg=='', sc_Address = ''10.0.0.1/24'', sc_ListenPort = 51820,
     sc_MTU = 1420, sc_DNS = ''1.1.1.1'', sc_PostUp = ''sysctl -w a=1'', sc_PostDown = [],
     sc_Peers = [sample_block]\<rparr>"

lemma sample_conf_clean: "clean_conf sample_conf"
  by (simp add: clean_conf_def clean_block_def clean_value_def sample_conf_def sample_block_def)
    (intro conjI trimmed_plain, simp_all add: plain_char_def)

lemma ParseConfig_GenerateServerConf_witness:
  "ParseConfig (GenerateServerConf sample_conf) = Inr (parsed_conf sample_conf)"
  by (rule ParseConfig_GenerateServerConf [OF sample_conf_clean])

definition evil_conf :: "string \<Rightarrow> ServerConfParams" where
  "evil_conf c = sample_conf\<lparr>sc_PostUp := [],
     sc_Peers := [sample_block\<lparr>pb_Name :=
       ''x'' @ nl @ ''[Interface]'' @ nl @ ''PostUp = '' @ c @ nl @ ''[Peer]''\<rparr>]\<rparr>"

lemma parse_lines_headers:
  "parse_lines ([] # ls) st = parse_lines ls st"
  "parse_lines (''[Interface]'' # ls) st =
     parse_lines ls (st\<lparr>ps_current := sectionInterface, ps_lastComment := []\<rparr>)"
  "ps_lastComment st = [] \<Longrightarrow> parse_lines (''[Peer]'' # ls) st =
     parse_lines ls (st\<lparr>ps_current := sectionPeer, ps_lastComment := [],
             ps_Peers := ps_Peers st @ [zero_parsed_peer]\<rparr>)"
  by (simp_all add: parse_header_lines max_line_def)

lemma evil_lines:
  "GenerateServerConf (evil_conf c) = unlines
     ([''[Interface]'', key_value ''PrivateKey'' ''cHJpdg=='', key_value ''Address'' ''10.0.0.1/24'',
       key_value ''ListenPort'' (itoa 51820), key_value ''MTU'' (itoa 1420), [], ''[Peer]'', ''# x'',
       ''[Interface]'', key_value ''PostUp'' c, ''[Peer]'', key_value ''PublicKey'' ''cHVi'',
       key_value ''AllowedIPs'' ''10.0.0.2/32'', key_value ''PersistentKeepalive'' (itoa 25)])"
  by (simp add: GenerateServerConf_def evil_conf_def sample_conf_def sample_block_def unlines_simps
      post_lines_def peer_fields_def field_def key_value_def)

lemma comment_x: "ps_current st = sectionPeer \<Longrightarrow> ps_Peers st = [zero_parsed_peer] \<Longrightarrow>
   parse_lines (''# x'' # ls) st =
     parse_lines ls (st\<lparr>ps_lastComment := ''x'', ps_Peers := [zero_parsed_peer\<lparr>pp_Name := ''x''\<rparr>]\<rparr>)"
  using parse_comment [of "''x''" st "[]" zero_parsed_peer]
  by (simp add: trimmed_plain plain_char_def zero_parsed_peer_def max_line_def)

text \<open>C2. A peer name is written into the file as it is. One that carries line ends adds lines of its
  own: here an [Interface] section with a PostUp command of the attacker's choice, which wg-quick
  runs as root, although the interface has no PostUp command.\<close>

theorem name_injects_PostUp:
  assumes "clean_value c"
  shows "\<exists>cfg. ParseConfig (GenerateServerConf (evil_conf c)) = Inr cfg
     \<and> pi_PostUp (pc_Interface cfg) = [c] \<and> commands (sc_PostUp (evil_conf c)) = []"
proof -
  let ?ls = "[''[Interface]'', key_value ''PrivateKey'' ''cHJpdg=='', key_value ''Address'' ''10.0.0.1/24'',
       key_value ''ListenPort'' (itoa 51820), key_value ''MTU'' (itoa 1420), [], ''[Peer]'', ''# x'',
       ''[Interface]'', key_value ''PostUp'' c, ''[Peer]'', key_value ''PublicKey'' ''cHVi'',
       key_value ''AllowedIPs'' ''10.0.0.2/32'', key_value ''PersistentKeepalive'' (itoa 25)]"
  have v: "clean_value ''cHJpdg==''" "clean_value ''10.0.0.1/24''" "clean_value ''cHVi''"
    "clean_value ''10.0.0.2/32''"
    by (simp_all add: clean_value_def trimmed_plain plain_char_def)
  have no_nl: "CHR 0x0A \<notin> set l" if "l \<in> set ?ls" for l
    using that assms v itoa_clean [of 51820] itoa_clean [of 1420] itoa_clean [of 25]
    by (auto simp: nl_key_value good_keys clean_value_def)
  have scan: "scan_lines (GenerateServerConf (evil_conf c)) = ?ls"
    unfolding evil_lines by (rule scan_lines_unlines) (rule no_nl)
  have "\<exists>st. parse_lines ?ls initial_parser = Inr st \<and> pi_PrivateKey (ps_Interface st) \<noteq> []
      \<and> pi_PostUp (ps_Interface st) = [c]"
    using assms v
    by (simp add: generated_fields parse_lines_headers comment_x initial_parser_def
        zero_parsed_interface_def set_last_def del: parse_lines.simps(2))
  then show ?thesis
    unfolding ParseConfig_def scan by (auto simp: evil_conf_def commands_def)
qed

lemma name_injects_PostUp_witness:
  "\<exists>cfg. ParseConfig (GenerateServerConf (evil_conf ''reboot'')) = Inr cfg
     \<and> pi_PostUp (pc_Interface cfg) = [''reboot''] \<and> commands (sc_PostUp (evil_conf ''reboot'')) = []"
  by (rule name_injects_PostUp) (simp add: clean_value_def trimmed_plain plain_char_def)

end
