(* ===== verification/Manager.thy ===== *)
theory Manager
  imports Schema Crypto Confgen
begin

text \<open>
  The manager of interfaces and peers (internal/wg/manager.go): the operations that keep the
  database and the running WireGuard interfaces in step. A call on \<^verbatim>\<open>NetManager\<close> appends to the
  world's \<open>net_log\<close> and its result is the environment's; \<^verbatim>\<open>wgctrl\<close>'s Device is a parameter.
\<close>

section \<open>Allowed IPs\<close>

fun merge_parts :: "string list \<Rightarrow> string list \<Rightarrow> string list" where
  "merge_parts seen [] = []"
| "merge_parts seen (x # xs) =
     (let cidr = TrimSpace x in
      if cidr = [] \<or> cidr \<in> set seen then merge_parts seen xs
      else cidr # merge_parts (cidr # seen) xs)"

definition mergeAllowedIPStrings :: "string \<Rightarrow> string \<Rightarrow> string" where
  "mergeAllowedIPStrings tunnelIP allowedIPs =
     join '', '' (TrimSpace tunnelIP
       # merge_parts [TrimSpace tunnelIP] (split_char CHR '','' allowedIPs))"

text \<open>
  \<open>net.IPNet\<close>: the masked address, the prefix length and the address width. \<open>String\<close> prints an
  address that is an IPv4 one in its IPv6 form with the last 32 bits of the mask.
\<close>

type_synonym ipnet = "ip \<times> nat \<times> nat"

definition IPNet_String :: "ipnet \<Rightarrow> string" where
  "IPNet_String n = (case n of (a, m, b) \<Rightarrow>
     IP_String a @ ''/'' @ itoa (int (if b = 128 \<and> To4 a \<noteq> None then m - 96 else m)))"

fun merge_nets :: "string list \<Rightarrow> ipnet list \<Rightarrow> ipnet list" where
  "merge_nets seen [] = []"
| "merge_nets seen (n # ns) =
     (if IPNet_String n \<in> set seen then merge_nets seen ns
      else n # merge_nets (IPNet_String n # seen) ns)"

definition mergeAllowedIPs :: "ipnet list \<Rightarrow> ipnet list \<Rightarrow> ipnet list" where
  "mergeAllowedIPs a b = merge_nets [] (a @ b)"

text \<open>The first \<open>m\<close> bits of the last \<open>b\<close> bits of the address are kept.\<close>

definition mask_byte :: "nat \<Rightarrow> nat \<Rightarrow> nat" where
  "mask_byte m x = x div 2 ^ (8 - min 8 m) * 2 ^ (8 - min 8 m)"

definition mask_ip :: "nat \<Rightarrow> nat \<Rightarrow> ip \<Rightarrow> ip" where
  "mask_ip m b a = map (\<lambda>(i, x). mask_byte (m + (128 - b) - 8 * i) x) (enumerate 0 a)"

definition parseAllowedIPs :: "string \<Rightarrow> ipnet list" where
  "parseAllowedIPs s = List.map_filter (\<lambda>x. case ParseCIDR (TrimSpace x) of
       None \<Rightarrow> None | Some (a, m, b) \<Rightarrow> Some (mask_ip m b a, m, b))
     (filter (\<lambda>x. TrimSpace x \<noteq> []) (split_char CHR '','' s))"

section \<open>Interfaces\<close>

definition not_found :: "string \<Rightarrow> string \<Rightarrow> error" where
  "not_found what k = ErrQ (what @ '' '') k '' not found''"

definition Manager_CreateInterface :: "env \<Rightarrow> iface \<Rightarrow> (error + iface) io" where
  "Manager_CreateInterface env i =
     check ''generating keys'' (GenerateKeyPair env) (\<lambda>(privKey, pubKey).
     check ''encrypting private key'' (Encrypt env privKey) (\<lambda>encrypted.
     check ''storing interface''
       (CreateInterface env (i\<lparr>if_PrivateKeyEncrypted := encrypted, if_Enabled := True\<rparr>)) ok))"

definition Manager_DeleteInterface :: "env \<Rightarrow> string \<Rightarrow> bool \<Rightarrow> (error + unit) io" where
  "Manager_DeleteInterface env k force =
     check ''getting interface'' (GetInterface env k) (\<lambda>r. case r of
       None \<Rightarrow> fail (not_found ''interface'' k)
     | Some i \<Rightarrow>
         attempt
           (if force then ok ()
            else check ''listing peers'' (ListPeers env k) (\<lambda>ps.
              if ps \<noteq> []
              then fail (ErrQ ''interface '' k ('' has '' @ itoa (int (length ps)) @ '' peers; use --force to delete''))
              else ok ()))
           fail
           (\<lambda>_. ignore (net_call env (NetDelete k))
             (check ''deleting interface from store'' (DeleteInterface env k) ok)))"

text \<open>The peer blocks of \<open>SyncInterface\<close>: enabled peers, their tunnel address always allowed.\<close>

definition effective_allowed_ips :: "peer \<Rightarrow> string" where
  "effective_allowed_ips p =
     (if p_Address p \<noteq> [] \<and> ensureHost32 (p_Address p) \<noteq> []
      then mergeAllowedIPStrings (ensureHost32 (p_Address p)) (p_AllowedIPs p)
      else p_AllowedIPs p)"

fun peer_blocks :: "env \<Rightarrow> peer list \<Rightarrow> error + ServerPeerBlock list" where
  "peer_blocks env [] = Inr []"
| "peer_blocks env (p # ps) =
     (if \<not> p_Enabled p then peer_blocks env ps
      else
        (case (if p_PresharedKeyEncrypted p \<noteq> [] then Decrypt env (p_PresharedKeyEncrypted p) else Inr []) of
           Inl e \<Rightarrow> Inl (Wrap ''decrypting preshared key'' e)
         | Inr psk \<Rightarrow>
             (case peer_blocks env ps of
                Inl e \<Rightarrow> Inl e
              | Inr bs \<Rightarrow> Inr (\<lparr>pb_Name = p_Name p, pb_PublicKey = p_PublicKey p, pb_PresharedKey = psk,
                    pb_AllowedIPs = effective_allowed_ips p, pb_Endpoint = p_Endpoint p,
                    pb_PersistentKeepalive = p_PersistentKeepalive p\<rparr> # bs))))"

definition server_params :: "string \<Rightarrow> iface \<Rightarrow> ServerPeerBlock list \<Rightarrow> ServerConfParams" where
  "server_params privKey i bs =
     \<lparr>sc_PrivateKey = privKey, sc_Address = if_Address i, sc_ListenPort = if_ListenPort i,
      sc_MTU = if_MTU i, sc_DNS = if_DNS i, sc_PostUp = if_PostUp i, sc_PostDown = if_PostDown i,
      sc_Peers = bs\<rparr>"

definition SyncInterface :: "env \<Rightarrow> string \<Rightarrow> (error + unit) io" where
  "SyncInterface env k =
     check ''getting interface'' (GetInterface env k) (\<lambda>r. case r of
       None \<Rightarrow> fail (not_found ''interface'' k)
     | Some i \<Rightarrow>
         if \<not> if_Enabled i then ignore (net_call env (NetSetDown k)) (ok ())
         else
           check ''decrypting private key'' (State_Monad.return (Decrypt env (if_PrivateKeyEncrypted i)))
             (\<lambda>privKey.
           check ''listing peers'' (ListPeers env k) (\<lambda>ps.
           attempt (State_Monad.return (peer_blocks env ps)) fail (\<lambda>bs.
           let params = server_params privKey i bs in
           check ''checking interface'' (net_call env (NetExists k)) (\<lambda>up.
           if up then
             check ''syncing config'' (net_call env (NetSyncConf k (GenerateStrippedConf params))) (\<lambda>_.
             ignore (net_call env (NetSaveConf k (GenerateServerConf params))) (ok ()))
           else
             check ''saving config'' (net_call env (NetSaveConf k (GenerateServerConf params))) (\<lambda>_.
             check ''bringing up interface'' (net_call env (NetQuickUp k)) (\<lambda>_. ok ())))))))"

definition SyncAll :: "env \<Rightarrow> (error + unit) io" where
  "SyncAll env =
     check ''listing interfaces'' (ListInterfaces env) (\<lambda>is.
     State_Monad.bind
       (fold_act is (\<lambda>i errs. State_Monad.bind (SyncInterface env (if_ID i)) (\<lambda>r.
          State_Monad.return (case r of Inl e \<Rightarrow> errs @ [(if_ID i, e)] | Inr _ \<Rightarrow> errs))) [])
       (\<lambda>errs. if errs \<noteq> [] then fail (SyncErrors errs) else ok ()))"

definition StartInterface :: "env \<Rightarrow> string \<Rightarrow> (error + unit) io" where
  "StartInterface env k =
     check ''getting interface'' (GetInterface env k) (\<lambda>r. case r of
       None \<Rightarrow> fail (not_found ''interface'' k)
     | Some i \<Rightarrow>
         check ''updating interface'' (UpdateInterface env (i\<lparr>if_Enabled := True\<rparr>)) (\<lambda>_.
         attempt (net_call env (NetQuickUp k)) (\<lambda>_. SyncInterface env k) (\<lambda>_. ok ())))"

definition StopInterface :: "env \<Rightarrow> string \<Rightarrow> (error + unit) io" where
  "StopInterface env k =
     check ''getting interface'' (GetInterface env k) (\<lambda>r. case r of
       None \<Rightarrow> fail (not_found ''interface'' k)
     | Some i \<Rightarrow>
         attempt
           (attempt (net_call env (NetQuickDown k))
              (\<lambda>_. check ''bringing down interface'' (net_call env (NetSetDown k)) (\<lambda>_. ok ()))
              (\<lambda>_. ok ()))
           fail
           (\<lambda>_. check ''updating interface'' (UpdateInterface env (i\<lparr>if_Enabled := False\<rparr>)) (\<lambda>_. ok ())))"

definition RestartInterface :: "env \<Rightarrow> string \<Rightarrow> (error + unit) io" where
  "RestartInterface env k =
     ignore (net_call env (NetQuickDown k))
       (attempt (net_call env (NetQuickUp k)) (\<lambda>_. SyncInterface env k) (\<lambda>_. ok ()))"

section \<open>Peers\<close>

definition AddPeer :: "env \<Rightarrow> peer \<Rightarrow> bool \<Rightarrow> (error + peer) io" where
  "AddPeer env p generatePSK =
     check ''getting interface'' (GetInterface env (p_InterfaceID p)) (\<lambda>r. case r of
       None \<Rightarrow> fail (not_found ''interface'' (p_InterfaceID p))
     | Some _ \<Rightarrow>
         check ''generating peer keys'' (GenerateKeyPair env) (\<lambda>(privKey, pubKey).
         check ''encrypting peer private key'' (Encrypt env privKey) (\<lambda>encPriv.
         attempt
           (if generatePSK then
              check ''generating preshared key'' (GeneratePresharedKey env) (\<lambda>psk.
              check ''encrypting preshared key'' (Encrypt env psk) ok)
            else ok (p_PresharedKeyEncrypted p))
           fail (\<lambda>encPSK.
         check ''storing peer''
           (CreatePeer env (p\<lparr>p_PublicKey := pubKey, p_PrivateKeyEncrypted := encPriv,
              p_PresharedKeyEncrypted := encPSK, p_Enabled := True\<rparr>)) (\<lambda>p'.
         check ''syncing interface after adding peer'' (SyncInterface env (p_InterfaceID p)) (\<lambda>_.
         ok p'))))))"

definition RemovePeer :: "env \<Rightarrow> string \<Rightarrow> (error + unit) io" where
  "RemovePeer env k =
     check ''getting peer'' (GetPeer env k) (\<lambda>r. case r of
       None \<Rightarrow> fail (not_found ''peer'' k)
     | Some p \<Rightarrow>
         check ''deleting peer'' (DeletePeer env k) (\<lambda>_.
         check ''syncing interface after removing peer'' (SyncInterface env (p_InterfaceID p)) ok))"

definition setPeerEnabled :: "env \<Rightarrow> string \<Rightarrow> bool \<Rightarrow> (error + unit) io" where
  "setPeerEnabled env k enabled =
     check ''getting peer'' (GetPeer env k) (\<lambda>r. case r of
       None \<Rightarrow> fail (not_found ''peer'' k)
     | Some p \<Rightarrow>
         check ''updating peer'' (UpdatePeer env (p\<lparr>p_Enabled := enabled\<rparr>)) (\<lambda>_.
         check ''syncing interface after updating peer'' (SyncInterface env (p_InterfaceID p)) ok))"

definition EnablePeer :: "env \<Rightarrow> string \<Rightarrow> (error + unit) io" where
  "EnablePeer env k = setPeerEnabled env k True"

definition DisablePeer :: "env \<Rightarrow> string \<Rightarrow> (error + unit) io" where
  "DisablePeer env k = setPeerEnabled env k False"

section \<open>Status\<close>

record PeerStatus =
  st_Peer :: peer
  st_HasPrivateKey :: bool
  st_LastHandshake :: time
  st_TransferRx :: int
  st_TransferTx :: int
  st_Connected :: bool
  st_Endpoint :: string
  st_ConnectedSince :: "time option"

record InterfaceStatus =
  is_Interface :: iface
  is_PublicKey :: string
  is_Running :: bool
  is_Peers :: "PeerStatus list"

definition db_status :: "peer \<Rightarrow> PeerStatus" where
  "db_status p = \<lparr>st_Peer = p, st_HasPrivateKey = p_PrivateKeyEncrypted p \<noteq> [], st_LastHandshake = 0,
     st_TransferRx = 0, st_TransferTx = 0, st_Connected = False, st_Endpoint = [], st_ConnectedSince = None\<rparr>"

text \<open>A Go map built by assignments in a loop: the last entry of a key stays.\<close>

definition live_by_key :: "live_peer list \<Rightarrow> string \<Rightarrow> live_peer option" where
  "live_by_key ls = map_of (rev (map (\<lambda>l. (lp_PublicKey l, l)) ls))"

definition handshake_threshold :: duration where "handshake_threshold = 135 * second"

definition live_status :: "time \<Rightarrow> (string \<Rightarrow> live_peer option) \<Rightarrow> peer \<Rightarrow> PeerStatus" where
  "live_status now lv p =
     (case lv (p_PublicKey p) of
        None \<Rightarrow> db_status p
      | Some l \<Rightarrow> (db_status p)\<lparr>
          st_LastHandshake := lp_LastHandshakeTime l,
          st_TransferRx := lp_ReceiveBytes l,
          st_TransferTx := lp_TransmitBytes l,
          st_Endpoint := (case lp_Endpoint l of None \<Rightarrow> [] | Some e \<Rightarrow> e),
          st_Connected := (\<not> is_zero (lp_LastHandshakeTime l)
             \<and> time_sub now (lp_LastHandshakeTime l) < handshake_threshold)\<rparr>)"

definition GetStatus :: "env \<Rightarrow> string \<Rightarrow> (error + InterfaceStatus) io" where
  "GetStatus env k =
     check ''getting interface'' (GetInterface env k) (\<lambda>r. case r of
       None \<Rightarrow> fail (not_found ''interface'' k)
     | Some i \<Rightarrow>
         check ''decrypting private key'' (State_Monad.return (Decrypt env (if_PrivateKeyEncrypted i)))
           (\<lambda>privKey.
         check ''deriving public key'' (State_Monad.return (PublicKeyFromPrivate env privKey)) (\<lambda>pubKey.
         check ''listing peers'' (ListPeers env k) (\<lambda>ps.
         or_zero False (net_call env (NetExists k)) (\<lambda>up.
         attempt (ask (\<lambda>t. wg_device env t k))
           (\<lambda>_. ok \<lparr>is_Interface = i, is_PublicKey = pubKey, is_Running = up, is_Peers = map db_status ps\<rparr>)
           (\<lambda>ls. State_Monad.bind (time_now env) (\<lambda>now.
              ok \<lparr>is_Interface = i, is_PublicKey = pubKey, is_Running = up,
                  is_Peers = map (live_status now (live_by_key ls)) ps\<rparr>)))))))"

section \<open>Client configuration and import\<close>

definition GenerateConfig :: "env \<Rightarrow> string \<Rightarrow> (error + string) io" where
  "GenerateConfig env k =
     check ''getting peer'' (GetPeer env k) (\<lambda>r. case r of
       None \<Rightarrow> fail (not_found ''peer'' k)
     | Some p \<Rightarrow>
     check ''getting interface'' (GetInterface env (p_InterfaceID p)) (\<lambda>r. case r of
       None \<Rightarrow> fail (not_found ''interface'' (p_InterfaceID p))
     | Some i \<Rightarrow>
         if p_PrivateKeyEncrypted p = [] then
           fail (Err ''no private key available for this peer (imported peers don't have client configs)'')
         else
           check ''decrypting peer private key''
             (State_Monad.return (Decrypt env (p_PrivateKeyEncrypted p))) (\<lambda>privKey.
           check ''decrypting server private key''
             (State_Monad.return (Decrypt env (if_PrivateKeyEncrypted i))) (\<lambda>serverPrivKey.
           check ''deriving server public key''
             (State_Monad.return (PublicKeyFromPrivate env serverPrivKey)) (\<lambda>serverPubKey.
           let serverHost = (if if_Endpoint i \<noteq> [] then if_Endpoint i else external_ip env);
               clientIPs = (if p_ClientAllowedIPs p = [] then ''0.0.0.0/0, ::/0'' else p_ClientAllowedIPs p);
               dns = (if p_DNS p \<noteq> [] then p_DNS p else if_DNS i) in
           attempt
             (if p_PresharedKeyEncrypted p \<noteq> [] then
                check ''decrypting preshared key''
                  (State_Monad.return (Decrypt env (p_PresharedKeyEncrypted p))) ok
              else ok [])
             fail (\<lambda>psk.
           ok (GeneratePeerConf \<lparr>cp_Name = p_Name p, cp_PrivateKey = privKey, cp_Address = p_Address p,
                 cp_DNS = dns, cp_ServerPublicKey = serverPubKey,
                 cp_ServerEndpoint = serverHost @ '':'' @ itoa (if_ListenPort i), cp_AllowedIPs = clientIPs,
                 cp_PresharedKey = psk,
                 cp_PersistentKeepalive = (if p_PersistentKeepalive p > 0 then p_PersistentKeepalive p else 0),
                 cp_MTU = if_MTU i\<rparr>)))))))"

text \<open>The tunnel address of an imported peer: the first of several allowed networks.\<close>

definition import_address :: "string \<Rightarrow> string" where
  "import_address ips =
     (case cut CHR '','' ips of None \<Rightarrow> ips | Some (a, b) \<Rightarrow> TrimSpace a)"

definition import_peer :: "string \<Rightarrow> ParsedPeer \<Rightarrow> string \<Rightarrow> peer" where
  "import_peer k pp encPSK = zero_peer\<lparr>p_InterfaceID := k, p_Name := pp_Name pp, p_PublicKey := pp_PublicKey pp,
     p_PresharedKeyEncrypted := encPSK, p_Address := import_address (pp_AllowedIPs pp),
     p_AllowedIPs := pp_AllowedIPs pp, p_Endpoint := pp_Endpoint pp,
     p_PersistentKeepalive := pp_PersistentKeepalive pp, p_Enabled := True\<rparr>"

definition ImportInterface :: "env \<Rightarrow> ParsedConfig \<Rightarrow> string \<Rightarrow> string \<Rightarrow> (error + iface) io" where
  "ImportInterface env parsed k ifaceType =
     check ''encrypting private key'' (Encrypt env (pi_PrivateKey (pc_Interface parsed))) (\<lambda>encrypted.
     let pi = pc_Interface parsed;
         i = zero_iface\<lparr>if_ID := k, if_Type := ifaceType, if_ListenPort := pi_ListenPort pi,
           if_PrivateKeyEncrypted := encrypted, if_Address := pi_Address pi, if_DNS := pi_DNS pi,
           if_MTU := (if pi_MTU pi = 0 then 1420 else pi_MTU pi),
           if_PostUp := join nl (pi_PostUp pi), if_PostDown := join nl (pi_PostDown pi), if_Enabled := True\<rparr> in
     check ''storing interface'' (CreateInterface env i) (\<lambda>i'.
     attempt
       (for_each (pc_Peers parsed) (\<lambda>pp.
          attempt
            (if pp_PresharedKey pp \<noteq> [] then check ''encrypting preshared key'' (Encrypt env (pp_PresharedKey pp)) ok
             else ok [])
            fail (\<lambda>encPSK.
          attempt (CreatePeer env (import_peer k pp encPSK))
            (\<lambda>e. fail (WrapQ ''storing peer '' (pp_PublicKey pp) e)) (\<lambda>_. ok ()))))
       fail (\<lambda>_. ok i')))"

section \<open>Other implementations of NetManager\<close>

text \<open>The demo mode's and the one for platforms without WireGuard support.\<close>

definition demoNetManager :: "net_op \<Rightarrow> error + bool" where
  "demoNetManager c = Inr True"

definition stubNetManager :: "net_op \<Rightarrow> error + bool" where
  "stubNetManager c = Inl (Err ''wireguard interface management not supported on this platform'')"

section \<open>Every operation keeps the schema's invariants\<close>

lemma keeps_SyncInterface [keeps_intros]: "keeps (on_db J) (SyncInterface env k)"
  unfolding SyncInterface_def by (intro keeps_intros)

lemma keeps_manager_reads [keeps_intros]:
  "keeps (on_db J) (SyncAll env)"
  "keeps (on_db J) (RestartInterface env k)"
  "keeps (on_db J) (GetStatus env k)"
  "keeps (on_db J) (GenerateConfig env k)"
  unfolding SyncAll_def RestartInterface_def GetStatus_def GenerateConfig_def
  by (intro keeps_intros)+

lemma SyncInterface_wdb: "run_state (SyncInterface env k) w = (r, v) \<Longrightarrow> wdb v = wdb w"
  using validD [OF keeps_SyncInterface, of "\<lambda>d. d = wdb w" w env k r v] by simp

lemma setPeerEnabled_returns:
  assumes "run_state (setPeerEnabled env k b) w = (Inr u, w')"
  shows "\<exists>p now fk v. get_peer k (wdb w) = Some p
    \<and> sql_update_peer fk (p\<lparr>p_Enabled := b, p_UpdatedAt := now\<rparr>) (wdb w) = Inr (wdb v)
    \<and> net_log v = net_log w \<and> run_state (SyncInterface env (p_InterfaceID p)) v = (Inr u, w')"
proof -
  obtain p w1 p' v where g: "run_state (GetPeer env k) w = (Inr (Some p), w1)"
    and up: "run_state (UpdatePeer env (p\<lparr>p_Enabled := b\<rparr>)) w1 = (Inr p', v)"
    and sy: "run_state (SyncInterface env (p_InterfaceID p)) v = (Inr u, w')"
    using assms by (auto simp: setPeerEnabled_def returns)
  from UpdatePeer_returns [OF up] obtain now fk where "net_log v = net_log w1"
    "sql_update_peer fk (p\<lparr>p_Enabled := b, p_UpdatedAt := now\<rparr>) (wdb w1) = Inr (wdb v)" by auto
  moreover have "wdb w1 = wdb w" "get_peer k (wdb w) = Some p" using GetPeer_result [OF g] by auto
  ultimately show ?thesis using GetPeer_log [OF g] sy by metis
qed

context net_invariant
begin

lemma keeps_manager_interfaces [keeps_intros]:
  "keeps (on_db I) (Manager_CreateInterface env i)"
  "keeps (on_db I) (Manager_DeleteInterface env k b)"
  "keeps (on_db I) (StartInterface env k)"
  "keeps (on_db I) (StopInterface env k)"
  unfolding Manager_CreateInterface_def Manager_DeleteInterface_def StartInterface_def StopInterface_def
  by (intro keeps_intros)+

lemma keeps_setPeerEnabled [keeps_intros]: "keeps (on_db I) (setPeerEnabled env k b)"
  unfolding setPeerEnabled_def by (intro keeps_intros)

lemma keeps_manager_peers [keeps_intros]:
  "keeps (on_db I) (AddPeer env p b)"
  "keeps (on_db I) (RemovePeer env k)"
  "keeps (on_db I) (EnablePeer env k)"
  "keeps (on_db I) (DisablePeer env k)"
  "keeps (on_db I) (ImportInterface env c k t)"
  unfolding AddPeer_def RemovePeer_def EnablePeer_def DisablePeer_def ImportInterface_def
  by (intro keeps_intros)+

end

end
