(* ===== verification/Poller.thy ===== *)
theory Poller
  imports Manager
begin

text \<open>
  The connection poller (internal/server/poller.go): it compares what WireGuard reports with its
  last snapshot of every peer, writes a connection log for every transition, and hands alerts to
  a callback. \<open>go p.alertFn(...)\<close> starts a goroutine; the model records the call in \<open>alerts\<close>.
  The mutex of the poller makes a cycle atomic with respect to the other readers of its maps,
  but not with respect to other users of the database: \<open>poll_peer\<close> works on rows that were read
  earlier, and is a step of its own.
\<close>

section \<open>One peer\<close>

text \<open>The value of \<open>current.ConnectedSince\<close>.\<close>

definition connected_since ::
  "env \<Rightarrow> peer_snapshot option \<Rightarrow> time option \<Rightarrow> PeerStatus \<Rightarrow> time io" where
  "connected_since env prev seeded ps =
     (if \<not> st_Connected ps then State_Monad.return 0
      else
        let from_handshake = (if \<not> is_zero (st_LastHandshake ps)
              then State_Monad.return (st_LastHandshake ps) else time_now env) in
        case prev of
          Some s \<Rightarrow> if sn_Connected s then State_Monad.return (sn_ConnectedSince s) else from_handshake
        | None \<Rightarrow> (case seeded of Some t \<Rightarrow> State_Monad.return t | None \<Rightarrow> from_handshake))"

definition transition_log :: "string \<Rightarrow> PeerStatus \<Rightarrow> conn_log" where
  "transition_log ifaceID ps = zero_log\<lparr>cl_PeerID := p_ID (st_Peer ps), cl_InterfaceID := ifaceID,
     cl_Event := (if st_Connected ps then ''connected'' else ''disconnected''),
     cl_Endpoint := st_Endpoint ps, cl_TransferRx := st_TransferRx ps, cl_TransferTx := st_TransferTx ps\<rparr>"

definition shouldAlert :: "string \<Rightarrow> peer \<Rightarrow> bool" where
  "shouldAlert event p \<longleftrightarrow>
     (event = ''connected'' \<and> p_AlertOnConnect p \<or> event = ''disconnected'' \<and> p_AlertOnDisconnect p)
     \<and> p_AlertEmails p \<noteq> []"

text \<open>\<open>alertFn\<close> is set by \<^verbatim>\<open>server.New\<close> before the poller runs.\<close>

definition raise_alert :: "env \<Rightarrow> iface \<Rightarrow> PeerStatus \<Rightarrow> string \<Rightarrow> time \<Rightarrow> unit io" where
  "raise_alert env i ps event prevSince =
     (if shouldAlert event (st_Peer ps) then
        State_Monad.bind
          (if event = ''disconnected'' \<and> \<not> is_zero prevSince
           then State_Monad.bind (time_now env) (\<lambda>now. State_Monad.return (time_sub now prevSince))
           else State_Monad.return 0)
          (\<lambda>dur. set_memory (\<lambda>w. w\<lparr>alerts := alerts w @
             [\<lparr>al_Peer = (st_Peer ps)\<lparr>p_TransferRx := st_TransferRx ps, p_TransferTx := st_TransferTx ps\<rparr>,
               al_Iface = i, al_Event = event, al_Endpoint = st_Endpoint ps, al_Duration = dur\<rparr>]\<rparr>))
      else State_Monad.return ())"

definition polled_peer :: "PeerStatus \<Rightarrow> peer" where
  "polled_peer ps = (st_Peer ps)\<lparr>
     p_LastHandshake := (if is_zero (st_LastHandshake ps) then p_LastHandshake (st_Peer ps)
                         else Some (st_LastHandshake ps)),
     p_TransferRx := st_TransferRx ps, p_TransferTx := st_TransferTx ps\<rparr>"

definition poll_peer :: "env \<Rightarrow> iface \<Rightarrow> PeerStatus \<Rightarrow> unit io" where
  "poll_peer env i ps =
     (let key = p_PublicKey (st_Peer ps) in
      State_Monad.bind (gets (\<lambda>w. last_state w key)) (\<lambda>prev.
      State_Monad.bind (gets (\<lambda>w. seed_connected w (p_ID (st_Peer ps)))) (\<lambda>seeded.
      State_Monad.bind (connected_since env prev seeded ps) (\<lambda>since.
      State_Monad.bind
        (case prev of
           None \<Rightarrow> State_Monad.return ()
         | Some s \<Rightarrow>
             if sn_Connected s \<noteq> st_Connected ps then
               let l = transition_log (if_ID i) ps in
               ignore (CreateConnectionLog env l)
                 (raise_alert env i ps (cl_Event l) (sn_ConnectedSince s))
             else State_Monad.return ()) (\<lambda>_.
      State_Monad.bind
        (let (rx, tx) = (case prev of None \<Rightarrow> (0, 0) | Some s \<Rightarrow> (sn_TransferRx s, sn_TransferTx s)) in
         if st_TransferRx ps \<noteq> rx \<or> st_TransferTx ps \<noteq> tx
         then ignore (UpdatePeer env (polled_peer ps)) (State_Monad.return ())
         else State_Monad.return ()) (\<lambda>_.
      set_memory (\<lambda>w. w\<lparr>last_state := (last_state w)(key \<mapsto>
        \<lparr>sn_Connected = st_Connected ps, sn_ConnectedSince = since, sn_TransferRx = st_TransferRx ps,
         sn_TransferTx = st_TransferTx ps, sn_Endpoint = st_Endpoint ps\<rparr>)\<rparr>)))))))"

section \<open>A cycle\<close>

definition poll_iface :: "env \<Rightarrow> iface \<Rightarrow> unit \<Rightarrow> unit io" where
  "poll_iface env i u =
     (if \<not> if_Enabled i then State_Monad.return ()
      else attempt (GetStatus env (if_ID i)) (\<lambda>_. State_Monad.return ())
        (\<lambda>status. fold_act (is_Peers status) (\<lambda>ps _. poll_peer env i ps) ()))"

definition poll :: "env \<Rightarrow> unit io" where
  "poll env =
     attempt (ListInterfaces env) (\<lambda>_. State_Monad.return ())
       (\<lambda>ifaces. fold_act ifaces (poll_iface env) ())"

section \<open>The loop\<close>

text \<open>What \<open>Run\<close> does before its loop, and at each event it waits for.\<close>

definition Run_start :: "env \<Rightarrow> unit io" where
  "Run_start env =
     State_Monad.bind (LastConnectedEvents env) (\<lambda>(seed, err).
     ignore (set_memory (\<lambda>w. w\<lparr>seed_connected := seed\<rparr>))
     (ignore (poll env)
     (set_memory (\<lambda>w. w\<lparr>seed_connected := Map.empty\<rparr>))))"

datatype run_event = Tick | Notify | Cleanup

definition Run_event :: "env \<Rightarrow> duration \<Rightarrow> run_event \<Rightarrow> unit io" where
  "Run_event env retention e =
     (case e of
        Tick \<Rightarrow> poll env
      | Notify \<Rightarrow> ignore (set_memory (\<lambda>w. w\<lparr>kicked := False\<rparr>)) (poll env)
      | Cleanup \<Rightarrow> State_Monad.bind (time_now env) (\<lambda>now.
          ignore (DeleteOldConnectionLogs env (now - retention)) (State_Monad.return ())))"

text \<open>\<open>Run\<close> for the events that arrive until the context is cancelled.\<close>

definition Run :: "env \<Rightarrow> duration \<Rightarrow> run_event list \<Rightarrow> unit io" where
  "Run env retention es =
     ignore (Run_start env) (fold_act es (\<lambda>e _. Run_event env retention e) ())"

text \<open>\<open>Kick\<close> fills a channel of capacity one and never blocks.\<close>

definition Kick :: "unit io" where
  "Kick = set_memory (\<lambda>w. w\<lparr>kicked := True\<rparr>)"

definition GetConnectedSince :: "string \<Rightarrow> time io" where
  "GetConnectedSince publicKey = gets (\<lambda>w. case last_state w publicKey of
     Some s \<Rightarrow> if sn_Connected s then sn_ConnectedSince s else 0 | None \<Rightarrow> 0)"

definition AllConnectedSince :: "(string \<Rightarrow> time option) io" where
  "AllConnectedSince = gets (\<lambda>w k. case last_state w k of
     Some s \<Rightarrow> if sn_Connected s \<and> \<not> is_zero (sn_ConnectedSince s) then Some (sn_ConnectedSince s) else None
   | None \<Rightarrow> None)"

lemma keeps_connected_since [keeps_intros]: "keeps (on_db J) (connected_since env p s ps)"
  unfolding connected_since_def Let_def by (intro keeps_intros)

lemma keeps_raise_alert [keeps_intros]: "keeps (on_db J) (raise_alert env i ps e t)"
  unfolding raise_alert_def by (intro keeps_intros)

lemma keeps_poller_memory [keeps_intros]:
  "keeps (on_db J) Kick" "keeps (on_db J) (GetConnectedSince k)" "keeps (on_db J) AllConnectedSince"
  unfolding Kick_def GetConnectedSince_def AllConnectedSince_def by (intro keeps_intros)+

context net_invariant
begin

lemma keeps_poll_peer [keeps_intros]: "keeps (on_db I) (poll_peer env i ps)"
  unfolding poll_peer_def by (intro keeps_intros)

lemma keeps_poll [keeps_intros]: "keeps (on_db I) (poll_iface env i u)" "keeps (on_db I) (poll env)"
  unfolding poll_def poll_iface_def by (intro keeps_intros)+

lemma keeps_Run_start [keeps_intros]: "keeps (on_db I) (Run_start env)"
  unfolding Run_start_def by (intro keeps_intros)

lemma keeps_Run_event [keeps_intros]: "keeps (on_db I) (Run_event env r e)"
  unfolding Run_event_def by (cases e) (auto intro!: keeps_intros)

lemma keeps_Run [keeps_intros]: "keeps (on_db I) (Run env r es)"
  unfolding Run_def by (intro keeps_intros)

end

end
