(* ===== verification/Auth.thy ===== *)
theory Auth
  imports Schema
begin

text \<open>
  Passwords and sessions (internal/auth/auth.go) and the checks in front of the protected routes
  (internal/server/middleware.go). bcrypt is a parameter.
\<close>

section \<open>The service\<close>

record auth_service =
  sessionTimeout :: duration
  maxSessionAge :: duration
  minPasswordLen :: int

definition HashPassword :: "env \<Rightarrow> string \<Rightarrow> (error + string) io" where
  "HashPassword env password = check ''hashing password'' (ask (\<lambda>t. bcrypt_hash env t password)) ok"

definition CheckPassword :: "env \<Rightarrow> string \<Rightarrow> string \<Rightarrow> bool" where
  "CheckPassword env hash password = bcrypt_match env hash password"

definition ValidatePasswordStrength :: "auth_service \<Rightarrow> string \<Rightarrow> error + unit" where
  "ValidatePasswordStrength s password =
     (if int (length password) < minPasswordLen s
      then Inl (Err (''password must be at least '' @ itoa (minPasswordLen s) @ '' characters''))
      else Inr ())"

definition Authenticate :: "env \<Rightarrow> string \<Rightarrow> string \<Rightarrow> (error + user) io" where
  "Authenticate env username password =
     check ''looking up user'' (GetUserByUsername env username) (\<lambda>r. case r of
       None \<Rightarrow> fail (Err ''invalid credentials'')
     | Some u \<Rightarrow>
         if CheckPassword env (u_PasswordHash u) password then ok u
         else fail (Err ''invalid credentials''))"

text \<open>\<open>hex.EncodeToString\<close> and \<open>generateToken\<close>: 32 random bytes.\<close>

definition hex_encode :: "string \<Rightarrow> string" where
  "hex_encode s = concat (map (\<lambda>c. [hex_char (of_char c div 16), hex_char (of_char c mod 16)]) s)"

definition generateToken :: "env \<Rightarrow> (error + string) io" where
  "generateToken env = attempt (ask (rand_bytes_at env)) fail (\<lambda>b. ok (hex_encode b))"

definition Auth_CreateSession ::
  "env \<Rightarrow> auth_service \<Rightarrow> string \<Rightarrow> string \<Rightarrow> string \<Rightarrow> (error + session) io" where
  "Auth_CreateSession env s userID ip userAgent =
     check ''generating session ID'' (generateToken env) (\<lambda>sessionID.
     check ''generating CSRF token'' (generateToken env) (\<lambda>csrfToken.
     State_Monad.bind (time_now env) (\<lambda>now.
     check ''storing session''
       (CreateSession env \<lparr>se_ID = sessionID, se_UserID = userID, se_CSRFToken = csrfToken,
          se_ExpiresAt = now + maxSessionAge s, se_CreatedAt = 0, se_LastSeenAt = 0,
          se_IPAddress = ip, se_UserAgent = userAgent\<rparr>) ok)))"

definition ValidateSession :: "env \<Rightarrow> auth_service \<Rightarrow> string \<Rightarrow> (error + session \<times> user) io" where
  "ValidateSession env s sessionID =
     check ''getting session'' (GetSession env sessionID) (\<lambda>r. case r of
       None \<Rightarrow> fail (Err ''session not found'')
     | Some se \<Rightarrow>
         State_Monad.bind (time_now env) (\<lambda>now.
         if now > se_ExpiresAt se then
           ignore (DeleteSession env sessionID) (fail (Err ''session expired''))
         else if time_sub now (se_LastSeenAt se) > sessionTimeout s then
           ignore (DeleteSession env sessionID) (fail (Err ''session timed out''))
         else
           check ''touching session'' (TouchSession env sessionID) (\<lambda>_.
           check ''getting user'' (GetUser env (se_UserID se)) (\<lambda>u. case u of
             None \<Rightarrow> ignore (DeleteSession env sessionID) (fail (Err ''user not found''))
           | Some u \<Rightarrow> ok (se, u)))))"

definition DestroySession :: "env \<Rightarrow> string \<Rightarrow> (error + unit) io" where
  "DestroySession env sessionID = DeleteSession env sessionID"

definition CleanExpiredSessions :: "env \<Rightarrow> (error + unit) io" where
  "CleanExpiredSessions env = DeleteExpiredSessions env"

definition NeedsSetup :: "env \<Rightarrow> (error + bool) io" where
  "NeedsSetup env = attempt (CountUsers env) fail (\<lambda>n. ok (n = 0))"

definition CreateInitialAdmin :: "env \<Rightarrow> auth_service \<Rightarrow> string \<Rightarrow> string \<Rightarrow> (error + user) io" where
  "CreateInitialAdmin env s username password =
     attempt (NeedsSetup env) fail (\<lambda>needs.
     if \<not> needs then fail (Err ''setup already complete'')
     else
       attempt (State_Monad.return (ValidatePasswordStrength s password)) fail (\<lambda>_.
       attempt (HashPassword env password) fail (\<lambda>hash.
       check ''creating admin user''
         (CreateUser env (zero_user\<lparr>u_Username := username, u_PasswordHash := hash,
            u_DisplayName := username, u_Role := ''admin'', u_IsInitial := True\<rparr>)) ok)))"

lemma Authenticate_returns:
  assumes "run_state (Authenticate env name password) w = (Inr u, w')"
  shows "row u_Username name (t_users (wdb w)) = Some u \<and> bcrypt_match env (u_PasswordHash u) password
    \<and> wdb w' = wdb w"
proof -
  obtain v where "run_state (GetUserByUsername env name) w = (Inr (Some u), v)"
    "bcrypt_match env (u_PasswordHash u) password" "w' = v"
    using assms by (auto simp: Authenticate_def returns CheckPassword_def split: if_splits)
  with readsD [OF reads_methods(9) this(1)] show ?thesis by simp
qed

lemma generateToken_wdb: "run_state (generateToken env) w = (r, v) \<Longrightarrow> wdb v = wdb w"
  by (auto simp: generateToken_def run_simps split: sum.splits)

lemma Auth_CreateSession_returns:
  assumes "run_state (Auth_CreateSession env s k ip agent) w = (Inr se, w')"
  shows "wdb w' = (wdb w)\<lparr>t_sessions := t_sessions (wdb w) @ [se]\<rparr>
    \<and> get_session (se_ID se) (wdb w) = None \<and> se_UserID se = k
    \<and> (\<exists>now. se_ExpiresAt se = now + maxSessionAge s)"
proof -
  obtain i c v1 v2 where i: "run_state (generateToken env) w = (Inr i, v1)"
    and c: "run_state (generateToken env) v1 = (Inr c, v2)"
    and s: "run_state (CreateSession env \<lparr>se_ID = i, se_UserID = k, se_CSRFToken = c,
          se_ExpiresAt = now_at env (tick v2) + maxSessionAge s, se_CreatedAt = 0, se_LastSeenAt = 0,
          se_IPAddress = ip, se_UserAgent = agent\<rparr>) (v2\<lparr>tick := Suc (tick v2)\<rparr>) = (Inr se, w')"
    using assms by (auto simp: Auth_CreateSession_def returns run_time_now)
  have "wdb v2 = wdb w" using generateToken_wdb [OF i] generateToken_wdb [OF c] by simp
  with s show ?thesis
    by (auto simp: CreateSession_def run_simps Let_def sql_insert_session_def get_session_def row_not_has
        split: option.splits sum.splits if_splits)
qed

section \<open>Middleware\<close>

text \<open>
  Why a request was turned away, with the HTTP status and the text of the body; a request that
  passes carries the session and the user in its context.
\<close>

datatype reject = Reject nat string

text \<open>\<open>authRequired\<close>: the cookie of the request, if it has one.\<close>

definition authRequired ::
  "env \<Rightarrow> auth_service \<Rightarrow> string option \<Rightarrow> (reject + session \<times> user) io" where
  "authRequired env s cookie =
     (case cookie of
        None \<Rightarrow> State_Monad.return (Inl (Reject 403 ''authentication required''))
      | Some v \<Rightarrow> State_Monad.bind (ValidateSession env s v) (\<lambda>r.
          State_Monad.return (case r of
            Inl _ \<Rightarrow> Inl (Reject 403 ''invalid session'') | Inr su \<Rightarrow> Inr su)))"

definition safe_method :: "string \<Rightarrow> bool" where
  "safe_method m \<longleftrightarrow> m = ''GET'' \<or> m = ''HEAD'' \<or> m = ''OPTIONS''"

text \<open>\<open>csrfProtect\<close>: method, session in the context, X-CSRF-Token header (empty if missing).\<close>

definition csrfProtect :: "string \<Rightarrow> session option \<Rightarrow> string \<Rightarrow> reject option" where
  "csrfProtect meth se token =
     (if safe_method meth then None
      else case se of
        None \<Rightarrow> Some (Reject 403 ''no session'')
      | Some s \<Rightarrow>
          if token = [] \<or> token \<noteq> se_CSRFToken s then Some (Reject 403 ''invalid CSRF token'') else None)"

definition adminOnly :: "user option \<Rightarrow> reject option" where
  "adminOnly u = (case u of
       None \<Rightarrow> Some (Reject 403 ''admin access required'')
     | Some u \<Rightarrow> if u_Role u \<noteq> ''admin'' then Some (Reject 403 ''admin access required'') else None)"

text \<open>The chain in front of every protected route: \<open>authRequired(csrfProtect(next))\<close>.\<close>

definition protected_route ::
  "env \<Rightarrow> auth_service \<Rightarrow> string option \<Rightarrow> string \<Rightarrow> string \<Rightarrow> (session \<times> user \<Rightarrow> 'a io) \<Rightarrow> (reject + 'a) io" where
  "protected_route env s cookie meth token nxt =
     State_Monad.bind (authRequired env s cookie) (\<lambda>r. case r of
       Inl j \<Rightarrow> State_Monad.return (Inl j)
     | Inr (se, u) \<Rightarrow>
         (case csrfProtect meth (Some se) token of
            Some j \<Rightarrow> State_Monad.return (Inl j)
          | None \<Rightarrow> State_Monad.bind (nxt (se, u)) (\<lambda>x. State_Monad.return (Inr x))))"

context account_invariant
begin

lemma keeps_tokens [keeps_intros]:
  "keeps (on_db I) (HashPassword env pw)" "keeps (on_db I) (generateToken env)"
  unfolding HashPassword_def generateToken_def by (intro keeps_intros)+

lemma keeps_NeedsSetup [keeps_intros]: "keeps (on_db I) (NeedsSetup env)"
  unfolding NeedsSetup_def by (intro keeps_intros)

lemma keeps_auth [keeps_intros]:
  "keeps (on_db I) (Authenticate env n pw)"
  "keeps (on_db I) (Auth_CreateSession env s u ip ua)"
  "keeps (on_db I) (ValidateSession env s k)"
  "keeps (on_db I) (DestroySession env k)"
  "keeps (on_db I) (CleanExpiredSessions env)"
  "keeps (on_db I) (CreateInitialAdmin env s n pw)"
  unfolding Authenticate_def Auth_CreateSession_def ValidateSession_def DestroySession_def
    CleanExpiredSessions_def CreateInitialAdmin_def
  by (intro keeps_intros)+

lemma keeps_authRequired [keeps_intros]: "keeps (on_db I) (authRequired env s c)"
  unfolding authRequired_def by (intro keeps_intros)

lemma keeps_protected_route [keeps_intros]:
  "(\<And>x. keeps (on_db I) (nxt x)) \<Longrightarrow> keeps (on_db I) (protected_route env s c m t nxt)"
  unfolding protected_route_def by (intro keeps_intros)

end

end
