(* ===== verification/Oidc.thy ===== *)
theory Oidc
  imports Auth Crypto "HOL-Library.AList"
begin

text \<open>
  Login through an OpenID Connect provider (internal/auth/oidc.go). Discovery, the token
  endpoint and the verification of the ID token are parameters of the environment. The map of
  resolved providers is a list of pairs with distinct identifiers; Go iterates over a map in an
  arbitrary order, so the order of \<open>ListProviders\<close> carries no meaning.
\<close>

definition resolve_scopes :: "string \<Rightarrow> string list" where
  "resolve_scopes s =
     (let scopes = Fields (replace_char CHR '','' CHR '' '' s) in
      if scopes = [] then [''openid'', ''profile'', ''email'', ''groups''] else scopes)"

text \<open>One iteration of the loop of \<open>Reload\<close>: a provider that fails is left out.\<close>

definition resolve_provider :: "env \<Rightarrow> oidc_provider \<Rightarrow> (string \<times> resolved_provider) list
    \<Rightarrow> (string \<times> resolved_provider) list io" where
  "resolve_provider env p acc =
     (if \<not> op_Enabled p then State_Monad.return acc
      else case Decrypt env (op_ClientSecretEncrypted p) of
        Inl _ \<Rightarrow> State_Monad.return acc
      | Inr secret \<Rightarrow>
          attempt (ask (\<lambda>t. oidc_discover env t (op_Issuer p)))
            (\<lambda>_. State_Monad.return acc)
            (\<lambda>endpoint. State_Monad.return (AList.update (op_ID p)
               \<lparr>rp_model = p,
                rp_oauth = \<lparr>oc_ClientID = op_ClientID p, oc_ClientSecret = secret,
                  oc_Scopes = resolve_scopes (op_Scopes p), oc_Endpoint = endpoint, oc_RedirectURL = []\<rparr>\<rparr>
               acc)))"

definition Reload :: "env \<Rightarrow> unit io" where
  "Reload env =
     attempt (ListOIDCProviders env) (\<lambda>_. State_Monad.return ()) (\<lambda>ps.
       State_Monad.bind (fold_act ps (resolve_provider env) []) (\<lambda>resolved.
       set_memory (\<lambda>w. w\<lparr>oidc_providers := resolved, oidc_ready := True\<rparr>)))"

definition ListProviders :: "oidc_provider list io" where
  "ListProviders = gets (\<lambda>w. map (rp_model \<circ> snd) (oidc_providers w))"

definition callback_url :: "string \<Rightarrow> string" where
  "callback_url externalURL = externalURL @ ''/api/v1/auth/oidc/callback''"

definition AuthorizationURL :: "env \<Rightarrow> string \<Rightarrow> string \<Rightarrow> string \<Rightarrow> (error + string) io" where
  "AuthorizationURL env providerID externalURL redirectURL =
     State_Monad.bind (gets (\<lambda>w. map_of (oidc_providers w) providerID)) (\<lambda>r. case r of
       None \<Rightarrow> fail (Err ''OIDC provider not found'')
     | Some p \<Rightarrow>
         check ''generating state'' (ask (rand_bytes_at env)) (\<lambda>stateBytes.
         check ''generating nonce'' (ask (rand_bytes_at env)) (\<lambda>nonceBytes.
         check ''storing OIDC state''
           (CreateOIDCState env \<lparr>os_State = hex_encode stateBytes, os_ProviderID = providerID,
              os_Nonce = hex_encode nonceBytes, os_RedirectURL = redirectURL, os_CreatedAt = 0\<rparr>) (\<lambda>_.
         ok (auth_code_url env ((rp_oauth p)\<lparr>oc_RedirectURL := callback_url externalURL\<rparr>)
               (hex_encode stateBytes) (hex_encode nonceBytes))))))"

definition matchesClaim :: "(string \<Rightarrow> claim option) \<Rightarrow> string \<Rightarrow> string \<Rightarrow> bool" where
  "matchesClaim claims key v =
     (case claims key of
        None \<Rightarrow> False
      | Some (ClaimString s) \<Rightarrow> s = v
      | Some (ClaimList items) \<Rightarrow> list_ex (\<lambda>i. i = ClaimString v) items
      | Some ClaimOther \<Rightarrow> False)"

definition oidc_role :: "oidc_provider \<Rightarrow> id_token \<Rightarrow> string" where
  "oidc_role p tok =
     (let role = (if op_DefaultRole p = [] then ''viewer'' else op_DefaultRole p) in
      if op_AdminClaim p \<noteq> [] \<and> op_AdminValue p \<noteq> [] then
        (case it_AllClaims tok of
           Inl _ \<Rightarrow> role
         | Inr cs \<Rightarrow> if matchesClaim cs (op_AdminClaim p) (op_AdminValue p) then ''admin'' else role)
      else role)"

text \<open>The user of a verified token: found by identity and brought up to date, or created.\<close>

definition oidc_username :: "user_claims \<Rightarrow> string" where
  "oidc_username c =
     (if uc_PreferredUsername c \<noteq> [] then uc_PreferredUsername c
      else if uc_Email c \<noteq> [] then uc_Email c else uc_Subject c)"

text \<open>
  \<open>strings.ToLower(strings.ReplaceAll(name, " ", "-"))\<close>. Outside ASCII the result is that of the
  library's case tables, a parameter.
\<close>

definition provider_slug :: "env \<Rightarrow> string \<Rightarrow> string" where
  "provider_slug env name =
     (let s = replace_char CHR '' '' CHR ''-'' name in
      if \<forall>c \<in> set s. (of_char c :: nat) < 128 then map lower_char s else unicode_lower env s)"

definition updated_oidc_user :: "user_claims \<Rightarrow> string \<Rightarrow> user \<Rightarrow> user" where
  "updated_oidc_user c role u =
     (let u' = (if uc_Name c \<noteq> [] \<and> uc_Name c \<noteq> u_DisplayName u then u\<lparr>u_DisplayName := uc_Name c\<rparr> else u)
      in if role \<noteq> u_Role u then u'\<lparr>u_Role := role\<rparr> else u')"

text \<open>\<open>UpdateUser\<close> sets \<open>UpdatedAt\<close> in the struct even when the statement fails.\<close>

definition login_existing :: "env \<Rightarrow> user_claims \<Rightarrow> string \<Rightarrow> user \<Rightarrow> (error + user) io" where
  "login_existing env c role u =
     (let u' = updated_oidc_user c role u in
      if u' = u then ok u
      else State_Monad.bind (gets (\<lambda>w. now_at env (tick w))) (\<lambda>now.
        ignore (UpdateUser env u') (ok (u'\<lparr>u_UpdatedAt := now\<rparr>))))"

definition provision_user :: "env \<Rightarrow> oidc_provider \<Rightarrow> user_claims \<Rightarrow> string \<Rightarrow> (error + user) io" where
  "provision_user env p c role =
     (let username = oidc_username c in
      or_zero None (GetUserByUsername env username) (\<lambda>existing.
      let username' = (if existing \<noteq> None then username @ ''_'' @ provider_slug env (op_Name p) else username);
          displayName = (if uc_Name c = [] then username' else uc_Name c) in
      check ''creating OIDC user''
        (CreateUser env (zero_user\<lparr>u_Username := username', u_PasswordHash := [],
           u_DisplayName := displayName, u_Role := role, u_OIDCProvider := op_Name p,
           u_OIDCSubject := uc_Subject c\<rparr>)) ok))"

definition HandleCallback ::
  "env \<Rightarrow> string \<Rightarrow> string \<Rightarrow> string \<Rightarrow> (error + user \<times> string) io" where
  "HandleCallback env code stateParam externalURL =
     check ''looking up OIDC state'' (GetOIDCState env stateParam) (\<lambda>r. case r of
       None \<Rightarrow> fail (Err ''invalid or expired OIDC state'')
     | Some st \<Rightarrow>
     ignore (DeleteOIDCState env stateParam)
     (State_Monad.bind (time_now env) (\<lambda>now.
     if time_sub now (os_CreatedAt st) > 10 * minute then fail (Err ''OIDC state expired'')
     else
     State_Monad.bind (gets (\<lambda>w. map_of (oidc_providers w) (os_ProviderID st))) (\<lambda>r. case r of
       None \<Rightarrow> fail (Err ''OIDC provider no longer available'')
     | Some p \<Rightarrow>
     check ''exchanging code''
       (ask (\<lambda>t. exchange_code env t ((rp_oauth p)\<lparr>oc_RedirectURL := callback_url externalURL\<rparr>) code)) (\<lambda>raw.
     case raw of
       None \<Rightarrow> fail (Err ''no id_token in response'')
     | Some rawIDToken \<Rightarrow>
     check ''verifying id_token'' (ask (\<lambda>t. verify_token env t p rawIDToken)) (\<lambda>tok.
     if it_Nonce tok \<noteq> os_Nonce st then fail (Err ''nonce mismatch'')
     else
     check ''extracting claims'' (State_Monad.return (it_Claims tok)) (\<lambda>claims.
     let role = oidc_role (rp_model p) tok in
     check ''looking up OIDC user''
       (GetUserByOIDCIdentity env (op_Name (rp_model p)) (uc_Subject claims)) (\<lambda>found.
     attempt
       (case found of
          Some u \<Rightarrow> login_existing env claims role u
        | None \<Rightarrow> provision_user env (rp_model p) claims role)
       fail (\<lambda>u. ok (u, os_RedirectURL st))))))))))"

definition CleanExpiredStates :: "env \<Rightarrow> (error + unit) io" where
  "CleanExpiredStates env = DeleteExpiredOIDCStates env"

context account_invariant
begin

lemma keeps_resolve_provider [keeps_intros]: "keeps (on_db I) (resolve_provider env p acc)"
  unfolding resolve_provider_def by (intro keeps_intros)

lemma keeps_Reload [keeps_intros]: "keeps (on_db I) (Reload env)"
  unfolding Reload_def by (intro keeps_intros)

lemma keeps_login [keeps_intros]:
  "keeps (on_db I) (login_existing env c r u)"
  "keeps (on_db I) (provision_user env p c r)"
  "keeps (on_db I) (AuthorizationURL env k e url)"
  "keeps (on_db I) ListProviders"
  unfolding login_existing_def provision_user_def AuthorizationURL_def ListProviders_def
  by (intro keeps_intros)+

lemma keeps_HandleCallback [keeps_intros]:
  "keeps (on_db I) (HandleCallback env code st url)"
  "keeps (on_db I) (CleanExpiredStates env)"
  unfolding HandleCallback_def CleanExpiredStates_def by (intro keeps_intros)+

end

end
