(* ===== verification/Config.thy ===== *)
theory Config
  imports Models
begin

text \<open>
  The configuration of the server (internal/config/config.go): the structs, their defaults, the
  file with the environment's overrides, and the two secrets that come from the environment or
  from a file. \<^verbatim>\<open>yaml.Unmarshal\<close> is an argument.
\<close>

record TLSConfig =
  tc_Mode :: string
  tc_ACMEEmail :: string
  tc_CertFile :: string
  tc_KeyFile :: string

record ServerConfig =
  srv_Listen :: string
  srv_ExternalURL :: string
  srv_AutoStartInterfaces :: "bool option"
  srv_TLS :: TLSConfig

record LocalAuth =
  la_Enabled :: bool
  la_MinPasswordLength :: int

record OIDCConfig =
  ocf_Name :: string
  ocf_Issuer :: string
  ocf_ClientID :: string
  ocf_ClientSecretFile :: string
  ocf_Scopes :: "string list"
  ocf_AdminClaim :: string
  ocf_AdminValue :: string

record AuthConfig =
  ac_SessionTimeout :: string
  ac_MaxSessionAge :: string
  ac_Local :: LocalAuth
  ac_OIDC :: "OIDCConfig list"
  ac_MFA_Required :: bool

record LoggingConfig =
  lc_ConnectionPollInterval :: string
  lc_ConnectionTimeout :: string
  lc_RetentionDays :: int
  lc_AuditRetentionDays :: int

record BackupConfig =
  bc_Path :: string
  bc_Schedule :: string
  bc_RetentionCount :: int

record UniFiConfig =
  uf_Enabled :: bool
  uf_ControllerURL :: string
  uf_Username :: string
  uf_PasswordFile :: string
  uf_Site :: string

record SMTPConfig =
  smc_Host :: string
  smc_Port :: int
  smc_Username :: string
  smc_PasswordFile :: string
  smc_From :: string
  smc_TLS :: string

record config =
  cf_Demo :: bool
  cf_Server :: ServerConfig
  cf_DatabasePath :: string
  cf_Auth :: AuthConfig
  cf_MasterKeyFile :: string
  cf_Logging :: LoggingConfig
  cf_Backup :: BackupConfig
  cf_UniFi :: UniFiConfig
  cf_SMTP :: SMTPConfig

definition ShouldAutoStart :: "ServerConfig \<Rightarrow> bool" where
  "ShouldAutoStart c = (case srv_AutoStartInterfaces c of None \<Rightarrow> True | Some b \<Rightarrow> b)"

definition SMTP_Enabled :: "SMTPConfig \<Rightarrow> bool" where
  "SMTP_Enabled c \<longleftrightarrow> smc_Host c \<noteq> []"

definition SMTP_Password :: "env \<Rightarrow> SMTPConfig \<Rightarrow> (error + string) io" where
  "SMTP_Password env c =
     (let pw = getenv env ''WGRIFT_SMTP_PASSWORD'' in
      if pw \<noteq> [] then ok pw
      else if smc_PasswordFile c = [] then ok []
      else check ''reading SMTP password file'' (ask (\<lambda>t. read_file_at env t (smc_PasswordFile c)))
             (\<lambda>data. ok (TrimSpace data)))"

definition Defaults :: "env \<Rightarrow> config" where
  "Defaults env = \<lparr>
     cf_Demo = (getenv env ''WGRIFT_DEMO_MODE'' = ''true''),
     cf_Server = \<lparr>srv_Listen = ''0.0.0.0:8080'', srv_ExternalURL = [], srv_AutoStartInterfaces = Some True,
       srv_TLS = \<lparr>tc_Mode = ''none'', tc_ACMEEmail = [], tc_CertFile = [], tc_KeyFile = []\<rparr>\<rparr>,
     cf_DatabasePath = ''./wgrift.db'',
     cf_Auth = \<lparr>ac_SessionTimeout = ''30m'', ac_MaxSessionAge = ''24h'',
       ac_Local = \<lparr>la_Enabled = True, la_MinPasswordLength = 16\<rparr>, ac_OIDC = [], ac_MFA_Required = False\<rparr>,
     cf_MasterKeyFile = ''/etc/wgrift/master.key'',
     cf_Logging = \<lparr>lc_ConnectionPollInterval = ''30s'', lc_ConnectionTimeout = ''180s'',
       lc_RetentionDays = 90, lc_AuditRetentionDays = 365\<rparr>,
     cf_Backup = \<lparr>bc_Path = ''/var/lib/wgrift/backups'', bc_Schedule = ''0 2 * * *'', bc_RetentionCount = 30\<rparr>,
     cf_UniFi = \<lparr>uf_Enabled = False, uf_ControllerURL = [], uf_Username = [], uf_PasswordFile = [],
       uf_Site = ''default''\<rparr>,
     cf_SMTP = \<lparr>smc_Host = [], smc_Port = 0, smc_Username = [], smc_PasswordFile = [], smc_From = [],
       smc_TLS = []\<rparr>\<rparr>"

text \<open>The overrides of \<open>Load\<close> after the file has been read.\<close>

definition env_overrides :: "env \<Rightarrow> config \<Rightarrow> config" where
  "env_overrides env cfg =
     (let c1 = (if getenv env ''WGRIFT_MASTER_KEY'' \<noteq> [] then cfg\<lparr>cf_MasterKeyFile := []\<rparr> else cfg);
          c2 = (if getenv env ''WGRIFT_DEMO_MODE'' = ''true'' then c1\<lparr>cf_Demo := True\<rparr> else c1);
          v = getenv env ''WGRIFT_AUTO_START_INTERFACES'' in
      if v \<noteq> [] then c2\<lparr>cf_Server := (cf_Server c2)\<lparr>srv_AutoStartInterfaces := Some (v = ''true'' \<or> v = ''1'')\<rparr>\<rparr>
      else c2)"

definition Load :: "env \<Rightarrow> (string \<Rightarrow> config \<Rightarrow> error + config) \<Rightarrow> string \<Rightarrow> (error + config) io" where
  "Load env unmarshal path =
     check ''reading config'' (ask (\<lambda>t. read_file_at env t path)) (\<lambda>data.
     check ''parsing config'' (State_Monad.return (unmarshal data (Defaults env))) (\<lambda>cfg.
     ok (env_overrides env cfg)))"

definition MasterKey :: "env \<Rightarrow> config \<Rightarrow> (error + string) io" where
  "MasterKey env cfg =
     (let key = getenv env ''WGRIFT_MASTER_KEY'' in
      if key \<noteq> [] then ok key
      else if cf_MasterKeyFile cfg = [] then
        fail (Err ''no master key configured: set WGRIFT_MASTER_KEY or encryption.master_key_file'')
      else check ''reading master key file'' (ask (\<lambda>t. read_file_at env t (cf_MasterKeyFile cfg))) ok)"

lemma keeps_SMTP_Password [keeps_intros]: "keeps (on_db I) (SMTP_Password env c)"
  unfolding SMTP_Password_def by (intro keeps_intros)

lemma keeps_config [keeps_intros]:
  "keeps (on_db I) (Load env u p)" "keeps (on_db I) (MasterKey env c)"
  unfolding Load_def MasterKey_def by (intro keeps_intros)+

end
