(* ===== verification/Respond.thy ===== *)
theory Respond
  imports Poller Oidc Config
begin

text \<open>
  What the HTTP handlers share (internal/server/respond.go, smtp.go, server.go): the responses,
  the SMTP settings and the external address. A handler gets the decoded parts of its request as
  arguments; a body is the result of \<open>readJSON\<close>, an error or the decoded struct. A response with
  data carries it undressed; the text of an error response that comes from an error value carries
  that value.
\<close>

datatype message = Msg string | MsgErr error | MsgPrefix string error

datatype 'a response =
    JSON nat 'a
  | JSONList nat 'a int
  | Problem nat message
  | ValidationError string

text \<open>\<open>if err != nil { writeError(w, status, err.Error()); return }\<close>\<close>

definition or_error :: "nat \<Rightarrow> (error + 'a) io \<Rightarrow> ('a \<Rightarrow> 'b response io) \<Rightarrow> 'b response io" where
  "or_error status m k = attempt m (\<lambda>e. State_Monad.return (Problem status (MsgErr e))) k"

text \<open>The same with a fixed text.\<close>

definition or_text :: "nat \<Rightarrow> string \<Rightarrow> (error + 'a) io \<Rightarrow> ('a \<Rightarrow> 'b response io) \<Rightarrow> 'b response io" where
  "or_text status t m k = attempt m (\<lambda>e. State_Monad.return (Problem status (Msg t))) k"

text \<open>The same with a text in front of the error.\<close>

definition or_prefix :: "nat \<Rightarrow> string \<Rightarrow> (error + 'a) io \<Rightarrow> ('a \<Rightarrow> 'b response io) \<Rightarrow> 'b response io" where
  "or_prefix status t m k = attempt m (\<lambda>e. State_Monad.return (Problem status (MsgPrefix t e))) k"

definition problem :: "nat \<Rightarrow> string \<Rightarrow> 'b response io" where
  "problem status t = State_Monad.return (Problem status (Msg t))"

text \<open>\<open>readJSON\<close> and the 400 that every handler answers when it fails.\<close>

definition with_body :: "(error + 'r) \<Rightarrow> ('r \<Rightarrow> 'b response io) \<Rightarrow> 'b response io" where
  "with_body body k = (case body of Inl e \<Rightarrow> State_Monad.return (Problem 400 (MsgErr e)) | Inr r \<Rightarrow> k r)"

text \<open>A lookup that answers 404 for a missing row.\<close>

definition or_404 :: "string \<Rightarrow> (error + 'a option) io \<Rightarrow> ('a \<Rightarrow> 'b response io) \<Rightarrow> 'b response io" where
  "or_404 t m k = or_error 500 m (\<lambda>r. case r of None \<Rightarrow> problem 404 t | Some x \<Rightarrow> k x)"

lemma run_or_error [run_simps]:
  "run_state (or_error status m k) w =
     (case run_state m w of (Inl e, w') \<Rightarrow> (Problem status (MsgErr e), w') | (Inr x, w') \<Rightarrow> run_state (k x) w')"
  by (simp add: or_error_def run_attempt split: prod.splits sum.splits)

lemma run_or_text [run_simps]:
  "run_state (or_text status t m k) w =
     (case run_state m w of (Inl e, w') \<Rightarrow> (Problem status (Msg t), w') | (Inr x, w') \<Rightarrow> run_state (k x) w')"
  by (simp add: or_text_def run_attempt split: prod.splits sum.splits)

lemma run_or_prefix [run_simps]:
  "run_state (or_prefix status t m k) w =
     (case run_state m w of (Inl e, w') \<Rightarrow> (Problem status (MsgPrefix t e), w')
      | (Inr x, w') \<Rightarrow> run_state (k x) w')"
  by (simp add: or_prefix_def run_attempt split: prod.splits sum.splits)

lemma run_problem [run_simps, simp]: "run_state (problem n t) w = (Problem n (Msg t), w)"
  by (simp add: problem_def)

text \<open>A response with data is that of the continuation.\<close>

definition has_data :: "'b response \<Rightarrow> bool" where
  "has_data r \<longleftrightarrow> (case r of JSON n x \<Rightarrow> True | JSONList n x t \<Rightarrow> True | _ \<Rightarrow> False)"

lemma data_returns:
  assumes "has_data r"
  shows "run_state (or_error n m k) w = (r, w') \<longleftrightarrow>
     (\<exists>x v. run_state m w = (Inr x, v) \<and> run_state (k x) v = (r, w'))"
    and "run_state (or_text n t m k) w = (r, w') \<longleftrightarrow>
     (\<exists>x v. run_state m w = (Inr x, v) \<and> run_state (k x) v = (r, w'))"
    and "run_state (or_prefix n t m k) w = (r, w') \<longleftrightarrow>
     (\<exists>x v. run_state m w = (Inr x, v) \<and> run_state (k x) v = (r, w'))"
    and "run_state (problem n t) w = (r, w') \<longleftrightarrow> False"
    and "run_state (with_body b h) w = (r, w') \<longleftrightarrow> (\<exists>q. b = Inr q \<and> run_state (h q) w = (r, w'))"
    and "run_state (or_404 t g l) w = (r, w') \<longleftrightarrow>
     (\<exists>x v. run_state g w = (Inr (Some x), v) \<and> run_state (l x) v = (r, w'))"
  using assms
  by (auto simp: has_data_def run_or_error run_or_text run_or_prefix with_body_def or_404_def
      split: prod.splits sum.splits option.splits)

lemma has_data_simps [simp]: "has_data (JSON n x)" "has_data (JSONList n xs t)"
  by (simp_all add: has_data_def)

lemmas json_returns [returns] = data_returns [OF has_data_simps(1)] data_returns [OF has_data_simps(2)]

lemma keeps_responses [keeps_intros]:
  "keeps I m \<Longrightarrow> (\<And>x. keeps I (k x)) \<Longrightarrow> keeps I (or_error n m k)"
  "keeps I m \<Longrightarrow> (\<And>x. keeps I (k x)) \<Longrightarrow> keeps I (or_text n t m k)"
  "keeps I m \<Longrightarrow> (\<And>x. keeps I (k x)) \<Longrightarrow> keeps I (or_prefix n t m k)"
  "keeps I (problem n t)"
  "(\<And>x. keeps I (k x)) \<Longrightarrow> keeps I (with_body b k)"
  unfolding or_error_def or_text_def or_prefix_def problem_def with_body_def
  by (intro keeps_intros; assumption?)+

lemma keeps_or_404 [keeps_intros]:
  "keeps I m \<Longrightarrow> (\<And>x. keeps I (k x)) \<Longrightarrow> keeps I (or_404 t m k)"
  unfolding or_404_def by (intro keeps_intros)

lemma keeps_or_404_reads:
  assumes "reads f m" and "\<And>x. valid (on_db (\<lambda>d. I d \<and> f d = Some x)) (k x) (\<lambda>_. on_db I)"
  shows "keeps (on_db I) (or_404 t m k)"
  unfolding or_404_def or_error_def
proof (rule valid_attempt_reads [OF assms(1)])
  show "valid (on_db (\<lambda>d. I d \<and> f d = r)) (case r of None \<Rightarrow> problem 404 t | Some x \<Rightarrow> k x) (\<lambda>_. on_db I)" for r
    using assms(2) by (cases r) (auto simp: problem_def valid_def)
qed (intro keeps_intros)

lemma pre_or_error [pre_intros]:
  assumes "\<And>w. J w \<Longrightarrow> I w" "keeps J m" "\<And>x. valid J (k x) (\<lambda>_. I)"
  shows "valid J (or_error n m k) (\<lambda>_. I)"
  unfolding or_error_def
  by (rule valid_attempt [OF assms(2) valid_pre [OF assms(1) keeps_return] assms(3)])

lemma pre_or_prefix [pre_intros]:
  assumes "\<And>w. J w \<Longrightarrow> I w" "keeps J m" "\<And>x. valid J (k x) (\<lambda>_. I)"
  shows "valid J (or_prefix n t m k) (\<lambda>_. I)"
  unfolding or_prefix_def
  by (rule valid_attempt [OF assms(2) valid_pre [OF assms(1) keeps_return] assms(3)])

lemma pre_or_text [pre_intros]:
  assumes "\<And>w. J w \<Longrightarrow> I w" "keeps J m" "\<And>x. valid J (k x) (\<lambda>_. I)"
  shows "valid J (or_text n t m k) (\<lambda>_. I)"
  unfolding or_text_def
  by (rule valid_attempt [OF assms(2) valid_pre [OF assms(1) keeps_return] assms(3)])

lemma valid_or_text_reads:
  assumes "reads f m" "\<And>w. on_db J w \<Longrightarrow> I w" "\<And>x. valid (on_db (\<lambda>d. J d \<and> f d = x)) (k x) (\<lambda>_. I)"
  shows "valid (on_db J) (or_text n t m k) (\<lambda>_. I)"
  unfolding or_text_def
  by (rule valid_attempt_reads [OF assms(1) valid_pre [OF assms(2) keeps_return] assms(3)])

lemma valid_error_write:
  "valid J m (\<lambda>_. I) \<Longrightarrow> (\<And>x. keeps I (k x)) \<Longrightarrow> valid J (or_error n m k) (\<lambda>_. I)"
  unfolding or_error_def by (rule valid_attempt) (auto intro: keeps_return)

lemma pre_with_body:
  assumes "\<And>w. J w \<Longrightarrow> I w" "\<And>q. valid J (k q) (\<lambda>_. I)"
  shows "valid J (with_body b k) (\<lambda>_. I)"
  using assms by (cases b) (auto simp: with_body_def valid_def)

lemma pre_problem:
  "(\<And>w. J w \<Longrightarrow> I w) \<Longrightarrow> valid J (problem n t) (\<lambda>_. I)"
  "(\<And>w. J w \<Longrightarrow> I w) \<Longrightarrow> valid J (State_Monad.return r) (\<lambda>_. I)"
  by (rule valid_pre; auto intro: keeps_responses keeps_return)+

section \<open>The server\<close>

text \<open>The fields of \<open>Server\<close> that are values; \<open>sv_oidc\<close> says that \<open>s.oidc\<close> is not nil.\<close>

record server =
  sv_cfg :: config
  sv_auth :: auth_service
  sv_oidc :: bool

definition externalURL :: "env \<Rightarrow> server \<Rightarrow> string \<Rightarrow> string io" where
  "externalURL env s host =
     or_zero [] (GetSetting env ''external_url'') (\<lambda>url.
     State_Monad.return
       (if url \<noteq> [] then trim_right_char CHR ''/'' url
        else if srv_ExternalURL (cf_Server (sv_cfg s)) \<noteq> []
          then trim_right_char CHR ''/'' (srv_ExternalURL (cf_Server (sv_cfg s)))
        else (if tc_Mode (srv_TLS (cf_Server (sv_cfg s))) = ''none'' then ''http'' else ''https'')
               @ ''://'' @ host))"

section \<open>SMTP settings\<close>

definition default_to :: "string \<Rightarrow> string \<Rightarrow> string" where
  "default_to d s = (if s = [] then d else s)"

definition smtpSettings :: "env \<Rightarrow> server \<Rightarrow> (error + SMTPSettings option) io" where
  "smtpSettings env s =
     or_zero [] (GetSetting env ''smtp_host'') (\<lambda>host.
     if host \<noteq> [] then
       or_zero [] (GetSetting env ''smtp_port'') (\<lambda>portStr.
       let port = (if portStr \<noteq> [] then (case Atoi portStr of Inr p \<Rightarrow> p | Inl _ \<Rightarrow> 587) else 587) in
       or_zero [] (GetSetting env ''smtp_username'') (\<lambda>username.
       or_zero [] (GetSetting env ''smtp_password_encrypted'') (\<lambda>passwordEnc.
       or_zero [] (GetSetting env ''smtp_from'') (\<lambda>from.
       or_zero [] (GetSetting env ''smtp_tls'') (\<lambda>tlsMode.
       attempt (if passwordEnc \<noteq> [] then State_Monad.return (Decrypt env passwordEnc) else ok []) fail
         (\<lambda>password.
       ok (Some \<lparr>sm_Host = host, sm_Port = port, sm_Username = username, sm_Password = password,
             sm_From = from, sm_TLS = default_to ''starttls'' tlsMode\<rparr>)))))))
     else
       let c = cf_SMTP (sv_cfg s) in
       if \<not> SMTP_Enabled c then ok None
       else attempt (SMTP_Password env c) fail (\<lambda>password.
         ok (Some \<lparr>sm_Host = smc_Host c, sm_Port = (if smc_Port c = 0 then 587 else smc_Port c),
               sm_Username = smc_Username c, sm_Password = password, sm_From = smc_From c,
               sm_TLS = default_to ''starttls'' (smc_TLS c)\<rparr>)))"

definition smtpEnabled :: "env \<Rightarrow> server \<Rightarrow> bool io" where
  "smtpEnabled env s =
     or_zero [] (GetSetting env ''smtp_host'') (\<lambda>host.
     State_Monad.return (host \<noteq> [] \<or> SMTP_Enabled (cf_SMTP (sv_cfg s))))"

lemma keeps_settings [keeps_intros]:
  "keeps (on_db I) (externalURL env s h)"
  "keeps (on_db I) (smtpSettings env s)"
  "keeps (on_db I) (smtpEnabled env s)"
  unfolding externalURL_def smtpSettings_def smtpEnabled_def by (intro keeps_intros)+

end
