(* ===== verification/HandlersUsers.thy ===== *)
theory HandlersUsers
  imports Respond
begin

text \<open>
  The handlers of sessions, users and single sign-on (internal/server/handler_auth.go,
  handler_users.go, handler_oidc.go).
\<close>

section \<open>Sessions\<close>

record loginRequest =
  lq_Username :: string
  lq_Password :: string

text \<open>What \<open>http.SetCookie\<close> gets: value, lifetime in seconds, SameSite and Secure.\<close>

datatype same_site = SameSiteDefault | SameSiteLax | SameSiteStrict

record cookie =
  ck_Value :: string
  ck_MaxAge :: int
  ck_SameSite :: same_site
  ck_Secure :: bool
  ck_HttpOnly :: bool

record sessionResponse =
  sr_User :: user
  sr_CSRFToken :: string
  sr_SMTPEnabled :: bool

record oidcProviderInfo =
  oi_ID :: string
  oi_Name :: string
  oi_LoginURL :: string

record authOptionsResponse =
  ao_AuthRequired :: bool
  ao_OIDCProviders :: "oidcProviderInfo list"
  ao_LocalAuthEnabled :: bool
  ao_Demo :: bool

datatype auth_body =
    SetupCheck bool
  | AuthOptions authOptionsResponse
  | SessionBody sessionResponse (cookie_of: "cookie option")
  | LoggedOut cookie

definition session_cookie :: "server \<Rightarrow> same_site \<Rightarrow> session \<Rightarrow> cookie" where
  "session_cookie s site se = \<lparr>ck_Value = se_ID se, ck_MaxAge = 24 * 60 * 60, ck_SameSite = site,
     ck_Secure = (tc_Mode (srv_TLS (cf_Server (sv_cfg s))) \<noteq> ''none''), ck_HttpOnly = True\<rparr>"

definition local_enabled :: "server \<Rightarrow> bool" where
  "local_enabled s = la_Enabled (ac_Local (cf_Auth (sv_cfg s)))"

definition handleLogin ::
  "env \<Rightarrow> server \<Rightarrow> string \<Rightarrow> string \<Rightarrow> (error + loginRequest) \<Rightarrow> auth_body response io" where
  "handleLogin env s ip agent body =
     (if \<not> local_enabled s then problem 403 ''local authentication is disabled''
      else with_body body (\<lambda>q.
        or_text 401 ''invalid credentials'' (Authenticate env (lq_Username q) (lq_Password q)) (\<lambda>u.
        if u_OIDCProvider u \<noteq> [] then problem 403 ''this account uses SSO login''
        else or_text 500 ''failed to create session''
            (Auth_CreateSession env (sv_auth s) (u_ID u) ip agent) (\<lambda>se.
          State_Monad.bind (smtpEnabled env s) (\<lambda>mailing.
          State_Monad.return (JSON 200 (SessionBody
            \<lparr>sr_User = u, sr_CSRFToken = se_CSRFToken se, sr_SMTPEnabled = mailing\<rparr>
            (Some (session_cookie s SameSiteStrict se)))))))))"

definition handleLogout :: "env \<Rightarrow> string option \<Rightarrow> auth_body response io" where
  "handleLogout env ck =
     ignore (case ck of None \<Rightarrow> ok () | Some v \<Rightarrow> DestroySession env v)
       (State_Monad.return (JSON 200 (LoggedOut
         \<lparr>ck_Value = [], ck_MaxAge = -1, ck_SameSite = SameSiteDefault, ck_Secure = False, ck_HttpOnly = True\<rparr>)))"

definition writeAuthOptions :: "server \<Rightarrow> auth_body response io" where
  "writeAuthOptions s =
     State_Monad.bind (if sv_oidc s then ListProviders else State_Monad.return []) (\<lambda>ps.
     State_Monad.return (JSON 200 (AuthOptions
       \<lparr>ao_AuthRequired = True,
        ao_OIDCProviders = map (\<lambda>p. \<lparr>oi_ID = op_ID p, oi_Name = op_Name p,
          oi_LoginURL = ''/api/v1/auth/oidc/'' @ op_ID p @ ''/login''\<rparr>) ps,
        ao_LocalAuthEnabled = local_enabled s, ao_Demo = cf_Demo (sv_cfg s)\<rparr>)))"

definition handleGetSession :: "env \<Rightarrow> server \<Rightarrow> string option \<Rightarrow> auth_body response io" where
  "handleGetSession env s ck =
     or_text 500 ''checking setup status'' (NeedsSetup env) (\<lambda>needs.
     if needs then State_Monad.return (JSON 200 (SetupCheck True))
     else case ck of
       None \<Rightarrow> writeAuthOptions s
     | Some v \<Rightarrow> attempt (ValidateSession env (sv_auth s) v) (\<lambda>_. writeAuthOptions s) (\<lambda>(se, u).
         State_Monad.bind (smtpEnabled env s) (\<lambda>mailing.
         State_Monad.return (JSON 200 (SessionBody
           \<lparr>sr_User = u, sr_CSRFToken = se_CSRFToken se, sr_SMTPEnabled = mailing\<rparr> None)))))"

definition handleSetup ::
  "env \<Rightarrow> server \<Rightarrow> string \<Rightarrow> string \<Rightarrow> (error + loginRequest) \<Rightarrow> auth_body response io" where
  "handleSetup env s ip agent body =
     with_body body (\<lambda>q.
     if lq_Username q = [] \<or> lq_Password q = [] then problem 400 ''username and password required''
     else or_error 400 (CreateInitialAdmin env (sv_auth s) (lq_Username q) (lq_Password q)) (\<lambda>u.
       or_text 500 ''failed to create session''
         (Auth_CreateSession env (sv_auth s) (u_ID u) ip agent) (\<lambda>se.
       State_Monad.bind (smtpEnabled env s) (\<lambda>mailing.
       State_Monad.return (JSON 201 (SessionBody
         \<lparr>sr_User = u, sr_CSRFToken = se_CSRFToken se, sr_SMTPEnabled = mailing\<rparr>
         (Some (session_cookie s SameSiteStrict se))))))))"

section \<open>Users\<close>

record createUserRequest =
  cuq_Username :: string
  cuq_Password :: string
  cuq_DisplayName :: string
  cuq_Role :: string

definition admin_required :: "user \<Rightarrow> 'b response io \<Rightarrow> 'b response io" where
  "admin_required caller k =
     (if u_Role caller \<noteq> ''admin'' then problem 403 ''admin access required'' else k)"

text \<open>\<open>issuerMap\<close>: the last provider of a name stays, a missing one gives the empty string.\<close>

definition with_issuer :: "oidc_provider list \<Rightarrow> user \<Rightarrow> user" where
  "with_issuer ps u =
     (if u_OIDCProvider u \<noteq> []
      then u\<lparr>u_OIDCIssuer := (case map_of (rev (map (\<lambda>p. (op_Name p, op_Issuer p)) ps)) (u_OIDCProvider u) of
             None \<Rightarrow> [] | Some i \<Rightarrow> i)\<rparr>
      else u)"

definition handleListUsers :: "env \<Rightarrow> user \<Rightarrow> user list response io" where
  "handleListUsers env caller =
     admin_required caller (or_error 500 (ListUsers env) (\<lambda>us.
     or_zero [] (ListOIDCProviders env) (\<lambda>ps.
     State_Monad.return (JSON 200 (map (with_issuer ps) us)))))"

definition handleCreateUser ::
  "env \<Rightarrow> server \<Rightarrow> user \<Rightarrow> (error + createUserRequest) \<Rightarrow> user response io" where
  "handleCreateUser env s caller body =
     admin_required caller (with_body body (\<lambda>q.
     if cuq_Username q = [] \<or> cuq_Password q = [] then problem 400 ''username and password required''
     else
       let role = (if cuq_Role q = [] then ''viewer'' else cuq_Role q) in
       if role \<noteq> ''admin'' \<and> role \<noteq> ''viewer''
       then problem 400 (''role must be 'admin' or 'viewer'' @ [CHR 0x27])
       else
         or_error 400 (State_Monad.return (ValidatePasswordStrength (sv_auth s) (cuq_Password q))) (\<lambda>_.
         or_text 500 ''failed to hash password'' (HashPassword env (cuq_Password q)) (\<lambda>hash.
         or_error 500 (CreateUser env (zero_user\<lparr>u_Username := cuq_Username q, u_PasswordHash := hash,
           u_DisplayName := (if cuq_DisplayName q = [] then cuq_Username q else cuq_DisplayName q),
           u_Role := role\<rparr>)) (\<lambda>u.
         State_Monad.return (JSON 201 u))))))"

definition handleDeleteUser :: "env \<Rightarrow> user \<Rightarrow> string \<Rightarrow> string response io" where
  "handleDeleteUser env caller k =
     admin_required caller
       (if k = u_ID caller then problem 400 ''cannot delete yourself''
        else or_error 500 (DeleteUser env k) (\<lambda>_. State_Monad.return (JSON 200 ''deleted'')))"

definition handleChangePassword ::
  "env \<Rightarrow> server \<Rightarrow> user \<Rightarrow> string \<Rightarrow> (error + string) \<Rightarrow> string response io" where
  "handleChangePassword env s caller k body =
     (if k \<noteq> u_ID caller \<and> u_Role caller \<noteq> ''admin'' then problem 403 ''access denied''
      else with_body body (\<lambda>password.
        or_error 400 (State_Monad.return (ValidatePasswordStrength (sv_auth s) password)) (\<lambda>_.
        or_text 404 ''user not found'' (GetUser env k) (\<lambda>r. case r of
          None \<Rightarrow> problem 404 ''user not found''
        | Some u \<Rightarrow>
            if u_OIDCProvider u \<noteq> [] then problem 400 ''cannot change password for SSO user''
            else
              or_text 500 ''failed to hash password'' (HashPassword env password) (\<lambda>hash.
              or_error 500 (UpdateUser env (u\<lparr>u_PasswordHash := hash\<rparr>)) (\<lambda>_.
              State_Monad.return (JSON 200 ''updated'')))))))"

section \<open>Single sign-on\<close>

definition sanitizeRedirectURL :: "string \<Rightarrow> string" where
  "sanitizeRedirectURL u =
     (if u = [] \<or> \<not> starts_with ''/'' u \<or> starts_with ''//'' u then [] else u)"

text \<open>
  A redirect with the session cookie it sets, or an error. \<open>ready\<close> is what \<open>WaitReady\<close> returns:
  the providers are loaded, or the wait of five seconds is over.
\<close>

datatype redirect = Redirect string "cookie option" | NoRedirect nat message

definition handleOIDCLogin ::
  "env \<Rightarrow> server \<Rightarrow> string \<Rightarrow> bool \<Rightarrow> string \<Rightarrow> string \<Rightarrow> redirect io" where
  "handleOIDCLogin env s host ready providerID redirect =
     (if \<not> sv_oidc s then State_Monad.return (NoRedirect 404 (Msg ''OIDC not configured''))
      else if \<not> ready then
        State_Monad.return (NoRedirect 503 (Msg ''OIDC providers are still loading, please try again''))
      else if providerID = [] then State_Monad.return (NoRedirect 400 (Msg ''missing provider ID''))
      else State_Monad.bind (externalURL env s host) (\<lambda>ext.
        attempt (AuthorizationURL env providerID ext (sanitizeRedirectURL redirect))
          (\<lambda>e. State_Monad.return (NoRedirect 400 (MsgErr e)))
          (\<lambda>url. State_Monad.return (Redirect url None))))"

definition handleOIDCCallback ::
  "env \<Rightarrow> server \<Rightarrow> string \<Rightarrow> string \<Rightarrow> string \<Rightarrow> string \<Rightarrow> string \<Rightarrow> string \<Rightarrow> redirect io" where
  "handleOIDCCallback env s host ip agent err code st =
     (let go = (\<lambda>url. State_Monad.return (Redirect url None)) in
      if \<not> sv_oidc s then go ''/?error=oidc_not_configured''
      else if err \<noteq> [] then go ''/?error=access_denied''
      else if code = [] \<or> st = [] then go ''/?error=invalid_callback''
      else State_Monad.bind (externalURL env s host) (\<lambda>ext.
        attempt (HandleCallback env code st ext) (\<lambda>_. go ''/?error=auth_failed'') (\<lambda>(u, redirectURL).
        attempt (Auth_CreateSession env (sv_auth s) (u_ID u) ip agent) (\<lambda>_. go ''/?error=session_failed'') (\<lambda>se.
        let dest = sanitizeRedirectURL redirectURL in
        State_Monad.return (Redirect (if dest = [] then ''/'' else dest)
          (Some (session_cookie s SameSiteLax se)))))))"

lemma keeps_admin_required [keeps_intros]: "keeps I k \<Longrightarrow> keeps I (admin_required u k)"
  unfolding admin_required_def by (intro keeps_intros)

context account_invariant
begin

lemma keeps_writeAuthOptions [keeps_intros]: "keeps (on_db I) (writeAuthOptions s)"
  unfolding writeAuthOptions_def by (intro keeps_intros)

lemma keeps_auth_handlers [keeps_intros]:
  "keeps (on_db I) (handleLogin env s ip ag lq)"
  "keeps (on_db I) (handleLogout env ck)"
  "keeps (on_db I) (handleGetSession env s ck)"
  "keeps (on_db I) (handleSetup env s ip ag lq)"
  unfolding handleLogin_def handleLogout_def handleGetSession_def handleSetup_def
  by (intro keeps_intros)+

lemma keeps_user_handlers [keeps_intros]:
  "keeps (on_db I) (handleListUsers env u)"
  "keeps (on_db I) (handleCreateUser env s u cuq)"
  "keeps (on_db I) (handleDeleteUser env u k)"
  "keeps (on_db I) (handleChangePassword env s u k pw)"
  unfolding handleListUsers_def handleCreateUser_def handleDeleteUser_def handleChangePassword_def Let_def
  by (intro keeps_intros)+

lemma keeps_oidc_handlers [keeps_intros]:
  "keeps (on_db I) (handleOIDCLogin env s h r p u)"
  "keeps (on_db I) (handleOIDCCallback env s h ip ag err code st)"
  unfolding handleOIDCLogin_def handleOIDCCallback_def Let_def
  by (intro keeps_intros)+

end

end
