(* ===== verification/HandlersNet.thy ===== *)
theory HandlersNet
  imports Respond
begin

text \<open>
  The handlers of peers and interfaces (internal/server/handler_peers.go, handler_interfaces.go).
\<close>

section \<open>Peers\<close>

record addPeerRequest =
  aq_Type :: string
  aq_Name :: string
  aq_Address :: string
  aq_AllowedIPs :: string
  aq_ClientAllowedIPs :: string
  aq_DNS :: string
  aq_Endpoint :: string
  aq_PersistentKeepalive :: int
  aq_PSK :: bool
  aq_AlertOnConnect :: bool
  aq_AlertOnDisconnect :: bool
  aq_AlertEmails :: string

text \<open>The pointer fields are the ones a request may leave out.\<close>

record updatePeerRequest =
  uq_Type :: string
  uq_Name :: string
  uq_Address :: string
  uq_AllowedIPs :: string
  uq_ClientAllowedIPs :: "string option"
  uq_DNS :: "string option"
  uq_Endpoint :: string
  uq_PersistentKeepalive :: int
  uq_AlertOnConnect :: "bool option"
  uq_AlertOnDisconnect :: "bool option"
  uq_AlertEmails :: "string option"

definition validateEmails :: "env \<Rightarrow> string \<Rightarrow> error + unit" where
  "validateEmails env emails =
     (case List.find (\<lambda>a. a \<noteq> [] \<and> \<not> mail_address_ok env a)
             (map TrimSpace (split_char CHR '','' emails)) of
        Some a \<Rightarrow> Inl (Err (''invalid email address: '' @ a))
      | None \<Rightarrow> Inr ())"

definition ip_in_use_message :: string where
  "ip_in_use_message = ''tunnel IP address is already in use by another peer or interface''"

text \<open>\<open>IsTunnelIPInUse\<close> and the two ways a handler answers it.\<close>

definition check_tunnel_ip ::
  "env \<Rightarrow> string \<Rightarrow> string \<Rightarrow> string \<Rightarrow> 'b response io \<Rightarrow> 'b response io" where
  "check_tunnel_ip env addr peerID ifaceID k =
     or_error 500 (IsTunnelIPInUse env addr peerID ifaceID) (\<lambda>inUse.
     if inUse then State_Monad.return (ValidationError ip_in_use_message) else k)"

definition handleListPeers :: "env \<Rightarrow> string \<Rightarrow> peer list response io" where
  "handleListPeers env ifaceID =
     or_error 500 (ListPeers env ifaceID) (\<lambda>ps. State_Monad.return (JSON 200 ps))"

definition requested_peer :: "string \<Rightarrow> addPeerRequest \<Rightarrow> peer" where
  "requested_peer ifaceID q = zero_peer\<lparr>
     p_InterfaceID := ifaceID,
     p_Type := (if aq_Type q \<noteq> PeerTypeClient \<and> aq_Type q \<noteq> PeerTypeSite then PeerTypeClient else aq_Type q),
     p_Name := aq_Name q, p_Address := aq_Address q, p_AllowedIPs := aq_AllowedIPs q,
     p_ClientAllowedIPs := aq_ClientAllowedIPs q, p_DNS := aq_DNS q, p_Endpoint := aq_Endpoint q,
     p_PersistentKeepalive := aq_PersistentKeepalive q, p_AlertOnConnect := aq_AlertOnConnect q,
     p_AlertOnDisconnect := aq_AlertOnDisconnect q, p_AlertEmails := aq_AlertEmails q\<rparr>"

definition handleAddPeer :: "env \<Rightarrow> string \<Rightarrow> (error + addPeerRequest) \<Rightarrow> peer response io" where
  "handleAddPeer env ifaceID body =
     with_body body (\<lambda>q.
     if aq_Name q = [] \<or> aq_AllowedIPs q = [] then problem 400 ''name and allowed_ips are required''
     else
       or_error 400 (State_Monad.return (if aq_AlertEmails q \<noteq> [] then validateEmails env (aq_AlertEmails q) else Inr ()))
         (\<lambda>_.
       let continue = or_error 500 (AddPeer env (requested_peer ifaceID q) (aq_PSK q))
             (\<lambda>p. State_Monad.return (JSON 201 p)) in
       if aq_Address q \<noteq> [] then check_tunnel_ip env (aq_Address q) [] [] continue else continue))"

text \<open>The fields that \<open>handleUpdatePeer\<close> assigns, the alert addresses last.\<close>

definition apply_peer_update :: "updatePeerRequest \<Rightarrow> peer \<Rightarrow> peer" where
  "apply_peer_update q p = p\<lparr>
     p_Type := (if uq_Type q = PeerTypeClient \<or> uq_Type q = PeerTypeSite then uq_Type q else p_Type p),
     p_Name := (if uq_Name q \<noteq> [] then uq_Name q else p_Name p),
     p_Address := (if uq_Address q \<noteq> [] then uq_Address q else p_Address p),
     p_AllowedIPs := (if uq_AllowedIPs q \<noteq> [] then uq_AllowedIPs q else p_AllowedIPs p),
     p_ClientAllowedIPs := (case uq_ClientAllowedIPs q of Some x \<Rightarrow> x | None \<Rightarrow> p_ClientAllowedIPs p),
     p_DNS := (case uq_DNS q of Some x \<Rightarrow> x | None \<Rightarrow> p_DNS p),
     p_Endpoint := uq_Endpoint q,
     p_PersistentKeepalive := uq_PersistentKeepalive q,
     p_AlertOnConnect := (case uq_AlertOnConnect q of Some x \<Rightarrow> x | None \<Rightarrow> p_AlertOnConnect p),
     p_AlertOnDisconnect := (case uq_AlertOnDisconnect q of Some x \<Rightarrow> x | None \<Rightarrow> p_AlertOnDisconnect p),
     p_AlertEmails := (case uq_AlertEmails q of Some x \<Rightarrow> x | None \<Rightarrow> p_AlertEmails p)\<rparr>"

definition handleUpdatePeer :: "env \<Rightarrow> string \<Rightarrow> (error + updatePeerRequest) \<Rightarrow> peer response io" where
  "handleUpdatePeer env k body =
     or_404 ''peer not found'' (GetPeer env k) (\<lambda>p.
     with_body body (\<lambda>q.
     let continue =
       or_error 400 (State_Monad.return (case uq_AlertEmails q of
           Some e \<Rightarrow> if e \<noteq> [] then validateEmails env e else Inr () | None \<Rightarrow> Inr ())) (\<lambda>_.
       or_error 500 (UpdatePeer env (apply_peer_update q p)) (\<lambda>p'.
       or_prefix 500 ''peer updated but sync failed: '' (SyncInterface env (p_InterfaceID p')) (\<lambda>_.
       State_Monad.return (JSON 200 p')))) in
     if uq_Address q \<noteq> [] \<and> ExtractHostIP (uq_Address q) \<noteq> ExtractHostIP (p_Address p)
     then check_tunnel_ip env (uq_Address q) (p_ID p) [] continue else continue))"

definition handleDeletePeer :: "env \<Rightarrow> string \<Rightarrow> string response io" where
  "handleDeletePeer env k =
     or_error 500 (RemovePeer env k) (\<lambda>_. State_Monad.return (JSON 200 ''deleted''))"

definition handleEnablePeer :: "env \<Rightarrow> string \<Rightarrow> string response io" where
  "handleEnablePeer env k =
     or_error 500 (EnablePeer env k) (\<lambda>_. State_Monad.return (JSON 200 ''enabled''))"

definition handleDisablePeer :: "env \<Rightarrow> string \<Rightarrow> string response io" where
  "handleDisablePeer env k =
     or_error 500 (DisablePeer env k) (\<lambda>_. State_Monad.return (JSON 200 ''disabled''))"

definition handleSetPeerPrivateKey :: "env \<Rightarrow> string \<Rightarrow> (error + string) \<Rightarrow> string response io" where
  "handleSetPeerPrivateKey env k body =
     or_404 ''peer not found'' (GetPeer env k) (\<lambda>p.
     with_body body (\<lambda>privateKey.
     if privateKey = [] then problem 400 ''private_key is required''
     else
       or_prefix 500 ''encrypting key: '' (Encrypt env privateKey) (\<lambda>encrypted.
       or_error 500 (UpdatePeer env (p\<lparr>p_PrivateKeyEncrypted := encrypted\<rparr>)) (\<lambda>_.
       State_Monad.return (JSON 200 ''updated'')))))"

text \<open>The body of the answer and the X-Peer-Name header, if it is set.\<close>

definition handlePeerConfig :: "env \<Rightarrow> string \<Rightarrow> (string \<times> string option) response io" where
  "handlePeerConfig env k =
     or_404 ''peer not found'' (GetPeer env k) (\<lambda>p.
     or_error 500 (GenerateConfig env k) (\<lambda>conf.
     State_Monad.return (JSON 200 (conf, if p_Name p \<noteq> [] then Some (p_Name p) else None))))"

definition handlePeerQR :: "env \<Rightarrow> string \<Rightarrow> string response io" where
  "handlePeerQR env k =
     or_error 500 (GenerateConfig env k) (\<lambda>conf.
     or_error 500 (State_Monad.return (qr_png env conf)) (\<lambda>png. State_Monad.return (JSON 200 png)))"

section \<open>Interfaces\<close>

record createInterfaceRequest =
  ciq_ID :: string
  ciq_Type :: string
  ciq_ListenPort :: int
  ciq_Address :: string
  ciq_DNS :: string
  ciq_MTU :: int
  ciq_Endpoint :: string
  ciq_PostUp :: string
  ciq_PostDown :: string

record updateInterfaceRequest =
  uiq_Address :: string
  uiq_ListenPort :: int
  uiq_DNS :: string
  uiq_MTU :: int
  uiq_Endpoint :: string
  uiq_PostUp :: string
  uiq_PostDown :: string

record importConfigRequest =
  imq_ID :: string
  imq_Type :: string
  imq_Config :: string

record adoptInterfaceRequest =
  adq_ID :: string
  adq_Type :: string

definition handleListInterfaces :: "env \<Rightarrow> iface list response io" where
  "handleListInterfaces env =
     or_error 500 (ListInterfaces env) (\<lambda>is. State_Monad.return (JSON 200 is))"

definition type_message :: string where
  "type_message = ''type must be 'site-to-site' or 'client-access'' @ [CHR 0x27]"

definition requested_iface :: "createInterfaceRequest \<Rightarrow> iface" where
  "requested_iface q = zero_iface\<lparr>if_ID := ciq_ID q, if_Type := ciq_Type q, if_ListenPort := ciq_ListenPort q,
     if_Address := ciq_Address q, if_DNS := ciq_DNS q, if_MTU := (if ciq_MTU q = 0 then 1420 else ciq_MTU q),
     if_Endpoint := ciq_Endpoint q, if_PostUp := ciq_PostUp q, if_PostDown := ciq_PostDown q\<rparr>"

definition handleCreateInterface :: "env \<Rightarrow> (error + createInterfaceRequest) \<Rightarrow> iface response io" where
  "handleCreateInterface env body =
     with_body body (\<lambda>q.
     if ciq_ID q = [] \<or> ciq_Type q = [] \<or> ciq_ListenPort q = 0 \<or> ciq_Address q = []
     then problem 400 ''id, type, listen_port, and address are required''
     else if ciq_Type q \<noteq> ''site-to-site'' \<and> ciq_Type q \<noteq> ''client-access''
     then problem 400 type_message
     else check_tunnel_ip env (ciq_Address q) [] []
       (or_error 500 (Manager_CreateInterface env (requested_iface q)) (\<lambda>i.
        State_Monad.return (JSON 201 i))))"

definition apply_iface_update :: "updateInterfaceRequest \<Rightarrow> iface \<Rightarrow> iface" where
  "apply_iface_update q i = i\<lparr>
     if_Address := (if uiq_Address q \<noteq> [] then uiq_Address q else if_Address i),
     if_ListenPort := (if uiq_ListenPort q > 0 then uiq_ListenPort q else if_ListenPort i),
     if_DNS := uiq_DNS q, if_Endpoint := uiq_Endpoint q, if_PostUp := uiq_PostUp q, if_PostDown := uiq_PostDown q,
     if_MTU := (if uiq_MTU q > 0 then uiq_MTU q else if_MTU i)\<rparr>"

definition handleUpdateInterface ::
  "env \<Rightarrow> string \<Rightarrow> (error + updateInterfaceRequest) \<Rightarrow> iface response io" where
  "handleUpdateInterface env k body =
     or_404 ''interface not found'' (GetInterface env k) (\<lambda>i.
     with_body body (\<lambda>q.
     let continue = or_error 500 (UpdateInterface env (apply_iface_update q i))
           (\<lambda>i'. State_Monad.return (JSON 200 i')) in
     if uiq_Address q \<noteq> [] \<and> ExtractHostIP (uiq_Address q) \<noteq> ExtractHostIP (if_Address i)
     then check_tunnel_ip env (uiq_Address q) [] (if_ID i) continue else continue))"

definition handleGetInterface :: "env \<Rightarrow> string \<Rightarrow> iface response io" where
  "handleGetInterface env k =
     or_404 ''interface not found'' (GetInterface env k) (\<lambda>i. State_Monad.return (JSON 200 i))"

definition handleDeleteInterface :: "env \<Rightarrow> string \<Rightarrow> string response io" where
  "handleDeleteInterface env k =
     or_error 500 (Manager_DeleteInterface env k True) (\<lambda>_. State_Monad.return (JSON 200 ''deleted''))"

definition handleSyncInterface :: "env \<Rightarrow> string \<Rightarrow> string response io" where
  "handleSyncInterface env k =
     or_error 500 (SyncInterface env k) (\<lambda>_. State_Monad.return (JSON 200 ''synced''))"

definition handleImportInterface :: "env \<Rightarrow> (error + importConfigRequest) \<Rightarrow> iface response io" where
  "handleImportInterface env body =
     with_body body (\<lambda>q.
     if imq_ID q = [] \<or> imq_Type q = [] \<or> imq_Config q = []
     then problem 400 ''id, type, and config are required''
     else if imq_Type q \<noteq> ''site-to-site'' \<and> imq_Type q \<noteq> ''client-access''
     then problem 400 type_message
     else
       or_prefix 400 ''invalid config: '' (State_Monad.return (ParseConfig (imq_Config q))) (\<lambda>parsed.
       or_error 500 (ImportInterface env parsed (imq_ID q) (imq_Type q)) (\<lambda>i.
       State_Monad.return (JSON 201 i))))"

text \<open>
  \<open>filepath.Join("/etc/wireguard", name)\<close>: the rooted path cleaned of empty, \<open>.\<close> and \<open>..\<close>
  elements; the stack holds the elements kept so far, the last one first.
\<close>

fun clean_elements :: "string list \<Rightarrow> string list \<Rightarrow> string list" where
  "clean_elements stack [] = rev stack"
| "clean_elements stack (x # xs) =
     (if x = [] \<or> x = ''.'' then clean_elements stack xs
      else if x = ''..'' then clean_elements (tl stack) xs
      else clean_elements (x # stack) xs)"

definition filepath_Join :: "string \<Rightarrow> string \<Rightarrow> string" where
  "filepath_Join dir name =
     ''/'' @ join ''/'' (clean_elements [] (split_char CHR ''/'' dir @ split_char CHR ''/'' name))"

definition conf_path :: "string \<Rightarrow> string" where
  "conf_path k = filepath_Join ''/etc/wireguard'' (k @ ''.conf'')"

definition handleAdoptInterface ::
  "env \<Rightarrow> (error + adoptInterfaceRequest) \<Rightarrow> (iface \<times> nat) response io" where
  "handleAdoptInterface env body =
     with_body body (\<lambda>q.
     if adq_ID q = [] then problem 400 ''id is required''
     else
       let type = (if adq_Type q = [] then ''client-access'' else adq_Type q) in
       or_prefix 400 (''cannot read '' @ conf_path (adq_ID q) @ '': '')
         (ask (\<lambda>t. read_file_at env t (conf_path (adq_ID q)))) (\<lambda>data.
       or_prefix 400 ''invalid config: '' (State_Monad.return (ParseConfig data)) (\<lambda>parsed.
       or_error 500 (ImportInterface env parsed (adq_ID q) type) (\<lambda>i.
       State_Monad.return (JSON 201 (i, length (pc_Peers parsed)))))))"

definition handleStartInterface :: "env \<Rightarrow> string \<Rightarrow> string response io" where
  "handleStartInterface env k =
     or_error 500 (StartInterface env k) (\<lambda>_. State_Monad.return (JSON 200 ''started''))"

definition handleStopInterface :: "env \<Rightarrow> string \<Rightarrow> string response io" where
  "handleStopInterface env k =
     or_error 500 (StopInterface env k) (\<lambda>_. State_Monad.return (JSON 200 ''stopped''))"

definition handleRestartInterface :: "env \<Rightarrow> string \<Rightarrow> string response io" where
  "handleRestartInterface env k =
     or_error 500 (RestartInterface env k) (\<lambda>_. State_Monad.return (JSON 200 ''restarted''))"

text \<open>\<open>GetConnectedSince\<close> on a snapshot of the poller's map.\<close>

definition connected_at :: "(string \<Rightarrow> peer_snapshot option) \<Rightarrow> string \<Rightarrow> time" where
  "connected_at st k = (case st k of Some s \<Rightarrow> if sn_Connected s then sn_ConnectedSince s else 0 | None \<Rightarrow> 0)"

definition enrich_status :: "(string \<Rightarrow> peer_snapshot option) \<Rightarrow> PeerStatus \<Rightarrow> PeerStatus" where
  "enrich_status st ps =
     (if st_Connected ps then
        let t = connected_at st (p_PublicKey (st_Peer ps)) in
        if \<not> is_zero t then ps\<lparr>st_ConnectedSince := Some t\<rparr>
        else if \<not> is_zero (st_LastHandshake ps) then ps\<lparr>st_ConnectedSince := Some (st_LastHandshake ps)\<rparr>
        else ps
      else ps)"

definition handleInterfaceStatus :: "env \<Rightarrow> string \<Rightarrow> InterfaceStatus response io" where
  "handleInterfaceStatus env k =
     or_error 500 (GetStatus env k) (\<lambda>status.
     State_Monad.bind (gets last_state) (\<lambda>st.
     ignore Kick
       (State_Monad.return (JSON 200 (status\<lparr>is_Peers := map (enrich_status st) (is_Peers status)\<rparr>)))))"

context net_invariant
begin

lemma keeps_check_tunnel_ip [keeps_intros]:
  "keeps (on_db I) k \<Longrightarrow> keeps (on_db I) (check_tunnel_ip env a p i k)"
  unfolding check_tunnel_ip_def by (intro keeps_intros)

lemma keeps_peer_handlers [keeps_intros]:
  "keeps (on_db I) (handleListPeers env k)"
  "keeps (on_db I) (handleAddPeer env k aq)"
  "keeps (on_db I) (handleUpdatePeer env k uq)"
  "keeps (on_db I) (handleDeletePeer env k)"
  "keeps (on_db I) (handleEnablePeer env k)"
  "keeps (on_db I) (handleDisablePeer env k)"
  "keeps (on_db I) (handleSetPeerPrivateKey env k pk)"
  "keeps (on_db I) (handlePeerConfig env k)"
  "keeps (on_db I) (handlePeerQR env k)"
  unfolding handleListPeers_def handleAddPeer_def handleUpdatePeer_def handleDeletePeer_def
    handleEnablePeer_def handleDisablePeer_def handleSetPeerPrivateKey_def handlePeerConfig_def
    handlePeerQR_def Let_def
  by (intro keeps_intros)+

lemma keeps_iface_handlers [keeps_intros]:
  "keeps (on_db I) (handleListInterfaces env)"
  "keeps (on_db I) (handleCreateInterface env ciq)"
  "keeps (on_db I) (handleUpdateInterface env k uiq)"
  "keeps (on_db I) (handleGetInterface env k)"
  "keeps (on_db I) (handleDeleteInterface env k)"
  "keeps (on_db I) (handleSyncInterface env k)"
  "keeps (on_db I) (handleImportInterface env imq)"
  "keeps (on_db I) (handleAdoptInterface env adq)"
  "keeps (on_db I) (handleStartInterface env k)"
  "keeps (on_db I) (handleStopInterface env k)"
  "keeps (on_db I) (handleRestartInterface env k)"
  "keeps (on_db I) (handleInterfaceStatus env k)"
  unfolding handleListInterfaces_def handleCreateInterface_def handleUpdateInterface_def
    handleGetInterface_def handleDeleteInterface_def handleSyncInterface_def handleImportInterface_def
    handleAdoptInterface_def handleStartInterface_def handleStopInterface_def handleRestartInterface_def
    handleInterfaceStatus_def Let_def
  by (intro keeps_intros)+

end

end
