(* ===== verification/HandlersSettings.thy ===== *)
theory HandlersSettings
  imports HandlersUsers HandlersNet
begin

text \<open>
  The handlers of the settings, of mail and logs, and the dashboard
  (internal/server/handler_settings.go, handler_email.go, handler_logs.go, handler_dashboard.go)
  and the alerts of the poller (alert.go). Most of a settings handler is reads and writes of the
  key-value table.
\<close>

section \<open>Settings\<close>

record smtpSettingsData =
  sd_Host :: string
  sd_Port :: string
  sd_Username :: string
  sd_HasPassword :: bool
  sd_From :: string
  sd_TLS :: string

record settingsResponse =
  sg_ExternalURL :: string
  sg_OIDCProviders :: "oidc_provider list"
  sg_LocalAuthEnabled :: bool
  sg_SMTP :: "smtpSettingsData option"

record updateSMTPRequest =
  usq_Host :: string
  usq_Port :: string
  usq_Username :: string
  usq_Password :: string
  usq_From :: string
  usq_TLS :: string

record oidcProviderRequest =
  opq_Name :: string
  opq_Issuer :: string
  opq_ClientID :: string
  opq_ClientSecret :: string
  opq_Scopes :: string
  opq_AutoDiscover :: bool
  opq_AdminClaim :: string
  opq_AdminValue :: string
  opq_DefaultRole :: string
  opq_Enabled :: bool

definition loadSMTPSettingsData :: "env \<Rightarrow> server \<Rightarrow> smtpSettingsData option io" where
  "loadSMTPSettingsData env s =
     or_zero [] (GetSetting env ''smtp_host'') (\<lambda>host.
     if host = [] then
       let c = cf_SMTP (sv_cfg s) in
       if \<not> SMTP_Enabled c then State_Monad.return None
       else or_zero [] (SMTP_Password env c) (\<lambda>pw.
         State_Monad.return (Some \<lparr>sd_Host = smc_Host c,
           sd_Port = (if smc_Port c = 0 then ''587'' else itoa (smc_Port c)), sd_Username = smc_Username c,
           sd_HasPassword = (pw \<noteq> []), sd_From = smc_From c, sd_TLS = default_to ''starttls'' (smc_TLS c)\<rparr>))
     else
       or_zero [] (GetSetting env ''smtp_port'') (\<lambda>port.
       or_zero [] (GetSetting env ''smtp_username'') (\<lambda>username.
       or_zero [] (GetSetting env ''smtp_password_encrypted'') (\<lambda>passwordEnc.
       or_zero [] (GetSetting env ''smtp_from'') (\<lambda>from.
       or_zero [] (GetSetting env ''smtp_tls'') (\<lambda>tlsMode.
       State_Monad.return (Some \<lparr>sd_Host = host, sd_Port = default_to ''587'' port, sd_Username = username,
         sd_HasPassword = (passwordEnc \<noteq> []), sd_From = from, sd_TLS = default_to ''starttls'' tlsMode\<rparr>)))))))"

definition handleGetSettings :: "env \<Rightarrow> server \<Rightarrow> user \<Rightarrow> settingsResponse response io" where
  "handleGetSettings env s caller =
     admin_required caller
       (or_zero [] (GetSetting env ''external_url'') (\<lambda>url.
        or_error 500 (ListOIDCProviders env) (\<lambda>ps.
        State_Monad.bind (loadSMTPSettingsData env s) (\<lambda>sm.
        State_Monad.return (JSON 200 \<lparr>sg_ExternalURL = url, sg_OIDCProviders = ps,
          sg_LocalAuthEnabled = local_enabled s, sg_SMTP = sm\<rparr>)))))"

definition handleUpdateSettings :: "env \<Rightarrow> user \<Rightarrow> (error + string) \<Rightarrow> string response io" where
  "handleUpdateSettings env caller body =
     admin_required caller (with_body body (\<lambda>url.
     or_error 500 (SetSetting env ''external_url'' url) (\<lambda>_. State_Monad.return (JSON 200 ''updated''))))"

definition reload_oidc :: "env \<Rightarrow> server \<Rightarrow> 'b response io \<Rightarrow> 'b response io" where
  "reload_oidc env s k = State_Monad.bind (if sv_oidc s then Reload env else State_Monad.return ()) (\<lambda>_. k)"

definition default_scopes :: string where "default_scopes = ''openid profile email groups''"

definition handleCreateOIDCProvider ::
  "env \<Rightarrow> server \<Rightarrow> user \<Rightarrow> (error + oidcProviderRequest) \<Rightarrow> oidc_provider response io" where
  "handleCreateOIDCProvider env s caller body =
     admin_required caller (with_body body (\<lambda>q.
     if opq_Name q = [] \<or> opq_Issuer q = [] \<or> opq_ClientID q = [] \<or> opq_ClientSecret q = []
     then problem 400 ''name, issuer, client_id, and client_secret are required''
     else
       let role = default_to ''viewer'' (opq_DefaultRole q) in
       if role \<noteq> ''admin'' \<and> role \<noteq> ''viewer''
       then problem 400 (''default_role must be 'admin' or 'viewer'' @ [CHR 0x27])
       else
         or_text 500 ''failed to encrypt client secret'' (Encrypt env (opq_ClientSecret q)) (\<lambda>encrypted.
         or_error 500 (CreateOIDCProvider env
           \<lparr>op_ID = [], op_Name = opq_Name q, op_Issuer = opq_Issuer q, op_ClientID = opq_ClientID q,
            op_ClientSecretEncrypted = encrypted, op_Scopes = default_to default_scopes (opq_Scopes q),
            op_AutoDiscover = opq_AutoDiscover q, op_AdminClaim = opq_AdminClaim q,
            op_AdminValue = opq_AdminValue q, op_DefaultRole = role, op_Enabled = opq_Enabled q,
            op_CreatedAt = 0, op_UpdatedAt = 0\<rparr>) (\<lambda>p.
         reload_oidc env s (State_Monad.return (JSON 201 p))))))"

definition apply_provider_update :: "oidcProviderRequest \<Rightarrow> oidc_provider \<Rightarrow> oidc_provider" where
  "apply_provider_update q p = p\<lparr>op_Name := opq_Name q, op_Issuer := opq_Issuer q, op_ClientID := opq_ClientID q,
     op_Scopes := default_to default_scopes (opq_Scopes q), op_AutoDiscover := opq_AutoDiscover q,
     op_AdminClaim := opq_AdminClaim q, op_AdminValue := opq_AdminValue q,
     op_DefaultRole := default_to ''viewer'' (opq_DefaultRole q), op_Enabled := opq_Enabled q\<rparr>"

definition handleUpdateOIDCProvider ::
  "env \<Rightarrow> server \<Rightarrow> user \<Rightarrow> string \<Rightarrow> (error + oidcProviderRequest) \<Rightarrow> oidc_provider response io" where
  "handleUpdateOIDCProvider env s caller k body =
     admin_required caller
       (or_404 ''OIDC provider not found'' (GetOIDCProvider env k) (\<lambda>p.
        with_body body (\<lambda>q.
        if opq_Name q = [] \<or> opq_Issuer q = [] \<or> opq_ClientID q = []
        then problem 400 ''name, issuer, and client_id are required''
        else
          or_text 500 ''failed to encrypt client secret''
            (if opq_ClientSecret q \<noteq> [] then Encrypt env (opq_ClientSecret q)
             else ok (op_ClientSecretEncrypted p)) (\<lambda>secret.
          or_error 500
            (UpdateOIDCProvider env ((apply_provider_update q p)\<lparr>op_ClientSecretEncrypted := secret\<rparr>)) (\<lambda>p'.
          reload_oidc env s (State_Monad.return (JSON 200 p')))))))"

definition handleDeleteOIDCProvider :: "env \<Rightarrow> server \<Rightarrow> user \<Rightarrow> string \<Rightarrow> string response io" where
  "handleDeleteOIDCProvider env s caller k =
     admin_required caller
       (or_error 500 (DeleteOIDCProvider env k) (\<lambda>_.
        reload_oidc env s (State_Monad.return (JSON 200 ''deleted''))))"

text \<open>A sequence of \<open>SetSetting\<close> calls, each of which may end the handler.\<close>

fun set_settings :: "env \<Rightarrow> (string \<times> string) list \<Rightarrow> 'b response io \<Rightarrow> 'b response io" where
  "set_settings env [] k = k"
| "set_settings env ((n, v) # ss) k = or_error 500 (SetSetting env n v) (\<lambda>_. set_settings env ss k)"

definition handleUpdateSMTP :: "env \<Rightarrow> user \<Rightarrow> (error + updateSMTPRequest) \<Rightarrow> string response io" where
  "handleUpdateSMTP env caller body =
     admin_required caller (with_body body (\<lambda>q.
     if usq_Host q = [] then problem 400 ''host is required''
     else if usq_From q = [] then problem 400 ''from address is required''
     else
       set_settings env [(''smtp_host'', usq_Host q), (''smtp_port'', default_to ''587'' (usq_Port q)),
         (''smtp_username'', usq_Username q)]
       (let rest = set_settings env [(''smtp_from'', usq_From q), (''smtp_tls'', default_to ''starttls'' (usq_TLS q))]
              (State_Monad.return (JSON 200 ''updated'')) in
        if usq_Password q \<noteq> [] then
          or_text 500 ''failed to encrypt password'' (Encrypt env (usq_Password q)) (\<lambda>encrypted.
          set_settings env [(''smtp_password_encrypted'', encrypted)] rest)
        else rest)))"

definition handleTestSMTP ::
  "env \<Rightarrow> server \<Rightarrow> user \<Rightarrow> string \<Rightarrow> (error + string) \<Rightarrow> (string \<times> string) response io" where
  "handleTestSMTP env s caller host body =
     admin_required caller (with_body body (\<lambda>to.
     if to = [] then problem 400 ''email address is required''
     else if \<not> mail_address_ok env to then problem 400 ''invalid email address''
     else
       or_prefix 500 ''failed to load SMTP settings: '' (smtpSettings env s) (\<lambda>r. case r of
         None \<Rightarrow> problem 400 ''SMTP is not configured''
       | Some sm \<Rightarrow> State_Monad.bind (externalURL env s host) (\<lambda>url.
           or_prefix 500 ''SMTP test failed: '' (send_mail env sm (TestMail to url)) (\<lambda>_.
           State_Monad.return (JSON 200 (''sent'', to)))))))"

definition smtp_keys :: "string list" where
  "smtp_keys = [''smtp_host'', ''smtp_port'', ''smtp_username'', ''smtp_password_encrypted'', ''smtp_from'', ''smtp_tls'']"

definition handleDeleteSMTP :: "env \<Rightarrow> user \<Rightarrow> string response io" where
  "handleDeleteSMTP env caller =
     admin_required caller
       (set_settings env (map (\<lambda>k. (k, [])) smtp_keys) (State_Monad.return (JSON 200 ''deleted'')))"

section \<open>Mail\<close>

text \<open>
  \<open>GetPeer\<close> gives nil for a missing peer and the handler goes on; \<open>GenerateConfig\<close> then fails, so
  the name is read from a peer that exists, unless it was deleted in between, when Go would panic.
\<close>

definition handleEmailPeerConfig ::
  "env \<Rightarrow> server \<Rightarrow> string \<Rightarrow> string \<Rightarrow> (error + string \<times> string) \<Rightarrow> (string \<times> string) response option io" where
  "handleEmailPeerConfig env s host k body =
     (let answer = (\<lambda>m. State_Monad.bind m (\<lambda>r. State_Monad.return (Some r))) in
      attempt (smtpSettings env s) (\<lambda>_. answer (problem 500 ''failed to load SMTP settings'')) (\<lambda>r. case r of
        None \<Rightarrow> answer (problem 400 ''SMTP is not configured'')
      | Some sm \<Rightarrow>
      (case body of
         Inl e \<Rightarrow> State_Monad.return (Some (Problem 400 (MsgErr e)))
       | Inr (to, note) \<Rightarrow>
           if to = [] then answer (problem 400 ''email address is required'')
           else if \<not> mail_address_ok env to then answer (problem 400 ''invalid email address'')
           else
             attempt (GetPeer env k) (\<lambda>_. answer (problem 404 ''peer not found'')) (\<lambda>p.
             attempt (GenerateConfig env k) (\<lambda>e. State_Monad.return (Some (Problem 500 (MsgErr e)))) (\<lambda>conf.
             (case qr_png env conf of
                Inl _ \<Rightarrow> answer (problem 500 ''failed to generate QR code'')
              | Inr png \<Rightarrow> State_Monad.bind (externalURL env s host) (\<lambda>url.
                  case p of
                    None \<Rightarrow> State_Monad.return None
                  | Some p \<Rightarrow>
                      answer (or_prefix 500 ''failed to send email: ''
                        (send_mail env sm (PeerConfigMail \<lparr>pe_To = to, pe_PeerName = p_Name p, pe_Note = note,
                           pe_ConfData = conf, pe_QRCodePNG = png, pe_ServerName = url\<rparr>)) (\<lambda>_.
                      State_Monad.return (JSON 200 (''sent'', to)))))))))))"

section \<open>Alerts\<close>

definition formatDuration :: "duration \<Rightarrow> string" where
  "formatDuration d =
     (let totalSecs = whole_seconds d in
      if totalSecs \<le> 0 then ''0s''
      else
        let days = trunc_div totalSecs 86400; hours = trunc_div (trunc_mod totalSecs 86400) 3600;
            mins = trunc_div (trunc_mod totalSecs 3600) 60; secs = trunc_mod totalSecs 60 in
        if days > 0 \<and> hours > 0 then itoa days @ ''d '' @ itoa hours @ ''h''
        else if days > 0 then itoa days @ ''d''
        else if hours > 0 \<and> mins > 0 then itoa hours @ ''h '' @ itoa mins @ ''m''
        else if hours > 0 then itoa hours @ ''h''
        else if mins > 0 \<and> secs > 0 then itoa mins @ ''m '' @ itoa secs @ ''s''
        else if mins > 0 then itoa mins @ ''m''
        else itoa secs @ ''s'')"

text \<open>The timestamp of the message, a rendering of the current time, is left out.\<close>

definition sendPeerAlert :: "env \<Rightarrow> server \<Rightarrow> alert \<Rightarrow> unit io" where
  "sendPeerAlert env s a =
     attempt (smtpSettings env s) (\<lambda>_. State_Monad.return ()) (\<lambda>r. case r of
       None \<Rightarrow> State_Monad.return ()
     | Some sm \<Rightarrow>
         or_zero [] (GetSetting env ''external_url'') (\<lambda>url.
         let serverURL = (if url \<noteq> [] then url else srv_ExternalURL (cf_Server (sv_cfg s)));
             durationStr = (if al_Duration a > 0 then formatDuration (al_Duration a) else []) in
         fold_act (filter (\<lambda>to. to \<noteq> []) (map TrimSpace (split_char CHR '','' (p_AlertEmails (al_Peer a)))))
           (\<lambda>to _. ignore (send_mail env sm (AlertMail
              \<lparr>ae_To = to, ae_PeerName = p_Name (al_Peer a), ae_PublicKey = p_PublicKey (al_Peer a),
               ae_InterfaceName = if_ID (al_Iface a), ae_Event = al_Event a, ae_Endpoint = al_Endpoint a,
               ae_TransferRx = p_TransferRx (al_Peer a), ae_TransferTx = p_TransferTx (al_Peer a),
               ae_Duration = durationStr, ae_ServerName = serverURL\<rparr>)) (State_Monad.return ())) ()))"

section \<open>Connection logs\<close>

text \<open>\<open>parsePagination\<close> on the two query parameters, empty when missing.\<close>

definition parsePagination :: "string \<Rightarrow> string \<Rightarrow> int \<times> int" where
  "parsePagination l off =
     ((case (if l \<noteq> [] then Atoi l else Inl ErrSyntax) of
         Inr n \<Rightarrow> if n > 0 \<and> n \<le> 200 then n else 50 | Inl _ \<Rightarrow> 50),
      (case (if off \<noteq> [] then Atoi off else Inl ErrSyntax) of
         Inr n \<Rightarrow> if n \<ge> 0 then n else 0 | Inl _ \<Rightarrow> 0))"

definition handleInterfaceLogs :: "env \<Rightarrow> string \<Rightarrow> string \<Rightarrow> string \<Rightarrow> conn_log list response io" where
  "handleInterfaceLogs env k l off =
     (let (limit, offset) = parsePagination l off in
      or_error 500 (ListConnectionLogs env k limit offset) (\<lambda>(logs, total).
      State_Monad.return (JSONList 200 logs total)))"

definition handlePeerLogs :: "env \<Rightarrow> string \<Rightarrow> string \<Rightarrow> string \<Rightarrow> conn_log list response io" where
  "handlePeerLogs env k l off =
     (let (limit, offset) = parsePagination l off in
      or_error 500 (ListPeerConnectionLogs env k limit offset) (\<lambda>(logs, total).
      State_Monad.return (JSONList 200 logs total)))"

section \<open>Dashboard\<close>

record interfaceSummary =
  su_ID :: string
  su_Type :: string
  su_Address :: string
  su_ListenPort :: int
  su_Endpoint :: string
  su_Enabled :: bool
  su_Running :: bool
  su_PublicKey :: string
  su_TotalPeers :: int
  su_ConnectedPeers :: int
  su_TotalRx :: int
  su_TotalTx :: int

text \<open>The two times of \<open>activeConnection\<close> before they are formatted; \<open>None\<close> is the empty string.\<close>

record activeConnection =
  cn_InterfaceID :: string
  cn_PeerID :: string
  cn_PeerName :: string
  cn_PeerType :: string
  cn_Address :: string
  cn_Endpoint :: string
  cn_LastHandshake :: "time option"
  cn_ConnectedSince :: "time option"
  cn_TransferRx :: int
  cn_TransferTx :: int

record dashboardResponse =
  da_Interfaces :: "interfaceSummary list"
  da_ActiveConnections :: "activeConnection list"
  da_TotalPeers :: int
  da_ActivePeers :: int
  da_TotalRx :: int
  da_TotalTx :: int

definition empty_summary :: "iface \<Rightarrow> interfaceSummary" where
  "empty_summary i = \<lparr>su_ID = if_ID i, su_Type = if_Type i, su_Address = if_Address i,
     su_ListenPort = if_ListenPort i, su_Endpoint = if_Endpoint i, su_Enabled = if_Enabled i,
     su_Running = False, su_PublicKey = [], su_TotalPeers = 0, su_ConnectedPeers = 0, su_TotalRx = 0,
     su_TotalTx = 0\<rparr>"

definition active_connection :: "(string \<Rightarrow> peer_snapshot option) \<Rightarrow> iface \<Rightarrow> PeerStatus \<Rightarrow> activeConnection" where
  "active_connection snap i ps =
     (let p = st_Peer ps; t = connected_at snap (p_PublicKey p);
          hs = (if is_zero (st_LastHandshake ps) then None else Some (st_LastHandshake ps)) in
      \<lparr>cn_InterfaceID = if_ID i, cn_PeerID = p_ID p, cn_PeerName = p_Name p, cn_PeerType = p_Type p,
       cn_Address = p_Address p, cn_Endpoint = st_Endpoint ps, cn_LastHandshake = hs,
       cn_ConnectedSince = (if \<not> is_zero t then Some t else hs),
       cn_TransferRx = st_TransferRx ps, cn_TransferTx = st_TransferTx ps\<rparr>)"

text \<open>The inner loop, over the peers of one interface; sums are 64-bit.\<close>

definition add_peer_status :: "PeerStatus \<Rightarrow> interfaceSummary \<Rightarrow> interfaceSummary" where
  "add_peer_status ps su = su\<lparr>su_TotalPeers := su_TotalPeers su + 1,
     su_ConnectedPeers := su_ConnectedPeers su + (if st_Connected ps then 1 else 0),
     su_TotalRx := int64 (su_TotalRx su + st_TransferRx ps),
     su_TotalTx := int64 (su_TotalTx su + st_TransferTx ps)\<rparr>"

definition dashboard_iface ::
  "env \<Rightarrow> iface \<Rightarrow> dashboardResponse \<Rightarrow> dashboardResponse io" where
  "dashboard_iface env i resp =
     State_Monad.bind (GetStatus env (if_ID i)) (\<lambda>r.
     State_Monad.bind (gets last_state) (\<lambda>snap.
     let (summary, conns) =
       (case r of
          Inl _ \<Rightarrow> (empty_summary i, [])
        | Inr st \<Rightarrow>
            (fold add_peer_status (is_Peers st)
               ((empty_summary i)\<lparr>su_PublicKey := is_PublicKey st, su_Running := is_Running st\<rparr>),
             map (active_connection snap i) (filter st_Connected (is_Peers st)))) in
     State_Monad.return (resp\<lparr>
       da_Interfaces := da_Interfaces resp @ [summary],
       da_ActiveConnections := da_ActiveConnections resp @ conns,
       da_TotalPeers := da_TotalPeers resp + su_TotalPeers summary,
       da_ActivePeers := da_ActivePeers resp + su_ConnectedPeers summary,
       da_TotalRx := int64 (da_TotalRx resp + su_TotalRx summary),
       da_TotalTx := int64 (da_TotalTx resp + su_TotalTx summary)\<rparr>)))"

definition handleDashboard :: "env \<Rightarrow> dashboardResponse response io" where
  "handleDashboard env =
     or_error 500 (ListInterfaces env) (\<lambda>is.
     State_Monad.bind
       (fold_act is (dashboard_iface env) \<lparr>da_Interfaces = [], da_ActiveConnections = [], da_TotalPeers = 0,
          da_ActivePeers = 0, da_TotalRx = 0, da_TotalTx = 0\<rparr>)
       (\<lambda>resp. State_Monad.return (JSON 200 resp)))"

lemma keeps_loadSMTPSettingsData [keeps_intros]: "keeps (on_db I) (loadSMTPSettingsData env s)"
  unfolding loadSMTPSettingsData_def by (intro keeps_intros)

lemma keeps_mail_handlers [keeps_intros]:
  "keeps (on_db I) (handleEmailPeerConfig env s h k em)"
  "keeps (on_db I) (sendPeerAlert env s a)"
  unfolding handleEmailPeerConfig_def sendPeerAlert_def Let_def by (intro keeps_intros)+

lemma keeps_dashboard [keeps_intros]:
  "keeps (on_db I) (handleInterfaceLogs env k l off)"
  "keeps (on_db I) (handlePeerLogs env k l off)"
  "keeps (on_db I) (dashboard_iface env i resp)"
  "keeps (on_db I) (handleDashboard env)"
  unfolding handleInterfaceLogs_def handlePeerLogs_def dashboard_iface_def handleDashboard_def Let_def
  by (intro keeps_intros)+

context account_invariant
begin

lemma keeps_set_settings [keeps_intros]:
  "keeps (on_db I) k \<Longrightarrow> keeps (on_db I) (set_settings env ss k)"
  by (induction ss) (auto intro!: keeps_intros)

lemma keeps_reload_oidc [keeps_intros]:
  "keeps (on_db I) k \<Longrightarrow> keeps (on_db I) (reload_oidc env s k)"
  unfolding reload_oidc_def by (intro keeps_intros)

lemma keeps_settings_handlers [keeps_intros]:
  "keeps (on_db I) (handleGetSettings env s u)"
  "keeps (on_db I) (handleUpdateSettings env u url)"
  "keeps (on_db I) (handleCreateOIDCProvider env s u opq)"
  "keeps (on_db I) (handleUpdateOIDCProvider env s u k opq)"
  "keeps (on_db I) (handleDeleteOIDCProvider env s u k)"
  "keeps (on_db I) (handleUpdateSMTP env u usq)"
  "keeps (on_db I) (handleTestSMTP env s u h to)"
  "keeps (on_db I) (handleDeleteSMTP env u)"
  unfolding handleGetSettings_def handleUpdateSettings_def handleCreateOIDCProvider_def
    handleUpdateOIDCProvider_def handleDeleteOIDCProvider_def handleUpdateSMTP_def handleTestSMTP_def
    handleDeleteSMTP_def Let_def
  by (intro keeps_intros)+

end

end
