(* ===== verification/Routes.thy ===== *)
theory Routes
  imports HandlersSettings
begin

text \<open>
  The route table (internal/server/routes.go) and the server as a transition system: a step is a
  request, a cycle of the poller, or one of the goroutines that \<^verbatim>\<open>Start\<close> and the poller spawn. A
  step is atomic here; the database is shared by all of them.
\<close>

section \<open>Protected routes\<close>

datatype protected_request =
    Dashboard
  | ListIfaces
  | CreateIface "error + createInterfaceRequest"
  | ImportIface "error + importConfigRequest"
  | AdoptIface "error + adoptInterfaceRequest"
  | GetIface string
  | UpdateIface string "error + updateInterfaceRequest"
  | DeleteIface string
  | SyncIface string
  | StartIface string
  | StopIface string
  | RestartIface string
  | IfaceStatus string
  | ListPeersOf string
  | AddPeerTo string "error + addPeerRequest"
  | UpdatePeerReq string "error + updatePeerRequest"
  | DeletePeerReq string
  | EnablePeerReq string
  | DisablePeerReq string
  | SetPeerKey string "error + string"
  | PeerConfig string
  | PeerQR string
  | EmailPeer string "error + string \<times> string"
  | IfaceLogs string string string
  | PeerLogs string string string
  | ListUsersReq
  | CreateUserReq "error + createUserRequest"
  | DeleteUserReq string
  | is_ChangePassword: ChangePassword string "error + string"
  | GetSettings
  | UpdateSettings "error + string"
  | CreateProvider "error + oidcProviderRequest"
  | UpdateProvider string "error + oidcProviderRequest"
  | DeleteProvider string
  | UpdateSMTP "error + updateSMTPRequest"
  | TestSMTP "error + string"
  | DeleteSMTP

text \<open>The method of each pattern of the protected mux.\<close>

fun route_method :: "protected_request \<Rightarrow> string" where
  "route_method Dashboard = ''GET''"
| "route_method ListIfaces = ''GET''"
| "route_method (CreateIface b) = ''POST''"
| "route_method (ImportIface b) = ''POST''"
| "route_method (AdoptIface b) = ''POST''"
| "route_method (GetIface k) = ''GET''"
| "route_method (UpdateIface k b) = ''PUT''"
| "route_method (DeleteIface k) = ''DELETE''"
| "route_method (SyncIface k) = ''POST''"
| "route_method (StartIface k) = ''POST''"
| "route_method (StopIface k) = ''POST''"
| "route_method (RestartIface k) = ''POST''"
| "route_method (IfaceStatus k) = ''GET''"
| "route_method (ListPeersOf k) = ''GET''"
| "route_method (AddPeerTo k b) = ''POST''"
| "route_method (UpdatePeerReq k b) = ''PUT''"
| "route_method (DeletePeerReq k) = ''DELETE''"
| "route_method (EnablePeerReq k) = ''POST''"
| "route_method (DisablePeerReq k) = ''POST''"
| "route_method (SetPeerKey k b) = ''PUT''"
| "route_method (PeerConfig k) = ''GET''"
| "route_method (PeerQR k) = ''GET''"
| "route_method (EmailPeer k b) = ''POST''"
| "route_method (IfaceLogs k l off) = ''GET''"
| "route_method (PeerLogs k l off) = ''GET''"
| "route_method ListUsersReq = ''GET''"
| "route_method (CreateUserReq b) = ''POST''"
| "route_method (DeleteUserReq k) = ''DELETE''"
| "route_method (ChangePassword k b) = ''PUT''"
| "route_method GetSettings = ''GET''"
| "route_method (UpdateSettings b) = ''PUT''"
| "route_method (CreateProvider b) = ''POST''"
| "route_method (UpdateProvider k b) = ''PUT''"
| "route_method (DeleteProvider k) = ''DELETE''"
| "route_method (UpdateSMTP b) = ''PUT''"
| "route_method (TestSMTP b) = ''POST''"
| "route_method DeleteSMTP = ''DELETE''"

text \<open>The status line of an answer. A handler that panics sends none (0).\<close>

fun status :: "'a response \<Rightarrow> nat" where
  "status (JSON n x) = n"
| "status (JSONList n x t) = n"
| "status (Problem n m) = n"
| "status (ValidationError t) = 200"

definition answer :: "'a response io \<Rightarrow> nat io" where
  "answer m = State_Monad.bind m (\<lambda>r. State_Monad.return (status r))"

definition answer_option :: "'a response option io \<Rightarrow> nat io" where
  "answer_option m = State_Monad.bind m (\<lambda>r. State_Monad.return (case r of None \<Rightarrow> 0 | Some r \<Rightarrow> status r))"

text \<open>The handler of each route, with the user that \<open>authRequired\<close> put into the context.\<close>

fun dispatch :: "env \<Rightarrow> server \<Rightarrow> string \<Rightarrow> user \<Rightarrow> protected_request \<Rightarrow> nat io" where
  "dispatch env s host u Dashboard = answer (handleDashboard env)"
| "dispatch env s host u ListIfaces = answer (handleListInterfaces env)"
| "dispatch env s host u (CreateIface b) = answer (handleCreateInterface env b)"
| "dispatch env s host u (ImportIface b) = answer (handleImportInterface env b)"
| "dispatch env s host u (AdoptIface b) = answer (handleAdoptInterface env b)"
| "dispatch env s host u (GetIface k) = answer (handleGetInterface env k)"
| "dispatch env s host u (UpdateIface k b) = answer (handleUpdateInterface env k b)"
| "dispatch env s host u (DeleteIface k) = answer (handleDeleteInterface env k)"
| "dispatch env s host u (SyncIface k) = answer (handleSyncInterface env k)"
| "dispatch env s host u (StartIface k) = answer (handleStartInterface env k)"
| "dispatch env s host u (StopIface k) = answer (handleStopInterface env k)"
| "dispatch env s host u (RestartIface k) = answer (handleRestartInterface env k)"
| "dispatch env s host u (IfaceStatus k) = answer (handleInterfaceStatus env k)"
| "dispatch env s host u (ListPeersOf k) = answer (handleListPeers env k)"
| "dispatch env s host u (AddPeerTo k b) = answer (handleAddPeer env k b)"
| "dispatch env s host u (UpdatePeerReq k b) = answer (handleUpdatePeer env k b)"
| "dispatch env s host u (DeletePeerReq k) = answer (handleDeletePeer env k)"
| "dispatch env s host u (EnablePeerReq k) = answer (handleEnablePeer env k)"
| "dispatch env s host u (DisablePeerReq k) = answer (handleDisablePeer env k)"
| "dispatch env s host u (SetPeerKey k b) = answer (handleSetPeerPrivateKey env k b)"
| "dispatch env s host u (PeerConfig k) = answer (handlePeerConfig env k)"
| "dispatch env s host u (PeerQR k) = answer (handlePeerQR env k)"
| "dispatch env s host u (EmailPeer k b) = answer_option (handleEmailPeerConfig env s host k b)"
| "dispatch env s host u (IfaceLogs k l off) = answer (handleInterfaceLogs env k l off)"
| "dispatch env s host u (PeerLogs k l off) = answer (handlePeerLogs env k l off)"
| "dispatch env s host u ListUsersReq = answer (handleListUsers env u)"
| "dispatch env s host u (CreateUserReq b) = answer (handleCreateUser env s u b)"
| "dispatch env s host u (DeleteUserReq k) = answer (handleDeleteUser env u k)"
| "dispatch env s host u (ChangePassword k b) = answer (handleChangePassword env s u k b)"
| "dispatch env s host u GetSettings = answer (handleGetSettings env s u)"
| "dispatch env s host u (UpdateSettings b) = answer (handleUpdateSettings env u b)"
| "dispatch env s host u (CreateProvider b) = answer (handleCreateOIDCProvider env s u b)"
| "dispatch env s host u (UpdateProvider k b) = answer (handleUpdateOIDCProvider env s u k b)"
| "dispatch env s host u (DeleteProvider k) = answer (handleDeleteOIDCProvider env s u k)"
| "dispatch env s host u (UpdateSMTP b) = answer (handleUpdateSMTP env u b)"
| "dispatch env s host u (TestSMTP b) = answer (handleTestSMTP env s u host b)"
| "dispatch env s host u DeleteSMTP = answer (handleDeleteSMTP env u)"

text \<open>The request as it arrives: cookie, X-CSRF-Token and Host headers.\<close>

definition serve_protected ::
  "env \<Rightarrow> server \<Rightarrow> string option \<Rightarrow> string \<Rightarrow> string \<Rightarrow> protected_request \<Rightarrow> (reject + nat) io" where
  "serve_protected env s ck token host req =
     protected_route env (sv_auth s) ck (route_method req) token (\<lambda>(se, u). dispatch env s host u req)"

section \<open>Steps of the server\<close>

datatype step =
    Protected "string option" string string protected_request
  | Login string string "error + loginRequest"
  | Logout "string option"
  | GetSessionReq "string option"
  | Setup string string "error + loginRequest"
  | OIDCLogin string bool string string
  | OIDCCallback string string string string string string
  | PollStart
  | PollEvent run_event
  | SendAlert alert
  | CleanSessions
  | ReloadOIDC
  | AutoStart

definition drop_result :: "'a io \<Rightarrow> unit io" where
  "drop_result m = ignore m (State_Monad.return ())"

fun run_step :: "env \<Rightarrow> server \<Rightarrow> duration \<Rightarrow> step \<Rightarrow> unit io" where
  "run_step env s ret (Protected ck t h req) = drop_result (serve_protected env s ck t h req)"
| "run_step env s ret (Login ip ag b) = drop_result (handleLogin env s ip ag b)"
| "run_step env s ret (Logout ck) = drop_result (handleLogout env ck)"
| "run_step env s ret (GetSessionReq ck) = drop_result (handleGetSession env s ck)"
| "run_step env s ret (Setup ip ag b) = drop_result (handleSetup env s ip ag b)"
| "run_step env s ret (OIDCLogin h r p u) = drop_result (handleOIDCLogin env s h r p u)"
| "run_step env s ret (OIDCCallback h ip ag e c st) = drop_result (handleOIDCCallback env s h ip ag e c st)"
| "run_step env s ret PollStart = Run_start env"
| "run_step env s ret (PollEvent e) = Run_event env ret e"
| "run_step env s ret (SendAlert a) = sendPeerAlert env s a"
| "run_step env s ret CleanSessions = drop_result (CleanExpiredSessions env)"
| "run_step env s ret ReloadOIDC = Reload env"
| "run_step env s ret AutoStart = drop_result (SyncAll env)"

definition initial_world :: world where
  "initial_world = \<lparr>wdb = empty_db, tick = 0, net_log = [], last_state = Map.empty,
     seed_connected = Map.empty, alerts = [], oidc_providers = [], oidc_ready = False, outbox = [],
     kicked = False\<rparr>"

inductive server_step :: "env \<Rightarrow> server \<Rightarrow> duration \<Rightarrow> world \<Rightarrow> world \<Rightarrow> bool"
  for env :: env and s :: server and ret :: duration
where
  step: "run_state (run_step env s ret e) w = (u, w') \<Longrightarrow> server_step env s ret w w'"

inductive reachable :: "env \<Rightarrow> server \<Rightarrow> duration \<Rightarrow> world \<Rightarrow> bool"
  for env :: env and s :: server and ret :: duration
where
  init: "reachable env s ret initial_world"
| next_step: "reachable env s ret w \<Longrightarrow> server_step env s ret w w' \<Longrightarrow> reachable env s ret w'"

inductive_cases server_stepE: "server_step env s ret w w'"

lemma keeps_answer [keeps_intros]:
  "keeps I m \<Longrightarrow> keeps I (answer m)" "keeps I m' \<Longrightarrow> keeps I (answer_option m')"
  unfolding answer_def answer_option_def by (intro keeps_intros; assumption?)+

lemma keeps_drop_result [keeps_intros]: "keeps I m \<Longrightarrow> keeps I (drop_result m)"
  unfolding drop_result_def by (intro keeps_intros)

context db_invariant
begin

lemma keeps_dispatch [keeps_intros]: "keeps (on_db I) (dispatch env s host u req)"
  by (cases req) (simp_all only: dispatch.simps; intro keeps_intros)+

lemma keeps_serve_protected [keeps_intros]: "keeps (on_db I) (serve_protected env s ck t h req)"
  unfolding serve_protected_def by (intro keeps_intros)

lemma keeps_run_step: "keeps (on_db I) (run_step env s ret e)"
  by (cases e) (simp_all only: run_step.simps; intro keeps_intros)+

lemma reachable_invariant:
  assumes "I empty_db" and "reachable env s ret w" shows "I (wdb w)"
  using assms(2)
proof (induction rule: reachable.induct)
  case init
  then show ?case using assms(1) by (simp add: initial_world_def)
next
  case (next_step w w')
  then show ?case using keeps_run_step by (auto elim!: server_stepE dest: validD)
qed

end

end
