(* ===== verification/Samples.thy ===== *)
theory Samples
  imports Routes
begin

text \<open>
  A small concrete world, on which the theorems with hypotheses are applied: an environment in
  which every call succeeds (age and base64 with the identity as cipher, a clock that advances by
  one second), a configuration and some rows. Nothing here models code.
\<close>

definition sample_env :: env where
  "sample_env = \<lparr>
     now_at = \<lambda>t. (int t + 1) * second, db_fault = \<lambda>_. None, fk_on = \<lambda>_. True,
     uuid_at = \<lambda>t. ''u'' @ replicate t CHR ''0'', rand_bytes_at = \<lambda>t. Inr (replicate t CHR ''r''),
     wg_private_key_at = \<lambda>t. Inr ''k'', wg_key_at = \<lambda>t. Inr ''p'', passphrase = ''secret'',
     scrypt_ok = \<lambda>_. Inr (), age_writer = \<lambda>_. Inr (), age_write = \<lambda>_. Inr (),
     age_seal = \<lambda>_ _ m. Inr m, age_header = \<lambda>_ _. Inr (), age_payload = \<lambda>_ c. Inr c,
     wg_parse_key = Inr, wg_new_key = Inr, wg_public = \<lambda>k. k, curve25519_base = \<lambda>k. k,
     external_ip = ''203.0.113.1'', bcrypt_hash = \<lambda>_ p. Inr p, bcrypt_match = (=),
     net_result = \<lambda>_ _. Inr True, wg_device = \<lambda>_ _. Inr [], oidc_discover = \<lambda>_ i. Inr i,
     auth_code_url = \<lambda>c _ _. oc_Endpoint c, exchange_code = \<lambda>_ _ c. Inr (Some c),
     verify_token = \<lambda>_ _ _. Inr \<lparr>it_Nonce = ''n'',
       it_Claims = Inr \<lparr>uc_Subject = ''s'', uc_PreferredUsername = ''eve'', uc_Email = [], uc_Name = []\<rparr>,
       it_AllClaims = Inr (\<lambda>_. None)\<rparr>,
     mail_address_ok = \<lambda>_. True, send_mail_at = \<lambda>_ _ _. Inr (), qr_png = Inr,
     read_file_at = \<lambda>_ _. Inr [], unicode_lower = \<lambda>s. s, getenv = \<lambda>_. []\<rparr>"

definition sample_iface :: iface where
  "sample_iface = zero_iface\<lparr>if_ID := ''wg0'', if_Type := ''client-access'', if_ListenPort := 51820,
     if_PrivateKeyEncrypted := ''a2V5'',
     if_Address := ''10.0.0.1/24'', if_Enabled := True\<rparr>"

definition sample_peer :: peer where
  "sample_peer = zero_peer\<lparr>p_ID := ''p1'', p_InterfaceID := ''wg0'', p_Type := ''client'', p_Name := ''laptop'',
     p_PublicKey := ''k1'', p_Address := ''10.0.0.2/32'', p_Enabled := True\<rparr>"

definition sample_admin :: user where
  "sample_admin = zero_user\<lparr>u_ID := ''a'', u_Username := ''admin'', u_Role := ''admin''\<rparr>"

definition sample_viewer :: user where
  "sample_viewer = zero_user\<lparr>u_ID := ''v'', u_Username := ''eve'', u_Role := ''viewer''\<rparr>"

definition sample_session :: session where
  "sample_session = \<lparr>se_ID = ''sid'', se_UserID = ''v'', se_CSRFToken = ''tok'', se_ExpiresAt = 100 * second,
     se_CreatedAt = 0, se_LastSeenAt = 0, se_IPAddress = [], se_UserAgent = []\<rparr>"

definition sample_db :: db where
  "sample_db = empty_db\<lparr>t_interfaces := [sample_iface], t_peers := [sample_peer],
     t_users := [sample_admin, sample_viewer], t_sessions := [sample_session]\<rparr>"

definition world_of :: "db \<Rightarrow> world" where "world_of d = initial_world\<lparr>wdb := d\<rparr>"

definition sample_world :: world where "sample_world = world_of sample_db"

definition sample_auth :: auth_service where
  "sample_auth = \<lparr>sessionTimeout = 30 * minute, maxSessionAge = 24 * hour, minPasswordLen = 16\<rparr>"

definition sample_server :: server where
  "sample_server = \<lparr>sv_cfg = Defaults sample_env, sv_auth = sample_auth, sv_oidc = True\<rparr>"

lemmas sample_defs = sample_env_def sample_iface_def sample_peer_def sample_admin_def sample_viewer_def
  sample_session_def sample_db_def world_of_def sample_world_def sample_auth_def sample_server_def
  zero_iface_def zero_peer_def zero_user_def zero_log_def empty_db_def initial_world_def

lemma sample_db_ok: "constraints_ok sample_db" "refs_ok sample_db"
  by (simp_all add: constraints_ok_def refs_ok_def sample_defs ifaces_ok_def peers_ok_def users_ok_def
      providers_ok_def logs_ok_def iface_type_ok_def peer_type_ok_def role_ok_def same_oidc_identity_def
      has_row_def)

lemma wdb_sample_world [simp]: "wdb sample_world = sample_db"
  by (simp add: sample_world_def world_of_def)

lemma sample_env_simps [simp]:
  "db_fault sample_env t = None" "fk_on sample_env t" "net_result sample_env t c = Inr True"
  "now_at sample_env t = (int t + 1) * second" "uuid_at sample_env t = ''u'' @ replicate t CHR ''0''"
  "age_writer sample_env t = Inr ()" "age_write sample_env t = Inr ()" "age_seal sample_env t p m = Inr m"
  "wg_private_key_at sample_env t = Inr ''k''" "wg_key_at sample_env t = Inr ''p''" "wg_device sample_env t k = Inr []"
  by (simp_all add: sample_env_def)

lemma sample_rows [simp]:
  "get_iface ''wg0'' sample_db = Some sample_iface" "get_peer ''p1'' sample_db = Some sample_peer"
  "if_Enabled sample_iface" "net_log sample_world = []" "p_ID sample_peer = ''p1''"
  "p_InterfaceID sample_peer = ''wg0''" "if_ID sample_iface = ''wg0''"
  by (simp_all add: get_iface_def get_peer_def row_def sample_defs)

lemma run_obtain: "fst (run_state m w) = x \<Longrightarrow> (\<And>w'. run_state m w = (x, w') \<Longrightarrow> P) \<Longrightarrow> P"
  by (metis prod.collapse)

end
