(* ===== verification/TunnelIPs.thy ===== *)
theory TunnelIPs
  imports Samples
begin

text \<open>
  Tunnel addresses: what \<open>IsTunnelIPInUse\<close> decides, and the uniqueness it is there for. No request
  can make two rows (peers or interfaces) hold the same host address, the two that import a
  configuration file excepted, which do not check.
\<close>

section \<open>Tunnel addresses\<close>

definition peer_holds :: "ip \<Rightarrow> string \<Rightarrow> db \<Rightarrow> bool" where
  "peer_holds a x d \<longleftrightarrow> (\<exists>p \<in> set (t_peers d). p_ID p \<noteq> x \<and> host_addr (p_Address p) = Some a)"

definition iface_holds :: "ip \<Rightarrow> string \<Rightarrow> db \<Rightarrow> bool" where
  "iface_holds a x d \<longleftrightarrow> (\<exists>i \<in> set (t_interfaces d). if_ID i \<noteq> x \<and> host_addr (if_Address i) = Some a)"

lemma scan_addresses_None:
  "scan_addresses t x None rs = (if \<exists>(k, a) \<in> set rs. k \<noteq> x \<and> ExtractHostIP a = t then Found else Ended)"
  by (induction rs) (auto split: if_splits)

lemma scan_addresses_Found:
  "scan_addresses t x n rs = Found \<Longrightarrow> \<exists>(k, a) \<in> set rs. k \<noteq> x \<and> ExtractHostIP a = t"
  by (induction t x n rs rule: scan_addresses.induct) (auto split: if_splits)

lemma scan_addresses_Ended:
  "scan_addresses t x n rs = Ended \<Longrightarrow> \<not> (\<exists>(k, a) \<in> set rs. k \<noteq> x \<and> ExtractHostIP a = t)"
  by (induction t x n rs rule: scan_addresses.induct) (auto split: if_splits)

lemma query_addresses_result:
  assumes "run_state (query_addresses env q s t x f) w = (Inr b, w')"
  shows "wdb w' = wdb w \<and> (b \<longleftrightarrow> (\<exists>(k, a) \<in> set (f (wdb w)). k \<noteq> x \<and> ExtractHostIP a = t))"
  using assms scan_addresses_Found [of t x _ "f (wdb w)"] scan_addresses_Ended [of t x _ "f (wdb w)"]
    scan_addresses_Found [of t x None "take _ (f (wdb w))"]
  by (fastforce simp: run_query_addresses scan_addresses_None dest: in_set_takeD
      split: option.splits fault.splits scan_result.splits if_splits)

lemma host_addr_Nil [simp]: "host_addr [] = None"
  by code_simp

lemma holds_target:
  assumes "host_addr ip = Some a"
  shows "(\<exists>(k, s) \<in> set (peer_addresses d). k \<noteq> x \<and> ExtractHostIP s = ExtractHostIP ip) \<longleftrightarrow> peer_holds a x d"
    and "(\<exists>(k, s) \<in> set (iface_addresses d). k \<noteq> x \<and> ExtractHostIP s = ExtractHostIP ip) \<longleftrightarrow> iface_holds a x d"
proof -
  have ne: "ExtractHostIP ip \<noteq> []" using assms by (simp add: ExtractHostIP_empty)
  have eq: "ExtractHostIP s = ExtractHostIP ip \<longleftrightarrow> host_addr s = Some a" for s
    using ExtractHostIP_eq_iff [OF ne, of s] assms by metis
  show "(\<exists>(k, s) \<in> set (peer_addresses d). k \<noteq> x \<and> ExtractHostIP s = ExtractHostIP ip) \<longleftrightarrow> peer_holds a x d"
    by (fastforce simp: peer_addresses_def peer_holds_def eq)
  show "(\<exists>(k, s) \<in> set (iface_addresses d). k \<noteq> x \<and> ExtractHostIP s = ExtractHostIP ip) \<longleftrightarrow> iface_holds a x d"
    by (fastforce simp: iface_addresses_def iface_holds_def eq)
qed

lemma IsTunnelIPInUse_result:
  assumes "run_state (IsTunnelIPInUse env ip pid iid) w = (Inr b, w')"
  shows "wdb w' = wdb w \<and>
    (b \<longleftrightarrow> (\<exists>a. host_addr ip = Some a \<and> (peer_holds a pid (wdb w) \<or> iface_holds a iid (wdb w))))"
proof (cases "host_addr ip")
  case None
  then have "ExtractHostIP ip = []" by (simp add: ExtractHostIP_empty)
  with assms None show ?thesis by (auto simp: IsTunnelIPInUse_def Let_def)
next
  case (Some a)
  then have ne: "ExtractHostIP ip \<noteq> []" by (simp add: ExtractHostIP_empty)
  let ?q = "query_addresses env ''querying peer addresses'' ''scanning peer address'' (ExtractHostIP ip) pid peer_addresses"
  let ?r = "query_addresses env ''querying interface addresses'' ''scanning interface address'' (ExtractHostIP ip) iid iface_addresses"
  obtain used w1 where q: "run_state ?q w = (Inr used, w1)"
    and r: "used \<and> b \<and> w' = w1 \<or> \<not> used \<and> run_state ?r w1 = (Inr b, w')"
    using assms ne by (auto simp: IsTunnelIPInUse_def Let_def run_attempt split: prod.splits sum.splits if_splits)
  have 1: "wdb w1 = wdb w" "used \<longleftrightarrow> peer_holds a pid (wdb w)"
    using query_addresses_result [OF q] holds_target(1) [OF Some] by blast+
  from r show ?thesis
  proof
    assume "used \<and> b \<and> w' = w1"
    with 1 Some show ?thesis by auto
  next
    assume "\<not> used \<and> run_state ?r w1 = (Inr b, w')"
    then have "wdb w' = wdb w1" "b \<longleftrightarrow> iface_holds a iid (wdb w1)" "\<not> used"
      using query_addresses_result [of env _ _ "ExtractHostIP ip" iid iface_addresses w1 b w']
        holds_target(2) [OF Some] by blast+
    with 1 Some show ?thesis by auto
  qed
qed

section \<open>Uniqueness of tunnel addresses\<close>

text \<open>
  No two rows, peers or interfaces, hold the same host address, and no row has the empty
  identifier that the handlers pass for "exclude nothing".
\<close>

definition tunnel_ips_unique :: "db \<Rightarrow> bool" where
  "tunnel_ips_unique d \<longleftrightarrow>
     (\<forall>p \<in> set (t_peers d). \<forall>a. host_addr (p_Address p) = Some a \<longrightarrow>
        \<not> peer_holds a (p_ID p) d \<and> \<not> iface_holds a [] d)
     \<and> (\<forall>i \<in> set (t_interfaces d). \<forall>a. host_addr (if_Address i) = Some a \<longrightarrow> \<not> iface_holds a (if_ID i) d)
     \<and> (\<forall>p \<in> set (t_peers d). p_ID p \<noteq> []) \<and> (\<forall>i \<in> set (t_interfaces d). if_ID i \<noteq> [])"

definition ip_free :: "string \<Rightarrow> string \<Rightarrow> string \<Rightarrow> db \<Rightarrow> bool" where
  "ip_free ip pid iid d \<longleftrightarrow>
     (\<forall>a. host_addr ip = Some a \<longrightarrow> \<not> peer_holds a pid d \<and> \<not> iface_holds a iid d)"

lemma tunnel_ips_unique_empty: "tunnel_ips_unique empty_db"
  by (simp add: tunnel_ips_unique_def empty_db_def)

text \<open>Rows that lose their address or disappear cannot break uniqueness.\<close>

lemma tunnel_ips_unique_subset:
  assumes "tunnel_ips_unique d"
    and "\<And>p. p \<in> set (t_peers d') \<Longrightarrow> \<exists>q \<in> set (t_peers d). p_ID q = p_ID p \<and> p_Address q = p_Address p"
    and "\<And>i. i \<in> set (t_interfaces d') \<Longrightarrow>
      \<exists>j \<in> set (t_interfaces d). if_ID j = if_ID i \<and> if_Address j = if_Address i"
  shows "tunnel_ips_unique d'"
proof -
  have p: "peer_holds a x d' \<Longrightarrow> peer_holds a x d" for a x
    using assms(2) unfolding peer_holds_def by metis
  have i: "iface_holds a x d' \<Longrightarrow> iface_holds a x d" for a x
    using assms(3) unfolding iface_holds_def by metis
  show ?thesis
    unfolding tunnel_ips_unique_def
  proof (intro conjI ballI allI impI)
    fix r a assume "r \<in> set (t_peers d')" and a: "host_addr (p_Address r) = Some a"
    then obtain q where "q \<in> set (t_peers d)" "p_ID q = p_ID r" "p_Address q = p_Address r"
      using assms(2) by blast
    with assms(1) a have "\<not> peer_holds a (p_ID r) d \<and> \<not> iface_holds a [] d"
      unfolding tunnel_ips_unique_def by metis
    then show "\<not> peer_holds a (p_ID r) d'" "\<not> iface_holds a [] d'" using p i by blast+
  next
    fix r a assume "r \<in> set (t_interfaces d')" and a: "host_addr (if_Address r) = Some a"
    then obtain q where "q \<in> set (t_interfaces d)" "if_ID q = if_ID r" "if_Address q = if_Address r"
      using assms(3) by blast
    with assms(1) a have "\<not> iface_holds a (if_ID r) d"
      unfolding tunnel_ips_unique_def by metis
    then show "\<not> iface_holds a (if_ID r) d'" using i by blast
  next
    fix r assume "r \<in> set (t_peers d')"
    then show "p_ID r \<noteq> []" using assms(1,2) unfolding tunnel_ips_unique_def by metis
  next
    fix r assume "r \<in> set (t_interfaces d')"
    then show "if_ID r \<noteq> []" using assms(1,3) unfolding tunnel_ips_unique_def by metis
  qed
qed

lemma unique_insert_peer:
  assumes u: "tunnel_ips_unique d" and ins: "sql_insert_peer fk p d = Inr d'"
    and free: "ip_free (p_Address p) [] [] d" and id: "p_ID p \<noteq> []"
  shows "tunnel_ips_unique d'"
proof -
  have d': "d' = d\<lparr>t_peers := t_peers d @ [inserted_peer p]\<rparr>"
    using ins by (auto simp: sql_insert_peer_def split: if_splits)
  have fresh: "p_ID q \<noteq> p_ID p" if "q \<in> set (t_peers d)" for q
    using ins that by (auto simp: sql_insert_peer_def has_row_ex split: if_splits)
  have i: "iface_holds a x d' = iface_holds a x d" for a x by (simp add: d' iface_holds_def)
  have p: "peer_holds a x d' \<longleftrightarrow> peer_holds a x d \<or> p_ID p \<noteq> x \<and> host_addr (p_Address p) = Some a" for a x
    by (auto simp: d' peer_holds_def inserted_peer_def)
  show ?thesis
    unfolding tunnel_ips_unique_def i p
  proof (intro conjI ballI allI impI)
    fix r a assume r: "r \<in> set (t_peers d')" and a: "host_addr (p_Address r) = Some a"
    have "r \<in> set (t_peers d) \<or> p_ID r = p_ID p \<and> p_Address r = p_Address p"
      using r by (auto simp: d' inserted_peer_def)
    then show "\<not> (peer_holds a (p_ID r) d \<or> p_ID p \<noteq> p_ID r \<and> host_addr (p_Address p) = Some a)"
    proof
      assume old: "r \<in> set (t_peers d)"
      then have "peer_holds a [] d" using u a by (auto simp: peer_holds_def tunnel_ips_unique_def)
      then have "host_addr (p_Address p) \<noteq> Some a" using free by (auto simp: ip_free_def)
      with old a u show ?thesis by (auto simp: tunnel_ips_unique_def)
    next
      assume new: "p_ID r = p_ID p \<and> p_Address r = p_Address p"
      then have "\<not> peer_holds a [] d" using free a by (auto simp: ip_free_def)
      then have "\<not> peer_holds a (p_ID r) d" using u by (auto simp: peer_holds_def tunnel_ips_unique_def)
      with new show ?thesis by auto
    qed
    show "\<not> iface_holds a [] d"
      using r a u free by (auto simp: d' inserted_peer_def tunnel_ips_unique_def ip_free_def)
  qed (use u id in \<open>auto simp: tunnel_ips_unique_def d' inserted_peer_def\<close>)
qed

lemma unique_update_peer:
  assumes u: "tunnel_ips_unique d" and upd: "sql_update_peer fk p d = Inr d'"
    and free: "ip_free (p_Address p) (p_ID p) [] d"
  shows "tunnel_ips_unique d'"
proof (cases "has_row p_ID (p_ID p) (t_peers d)")
  case False
  with upd u show ?thesis by (simp add: sql_update_peer_def)
next
  case True
  let ?f = "\<lambda>r. p\<lparr>p_CreatedAt := p_CreatedAt r\<rparr>"
  have d': "d' = d\<lparr>t_peers := set_rows p_ID (p_ID p) ?f (t_peers d)\<rparr>"
    using upd True by (auto simp: sql_update_peer_def split: if_splits)
  have rows: "r \<in> set (t_peers d) \<and> p_ID r \<noteq> p_ID p \<or> p_ID r = p_ID p \<and> p_Address r = p_Address p"
    if "r \<in> set (t_peers d')" for r
    using that by (auto simp: d' set_rows_def split: if_splits)
  have id: "p_ID p \<noteq> []" using True u by (auto simp: has_row_ex tunnel_ips_unique_def)
  have ti: "t_interfaces d' = t_interfaces d" by (simp add: d')
  have i: "iface_holds a x d' = iface_holds a x d" for a x by (simp add: d' iface_holds_def)
  have p: "peer_holds a x d' \<Longrightarrow> host_addr (p_Address p) = Some a \<and> p_ID p \<noteq> x \<or> peer_holds a x d" for a x
    using rows unfolding peer_holds_def by metis
  show ?thesis
    unfolding tunnel_ips_unique_def
  proof (intro conjI ballI allI impI)
    fix r a assume r: "r \<in> set (t_peers d')" and a: "host_addr (p_Address r) = Some a"
    from rows [OF r] show "\<not> peer_holds a (p_ID r) d'"
    proof
      assume old: "r \<in> set (t_peers d) \<and> p_ID r \<noteq> p_ID p"
      then have "\<not> peer_holds a (p_ID r) d" "peer_holds a (p_ID p) d"
        using u a by (auto simp: tunnel_ips_unique_def peer_holds_def)
      with free p show ?thesis by (auto simp: ip_free_def)
    next
      assume new: "p_ID r = p_ID p \<and> p_Address r = p_Address p"
      with free a p [of a "p_ID p"] show ?thesis by (auto simp: ip_free_def)
    qed
    from rows [OF r] show "\<not> iface_holds a [] d'"
      using u a free unfolding i by (auto simp: tunnel_ips_unique_def ip_free_def)
  next
    fix r assume "r \<in> set (t_peers d')"
    from rows [OF this] show "p_ID r \<noteq> []" using u id by (auto simp: tunnel_ips_unique_def)
  qed (use u in \<open>auto simp: tunnel_ips_unique_def i ti\<close>)
qed

lemma unique_insert_interface:
  assumes u: "tunnel_ips_unique d" and ins: "sql_insert_interface i d = Inr d'"
    and free: "ip_free (if_Address i) [] [] d" and id: "if_ID i \<noteq> []"
  shows "tunnel_ips_unique d'"
proof -
  have d': "d' = d\<lparr>t_interfaces := t_interfaces d @ [i]\<rparr>"
    using ins by (auto simp: sql_insert_interface_def split: if_splits)
  have fresh: "if_ID j \<noteq> if_ID i" if "j \<in> set (t_interfaces d)" for j
    using ins that by (auto simp: sql_insert_interface_def has_row_ex split: if_splits)
  have p: "peer_holds a x d' = peer_holds a x d" for a x by (simp add: d' peer_holds_def)
  have i: "iface_holds a x d' \<longleftrightarrow> iface_holds a x d \<or> if_ID i \<noteq> x \<and> host_addr (if_Address i) = Some a" for a x
    by (auto simp: d' iface_holds_def)
  show ?thesis
    unfolding tunnel_ips_unique_def i p
  proof (intro conjI ballI allI impI)
    fix r a assume r: "r \<in> set (t_peers d')" and a: "host_addr (p_Address r) = Some a"
    then have r': "r \<in> set (t_peers d)" by (simp add: d')
    then show "\<not> peer_holds a (p_ID r) d" using u a by (auto simp: tunnel_ips_unique_def)
    have "peer_holds a [] d" using r' u a by (auto simp: peer_holds_def tunnel_ips_unique_def)
    with free have "host_addr (if_Address i) \<noteq> Some a" by (auto simp: ip_free_def)
    then show "\<not> (iface_holds a [] d \<or> if_ID i \<noteq> [] \<and> host_addr (if_Address i) = Some a)"
      using r' u a by (auto simp: tunnel_ips_unique_def)
  next
    fix r a assume r: "r \<in> set (t_interfaces d')" and a: "host_addr (if_Address r) = Some a"
    have "r \<in> set (t_interfaces d) \<or> r = i" using r by (auto simp: d')
    then show "\<not> (iface_holds a (if_ID r) d \<or> if_ID i \<noteq> if_ID r \<and> host_addr (if_Address i) = Some a)"
    proof
      assume old: "r \<in> set (t_interfaces d)"
      then have "iface_holds a [] d" using u a by (auto simp: iface_holds_def tunnel_ips_unique_def)
      then have "host_addr (if_Address i) \<noteq> Some a" using free by (auto simp: ip_free_def)
      with old a u show ?thesis by (auto simp: tunnel_ips_unique_def)
    next
      assume new: "r = i"
      then have "\<not> iface_holds a [] d" using free a by (auto simp: ip_free_def)
      then have "\<not> iface_holds a (if_ID r) d" using u by (auto simp: iface_holds_def tunnel_ips_unique_def)
      with new show ?thesis by auto
    qed
  qed (use u id in \<open>auto simp: tunnel_ips_unique_def d'\<close>)
qed

lemma unique_update_interface:
  assumes u: "tunnel_ips_unique d" and upd: "sql_update_interface i d = Inr d'"
    and free: "ip_free (if_Address i) [] (if_ID i) d"
  shows "tunnel_ips_unique d'"
proof -
  let ?f = "\<lambda>r. i\<lparr>if_CreatedAt := if_CreatedAt r\<rparr>"
  have d': "d' = d\<lparr>t_interfaces := set_rows if_ID (if_ID i) ?f (t_interfaces d)\<rparr>"
    using upd by (auto simp: sql_update_interface_def split: if_splits)
  have rows: "r \<in> set (t_interfaces d) \<and> if_ID r \<noteq> if_ID i
      \<or> if_ID r = if_ID i \<and> if_Address r = if_Address i \<and> if_ID i \<noteq> []"
    if "r \<in> set (t_interfaces d')" for r
    using that u by (auto simp: d' set_rows_def tunnel_ips_unique_def split: if_splits)
  have p: "peer_holds a x d' = peer_holds a x d" for a x by (simp add: d' peer_holds_def)
  have h: "iface_holds a x d' \<Longrightarrow> host_addr (if_Address i) = Some a \<and> if_ID i \<noteq> x \<or> iface_holds a x d" for a x
    using rows unfolding iface_holds_def by metis
  show ?thesis
    unfolding tunnel_ips_unique_def
  proof (intro conjI ballI allI impI)
    fix r a assume r: "r \<in> set (t_peers d')" and a: "host_addr (p_Address r) = Some a"
    then have old: "r \<in> set (t_peers d)" by (simp add: d')
    with u a show "\<not> peer_holds a (p_ID r) d'" by (auto simp: tunnel_ips_unique_def p)
    have "peer_holds a [] d" using old a u by (auto simp: peer_holds_def tunnel_ips_unique_def)
    with free have "host_addr (if_Address i) \<noteq> Some a" by (auto simp: ip_free_def)
    with u a old h [of a "[]"] show "\<not> iface_holds a [] d'" by (auto simp: tunnel_ips_unique_def)
  next
    fix r a assume r: "r \<in> set (t_interfaces d')" and a: "host_addr (if_Address r) = Some a"
    from rows [OF r] show "\<not> iface_holds a (if_ID r) d'"
    proof
      assume old: "r \<in> set (t_interfaces d) \<and> if_ID r \<noteq> if_ID i"
      then have "\<not> iface_holds a (if_ID r) d" "iface_holds a (if_ID i) d"
        using u a by (auto simp: tunnel_ips_unique_def iface_holds_def)
      with free h show ?thesis by (auto simp: ip_free_def)
    next
      assume new: "if_ID r = if_ID i \<and> if_Address r = if_Address i \<and> if_ID i \<noteq> []"
      with free a h [of a "if_ID i"] show ?thesis by (auto simp: ip_free_def)
    qed
  next
    fix r assume "r \<in> set (t_interfaces d')"
    from rows [OF this] show "if_ID r \<noteq> []" using u by (auto simp: tunnel_ips_unique_def)
  qed (use u in \<open>auto simp: tunnel_ips_unique_def d'\<close>)
qed

section \<open>The handlers\<close>

lemma tunnel_ips_cong:
  "t_peers d' = t_peers d \<Longrightarrow> t_interfaces d' = t_interfaces d \<Longrightarrow> tunnel_ips_unique d \<Longrightarrow> tunnel_ips_unique d'"
  by (erule tunnel_ips_unique_subset) auto

lemma account_tables:
  "sql_insert_user u d = Inr d' \<Longrightarrow> t_peers d' = t_peers d \<and> t_interfaces d' = t_interfaces d"
  "sql_update_user u d = Inr d' \<Longrightarrow> t_peers d' = t_peers d \<and> t_interfaces d' = t_interfaces d"
  "sql_insert_session fk s d = Inr d' \<Longrightarrow> t_peers d' = t_peers d \<and> t_interfaces d' = t_interfaces d"
  "sql_insert_provider q d = Inr d' \<Longrightarrow> t_peers d' = t_peers d \<and> t_interfaces d' = t_interfaces d"
  "sql_update_provider q d = Inr d' \<Longrightarrow> t_peers d' = t_peers d \<and> t_interfaces d' = t_interfaces d"
  "sql_insert_state os d = Inr d' \<Longrightarrow> t_peers d' = t_peers d \<and> t_interfaces d' = t_interfaces d"
  by (auto simp: sql_insert_user_def sql_update_user_def sql_insert_session_def
      sql_insert_provider_def sql_update_provider_def sql_insert_state_def Let_def split: if_splits)

interpretation tunnel: account_invariant env tunnel_ips_unique for env
  by unfold_locales
    (auto dest!: account_tables elim!: tunnel_ips_cong [rotated 2] simp: sql_delete_user_def Let_def
      sql_touch_session_def sql_delete_session_def sql_delete_expired_sessions_def
      sql_delete_user_sessions_def sql_set_setting_def sql_delete_provider_def sql_delete_state_def
      sql_delete_expired_states_def)

text \<open>The writes.\<close>

abbreviation tunnel_free :: "string \<Rightarrow> string \<Rightarrow> string \<Rightarrow> world \<Rightarrow> bool" where
  "tunnel_free ip pid iid \<equiv> on_db (\<lambda>d. tunnel_ips_unique d \<and> ip_free ip pid iid d)"

lemma CreatePeer_unique:
  assumes "\<And>t. uuid_at env t \<noteq> []"
  shows "valid (tunnel_free (p_Address p) [] []) (CreatePeer env p) (\<lambda>_. on_db tunnel_ips_unique)"
  using assms
  by (auto simp: valid_def CreatePeer_def fresh_id_def run_simps Let_def
      split: option.split sum.split elim!: unique_insert_peer)

lemma UpdatePeer_unique:
  "valid (tunnel_free (p_Address p) (p_ID p) []) (UpdatePeer env p) (\<lambda>_. on_db tunnel_ips_unique)"
  by (auto simp: valid_def UpdatePeer_def run_simps Let_def
      split: option.split sum.split elim!: unique_update_peer)

lemma CreateInterface_unique:
  "if_ID i \<noteq> [] \<Longrightarrow>
   valid (tunnel_free (if_Address i) [] []) (CreateInterface env i) (\<lambda>_. on_db tunnel_ips_unique)"
  by (auto simp: valid_def CreateInterface_def run_simps Let_def
      split: option.split sum.split elim!: unique_insert_interface)

lemma UpdateInterface_unique:
  "valid (tunnel_free (if_Address i) [] (if_ID i)) (UpdateInterface env i) (\<lambda>_. on_db tunnel_ips_unique)"
  by (auto simp: valid_def UpdateInterface_def run_simps Let_def
      split: option.split sum.split elim!: unique_update_interface)

lemma deletes_unique [keeps_intros]:
  "keeps (on_db tunnel_ips_unique) (DeletePeer env k)"
  "keeps (on_db tunnel_ips_unique) (DeleteInterface env k)"
  unfolding DeletePeer_def DeleteInterface_def
  by (intro keeps_intros keeps_exec_stmt;
      auto simp: sql_delete_peer_def sql_delete_interface_def Let_def
        elim!: tunnel_ips_unique_subset split: if_splits)+

lemma valid_check_tunnel_ip:
  assumes "valid (on_db (\<lambda>d. I d \<and> ip_free ip pid iid d)) k (\<lambda>_. on_db Q)" "\<And>d. I d \<Longrightarrow> Q d"
  shows "valid (on_db I) (check_tunnel_ip env ip pid iid k) (\<lambda>_. on_db Q)"
proof (rule validI)
  fix w x w' assume I: "on_db I w" and r: "run_state (check_tunnel_ip env ip pid iid k) w = (x, w')"
  obtain res w1 where q: "run_state (IsTunnelIPInUse env ip pid iid) w = (res, w1)" by fastforce
  have w1: "on_db I w1" using validD [OF _ _ q, of "on_db I" "\<lambda>_. on_db I"] I by (auto intro: keeps_intros)
  show "on_db Q w'"
  proof (cases res)
    case (Inl e)
    with r q w1 assms(2) show ?thesis by (auto simp: check_tunnel_ip_def run_or_error)
  next
    case (Inr b)
    note b = IsTunnelIPInUse_result [OF q [unfolded Inr]]
    show ?thesis
    proof (cases b)
      case True
      with r q Inr w1 assms(2) show ?thesis by (auto simp: check_tunnel_ip_def run_or_error)
    next
      case False
      with b I have "on_db (\<lambda>d. I d \<and> ip_free ip pid iid d) w1" by (auto simp: ip_free_def)
      moreover have "run_state k w1 = (x, w')" using r q Inr False by (auto simp: check_tunnel_ip_def run_or_error)
      ultimately show ?thesis using assms(1) validD by fastforce
    qed
  qed
qed

text \<open>A row that is read back holds its own address alone.\<close>

lemma own_ip_free:
  "tunnel_ips_unique d \<Longrightarrow> get_peer k d = Some p \<Longrightarrow> ip_free (p_Address p) (p_ID p) [] d"
  by (auto simp: get_peer_def tunnel_ips_unique_def ip_free_def dest!: row_Some)

lemma own_iface_ip_free:
  assumes "tunnel_ips_unique d" and "get_iface k d = Some i"
  shows "ip_free (if_Address i) [] (if_ID i) d"
  unfolding ip_free_def
proof (intro allI impI conjI)
  fix a assume a: "host_addr (if_Address i) = Some a"
  have i: "i \<in> set (t_interfaces d)" using assms(2) by (auto simp: get_iface_def dest!: row_Some)
  with assms(1) a show "\<not> iface_holds a (if_ID i) d" by (auto simp: tunnel_ips_unique_def)
  have "iface_holds a [] d" using i assms(1) a by (auto simp: iface_holds_def tunnel_ips_unique_def)
  then show "\<not> peer_holds a [] d" using assms(1) by (fastforce simp: peer_holds_def tunnel_ips_unique_def)
qed

lemma ip_free_host: "ExtractHostIP s = ExtractHostIP t \<Longrightarrow> ip_free t p i d \<Longrightarrow> ip_free s p i d"
  by (cases "ExtractHostIP s = []")
    (auto simp: ExtractHostIP_empty ip_free_def ExtractHostIP_eq_iff dest!: ExtractHostIP_eq_iff [THEN iffD1, rotated])

lemma pre_own:
  "valid (tunnel_free (p_Address p) (p_ID p) []) m Q \<Longrightarrow>
   valid (on_db (\<lambda>d. tunnel_ips_unique d \<and> get_peer k d = Some p)) m Q"
  "valid (tunnel_free (if_Address i) [] (if_ID i)) n R \<Longrightarrow>
   valid (on_db (\<lambda>d. tunnel_ips_unique d \<and> get_iface k d = Some i)) n R"
  by (erule valid_conseq; auto intro: own_ip_free own_iface_ip_free)+

text \<open>The write of a handler, and what runs before and after it.\<close>

lemma write_intros:
  "p_Address p = a \<Longrightarrow> (\<And>t. uuid_at env t \<noteq> []) \<Longrightarrow> (\<And>x. keeps (on_db tunnel_ips_unique) (k x)) \<Longrightarrow>
   valid (tunnel_free a [] []) (check c (CreatePeer env p) k) (\<lambda>_. on_db tunnel_ips_unique)"
  "p_Address p = a \<Longrightarrow> p_ID p = x \<Longrightarrow> (\<And>x. keeps (on_db tunnel_ips_unique) (k x)) \<Longrightarrow>
   valid (tunnel_free a x []) (check c (UpdatePeer env p) k) (\<lambda>_. on_db tunnel_ips_unique)"
  "p_Address p = a \<Longrightarrow> p_ID p = x \<Longrightarrow> (\<And>x. keeps (on_db tunnel_ips_unique) (l x)) \<Longrightarrow>
   valid (tunnel_free a x []) (or_error n (UpdatePeer env p) l) (\<lambda>_. on_db tunnel_ips_unique)"
  "if_Address i = a \<Longrightarrow> if_ID i \<noteq> [] \<Longrightarrow> (\<And>x. keeps (on_db tunnel_ips_unique) (k' x)) \<Longrightarrow>
   valid (tunnel_free a [] []) (check c (CreateInterface env i) k') (\<lambda>_. on_db tunnel_ips_unique)"
  "if_Address i = a \<Longrightarrow> if_ID i = x \<Longrightarrow> (\<And>x. keeps (on_db tunnel_ips_unique) (j x)) \<Longrightarrow>
   valid (tunnel_free a [] x) (check c (UpdateInterface env i) j) (\<lambda>_. on_db tunnel_ips_unique)"
  "if_Address i = a \<Longrightarrow> if_ID i = x \<Longrightarrow> (\<And>x. keeps (on_db tunnel_ips_unique) (j' x)) \<Longrightarrow>
   valid (tunnel_free a [] x) (or_error n (UpdateInterface env i) j') (\<lambda>_. on_db tunnel_ips_unique)"
  using CreatePeer_unique [of env p] UpdatePeer_unique [of p env] CreateInterface_unique [of i env]
    UpdateInterface_unique [of i env]
  by (auto intro!: valid_check_write valid_error_write)

lemma AddPeer_unique:
  assumes "\<And>t. uuid_at env t \<noteq> []"
  shows "valid (tunnel_free (p_Address p) [] []) (AddPeer env p b) (\<lambda>_. on_db tunnel_ips_unique)"
  unfolding AddPeer_def
  by (((rule write_intros(1) [OF _ assms], (simp; fail)) | rule pre_intros pre_fail | rule keeps_intros
     | assumption | simp)+)

text \<open>The manager's other writes store a row that was read back, with its address.\<close>

lemma setPeerEnabled_unique [keeps_intros]: "keeps (on_db tunnel_ips_unique) (setPeerEnabled env k b)"
  unfolding setPeerEnabled_def
  by (rule keeps_check_reads [OF reads_methods(2)], rule Some_row_cases, rule pre_fail, simp,
      rule pre_own(1), rule write_intros, simp, simp, intro keeps_intros)

lemma manager_unique [keeps_intros]:
  "keeps (on_db tunnel_ips_unique) (EnablePeer env k)"
  "keeps (on_db tunnel_ips_unique) (DisablePeer env k)"
  "keeps (on_db tunnel_ips_unique) (RemovePeer env k)"
  "keeps (on_db tunnel_ips_unique) (Manager_DeleteInterface env k force)"
  unfolding EnablePeer_def DisablePeer_def RemovePeer_def Manager_DeleteInterface_def
  by (intro keeps_intros)+

lemma StartInterface_unique [keeps_intros]: "keeps (on_db tunnel_ips_unique) (StartInterface env k)"
  unfolding StartInterface_def
  by (rule keeps_check_reads [OF reads_methods(1)], rule Some_row_cases, rule pre_fail, simp,
      rule pre_own(2), rule write_intros, simp, simp, intro keeps_intros)

lemma StopInterface_unique [keeps_intros]: "keeps (on_db tunnel_ips_unique) (StopInterface env k)"
  unfolding StopInterface_def
  by (rule keeps_check_reads [OF reads_methods(1)], rule Some_row_cases, rule pre_fail, simp,
      rule pre_attempt, simp, intro keeps_intros, rule pre_own(2), rule write_intros, simp, simp,
      intro keeps_intros)

lemma Manager_CreateInterface_unique:
  "if_ID i \<noteq> [] \<Longrightarrow>
   valid (tunnel_free (if_Address i) [] []) (Manager_CreateInterface env i) (\<lambda>_. on_db tunnel_ips_unique)"
  unfolding Manager_CreateInterface_def
  by (((rule write_intros(4), (simp; fail)) | rule pre_intros pre_fail | rule keeps_intros
     | assumption | simp)+)

text \<open>The handlers that set an address.\<close>

lemma handleAddPeer_unique:
  assumes "\<And>t. uuid_at env t \<noteq> []"
  shows "keeps (on_db tunnel_ips_unique) (handleAddPeer env k b)"
proof -
  let ?next = "\<lambda>q. or_error 500 (AddPeer env (requested_peer k q) (aq_PSK q)) (\<lambda>p. State_Monad.return (JSON 201 p))"
  have "valid (tunnel_free (p_Address (requested_peer k q)) [] []) (?next q) (\<lambda>_. on_db tunnel_ips_unique)" for q
    by (rule valid_error_write [OF AddPeer_unique [OF assms]]) (intro keeps_intros)
  then have a: "valid (tunnel_free (aq_Address q) [] []) (?next q) (\<lambda>_. on_db tunnel_ips_unique)" for q
    by (simp add: requested_peer_def)
  then have e: "keeps (on_db tunnel_ips_unique) (?next q)" if "aq_Address q = []" for q
    by (rule valid_conseq) (use that in \<open>auto simp: ip_free_def\<close>)
  show ?thesis
    unfolding handleAddPeer_def Let_def
    by ((rule valid_check_tunnel_ip [OF a] | rule e | rule keeps_intros | assumption | simp)+)
qed

lemma handleUpdatePeer_unique: "keeps (on_db tunnel_ips_unique) (handleUpdatePeer env k b)"
proof -
  let ?next = "\<lambda>q p. or_error 400 (State_Monad.return (case uq_AlertEmails q of
           Some e \<Rightarrow> if e \<noteq> [] then validateEmails env e else Inr () | None \<Rightarrow> Inr ())) (\<lambda>_.
       or_error 500 (UpdatePeer env (apply_peer_update q p)) (\<lambda>p'.
       or_prefix 500 ''peer updated but sync failed: '' (SyncInterface env (p_InterfaceID p')) (\<lambda>_.
       State_Monad.return (JSON 200 p'))))"
  have a: "valid (tunnel_free (p_Address (apply_peer_update q p)) (p_ID p) []) (?next q p)
      (\<lambda>_. on_db tunnel_ips_unique)" for q p
    by (rule pre_or_error, simp, rule keeps_return, rule write_intros, simp, simp add: apply_peer_update_def,
      intro keeps_intros)
  have c: "valid (on_db (\<lambda>d. tunnel_ips_unique d \<and> get_peer k d = Some p))
     (if uq_Address q \<noteq> [] \<and> ExtractHostIP (uq_Address q) \<noteq> ExtractHostIP (p_Address p)
      then check_tunnel_ip env (uq_Address q) (p_ID p) [] (?next q p) else ?next q p)
     (\<lambda>_. on_db tunnel_ips_unique)" for q p
  proof (cases "uq_Address q \<noteq> [] \<and> ExtractHostIP (uq_Address q) \<noteq> ExtractHostIP (p_Address p)")
    case True
    then have "valid (tunnel_free (uq_Address q) (p_ID p) []) (?next q p) (\<lambda>_. on_db tunnel_ips_unique)"
      using a [of q p] by (simp add: apply_peer_update_def)
    then have "keeps (on_db tunnel_ips_unique) (check_tunnel_ip env (uq_Address q) (p_ID p) [] (?next q p))"
      by (rule valid_check_tunnel_ip)
    then show ?thesis unfolding if_P [OF True] by (rule valid_conseq) auto
  next
    case False
    then have h: "ExtractHostIP (p_Address (apply_peer_update q p)) = ExtractHostIP (p_Address p)"
      by (auto simp: apply_peer_update_def)
    show ?thesis unfolding if_not_P [OF False]
      by (rule valid_conseq [OF a]) (auto intro: ip_free_host [OF h] own_ip_free)
  qed
  show ?thesis
    unfolding handleUpdatePeer_def Let_def
    by (rule keeps_or_404_reads [OF reads_methods(2)], rule pre_with_body, simp, rule c)
qed

lemma handleCreateInterface_unique: "keeps (on_db tunnel_ips_unique) (handleCreateInterface env b)"
proof -
  let ?next = "\<lambda>q. or_error 500 (Manager_CreateInterface env (requested_iface q)) (\<lambda>i.
        State_Monad.return (JSON 201 i))"
  have a: "valid (tunnel_free (ciq_Address q) [] []) (?next q) (\<lambda>_. on_db tunnel_ips_unique)"
    if "ciq_ID q \<noteq> []" for q
    by (rule valid_error_write)
      (use that Manager_CreateInterface_unique [of "requested_iface q" env] in \<open>auto simp: requested_iface_def intro: keeps_intros\<close>)
  show ?thesis
    unfolding handleCreateInterface_def
    by ((rule valid_check_tunnel_ip [OF a] | rule keeps_intros | assumption | simp)+)
qed

lemma handleUpdateInterface_unique: "keeps (on_db tunnel_ips_unique) (handleUpdateInterface env k b)"
proof -
  let ?next = "\<lambda>q i. or_error 500 (UpdateInterface env (apply_iface_update q i))
       (\<lambda>i'. State_Monad.return (JSON 200 i'))"
  have a: "valid (tunnel_free (if_Address (apply_iface_update q i)) [] (if_ID i)) (?next q i)
      (\<lambda>_. on_db tunnel_ips_unique)" for q i
    by (rule write_intros, simp, simp add: apply_iface_update_def, intro keeps_intros)
  have c: "valid (on_db (\<lambda>d. tunnel_ips_unique d \<and> get_iface k d = Some i))
     (if uiq_Address q \<noteq> [] \<and> ExtractHostIP (uiq_Address q) \<noteq> ExtractHostIP (if_Address i)
      then check_tunnel_ip env (uiq_Address q) [] (if_ID i) (?next q i) else ?next q i)
     (\<lambda>_. on_db tunnel_ips_unique)" for q i
  proof (cases "uiq_Address q \<noteq> [] \<and> ExtractHostIP (uiq_Address q) \<noteq> ExtractHostIP (if_Address i)")
    case True
    then have "valid (tunnel_free (uiq_Address q) [] (if_ID i)) (?next q i) (\<lambda>_. on_db tunnel_ips_unique)"
      using a [of q i] by (simp add: apply_iface_update_def)
    then have "keeps (on_db tunnel_ips_unique) (check_tunnel_ip env (uiq_Address q) [] (if_ID i) (?next q i))"
      by (rule valid_check_tunnel_ip)
    then show ?thesis unfolding if_P [OF True] by (rule valid_conseq) auto
  next
    case False
    then have h: "ExtractHostIP (if_Address (apply_iface_update q i)) = ExtractHostIP (if_Address i)"
      by (auto simp: apply_iface_update_def)
    show ?thesis unfolding if_not_P [OF False]
      by (rule valid_conseq [OF a]) (auto intro: ip_free_host [OF h] own_iface_ip_free)
  qed
  show ?thesis
    unfolding handleUpdateInterface_def Let_def
    by (rule keeps_or_404_reads [OF reads_methods(1)], rule pre_with_body, simp, rule c)
qed

lemma handleSetPeerPrivateKey_unique: "keeps (on_db tunnel_ips_unique) (handleSetPeerPrivateKey env k b)"
  unfolding handleSetPeerPrivateKey_def
  by (rule keeps_or_404_reads [OF reads_methods(2)], rule pre_with_body, simp, rule pre_if,
      rule valid_pre, simp, rule keeps_responses, rule pre_or_prefix, simp, rule keeps_Encrypt,
      rule pre_own(1), rule write_intros, simp, simp, intro keeps_intros)

lemma other_handlers_unique [keeps_intros]:
  "keeps (on_db tunnel_ips_unique) (handleListPeers env k)"
  "keeps (on_db tunnel_ips_unique) (handleDeletePeer env k)"
  "keeps (on_db tunnel_ips_unique) (handleEnablePeer env k)"
  "keeps (on_db tunnel_ips_unique) (handleDisablePeer env k)"
  "keeps (on_db tunnel_ips_unique) (handlePeerConfig env k)"
  "keeps (on_db tunnel_ips_unique) (handlePeerQR env k)"
  "keeps (on_db tunnel_ips_unique) (handleListInterfaces env)"
  "keeps (on_db tunnel_ips_unique) (handleGetInterface env k)"
  "keeps (on_db tunnel_ips_unique) (handleDeleteInterface env k)"
  "keeps (on_db tunnel_ips_unique) (handleSyncInterface env k)"
  "keeps (on_db tunnel_ips_unique) (handleStartInterface env k)"
  "keeps (on_db tunnel_ips_unique) (handleStopInterface env k)"
  "keeps (on_db tunnel_ips_unique) (handleRestartInterface env k)"
  "keeps (on_db tunnel_ips_unique) (handleInterfaceStatus env k)"
  unfolding handleListPeers_def handleDeletePeer_def handleEnablePeer_def handleDisablePeer_def
    handlePeerConfig_def handlePeerQR_def handleListInterfaces_def handleGetInterface_def
    handleDeleteInterface_def handleSyncInterface_def handleStartInterface_def
    handleStopInterface_def handleRestartInterface_def handleInterfaceStatus_def
  by (intro keeps_intros)+

text \<open>The requests that write an address they have not checked.\<close>

definition imports_config :: "protected_request \<Rightarrow> bool" where
  "imports_config req \<longleftrightarrow> (case req of ImportIface b \<Rightarrow> True | AdoptIface b \<Rightarrow> True | _ \<Rightarrow> False)"

lemma dispatch_unique:
  assumes "\<And>t. uuid_at env t \<noteq> []" and "\<not> imports_config req"
  shows "keeps (on_db tunnel_ips_unique) (dispatch env s host u req)"
  using assms(2)
  by (cases req)
    (simp_all only: dispatch.simps imports_config_def protected_request.case not_True_eq_False;
     intro keeps_intros handleAddPeer_unique [OF assms(1)] handleUpdatePeer_unique
       handleCreateInterface_unique handleUpdateInterface_unique handleSetPeerPrivateKey_unique)+

section \<open>What the checks give\<close>

text \<open>C3. When \<open>IsTunnelIPInUse\<close> answers, its answer is exact: some other peer or interface holds
  the same host address, however it is written (prefix length, leading zeros, IPv6 form).
  An address that is no host address is never in use.\<close>

theorem IsTunnelIPInUse_exact:
  assumes "run_state (IsTunnelIPInUse env ip pid iid) w = (Inr used, w')"
  shows "used \<longleftrightarrow> (\<exists>a. host_addr ip = Some a \<and>
      ((\<exists>p \<in> set (t_peers (wdb w)). p_ID p \<noteq> pid \<and> host_addr (p_Address p) = Some a)
       \<or> (\<exists>i \<in> set (t_interfaces (wdb w)). if_ID i \<noteq> iid \<and> host_addr (if_Address i) = Some a)))"
  using IsTunnelIPInUse_result [OF assms] by (simp add: peer_holds_def iface_holds_def)

lemma IsTunnelIPInUse_exact_witness:
  "fst (run_state (IsTunnelIPInUse sample_env ''010.0.0.2'' [] []) sample_world) = Inr False
   \<and> \<not> (\<exists>a. host_addr ''010.0.0.2'' = Some a \<and>
      ((\<exists>p \<in> set (t_peers sample_db). p_ID p \<noteq> [] \<and> host_addr (p_Address p) = Some a)
       \<or> (\<exists>i \<in> set (t_interfaces sample_db). if_ID i \<noteq> [] \<and> host_addr (if_Address i) = Some a)))"
proof -
  have r: "fst (run_state (IsTunnelIPInUse sample_env ''010.0.0.2'' [] []) sample_world) = Inr False"
    by code_simp
  then obtain w' where "run_state (IsTunnelIPInUse sample_env ''010.0.0.2'' [] []) sample_world = (Inr False, w')"
    by (metis prod.collapse)
  from IsTunnelIPInUse_exact [OF this] r show ?thesis by (simp add: sample_world_def world_of_def)
qed

lemma IsTunnelIPInUse_sample:
  "fst (run_state (IsTunnelIPInUse sample_env ''10.0.0.2/24'' [] []) sample_world) = Inr True"
  by code_simp

text \<open>C4. No request to a protected route makes two rows hold the same tunnel address, the two
  that import a configuration file excepted. In particular an update that leaves the address
  alone needs no check, and the identifiers \<^verbatim>\<open>uuid\<close> generates are not empty.\<close>

theorem requests_keep_tunnel_ips_unique:
  assumes "\<And>t. uuid_at env t \<noteq> []" and "\<not> imports_config req"
    and "tunnel_ips_unique (wdb w)"
  shows "tunnel_ips_unique (wdb (snd (run_state (serve_protected env s cookie token host req) w)))"
proof -
  have "keeps (on_db tunnel_ips_unique) (serve_protected env s cookie token host req)"
    unfolding serve_protected_def
    by (intro keeps_intros) (auto intro!: dispatch_unique assms split: prod.splits)
  then show ?thesis using assms(3) by (rule keeps_snd)
qed

definition sample_add :: protected_request where
  "sample_add = AddPeerTo ''wg0'' (Inr \<lparr>aq_Type = ''client'', aq_Name = ''phone'', aq_Address = ''10.0.0.2'',
     aq_AllowedIPs = ''10.0.0.0/24'', aq_ClientAllowedIPs = [], aq_DNS = [], aq_Endpoint = [],
     aq_PersistentKeepalive = 0, aq_PSK = False, aq_AlertOnConnect = False, aq_AlertOnDisconnect = False,
     aq_AlertEmails = []\<rparr>)"

lemma requests_keep_tunnel_ips_unique_witness:
  "tunnel_ips_unique (wdb (snd (run_state (serve_protected sample_env sample_server (Some ''sid'') ''tok'' ''h''
     sample_add) sample_world)))"
proof (rule requests_keep_tunnel_ips_unique)
  show "uuid_at sample_env t \<noteq> []" for t by simp
  show "\<not> imports_config sample_add" by (simp add: imports_config_def sample_add_def)
  have "host_addr (p_Address sample_peer) \<noteq> host_addr (if_Address sample_iface)" by code_simp
  then show "tunnel_ips_unique (wdb sample_world)"
    by (auto simp: tunnel_ips_unique_def peer_holds_def iface_holds_def sample_db_def empty_db_def)
qed

end
