(* ===== verification/Integrity.thy ===== *)
theory Integrity
  imports Samples
begin

text \<open>
  What holds of the stored data in every state the server can reach, and what the delete and
  create operations of the manager do to the rows that refer to each other.
\<close>

section \<open>Reachable states\<close>


lemma reachable_after:
  "reachable env s ret w \<Longrightarrow> reachable env s ret (snd (run_state (run_step env s ret e) w))"
  by (rule next_step, assumption)
    (rule server_step.step [where u = "fst (run_state (run_step env s ret e) w)"], simp add: prod_eq_iff)

definition setup_step :: step where
  "setup_step = Setup ''ip'' ''agent'' (Inr \<lparr>lq_Username = ''root'', lq_Password = ''correct horse battery''\<rparr>)"

definition after_setup :: world where
  "after_setup = snd (run_state (run_step sample_env sample_server hour setup_step) initial_world)"

lemma reachable_after_setup: "reachable sample_env sample_server hour after_setup"
  unfolding after_setup_def by (rule reachable_after, rule init)

lemma after_setup_users: "map u_Username (t_users (wdb after_setup)) = [''root'']"
  "length (t_sessions (wdb after_setup)) = 1"
  by code_simp+




section \<open>Deleting an interface\<close>

lemma Manager_DeleteInterface_returns:
  assumes "run_state (Manager_DeleteInterface env k force) w = (Inr u, w')"
  shows "\<exists>t. wdb w' = sql_delete_interface (fk_on env t) k (wdb w)
    \<and> (force \<or> peers_of k (wdb w) = []) \<and> get_iface k (wdb w) \<noteq> None"
proof -
  obtain i w1 w2 where g: "run_state (GetInterface env k) w = (Inr (Some i), w1)"
    and p: "(force \<and> w2 = w1) \<or> (\<not> force \<and> run_state (ListPeers env k) w1 = (Inr [], w2))"
    and d: "run_state (ignore (net_call env (NetDelete k))
      (check ''deleting interface from store'' (DeleteInterface env k) ok)) w2 = (Inr u, w')"
    using assms by (auto simp: Manager_DeleteInterface_def returns split: if_splits)
  have "wdb w1 = wdb w" "get_iface k (wdb w) = Some i" using GetInterface_result [OF g] by auto
  moreover from p have "wdb w2 = wdb w1" "force \<or> peers_of k (wdb w1) = []"
    using ListPeers_result [of env k w1 "[]" w2] by auto
  moreover from d obtain t where "wdb w' = sql_delete_interface (fk_on env t) k (wdb w2)"
    by (auto simp: DeleteInterface_def run_simps split: prod.splits sum.splits option.splits)
  ultimately show ?thesis by auto
qed

lemma peers_of_delete:
  "peers_of j (sql_delete_interface True k d) = (if j = k then [] else peers_of j d)"
  by (auto simp: peers_of_def sql_delete_interface_def del_rows_def Let_def
      intro!: arg_cong [where f = "sort_key p_CreatedAt"] filter_cong)

lemma get_peer_in: "constraints_ok d \<Longrightarrow> p \<in> set (t_peers d) \<Longrightarrow> get_peer (p_ID p) d = Some p"
  by (auto simp: get_peer_def row_def constraints_ok_def peers_ok_def intro: find_distinct_key)

lemma log_owner:
  assumes "refs_ok d" "constraints_ok d" "l \<in> set (t_logs d)"
  shows "\<exists>p. get_peer (cl_PeerID l) d = Some p \<and> p_ID p = cl_PeerID l
    \<and> (\<forall>q \<in> set (t_peers d). p_ID q = cl_PeerID l \<longrightarrow> q = p)"
proof -
  from assms(1,3) obtain p where p: "p \<in> set (t_peers d)" "p_ID p = cl_PeerID l"
    by (auto simp: refs_ok_def has_row_ex)
  have "get_peer (cl_PeerID l) d = Some p" using get_peer_in [OF assms(2) p(1)] p(2) by simp
  moreover have "q = p" if "q \<in> set (t_peers d)" "p_ID q = cl_PeerID l" for q
    using that p get_peer_in [OF assms(2)] by (metis option.inject)
  ultimately show ?thesis using p(2) by blast
qed

lemma logs_delete_interface:
  assumes "refs_ok d" "constraints_ok d"
  shows "t_logs (sql_delete_interface True k d) =
    filter (\<lambda>l. map_option p_InterfaceID (get_peer (cl_PeerID l) d) \<noteq> Some k) (t_logs d)"
  unfolding sql_delete_interface_def Let_def
proof (simp, rule filter_cong, rule refl)
  fix l assume "l \<in> set (t_logs d)"
  from log_owner [OF assms this] obtain p where "get_peer (cl_PeerID l) d = Some p" "p_ID p = cl_PeerID l"
    "\<forall>q \<in> set (t_peers d). p_ID q = cl_PeerID l \<longrightarrow> q = p" by blast
  note p = this
  from p(1) have "p \<in> set (t_peers d)" by (auto simp: get_peer_def dest: row_Some)
  with p(2,3) have "list_ex (\<lambda>p. p_ID p = cl_PeerID l \<and> p_InterfaceID p = k) (t_peers d) \<longleftrightarrow> p_InterfaceID p = k"
    unfolding list_ex_iff by metis
  then show "(\<not> list_ex (\<lambda>p. p_ID p = cl_PeerID l \<and> p_InterfaceID p = k) (t_peers d))
    \<longleftrightarrow> (\<forall>z. get_peer (cl_PeerID l) d = Some z \<longrightarrow> p_InterfaceID z \<noteq> k)"
    using p(1) by simp
qed



text \<open>\<^verbatim>\<open>PRAGMA foreign_keys\<close> holds for one connection only. On a connection of the pool that
  does not enforce it, deleting an interface leaves all its peers and their logs behind.\<close>

lemma DeleteInterface_orphans:
  assumes "run_state (Manager_DeleteInterface env k force) w = (Inr u, w')" and "\<And>t. \<not> fk_on env t"
  shows "get_iface k (wdb w') = None \<and> t_peers (wdb w') = t_peers (wdb w) \<and> t_logs (wdb w') = t_logs (wdb w)
    \<and> (peers_of k (wdb w) \<noteq> [] \<longrightarrow> \<not> refs_ok (wdb w'))"
proof -
  have d: "wdb w' = sql_delete_interface False k (wdb w)"
    using Manager_DeleteInterface_returns [OF assms(1)] assms(2) by auto
  moreover have "\<not> refs_ok (wdb w')" if "peers_of k (wdb w) \<noteq> []"
  proof -
    have "set (peers_of k (wdb w)) \<noteq> {}" using that by simp
    then obtain p where "p \<in> set (t_peers (wdb w))" "p_InterfaceID p = k"
      by (auto simp: peers_of_def)
    then show ?thesis
      by (auto simp: d refs_ok_def sql_delete_interface_def has_row_del_rows)
  qed
  ultimately show ?thesis using interfaces.get_del [of k False k "wdb w"]
    by (simp add: sql_delete_interface_def Let_def)
qed

lemma DeleteInterface_orphans_witness:
  "\<not> refs_ok (wdb (snd (run_state (Manager_DeleteInterface (sample_env\<lparr>fk_on := \<lambda>_. False\<rparr>) ''wg0'' True)
     sample_world)))"
proof -
  let ?e = "sample_env\<lparr>fk_on := \<lambda>_. False\<rparr>"
  have "fst (run_state (Manager_DeleteInterface ?e ''wg0'' True) sample_world) = Inr ()" by code_simp
  then obtain w' where r: "run_state (Manager_DeleteInterface ?e ''wg0'' True) sample_world = (Inr (), w')"
    by (metis prod.collapse)
  have "peers_of ''wg0'' (wdb sample_world) \<noteq> []" by (simp add: peers_of_def sample_defs)
  with DeleteInterface_orphans [OF r] show ?thesis by (simp add: r)
qed

end
