(* ===== verification/AccessControl.thy ===== *)
theory AccessControl
  imports Samples
begin

text \<open>
  Who may do what: the sessions and the chain of middleware in front of the protected routes, the
  operations reserved to administrators, the first administrator.
\<close>

section \<open>Sessions\<close>

lemma TouchSession_returns:
  "run_state (TouchSession env k) w = (Inr u, w') \<Longrightarrow>
   wdb w' = sql_touch_session k (now_at env (tick w)) (wdb w)"
  by (auto simp: TouchSession_def run_simps split: option.splits)

text \<open>A session that is presented at \<open>now\<close> in database \<open>d\<close> and accepted.\<close>

definition live_session :: "auth_service \<Rightarrow> time \<Rightarrow> db \<Rightarrow> session \<Rightarrow> user \<Rightarrow> bool" where
  "live_session s now d se u \<longleftrightarrow> get_session (se_ID se) d = Some se \<and> get_user (se_UserID se) d = Some u
     \<and> now \<le> se_ExpiresAt se \<and> time_sub now (se_LastSeenAt se) \<le> sessionTimeout s"

lemma get_user_touch [simp]: "get_user k (sql_touch_session j t d) = get_user k d"
  by (simp add: get_user_def sql_touch_session_def)

lemma ValidateSession_returns:
  assumes "run_state (ValidateSession env s k) w = (Inr (se, u), w')"
  shows "se_ID se = k \<and> (\<exists>now. live_session s now (wdb w) se u)
    \<and> (\<exists>t. wdb w' = sql_touch_session k t (wdb w))"
proof -
  obtain w1 w3 where g: "run_state (GetSession env k) w = (Inr (Some se), w1)"
    and now: "now_at env (tick w1) \<le> se_ExpiresAt se"
      "time_sub (now_at env (tick w1)) (se_LastSeenAt se) \<le> sessionTimeout s"
    and t: "run_state (TouchSession env k) (w1\<lparr>tick := Suc (tick w1)\<rparr>) = (Inr (), w3)"
    and u: "run_state (GetUser env (se_UserID se)) w3 = (Inr (Some u), w')"
    using assms
    by (auto simp: ValidateSession_def returns run_time_now not_less run_ignore
        split: option.splits if_splits)
  have "get_session k (wdb w) = Some se" "wdb w1 = wdb w" using GetSession_result [OF g] by auto
  moreover have "get_user (se_UserID se) (wdb w3) = Some u" "wdb w' = wdb w3"
    using GetUser_result [OF u] by auto
  moreover note TouchSession_returns [OF t] now
  ultimately show ?thesis
    by (auto simp: live_session_def get_session_def dest: row_Some)
qed



text \<open>Steps that leave everything but the sessions and the clock as it was.\<close>

definition only_sessions :: "world \<Rightarrow> world \<Rightarrow> bool" where
  "only_sessions w v \<longleftrightarrow> (\<exists>n t. v = w\<lparr>tick := n, wdb := (wdb w)\<lparr>t_sessions := t\<rparr>\<rparr>
     \<and> se_ID ` set t \<subseteq> se_ID ` set (t_sessions (wdb w)))"

lemma only_sessions_refl: "only_sessions w w"
  unfolding only_sessions_def by (rule exI [of _ "tick w"], rule exI [of _ "t_sessions (wdb w)"]) simp

lemma only_sessions_upd:
  assumes "only_sessions w v" and "se_ID ` set t \<subseteq> se_ID ` set (t_sessions (wdb v))"
  shows "only_sessions w (v\<lparr>tick := n, wdb := (wdb v)\<lparr>t_sessions := t\<rparr>\<rparr>)"
proof -
  from assms(1) obtain m t' where v: "v = w\<lparr>tick := m, wdb := (wdb w)\<lparr>t_sessions := t'\<rparr>\<rparr>"
    and t': "se_ID ` set t' \<subseteq> se_ID ` set (t_sessions (wdb w))" by (auto simp: only_sessions_def)
  have "v\<lparr>tick := n, wdb := (wdb v)\<lparr>t_sessions := t\<rparr>\<rparr> = w\<lparr>tick := n, wdb := (wdb w)\<lparr>t_sessions := t\<rparr>\<rparr>"
    by (simp add: v)
  moreover have "se_ID ` set t \<subseteq> se_ID ` set (t_sessions (wdb w))" using assms(2) t' by (simp add: v)
  ultimately show ?thesis unfolding only_sessions_def by blast
qed

lemma only_sessions_tick: "only_sessions w v \<Longrightarrow> only_sessions w (v\<lparr>tick := n\<rparr>)"
  using only_sessions_upd [of w v "t_sessions (wdb v)" n] by simp

lemma keeps_only_sessions [keeps_intros]:
  "keeps (only_sessions w) (GetSession env k)"
  "keeps (only_sessions w) (GetUser env k)"
  "keeps (only_sessions w) (time_now env)"
  "keeps (only_sessions w) (TouchSession env k)"
  "keeps (only_sessions w) (DeleteSession env k)"
  unfolding GetSession_def GetUser_def TouchSession_def DeleteSession_def
  by (auto simp: valid_def run_simps sql_touch_session_def sql_delete_session_def set_rows_def
      split: option.splits intro!: only_sessions_tick only_sessions_upd)

lemma keeps_only_sessions_auth: "keeps (only_sessions w) (authRequired env s c)"
  unfolding authRequired_def ValidateSession_def by (intro keeps_intros)

text \<open>A request that is turned away is answered with 403 and changes nothing but sessions, and
  no session appears: no row of another table, no call on the machine, no mail.\<close>

lemma rejected_request_harmless:
  assumes "run_state (protected_route env s cookie meth token nxt) w = (Inl j, w')"
  shows "only_sessions w w' \<and> (\<exists>msg. j = Reject 403 msg)"
proof -
  obtain r v where a: "run_state (authRequired env s cookie) w = (r, v)" by fastforce
  have "only_sessions w v"
    using keeps_only_sessions_auth only_sessions_refl a by (rule validD)
  moreover have "w' = v" using assms a
    by (auto simp: protected_route_def split: sum.splits prod.splits option.splits)
  moreover have "\<exists>msg. j = Reject 403 msg" using assms a
    by (auto simp: protected_route_def authRequired_def csrfProtect_def
        split: sum.splits prod.splits option.splits if_splits)
  ultimately show ?thesis by simp
qed

lemma rejected_request_harmless_witness:
  "only_sessions sample_world (snd (run_state (protected_route sample_env sample_auth (Some ''sid'')
     ''DELETE'' ''bad'' (\<lambda>_. State_Monad.return ())) sample_world))"
proof -
  let ?m = "protected_route sample_env sample_auth (Some ''sid'') ''DELETE'' ''bad'' (\<lambda>_. State_Monad.return ())"
  have "fst (run_state ?m sample_world) = Inl (Reject 403 ''invalid CSRF token'')" by code_simp
  then obtain w' where r: "run_state ?m sample_world = (Inl (Reject 403 ''invalid CSRF token''), w')"
    by (metis prod.collapse)
  from rejected_request_harmless [OF r] show ?thesis by (simp add: r)
qed

text \<open>A session that is refused is refused for good: unless the database fails, a session that
  \<open>ValidateSession\<close> rejects is gone from the database.\<close>

lemma rejected_session_deleted:
  assumes "run_state (ValidateSession env s k) w = (Inl e, w')" and "\<And>t. db_fault env t = None"
  shows "get_session k (wdb w') = None"
  using assms(1)
  by (auto simp: ValidateSession_def GetSession_def DeleteSession_def TouchSession_def GetUser_def
      run_simps assms(2) sessions.get_del split: option.splits if_splits)

definition late_env :: env where
  "late_env = sample_env\<lparr>now_at := \<lambda>t. (int t + 200) * second\<rparr>"

lemma rejected_session_deleted_witness:
  "get_session ''sid'' sample_db \<noteq> None
   \<and> get_session ''sid'' (wdb (snd (run_state (ValidateSession late_env sample_auth ''sid'') sample_world))) = None"
proof -
  have "fst (run_state (ValidateSession late_env sample_auth ''sid'') sample_world) = Inl (Err ''session expired'')"
    by code_simp
  then obtain w' where r: "run_state (ValidateSession late_env sample_auth ''sid'') sample_world
      = (Inl (Err ''session expired''), w')" by (metis prod.collapse)
  have "db_fault late_env t = None" for t by (simp add: late_env_def sample_env_def)
  from rejected_session_deleted [OF r this] have "get_session ''sid'' (wdb w') = None" .
  moreover have "get_session ''sid'' sample_db \<noteq> None" by (simp add: get_session_def row_def sample_defs)
  ultimately show ?thesis by (simp add: r)
qed

section \<open>Administrators\<close>

text \<open>The routes whose handlers ask for the administrator's role.\<close>

definition admin_route :: "protected_request \<Rightarrow> bool" where
  "admin_route req \<longleftrightarrow> (case req of
     ListUsersReq \<Rightarrow> True | CreateUserReq b \<Rightarrow> True | DeleteUserReq k \<Rightarrow> True | GetSettings \<Rightarrow> True
   | UpdateSettings b \<Rightarrow> True | CreateProvider b \<Rightarrow> True | UpdateProvider k b \<Rightarrow> True
   | DeleteProvider k \<Rightarrow> True | UpdateSMTP b \<Rightarrow> True | TestSMTP b \<Rightarrow> True | DeleteSMTP \<Rightarrow> True
   | _ \<Rightarrow> False)"

lemmas admin_handlers = handleListUsers_def handleCreateUser_def handleDeleteUser_def
  handleGetSettings_def handleUpdateSettings_def handleCreateOIDCProvider_def
  handleUpdateOIDCProvider_def handleDeleteOIDCProvider_def handleUpdateSMTP_def handleTestSMTP_def
  handleDeleteSMTP_def

text \<open>On the routes of users, settings, providers and mail, a user who is not an administrator
  gets 403 and nothing happens at all.\<close>

lemma admin_routes_refused:
  assumes "admin_route req" and "u_Role u \<noteq> ''admin''"
  shows "run_state (dispatch env s host u req) w = (403, w)"
  using assms by (cases req) (simp_all add: admin_route_def admin_handlers admin_required_def answer_def)

lemma admin_routes_refused_witness:
  "run_state (dispatch sample_env sample_server ''h'' sample_viewer (DeleteUserReq ''a'')) sample_world
     = (403, sample_world)"
  by (rule admin_routes_refused) (simp_all add: admin_route_def sample_viewer_def zero_user_def)

text \<open>The other routes never look at the role of the caller: on all of them but the change of
  a password, every user who is logged in can do what an administrator can.\<close>

lemma other_routes_ignore_role:
  assumes "\<not> admin_route req" and "\<not> is_ChangePassword req"
  shows "dispatch env s host u req = dispatch env s host v req"
  using assms by (cases req) (simp_all add: admin_route_def)

lemma other_routes_ignore_role_witness:
  "dispatch sample_env sample_server ''h'' sample_viewer (DeleteIface ''wg0'')
     = dispatch sample_env sample_server ''h'' sample_admin (DeleteIface ''wg0'')
   \<and> get_iface ''wg0'' (wdb (snd (run_state (dispatch sample_env sample_server ''h'' sample_viewer
        (DeleteIface ''wg0'')) sample_world))) = None"
proof -
  have "dispatch sample_env sample_server ''h'' sample_viewer (DeleteIface ''wg0'')
     = dispatch sample_env sample_server ''h'' sample_admin (DeleteIface ''wg0'')"
    by (rule other_routes_ignore_role) (simp_all add: admin_route_def)
  moreover have "get_iface ''wg0'' (wdb (snd (run_state (dispatch sample_env sample_server ''h'' sample_viewer
        (DeleteIface ''wg0'')) sample_world))) = None"
    by code_simp
  ultimately show ?thesis by blast
qed

text \<open>The accounts, the settings and the login machinery, with one user's password left open.\<close>

definition forget_password :: "string \<Rightarrow> user \<Rightarrow> user" where
  "forget_password k u =
     (if u_ID u = k then u\<lparr>u_PasswordHash := [], u_UpdatedAt := 0, u_OIDCIssuer := []\<rparr> else u)"

definition accounts :: "string \<Rightarrow> db \<Rightarrow> user list \<times> session list \<times> (string \<times> string) list
    \<times> oidc_provider list \<times> oidc_state list" where
  "accounts k d = (map (forget_password k) (t_users d), t_sessions d, t_settings d, t_providers d, t_states d)"

interpretation accounts: net_invariant env "\<lambda>d. accounts k d = a" for env k a
  by unfold_locales
    (auto simp: accounts_def sql_insert_interface_def sql_update_interface_def sql_delete_interface_def
      sql_insert_peer_def sql_update_peer_def sql_delete_peer_def sql_insert_log_def
      sql_delete_old_logs_def Let_def split: if_splits)

lemma accounts_update_password:
  assumes ok: "constraints_ok d" and g: "get_user k d = Some v"
    and upd: "sql_update_user (v\<lparr>u_PasswordHash := h, u_UpdatedAt := t\<rparr>) d = Inr d'"
  shows "accounts k d' = accounts k d"
proof -
  let ?u = "v\<lparr>u_PasswordHash := h, u_UpdatedAt := t\<rparr>"
  have v: "v \<in> set (t_users d)" "u_ID v = k" using g by (auto simp: get_user_def dest: row_Some)
  have d': "d' = d\<lparr>t_users := set_rows u_ID k (\<lambda>r. (stored_user ?u)\<lparr>u_CreatedAt := u_CreatedAt r\<rparr>) (t_users d)\<rparr>"
    using upd v by (auto simp: sql_update_user_def Let_def has_row_ex split: if_splits)
  have "r = v" if "r \<in> set (t_users d)" "u_ID r = k" for r
    using that v ok distinct_map_inj unfolding constraints_ok_def users_ok_def by metis
  then have "forget_password k (if u_ID r = k then (stored_user ?u)\<lparr>u_CreatedAt := u_CreatedAt r\<rparr> else r)
      = forget_password k r" if "r \<in> set (t_users d)" for r
    using that v(2) by (auto simp: forget_password_def stored_user_def)
  then show ?thesis by (simp add: accounts_def d' set_rows_def)
qed

lemma UpdateUser_password_accounts:
  "valid (on_db (\<lambda>d. (constraints_ok d \<and> accounts k d = a) \<and> get_user k d = Some v))
     (UpdateUser env (v\<lparr>u_PasswordHash := h\<rparr>)) (\<lambda>_. on_db (\<lambda>d. accounts k d = a))"
  by (auto simp: valid_def UpdateUser_def run_simps Let_def accounts_update_password
      split: option.splits sum.splits)

lemma handleChangePassword_accounts:
  assumes "u_Role u \<noteq> ''admin''"
  shows "valid (on_db (\<lambda>d. constraints_ok d \<and> accounts (u_ID u) d = a))
     (handleChangePassword env s u k b) (\<lambda>_. on_db (\<lambda>d. accounts (u_ID u) d = a))"
proof (cases "k = u_ID u")
  case False
  with assms show ?thesis by (simp add: handleChangePassword_def valid_def)
next
  case True
  show ?thesis
    unfolding handleChangePassword_def True
    by (simp, rule pre_with_body, simp, rule pre_or_error, simp, rule keeps_return,
      rule valid_or_text_reads [OF reads_methods(4)], simp, rule Some_row_cases, rule pre_problem, simp,
      rule pre_if, rule pre_problem, simp, rule pre_or_text, simp, simp add: HashPassword_def,
      intro keeps_intros, rule valid_error_write [OF UpdateUser_password_accounts], intro keeps_intros)
qed

text \<open>C9. Whatever a user who is not an administrator requests, the accounts stay as they are, with
  the sessions, the settings and the login providers: only their own password can change.\<close>

theorem viewer_keeps_accounts:
  assumes "u_Role u \<noteq> ''admin''" and "constraints_ok (wdb w)"
  shows "accounts (u_ID u) (wdb (snd (run_state (dispatch env s host u req) w))) = accounts (u_ID u) (wdb w)"
proof -
  let ?I = "\<lambda>d. accounts (u_ID u) d = accounts (u_ID u) (wdb w)"
  have "valid (on_db (\<lambda>d. constraints_ok d \<and> ?I d)) (dispatch env s host u req) (\<lambda>_. on_db ?I)"
  proof (cases "is_ChangePassword req")
    case True
    then obtain k b where req: "req = ChangePassword k b" by (cases req) auto
    show ?thesis
      unfolding req dispatch.simps answer_def
      by (rule valid_bind [OF handleChangePassword_accounts [OF assms(1)] keeps_return])
  next
    case other: False
    show ?thesis
    proof (cases "admin_route req")
      case True
      with assms(1) show ?thesis
        by (cases req) (simp_all add: valid_def admin_route_def admin_handlers admin_required_def answer_def)
    next
      case False
      with other have "keeps (on_db ?I) (dispatch env s host u req)"
        by (cases req)
          (simp_all only: dispatch.simps admin_route_def protected_request.case protected_request.disc
             not_True_eq_False; intro keeps_intros)+
      then show ?thesis by (rule valid_conseq) auto
    qed
  qed
  from valid_snd [OF this] assms(2) show ?thesis by simp
qed

lemma viewer_keeps_accounts_witness:
  "accounts ''v'' (wdb (snd (run_state (dispatch sample_env sample_server ''h'' sample_viewer
     (ChangePassword ''a'' (Inr ''correct horse battery''))) sample_world))) = accounts ''v'' sample_db
   \<and> u_PasswordHash (the (get_user ''v'' (wdb (snd (run_state (dispatch sample_env sample_server ''h'' sample_viewer
     (ChangePassword ''v'' (Inr ''correct horse battery''))) sample_world))))) = ''correct horse battery''"
proof
  have "u_Role sample_viewer \<noteq> ''admin''" "u_ID sample_viewer = ''v''"
    by (simp_all add: sample_viewer_def zero_user_def)
  with viewer_keeps_accounts [of sample_viewer sample_world sample_env sample_server "''h''"
        "ChangePassword ''a'' (Inr ''correct horse battery'')"] sample_db_ok
  show "accounts ''v'' (wdb (snd (run_state (dispatch sample_env sample_server ''h'' sample_viewer
     (ChangePassword ''a'' (Inr ''correct horse battery''))) sample_world))) = accounts ''v'' sample_db"
    unfolding wdb_sample_world by metis
  show "u_PasswordHash (the (get_user ''v'' (wdb (snd (run_state (dispatch sample_env sample_server ''h'' sample_viewer
     (ChangePassword ''v'' (Inr ''correct horse battery''))) sample_world))))) = ''correct horse battery''"
    by code_simp
qed

text \<open>C10. A delete of a user that succeeds was asked for by an administrator and hits another
  account than the caller's. It removes that account only, and no session of it is accepted from
  then on, whether or not foreign keys are enforced.\<close>

theorem DeleteUser_revokes:
  assumes "run_state (handleDeleteUser env caller k) w = (JSON n x, w')"
  shows "u_Role caller = ''admin'' \<and> k \<noteq> u_ID caller
    \<and> (\<forall>j. get_user j (wdb w') = (if j = k then None else get_user j (wdb w)))
    \<and> (\<forall>s now se u. live_session s now (wdb w') se u \<longrightarrow> se_UserID se \<noteq> k)"
proof -
  from assms obtain t where a: "u_Role caller = ''admin''" "k \<noteq> u_ID caller"
    and d: "wdb w' = sql_delete_user (fk_on env t) k (wdb w)"
    by (auto simp: handleDeleteUser_def admin_required_def DeleteUser_def run_simps
        split: if_splits option.splits)
  then show ?thesis by (auto simp: live_session_def users.get_del)
qed

lemma DeleteUser_revokes_witness:
  "\<not> live_session sample_auth 0
      (wdb (snd (run_state (handleDeleteUser sample_env sample_admin ''v'') sample_world))) sample_session sample_viewer
   \<and> live_session sample_auth 0 sample_db sample_session sample_viewer"
proof
  have "fst (run_state (handleDeleteUser sample_env sample_admin ''v'') sample_world) = JSON 200 ''deleted''"
    by code_simp
  then obtain w' where r: "run_state (handleDeleteUser sample_env sample_admin ''v'') sample_world
    = (JSON 200 ''deleted'', w')" by (rule run_obtain)
  have "se_UserID sample_session = ''v''" by (simp add: sample_session_def)
  with DeleteUser_revokes [OF r]
  show "\<not> live_session sample_auth 0
      (wdb (snd (run_state (handleDeleteUser sample_env sample_admin ''v'') sample_world))) sample_session sample_viewer"
    unfolding r snd_conv by metis
  show "live_session sample_auth 0 sample_db sample_session sample_viewer" by code_simp
qed

section \<open>The first administrator\<close>

lemma CountUsers_returns:
  "run_state (CountUsers env) w = (Inr n, v) \<Longrightarrow> n = length (t_users (wdb w)) \<and> wdb v = wdb w"
  by (rule readsD [OF reads_methods(10)])

lemma HashPassword_wdb: "run_state (HashPassword env p) w = (r, v) \<Longrightarrow> wdb v = wdb w"
  by (auto simp: HashPassword_def run_simps split: sum.splits)

text \<open>\<open>CreateInitialAdmin\<close> succeeds on an empty table of users only, with a password that is
  long enough, and the table then holds one user: the administrator.\<close>

lemma CreateInitialAdmin_first:
  assumes "run_state (CreateInitialAdmin env s name password) w = (Inr u, w')"
  shows "t_users (wdb w) = [] \<and> t_users (wdb w') = [stored_user u] \<and> u_Role u = ''admin''
    \<and> u_Username u = name \<and> u_IsInitial u \<and> minPasswordLen s \<le> int (length password)"
proof -
  obtain w1 w2 hash where c: "run_state (CountUsers env) w = (Inr 0, w1)"
    and l: "minPasswordLen s \<le> int (length password)"
    and h: "run_state (HashPassword env password) w1 = (Inr hash, w2)"
    and u: "run_state (CreateUser env (zero_user\<lparr>u_Username := name, u_PasswordHash := hash,
            u_DisplayName := name, u_Role := ''admin'', u_IsInitial := True\<rparr>)) w2 = (Inr u, w')"
    using assms
    by (auto simp: CreateInitialAdmin_def NeedsSetup_def returns ValidatePasswordStrength_def split: if_splits)
  have "t_users (wdb w) = []" "wdb w2 = wdb w"
    using CountUsers_returns [OF c] HashPassword_wdb [OF h] by auto
  moreover have "t_users (wdb w') = t_users (wdb w2) @ [stored_user u] \<and> u_Role u = ''admin''
      \<and> u_Username u = name \<and> u_IsInitial u"
    using u by (auto simp: CreateUser_def run_simps returns fresh_id_def Let_def sql_insert_user_def
        split: option.splits if_splits sum.splits)
  ultimately show ?thesis using l by simp
qed

lemma CreateInitialAdmin_first_witness:
  "map u_Username (t_users (wdb (snd (run_state
     (CreateInitialAdmin sample_env sample_auth ''root'' ''correct horse battery'') initial_world)))) = [''root'']"
proof -
  let ?m = "CreateInitialAdmin sample_env sample_auth ''root'' ''correct horse battery''"
  have "map_sum (\<lambda>_. ()) u_Username (fst (run_state ?m initial_world)) = Inr ''root''" by code_simp
  then obtain u where "fst (run_state ?m initial_world) = Inr u" "u_Username u = ''root''"
    by (cases "fst (run_state ?m initial_world)") auto
  then obtain w' where r: "run_state ?m initial_world = (Inr u, w')" by (metis run_obtain)
  from CreateInitialAdmin_first [OF r] show ?thesis by (simp add: r stored_user_def)
qed

text \<open>Once there is a user, the setup route is closed: it changes nothing in the database and
  opens no session.\<close>

theorem setup_closed:
  assumes "t_users (wdb w) \<noteq> []"
  shows "wdb (snd (run_state (handleSetup env s ip agent body) w)) = wdb w
    \<and> status (fst (run_state (handleSetup env s ip agent body) w)) = 400"
proof -
  have "\<exists>e v. run_state (CreateInitialAdmin env (sv_auth s) n p) w = (Inl e, v) \<and> wdb v = wdb w" for n p
  proof -
    obtain r v where "run_state (NeedsSetup env) w = (r, v)" by fastforce
    moreover from this have "wdb v = wdb w \<and> r \<noteq> Inr True"
      using assms by (auto simp: NeedsSetup_def CountUsers_def run_simps split: option.splits)
    ultimately show ?thesis by (auto simp: CreateInitialAdmin_def run_attempt split: sum.split bool.split)
  qed
  note refused = this
  show ?thesis
  proof (cases body)
    case (Inr q)
    obtain e v where "run_state (CreateInitialAdmin env (sv_auth s) (lq_Username q) (lq_Password q)) w = (Inl e, v)"
      "wdb v = wdb w" using refused by blast
    with Inr show ?thesis by (simp add: handleSetup_def with_body_def run_or_error)
  qed (simp add: handleSetup_def with_body_def)
qed

lemma setup_closed_witness:
  "wdb (snd (run_state (handleSetup sample_env sample_server ''ip'' ''agent''
     (Inr \<lparr>lq_Username = ''mallory'', lq_Password = ''correct horse battery''\<rparr>)) sample_world)) = sample_db"
  using setup_closed [of sample_world] by (simp add: sample_db_def)

text \<open>Who logs in with a password gets a session: the stored user of that name, whose hash
  matches, and who is not an account of a single sign-on provider. The session is new, belongs to
  this user, and ends \<open>maxSessionAge\<close> after it began.\<close>

lemma login_opens_session:
  assumes "run_state (handleLogin env s ip agent (Inr q)) w = (JSON n (SessionBody r ck), w')"
  shows "\<exists>u se now. row u_Username (lq_Username q) (t_users (wdb w)) = Some u
    \<and> bcrypt_match env (u_PasswordHash u) (lq_Password q) \<and> u_OIDCProvider u = []
    \<and> local_enabled s \<and> get_session (se_ID se) (wdb w) = None
    \<and> wdb w' = (wdb w)\<lparr>t_sessions := t_sessions (wdb w) @ [se]\<rparr>
    \<and> se_UserID se = u_ID u \<and> se_ExpiresAt se = now + maxSessionAge (sv_auth s)
    \<and> r = \<lparr>sr_User = u, sr_CSRFToken = se_CSRFToken se, sr_SMTPEnabled = sr_SMTPEnabled r\<rparr>
    \<and> ck = Some (session_cookie s SameSiteStrict se)"
proof -
  obtain u v1 se v2 where a: "run_state (Authenticate env (lq_Username q) (lq_Password q)) w = (Inr u, v1)"
    and l: "local_enabled s" "u_OIDCProvider u = []"
    and c: "run_state (Auth_CreateSession env (sv_auth s) (u_ID u) ip agent) v1 = (Inr se, v2)"
    and m: "run_state (smtpEnabled env s) v2 = (sr_SMTPEnabled r, w')"
    and r: "r = \<lparr>sr_User = u, sr_CSRFToken = se_CSRFToken se, sr_SMTPEnabled = sr_SMTPEnabled r\<rparr>"
      "ck = Some (session_cookie s SameSiteStrict se)"
    using assms by (auto simp: handleLogin_def returns split: if_splits)
  have "row u_Username (lq_Username q) (t_users (wdb w)) = Some u" "bcrypt_match env (u_PasswordHash u) (lq_Password q)"
    "wdb v1 = wdb w"
    using Authenticate_returns [OF a] by auto
  moreover obtain now where "wdb v2 = (wdb v1)\<lparr>t_sessions := t_sessions (wdb v1) @ [se]\<rparr>"
    "get_session (se_ID se) (wdb v1) = None" "se_UserID se = u_ID u" "se_ExpiresAt se = now + maxSessionAge (sv_auth s)"
    using Auth_CreateSession_returns [OF c] by auto
  moreover have "wdb w' = wdb v2"
    using validD [OF keeps_settings(3) _ m, of "\<lambda>d. d = wdb v2"] by simp
  ultimately show ?thesis using l r by metis
qed

lemma login_opens_session_witness:
  "length (t_sessions (wdb (snd (run_state (handleLogin sample_env sample_server ''ip'' ''agent''
     (Inr \<lparr>lq_Username = ''eve'', lq_Password = []\<rparr>)) sample_world)))) = 2"
proof -
  let ?m = "handleLogin sample_env sample_server ''ip'' ''agent'' (Inr \<lparr>lq_Username = ''eve'', lq_Password = []\<rparr>)"
  have "(case fst (run_state ?m sample_world) of JSON n (SessionBody r ck) \<Rightarrow> True | _ \<Rightarrow> False)" by code_simp
  then obtain n r ck where "fst (run_state ?m sample_world) = JSON n (SessionBody r ck)"
    by (auto split: response.splits auth_body.splits)
  then obtain w' where r: "run_state ?m sample_world = (JSON n (SessionBody r ck), w')" by (rule run_obtain)
  from login_opens_session [OF r] show ?thesis by (auto simp: r) (simp add: sample_db_def)
qed

end

