(* ===== verification/ManagerFacts.thy ===== *)
theory ManagerFacts
  imports Samples
begin

text \<open>
  What the operations of the manager do: the calls on the machine and the configuration they hand
  over, the rows they write, and what is left behind when they fail half way.
\<close>

section \<open>Synchronising an interface\<close>

lemma net_call_returns:
  "run_state (net_call env c) w = (r, w') \<Longrightarrow> wdb w' = wdb w \<and> net_log w' = net_log w @ [c]"
  by (auto simp: run_net_call)

lemma GetInterface_log: "run_state (GetInterface env k) w = (r, w') \<Longrightarrow> net_log w' = net_log w"
  by (auto simp: GetInterface_def run_simps split: option.splits)

lemma ListPeers_log: "run_state (ListPeers env k) w = (r, w') \<Longrightarrow> net_log w' = net_log w"
  by (auto simp: ListPeers_def run_simps split: option.splits)

text \<open>What the manager hands to the machine for interface \<open>i\<close> with the peers of database \<open>d\<close>.\<close>

definition sync_params :: "env \<Rightarrow> iface \<Rightarrow> db \<Rightarrow> ServerConfParams \<Rightarrow> bool" where
  "sync_params env i d params \<longleftrightarrow> (\<exists>key bs. Decrypt env (if_PrivateKeyEncrypted i) = Inr key
     \<and> peer_blocks env (peers_of (if_ID i) d) = Inr bs \<and> params = server_params key i bs)"

lemma get_iface_ID: "get_iface k d = Some i \<Longrightarrow> if_ID i = k"
  by (auto simp: get_iface_def dest: row_Some)

lemma SyncInterface_returns:
  assumes "run_state (SyncInterface env k) w = (Inr u, w')"
  shows "\<exists>i params. get_iface k (wdb w) = Some i \<and> wdb w' = wdb w
    \<and> (if \<not> if_Enabled i then net_log w' = net_log w @ [NetSetDown k]
       else sync_params env i (wdb w) params
         \<and> (net_log w' = net_log w @ [NetExists k, NetSyncConf k (GenerateStrippedConf params),
              NetSaveConf k (GenerateServerConf params)]
            \<or> net_log w' = net_log w @ [NetExists k, NetSaveConf k (GenerateServerConf params), NetQuickUp k]))"
proof -
  obtain i w1 where g: "run_state (GetInterface env k) w = (Inr (Some i), w1)"
    using assms by (auto simp: SyncInterface_def returns)
  have i: "get_iface k (wdb w) = Some i" "wdb w1 = wdb w" "net_log w1 = net_log w" "if_ID i = k"
    using GetInterface_result [OF g] GetInterface_log [OF g] get_iface_ID by auto
  show ?thesis
  proof (cases "if_Enabled i")
    case False
    with assms g i show ?thesis by (auto simp: SyncInterface_def run_simps)
  next
    case True
    obtain key ps w2 bs where d: "Decrypt env (if_PrivateKeyEncrypted i) = Inr key"
      and l: "run_state (ListPeers env k) w1 = (Inr ps, w2)"
      and b: "peer_blocks env ps = Inr bs"
      using assms g True by (auto simp: SyncInterface_def returns)
    have w2: "wdb w2 = wdb w" "net_log w2 = net_log w" "ps = peers_of k (wdb w)"
      using ListPeers_result [OF l] ListPeers_log [OF l] i by auto
    have "sync_params env i (wdb w) (server_params key i bs)"
      using d b w2 i by (auto simp: sync_params_def)
    with assms g True d l b i w2 show ?thesis
      by (auto simp: SyncInterface_def run_simps Let_def split: if_splits sum.splits)
  qed
qed


lemma sample_blocks: "peer_blocks sample_env (peers_of ''wg0'' sample_db)
    = Inr [\<lparr>pb_Name = ''laptop'', pb_PublicKey = ''k1'', pb_PresharedKey = [],
        pb_AllowedIPs = ''10.0.0.2/32'', pb_Endpoint = [], pb_PersistentKeepalive = 0\<rparr>]"
  by code_simp

lemma sample_key: "Decrypt sample_env (if_PrivateKeyEncrypted sample_iface) = Inr ''key''"
  by code_simp

lemma sample_sync: "fst (run_state (SyncInterface sample_env ''wg0'') sample_world) = Inr ()"
  by (simp add: SyncInterface_def run_simps GetInterface_def ListPeers_def Let_def sample_key sample_blocks)


lemma peer_blocks_enabled:
  "peer_blocks env ps = Inr bs \<Longrightarrow>
   map (\<lambda>b. (pb_PublicKey b, pb_AllowedIPs b)) bs
     = map (\<lambda>p. (p_PublicKey p, effective_allowed_ips p)) (filter p_Enabled ps)"
  by (induction env ps arbitrary: bs rule: peer_blocks.induct) (auto split: if_splits sum.splits)

lemma sync_params_peers:
  assumes "sync_params env i d params"
  shows "map (\<lambda>b. (pb_PublicKey b, pb_AllowedIPs b)) (sc_Peers params)
    = map (\<lambda>p. (p_PublicKey p, effective_allowed_ips p)) (filter p_Enabled (peers_of (if_ID i) d))"
  using assms by (auto simp: sync_params_def server_params_def dest: peer_blocks_enabled)

text \<open>C12. The file that a sync saves for an enabled interface reads back as the enabled peers of the
  database, in order, each with its allowed networks: nothing is lost between the rows, the
  generated text and its parser, as long as the values are free of line ends and outer blanks.\<close>

theorem saved_file_lists_enabled_peers:
  assumes "run_state (SyncInterface env k) w = (Inr u, w')"
    and "get_iface k (wdb w) = Some i" and "if_Enabled i"
    and "\<And>params. sync_params env i (wdb w) params \<Longrightarrow> clean_conf params"
  shows "\<exists>out cfg. NetSaveConf k out \<in> set (net_log w') \<and> ParseConfig out = Inr cfg
    \<and> map (\<lambda>q. (pp_PublicKey q, pp_AllowedIPs q)) (pc_Peers cfg)
      = map (\<lambda>p. (p_PublicKey p, effective_allowed_ips p)) (filter p_Enabled (peers_of k (wdb w)))"
proof -
  obtain params where p: "sync_params env i (wdb w) params"
    and l: "NetSaveConf k (GenerateServerConf params) \<in> set (net_log w')"
    using SyncInterface_returns [OF assms(1)] assms(2,3) by auto
  have "ParseConfig (GenerateServerConf params) = Inr (parsed_conf params)"
    using assms(4) [OF p] by (rule parse_server_conf)
  moreover have "map (\<lambda>q. (pp_PublicKey q, pp_AllowedIPs q)) (pc_Peers (parsed_conf params))
      = map (\<lambda>b. (pb_PublicKey b, pb_AllowedIPs b)) (sc_Peers params)"
    by (simp add: parsed_conf_def parsed_block_def)
  ultimately show ?thesis
    using l sync_params_peers [OF p] get_iface_ID [OF assms(2)] by auto
qed

lemma sample_params:
  assumes "sync_params sample_env sample_iface sample_db params" shows "clean_conf params"
proof -
  have "sync_params sample_env sample_iface sample_db params \<Longrightarrow> params = server_params ''key'' sample_iface
    [\<lparr>pb_Name = ''laptop'', pb_PublicKey = ''k1'', pb_PresharedKey = [],
        pb_AllowedIPs = ''10.0.0.2/32'', pb_Endpoint = [], pb_PersistentKeepalive = 0\<rparr>]"
    using sample_key sample_blocks by (auto simp: sync_params_def)
  with assms show ?thesis
    by (simp add: server_params_def clean_conf_def clean_block_def clean_value_def sample_iface_def zero_iface_def)
      (intro conjI trimmed_plain, simp_all add: plain_char_def)
qed

lemma saved_file_lists_enabled_peers_witness:
  "\<exists>out cfg. NetSaveConf ''wg0'' out \<in> set (net_log (snd (run_state (SyncInterface sample_env ''wg0'') sample_world)))
     \<and> ParseConfig out = Inr cfg \<and> map pp_PublicKey (pc_Peers cfg) = [''k1'']"
proof -
  obtain w' where r: "run_state (SyncInterface sample_env ''wg0'') sample_world = (Inr (), w')"
    using sample_sync by (rule run_obtain)
  have e: "map (\<lambda>p. (p_PublicKey p, effective_allowed_ips p)) (filter p_Enabled (peers_of ''wg0'' sample_db))
    = [(''k1'', ''10.0.0.2/32'')]" by code_simp
  have "\<exists>out cfg. NetSaveConf ''wg0'' out \<in> set (net_log w') \<and> ParseConfig out = Inr cfg
    \<and> map (\<lambda>q. (pp_PublicKey q, pp_AllowedIPs q)) (pc_Peers cfg) = [(''k1'', ''10.0.0.2/32'')]"
    by (rule saved_file_lists_enabled_peers
        [OF r, unfolded wdb_sample_world, OF sample_rows(1) sample_rows(3), unfolded e]) (rule sample_params)
  then obtain out cfg where "NetSaveConf ''wg0'' out \<in> set (net_log w')" "ParseConfig out = Inr cfg"
    and m: "map (\<lambda>q. (pp_PublicKey q, pp_AllowedIPs q)) (pc_Peers cfg) = [(''k1'', ''10.0.0.2/32'')]"
    by (elim exE conjE)
  moreover from m have "map fst (map (\<lambda>q. (pp_PublicKey q, pp_AllowedIPs q)) (pc_Peers cfg)) = [''k1'']"
    by simp
  ultimately show ?thesis unfolding r snd_conv by (auto simp: comp_def)
qed

section \<open>Enabling and disabling a peer\<close>

text \<open>C13. A peer that is disabled is cut off: when \<open>DisablePeer\<close> succeeds, the row differs in its
  flag and time stamp only, no other row has changed, and if the interface is enabled, the
  configuration handed to the machine has no block with the peer's public key.\<close>

theorem DisablePeer_cuts_off:
  assumes "run_state (DisablePeer env k) w = (Inr u, w')" and "constraints_ok (wdb w)"
  shows "\<exists>p i now. get_peer k (wdb w) = Some p \<and> get_iface (p_InterfaceID p) (wdb w) = Some i
    \<and> (\<forall>j. get_peer j (wdb w') =
         (if j = k then Some (p\<lparr>p_Enabled := False, p_UpdatedAt := now\<rparr>) else get_peer j (wdb w)))
    \<and> (if_Enabled i \<longrightarrow> (\<exists>params. sync_params env i (wdb w') params
         \<and> p_PublicKey p \<notin> pb_PublicKey ` set (sc_Peers params)
         \<and> NetSaveConf (if_ID i) (GenerateServerConf params) \<in> set (drop (length (net_log w)) (net_log w'))))"
proof -
  obtain p now fk v where g: "get_peer k (wdb w) = Some p"
    and up: "sql_update_peer fk (p\<lparr>p_Enabled := False, p_UpdatedAt := now\<rparr>) (wdb w) = Inr (wdb v)"
    and lg: "net_log v = net_log w"
    and sy: "run_state (SyncInterface env (p_InterfaceID p)) v = (Inr u, w')"
    using setPeerEnabled_returns assms(1) unfolding DisablePeer_def by blast
  let ?p = "p\<lparr>p_Enabled := False, p_UpdatedAt := now\<rparr>"
  have k: "p_ID p = k" using g by (auto simp: get_peer_def dest: row_Some)
  note row = sql_update_peer_row [OF up, of p]
  have ok: "constraints_ok (wdb v)" using constraints_update_peer [OF assms(2) up] .
  have ti: "t_interfaces (wdb v) = t_interfaces (wdb w)" using row(1) g k by simp
  obtain i params where i: "get_iface (p_InterfaceID p) (wdb v) = Some i" and wd: "wdb w' = wdb v"
    and c: "if_Enabled i \<longrightarrow> sync_params env i (wdb v) params
       \<and> NetSaveConf (p_InterfaceID p) (GenerateServerConf params) \<in> set (drop (length (net_log w)) (net_log w'))"
    using SyncInterface_returns [OF sy] lg by (force split: if_splits)
  have "p_PublicKey p \<notin> pb_PublicKey ` set (sc_Peers params)" if sp: "sync_params env i (wdb v) params"
  proof
    assume "p_PublicKey p \<in> pb_PublicKey ` set (sc_Peers params)"
    then have "p_PublicKey p \<in> set (map fst (map (\<lambda>b. (pb_PublicKey b, pb_AllowedIPs b)) (sc_Peers params)))"
      by (simp add: comp_def)
    then obtain q where q: "q \<in> set (t_peers (wdb v))" "p_Enabled q" "p_PublicKey q = p_PublicKey p"
      unfolding sync_params_peers [OF sp] by (auto simp: peers_of_def)
    have "get_peer k (wdb v) = Some (?p\<lparr>p_CreatedAt := p_CreatedAt p\<rparr>)" using row(2) g k by simp
    then have "?p\<lparr>p_CreatedAt := p_CreatedAt p\<rparr> \<in> set (t_peers (wdb v))"
      by (auto simp: get_peer_def dest: row_Some)
    with q ok have "q = ?p\<lparr>p_CreatedAt := p_CreatedAt p\<rparr>"
      by (auto simp: constraints_ok_def peers_ok_def intro: distinct_map_inj)
    with q(2) show False by simp
  qed
  moreover have "get_iface (p_InterfaceID p) (wdb w) = Some i" using i ti by (simp add: get_iface_def)
  moreover have "?p\<lparr>p_CreatedAt := p_CreatedAt p\<rparr> = ?p" by simp
  ultimately show ?thesis
    using g k row(2) c wd get_iface_ID [OF i]
    by (intro exI [of _ p] exI [of _ i] exI [of _ now]) auto
qed

lemma DisablePeer_cuts_off_witness:
  "\<exists>params. sync_params sample_env sample_iface
       (wdb (snd (run_state (DisablePeer sample_env ''p1'') sample_world))) params
     \<and> ''k1'' \<notin> pb_PublicKey ` set (sc_Peers params)"
proof -
  have "fst (run_state (DisablePeer sample_env ''p1'') sample_world) = Inr ()" by code_simp
  then obtain w' where r: "run_state (DisablePeer sample_env ''p1'') sample_world = (Inr (), w')"
    by (rule run_obtain)
  have "constraints_ok (wdb sample_world)" by (simp add: sample_db_ok)
  from DisablePeer_cuts_off [OF r this] obtain params where "sync_params sample_env sample_iface (wdb w') params"
    "p_PublicKey sample_peer \<notin> pb_PublicKey ` set (sc_Peers params)" by auto
  moreover have "p_PublicKey sample_peer = ''k1''" by (simp add: sample_peer_def)
  ultimately show ?thesis unfolding r snd_conv by metis
qed

section \<open>Allowed networks\<close>

lemma set_merge_parts:
  "set (merge_parts seen xs) = {TrimSpace x |x. x \<in> set xs \<and> TrimSpace x \<noteq> []} - set seen"
  by (induction seen xs rule: merge_parts.induct) (auto simp: Let_def)

lemma distinct_merge_parts: "distinct (merge_parts seen xs)"
  by (induction seen xs rule: merge_parts.induct) (auto simp: Let_def set_merge_parts)

text \<open>The networks allowed to a peer are its tunnel address, in front, and the configured ones,
  trimmed, none left out and none listed twice.\<close>

lemma mergeAllowedIPStrings_networks:
  "\<exists>nets. mergeAllowedIPStrings tunnelIP allowedIPs = join '', '' nets \<and> distinct nets
    \<and> hd nets = TrimSpace tunnelIP
    \<and> set nets = {TrimSpace tunnelIP}
        \<union> {TrimSpace x |x. x \<in> set (split_char CHR '','' allowedIPs) \<and> TrimSpace x \<noteq> []}"
  unfolding mergeAllowedIPStrings_def
  by (intro exI conjI, rule refl)
    (auto simp: set_merge_parts distinct_merge_parts)

section \<open>Adding a peer\<close>

lemma Encrypt_wdb: "run_state (Encrypt env m) w = (r, v) \<Longrightarrow> wdb v = wdb w"
  using validD [OF keeps_Encrypt, of "\<lambda>d. d = wdb w" w env m r v] by simp

lemma keys_wdb:
  "run_state (GenerateKeyPair env) w = (r, v) \<Longrightarrow> wdb v = wdb w"
  "run_state (GeneratePresharedKey env) w = (r', v) \<Longrightarrow> wdb v = wdb w"
  using validD [OF keeps_keys(1), of "\<lambda>d. d = wdb w" w env r v]
    validD [OF keeps_keys(2), of "\<lambda>d. d = wdb w" w env r' v] by simp_all

lemma CreatePeer_cases:
  assumes "run_state (CreatePeer env p) w = (r, w')"
  shows "(\<exists>e. r = Inl (Wrap ''inserting peer'' e)) \<and> wdb w' = wdb w
    \<or> (\<exists>k now fk. r = Inr (p\<lparr>p_ID := k, p_CreatedAt := now, p_UpdatedAt := now\<rparr>)
        \<and> (p_ID p \<noteq> [] \<longrightarrow> k = p_ID p)
        \<and> sql_insert_peer fk (p\<lparr>p_ID := k, p_CreatedAt := now, p_UpdatedAt := now\<rparr>) (wdb w) = Inr (wdb w'))"
  using assms
  by (auto simp: CreatePeer_def fresh_id_def run_simps Let_def split: option.splits sum.splits if_splits)

lemma insert_peer_rows:
  "sql_insert_peer fk p d = Inr d' \<Longrightarrow> d' = d\<lparr>t_peers := t_peers d @ [inserted_peer p]\<rparr>"
  by (auto simp: sql_insert_peer_def split: if_splits)

text \<open>The peer that \<open>AddPeer\<close> stores for \<open>p\<close>.\<close>

definition added_peer :: "env \<Rightarrow> peer \<Rightarrow> peer \<Rightarrow> bool" where
  "added_peer env p q \<longleftrightarrow> (\<exists>raw t b. p_PublicKey q = EncodeToString (wg_public env raw)
     \<and> age_seal env t (passphrase env) (EncodeToString raw) = Inr b
     \<and> p_PrivateKeyEncrypted q = EncodeToString b \<and> scrypt_ok env (passphrase env) = Inr ())
   \<and> p_Enabled q \<and> p_InterfaceID q = p_InterfaceID p \<and> p_Name q = p_Name p \<and> p_Address q = p_Address p
   \<and> p_AllowedIPs q = p_AllowedIPs p \<and> (p_ID p \<noteq> [] \<longrightarrow> p_ID q = p_ID p)"

lemma valid_check_results:
  assumes "keeps J m" and "\<And>e w. J w \<Longrightarrow> Q (Inl (Wrap c e)) w"
    and "\<And>x v v'. run_state m v = (Inr x, v') \<Longrightarrow> valid J (k x) Q"
  shows "valid J (check c m k) Q"
proof (rule validI)
  fix w x w' assume w: "J w" and r: "run_state (check c m k) w = (x, w')"
  obtain y v where m: "run_state m w = (y, v)" by fastforce
  have v: "J v" using assms(1) w m by (rule validD)
  show "Q x w'"
  proof (cases y)
    case (Inl e)
    with r m have "x = Inl (Wrap c e)" "w' = v" by (simp_all add: run_check)
    with assms(2) [OF v] show ?thesis by simp
  next
    case (Inr z)
    with r m have "run_state (k z) v = (x, w')" by (simp add: run_check)
    with assms(3) [OF m [unfolded Inr]] v show ?thesis by (auto dest: validD)
  qed
qed

definition add_outcome :: "env \<Rightarrow> peer \<Rightarrow> db \<Rightarrow> (error + peer) \<Rightarrow> world \<Rightarrow> bool" where
  "add_outcome env p d r w \<longleftrightarrow> (\<exists>e. r = Inl e) \<and> wdb w = d
    \<or> (\<exists>q fk. added_peer env p q \<and> sql_insert_peer fk q d = Inr (wdb w)
        \<and> (r = Inr q \<or> (\<exists>e. r = Inl (Wrap ''syncing interface after adding peer'' e))))"

lemma add_outcome_Inl: "wdb w = d \<Longrightarrow> add_outcome env p d (Inl e) w"
  by (simp add: add_outcome_def)

lemma store_peer_outcome:
  assumes "run_state (Encrypt env (EncodeToString raw)) v = (Inr enc, v')"
  shows "valid (\<lambda>w. wdb w = d)
    (check ''storing peer''
       (CreatePeer env (p\<lparr>p_PublicKey := EncodeToString (wg_public env raw), p_PrivateKeyEncrypted := enc,
          p_PresharedKeyEncrypted := psk, p_Enabled := True\<rparr>)) (\<lambda>p'.
     check ''syncing interface after adding peer'' (SyncInterface env (p_InterfaceID p)) (\<lambda>_. ok p')))
    (add_outcome env p d)"
proof (rule validI)
  fix w r w' assume d: "wdb w = d"
    and run: "run_state (check ''storing peer''
       (CreatePeer env (p\<lparr>p_PublicKey := EncodeToString (wg_public env raw), p_PrivateKeyEncrypted := enc,
          p_PresharedKeyEncrypted := psk, p_Enabled := True\<rparr>)) (\<lambda>p'.
     check ''syncing interface after adding peer'' (SyncInterface env (p_InterfaceID p)) (\<lambda>_. ok p'))) w = (r, w')"
  let ?p = "p\<lparr>p_PublicKey := EncodeToString (wg_public env raw), p_PrivateKeyEncrypted := enc,
          p_PresharedKeyEncrypted := psk, p_Enabled := True\<rparr>"
  obtain x v1 where c: "run_state (CreatePeer env ?p) w = (x, v1)" by fastforce
  from CreatePeer_cases [OF c] show "add_outcome env p d r w'"
  proof
    assume "(\<exists>e. x = Inl (Wrap ''inserting peer'' e)) \<and> wdb v1 = wdb w"
    with run c d show ?thesis by (auto simp: run_check add_outcome_def)
  next
    assume "\<exists>k now fk. x = Inr (?p\<lparr>p_ID := k, p_CreatedAt := now, p_UpdatedAt := now\<rparr>)
        \<and> (p_ID ?p \<noteq> [] \<longrightarrow> k = p_ID ?p)
        \<and> sql_insert_peer fk (?p\<lparr>p_ID := k, p_CreatedAt := now, p_UpdatedAt := now\<rparr>) (wdb w) = Inr (wdb v1)"
    then obtain k now fk where x: "x = Inr (?p\<lparr>p_ID := k, p_CreatedAt := now, p_UpdatedAt := now\<rparr>)"
      and k: "p_ID p \<noteq> [] \<longrightarrow> k = p_ID p"
      and ins: "sql_insert_peer fk (?p\<lparr>p_ID := k, p_CreatedAt := now, p_UpdatedAt := now\<rparr>) d = Inr (wdb v1)"
      using d by auto
    have q: "added_peer env p (?p\<lparr>p_ID := k, p_CreatedAt := now, p_UpdatedAt := now\<rparr>)"
      using Encrypt_result [OF assms] k by (auto simp: added_peer_def)
    obtain y v2 where sy: "run_state (SyncInterface env (p_InterfaceID p)) v1 = (y, v2)" by fastforce
    have "wdb w' = wdb v1" "r = x \<or> (\<exists>e. r = Inl (Wrap ''syncing interface after adding peer'' e))"
      using run c x sy SyncInterface_wdb [OF sy] by (auto simp: run_check split: sum.splits)
    with q ins x show ?thesis unfolding add_outcome_def
      by (intro disjI2 exI [of _ "?p\<lparr>p_ID := k, p_CreatedAt := now, p_UpdatedAt := now\<rparr>"] exI [of _ fk]) auto
  qed
qed

lemma AddPeer_add_outcome: "valid (\<lambda>w. wdb w = d) (AddPeer env p psk) (add_outcome env p d)"
  unfolding AddPeer_def
proof (rule valid_check_results, goal_cases)
  case (3 r v v')
  show ?case
  proof (cases r)
    case (Some i)
    show ?thesis unfolding Some option.case
    proof (rule valid_check_results, goal_cases)
      case (3 keys v v')
      then obtain raw where keys: "keys = (EncodeToString raw, EncodeToString (wg_public env raw))"
        by (auto simp: GenerateKeyPair_def returns run_ask)
      show ?case unfolding keys prod.case
      proof (rule valid_check_results, goal_cases)
        case (3 enc v v')
        show ?case
          by (rule valid_attempt [where R = "\<lambda>_ w. wdb w = d"], intro keeps_intros, simp add: valid_def add_outcome_Inl,
              rule store_peer_outcome [OF 3])
      qed (auto intro: keeps_intros add_outcome_Inl)
    qed (auto intro: keeps_intros add_outcome_Inl)
  qed (auto simp: valid_def add_outcome_Inl)
qed (auto intro: keeps_intros add_outcome_Inl)


definition broken_net_env :: env where
  "broken_net_env = sample_env\<lparr>net_result := \<lambda>_ _. Inl (Err ''no such device'')\<rparr>"

definition phone :: peer where
  "phone = zero_peer\<lparr>p_InterfaceID := ''wg0'', p_Type := ''client'', p_Name := ''phone'', p_Address := ''10.0.0.9/32''\<rparr>"


lemma Decrypt_Encrypted:
  assumes "age_law env" and "age_seal env t (passphrase env) m = Inr b" and "scrypt_ok env (passphrase env) = Inr ()"
  shows "Decrypt env (EncodeToString b) = Inr m"
proof -
  have "age_header env (passphrase env) b = Inr ()" "age_payload env (passphrase env) b = Inr m"
    using assms(1,2) unfolding age_law_def by blast+
  with assms(3) show ?thesis by (simp add: Decrypt_def DecodeString_Encode)
qed

text \<open>C15. The configuration file of a peer that was just added holds the private key that belongs to
  the public key in the peer's row: what age has sealed into the database comes out as it went in,
  through both layers of base64.\<close>

theorem added_peer_config:
  assumes "run_state (AddPeer env p psk) w = (Inr q, w1)" and "age_law env"
    and "run_state (GenerateConfig env (p_ID q)) w1 = (Inr conf, w2)"
  shows "\<exists>raw params. conf = GeneratePeerConf params \<and> cp_PrivateKey params = EncodeToString raw
    \<and> p_PublicKey q = EncodeToString (wg_public env raw) \<and> cp_Address params = p_Address p"
proof -
  obtain fk where q: "added_peer env p q" and ins: "sql_insert_peer fk q (wdb w) = Inr (wdb w1)"
    using validD [OF AddPeer_add_outcome refl assms(1)] by (auto simp: add_outcome_def)
  have row: "get_peer (p_ID q) (wdb w1) = Some (inserted_peer q)"
    using peers.get_after_ins [OF ins] .
  obtain raw t b where key: "p_PublicKey q = EncodeToString (wg_public env raw)"
    and enc: "age_seal env t (passphrase env) (EncodeToString raw) = Inr b"
    "p_PrivateKeyEncrypted q = EncodeToString b" "scrypt_ok env (passphrase env) = Inr ()"
    using q unfolding added_peer_def by blast
  have dec: "Decrypt env (p_PrivateKeyEncrypted q) = Inr (EncodeToString raw)"
    using Decrypt_Encrypted [OF assms(2) enc(1,3)] enc(2) by simp
  obtain p' v where g: "run_state (GetPeer env (p_ID q)) w1 = (Inr (Some p'), v)"
    using assms(3) by (auto simp: GenerateConfig_def returns)
  have "p' = inserted_peer q" using GetPeer_result [OF g] row by simp
  with assms(3) g dec have "\<exists>params. conf = GeneratePeerConf params
      \<and> cp_PrivateKey params = EncodeToString raw \<and> cp_Address params = p_Address q"
    by (auto simp: GenerateConfig_def returns inserted_peer_def Let_def simp del: EncodeToString.simps split: if_splits)
  moreover have "p_Address q = p_Address p" using q by (simp add: added_peer_def)
  ultimately show ?thesis using key by metis
qed

lemma sample_age_law: "age_law sample_env"
  by (simp add: age_law_def sample_env_def)

definition client_conf :: "(error + string) io" where
  "client_conf = check [] (AddPeer sample_env phone False) (\<lambda>q. GenerateConfig sample_env (p_ID q))"

lemma added_peer_config_witness:
  "\<exists>params. fst (run_state client_conf sample_world) = Inr (GeneratePeerConf params)
     \<and> cp_PrivateKey params = EncodeToString ''k'' \<and> cp_Address params = ''10.0.0.9/32''"
proof -
  have "\<not> isl (fst (run_state client_conf sample_world))" by code_simp
  then obtain conf where "fst (run_state client_conf sample_world) = Inr conf"
    by (cases "fst (run_state client_conf sample_world)") auto
  then obtain w2 where "run_state client_conf sample_world = (Inr conf, w2)" by (rule run_obtain)
  then obtain q w1 where q: "run_state (AddPeer sample_env phone False) sample_world = (Inr q, w1)"
    and c: "run_state (GenerateConfig sample_env (p_ID q)) w1 = (Inr conf, w2)"
    by (auto simp: client_conf_def returns)
  have "map_sum (\<lambda>_. ()) p_PublicKey (fst (run_state (AddPeer sample_env phone False) sample_world))
    = Inr (EncodeToString ''k'')" by code_simp
  then have k: "p_PublicKey q = EncodeToString ''k''" by (simp add: q)
  obtain raw params where p: "conf = GeneratePeerConf params" "cp_PrivateKey params = EncodeToString raw"
    "p_PublicKey q = EncodeToString (wg_public sample_env raw)" "cp_Address params = p_Address phone"
    using added_peer_config [OF q sample_age_law c] by blast
  have "wg_public sample_env raw = raw" by (simp add: sample_env_def)
  with k p(3) have "EncodeToString raw = EncodeToString ''k''" by metis
  moreover have "run_state client_conf sample_world = (Inr conf, w2)"
    using q c by (simp add: client_conf_def run_check)
  moreover have "p_Address phone = ''10.0.0.9/32''" by (simp add: phone_def)
  ultimately show ?thesis using p by (metis fst_conv)
qed

section \<open>Importing an interface\<close>

lemma CreatePeer_bad_type:
  "\<not> peer_type_ok (p_Type p) \<Longrightarrow> \<exists>e. fst (run_state (CreatePeer env p) w) = Inl e"
  by (auto simp: CreatePeer_def fresh_id_def run_simps Let_def sql_insert_peer_def split: option.splits)

lemma attempt_fails1:
  assumes "\<And>v. \<exists>e. fst (run_state m v) = Inl e" shows "\<exists>e. fst (run_state (attempt m fail k) w) = Inl e"
proof -
  obtain e v where "run_state m w = (Inl e, v)" using assms [of w] by (metis prod.collapse)
  then show ?thesis by (simp add: run_attempt)
qed

lemma attempt_fails2:
  assumes "\<And>x v. \<exists>e. fst (run_state (k x) v) = Inl e" shows "\<exists>e. fst (run_state (attempt m fail k) w) = Inl e"
  using assms by (cases "run_state m w"; cases "fst (run_state m w)") (auto simp: run_attempt)

definition import_one :: "env \<Rightarrow> string \<Rightarrow> ParsedPeer \<Rightarrow> (error + unit) io" where
  "import_one env k pp = attempt
     (if pp_PresharedKey pp \<noteq> [] then check ''encrypting preshared key'' (Encrypt env (pp_PresharedKey pp)) ok
      else ok [])
     fail (\<lambda>encPSK.
     attempt (CreatePeer env (import_peer k pp encPSK))
       (\<lambda>e. fail (WrapQ ''storing peer '' (pp_PublicKey pp) e)) (\<lambda>_. ok ()))"

lemma insert_interface_peers: "sql_insert_interface i d = Inr d' \<Longrightarrow> t_peers d' = t_peers d"
  by (auto simp: sql_insert_interface_def split: if_splits)

lemma import_peer_type: "\<not> peer_type_ok (p_Type (import_peer k pp s))"
  by (simp add: import_peer_def zero_peer_def peer_type_ok_def)

lemma import_one_fails: "\<exists>e. fst (run_state (import_one env k pp) w) = Inl e"
  unfolding import_one_def
proof (rule attempt_fails2)
  fix s v
  obtain e v' where "run_state (CreatePeer env (import_peer k pp s)) v = (Inl e, v')"
    using CreatePeer_bad_type [OF import_peer_type, of env k pp s v] by (metis prod.collapse)
  then show "\<exists>e. fst (run_state (attempt (CreatePeer env (import_peer k pp s))
       (\<lambda>e. fail (WrapQ ''storing peer '' (pp_PublicKey pp) e)) (\<lambda>_. ok ())) v) = Inl e"
    by (simp add: run_attempt)
qed

lemma import_one_keeps: "keeps (on_db I) (import_one env k pp)"
proof -
  have "keeps (on_db I) (CreatePeer env (import_peer k pp s))" for s
    by (auto simp: valid_def CreatePeer_def fresh_id_def run_simps Let_def sql_insert_peer_def
        import_peer_type [simplified import_peer_def] import_peer_def zero_peer_def peer_type_ok_def
        split: option.splits)
  then show ?thesis unfolding import_one_def by (intro keeps_intros)
qed

text \<open>C16. \<open>ImportInterface\<close> does not set the type of the peers it creates, and the schema admits only
  \<^verbatim>\<open>client\<close> and \<^verbatim>\<open>site\<close>: a file with at least one peer cannot be imported or adopted. No peer
  of the file is stored, and unless storing the interface itself failed, that stays behind.\<close>

theorem ImportInterface_with_peers_fails:
  assumes "pc_Peers parsed \<noteq> []"
  shows "case run_state (ImportInterface env parsed k t) w of (r, w') \<Rightarrow>
    (\<exists>e e'. r = Inl e \<and> (e = Wrap ''encrypting private key'' e' \<or> e = Wrap ''storing interface'' e'
        \<or> get_iface k (wdb w') \<noteq> None))
    \<and> t_peers (wdb w') = t_peers (wdb w)"
proof -
  let ?i = "\<lambda>enc. zero_iface\<lparr>if_ID := k, if_Type := t, if_ListenPort := pi_ListenPort (pc_Interface parsed),
           if_PrivateKeyEncrypted := enc, if_Address := pi_Address (pc_Interface parsed),
           if_DNS := pi_DNS (pc_Interface parsed),
           if_MTU := (if pi_MTU (pc_Interface parsed) = 0 then 1420 else pi_MTU (pc_Interface parsed)),
           if_PostUp := join nl (pi_PostUp (pc_Interface parsed)),
           if_PostDown := join nl (pi_PostDown (pc_Interface parsed)), if_Enabled := True\<rparr>"
  obtain r1 v1 where e: "run_state (Encrypt env (pi_PrivateKey (pc_Interface parsed))) w = (r1, v1)" by fastforce
  note w1 = Encrypt_wdb [OF e]
  show ?thesis
  proof (cases r1)
    case (Inl x)
    with e w1 show ?thesis by (auto simp: ImportInterface_def run_check)
  next
    case (Inr enc)
    obtain r2 v2 where c: "run_state (CreateInterface env (?i enc)) v1 = (r2, v2)" by fastforce
    show ?thesis
    proof (cases r2)
      case (Inl x)
      with c have "wdb v2 = wdb v1"
        by (auto simp: CreateInterface_def run_simps Let_def split: option.splits sum.splits)
      with Inl Inr e c w1 show ?thesis by (auto simp: ImportInterface_def run_check Let_def)
    next
      case i': (Inr i')
      with c obtain now where "sql_insert_interface ((?i enc)\<lparr>if_CreatedAt := now, if_UpdatedAt := now\<rparr>) (wdb v1)
          = Inr (wdb v2)"
        by (auto simp: CreateInterface_def run_simps Let_def split: option.splits sum.splits)
      then have row: "get_iface k (wdb v2) \<noteq> None" "t_peers (wdb v2) = t_peers (wdb v1)"
        using interfaces.get_after_ins [of "(?i enc)\<lparr>if_CreatedAt := now, if_UpdatedAt := now\<rparr>" "wdb v1" "wdb v2"]
        using insert_interface_peers by auto
      obtain pp ps where pps: "pc_Peers parsed = pp # ps" using assms by (cases "pc_Peers parsed") auto
      have "\<exists>e. fst (run_state (for_each (pc_Peers parsed) (import_one env k)) v2) = Inl e"
        unfolding pps for_each.simps by (rule attempt_fails1) (rule import_one_fails)
      then obtain e v3 where f: "run_state (for_each (pc_Peers parsed) (import_one env k)) v2 = (Inl e, v3)"
        by (metis prod.collapse)
      have "keeps (on_db (\<lambda>d. d = wdb v2)) (for_each (pc_Peers parsed) (import_one env k))"
        by (intro keeps_intros import_one_keeps)
      with f have "wdb v3 = wdb v2" by (auto dest: validD)
      moreover have "run_state (ImportInterface env parsed k t) w = (Inl e, v3)"
        using Inr e c i' f unfolding ImportInterface_def import_one_def
        by (simp add: run_check Let_def run_attempt)
      ultimately show ?thesis using row w1 by auto
    qed
  qed
qed

definition one_peer_config :: ParsedConfig where
  "one_peer_config = \<lparr>pc_Interface = \<lparr>pi_PrivateKey = ''key'', pi_Address = ''10.1.0.1/24'', pi_ListenPort = 51821,
       pi_DNS = [], pi_MTU = 0, pi_PostUp = [], pi_PostDown = []\<rparr>,
     pc_Peers = [\<lparr>pp_Name = [], pp_PublicKey = ''k2'', pp_PresharedKey = [], pp_AllowedIPs = ''10.1.0.2/32'',
       pp_Endpoint = [], pp_PersistentKeepalive = 0\<rparr>]\<rparr>"

lemma ImportInterface_with_peers_fails_witness:
  "case run_state (ImportInterface sample_env one_peer_config ''wg1'' ''client-access'') sample_world of (r, w') \<Rightarrow>
     isl r \<and> map p_ID (t_peers (wdb w')) = [''p1''] \<and> map if_ID (t_interfaces (wdb w')) = [''wg0'', ''wg1'']"
proof -
  obtain r w' where r: "run_state (ImportInterface sample_env one_peer_config ''wg1'' ''client-access'') sample_world
    = (r, w')" by fastforce
  have "pc_Peers one_peer_config \<noteq> []" by (simp add: one_peer_config_def)
  from ImportInterface_with_peers_fails [OF this, where env = sample_env and k = "''wg1''" and t = "''client-access''" and w = sample_world]
  have "isl r" "t_peers (wdb w') = t_peers sample_db" by (auto simp: r)
  moreover have "map if_ID (t_interfaces (wdb (snd (run_state
      (ImportInterface sample_env one_peer_config ''wg1'' ''client-access'') sample_world)))) = [''wg0'', ''wg1'']"
    by code_simp
  ultimately show ?thesis by (simp add: r sample_db_def)
qed

section \<open>Status\<close>

lemma sql_update_interface_row:
  "sql_update_interface i d = Inr d' \<Longrightarrow> get_iface (if_ID i) d = Some q \<Longrightarrow>
   get_iface j d' = (if j = if_ID i then Some (i\<lparr>if_CreatedAt := if_CreatedAt q\<rparr>) else get_iface j d)"
  by (auto simp: sql_update_interface_def get_iface_def row_set_rows split: if_splits)

lemma live_status_simps:
  "st_Peer (live_status now lv p) = p" "st_Peer (db_status p) = p" "\<not> st_Connected (db_status p)"
  "st_Connected (live_status now lv p) \<longleftrightarrow> (\<exists>l. lv (p_PublicKey p) = Some l \<and> lp_LastHandshakeTime l \<noteq> 0
     \<and> time_sub now (lp_LastHandshakeTime l) < 135 * second)"
  by (simp_all add: live_status_def db_status_def is_zero_def handshake_threshold_def split: option.split)

text \<open>The status lists the peers of the interface in order. A peer counts as connected exactly if the
  running device reports a handshake for its public key that is less than 135 seconds old;
  with several reports for one key the last one counts.\<close>

lemma GetStatus_connected:
  assumes "run_state (GetStatus env k) w = (Inr st, w')"
  shows "map st_Peer (is_Peers st) = peers_of k (wdb w) \<and> wdb w' = wdb w
    \<and> (\<exists>now lives. \<forall>ps \<in> set (is_Peers st). st_Connected ps \<longleftrightarrow>
         (\<exists>l. live_by_key lives (p_PublicKey (st_Peer ps)) = Some l \<and> lp_LastHandshakeTime l \<noteq> 0
            \<and> time_sub now (lp_LastHandshakeTime l) < 135 * second))"
proof -
  obtain i v1 ps v2 where l: "run_state (ListPeers env k) v1 = (Inr ps, v2)"
    and g: "run_state (GetInterface env k) w = (Inr (Some i), v1)"
    using assms by (auto simp: GetStatus_def returns)
  have ps: "ps = peers_of k (wdb w)"
    using GetInterface_result [OF g] ListPeers_result [OF l] by simp
  have "wdb w' = wdb w"
    using validD [OF keeps_manager_reads(3), of "\<lambda>d. d = wdb w" w env k "Inr st" w'] assms by simp
  moreover have "is_Peers st = map db_status ps
      \<or> (\<exists>now lives. is_Peers st = map (live_status now (live_by_key lives)) ps)"
    using assms g l
    by (auto simp: GetStatus_def run_simps split: sum.splits if_splits) blast+
  then have "map st_Peer (is_Peers st) = ps \<and> (\<exists>now lives. \<forall>ps \<in> set (is_Peers st). st_Connected ps \<longleftrightarrow>
         (\<exists>l. live_by_key lives (p_PublicKey (st_Peer ps)) = Some l \<and> lp_LastHandshakeTime l \<noteq> 0
            \<and> time_sub now (lp_LastHandshakeTime l) < 135 * second))"
  proof
    assume "is_Peers st = map db_status ps"
    then show ?thesis
      by (auto simp: live_status_simps live_by_key_def comp_def intro!: exI [of _ "[]"])
  next
    assume "\<exists>now lives. is_Peers st = map (live_status now (live_by_key lives)) ps"
    then obtain now lives where "is_Peers st = map (live_status now (live_by_key lives)) ps" by blast
    then show ?thesis
      by (auto simp: live_status_simps comp_def intro!: exI [of _ now] exI [of _ lives])
  qed
  ultimately show ?thesis using ps by simp
qed

text \<open>An interface that was stopped stays down: its row is disabled, and the next sync, whoever asks
  for it, only takes the interface down again and brings nothing up.\<close>

lemma stopped_interface_stays_down:
  assumes "run_state (StopInterface env k) w = (Inr u, w1)" and "run_state (SyncInterface env k) w1 = (Inr v, w2)"
  shows "\<exists>i. get_iface k (wdb w1) = Some i \<and> \<not> if_Enabled i \<and> net_log w2 = net_log w1 @ [NetSetDown k]"
proof -
  let ?down = "attempt (net_call env (NetQuickDown k))
              (\<lambda>_. check ''bringing down interface'' (net_call env (NetSetDown k)) (\<lambda>_. ok ()))
              (\<lambda>_. ok ()) :: (error + unit) io"
  obtain i v1 v2 i' where g: "run_state (GetInterface env k) w = (Inr (Some i), v1)"
    and d: "run_state ?down v1 = (Inr (), v2)"
    and up: "run_state (UpdateInterface env (i\<lparr>if_Enabled := False\<rparr>)) v2 = (Inr i', w1)"
    using assms(1) by (auto simp: StopInterface_def returns)
  have "keeps (on_db (\<lambda>d. d = wdb v1)) ?down" by (intro keeps_intros)
  with d have v2: "wdb v2 = wdb v1" by (auto dest: validD)
  have i: "get_iface k (wdb w) = Some i" "wdb v1 = wdb w" using GetInterface_result [OF g] by auto
  then have k: "if_ID i = k" by (auto simp: get_iface_def dest: row_Some)
  from up obtain now where "sql_update_interface (i\<lparr>if_Enabled := False, if_UpdatedAt := now\<rparr>) (wdb v2) = Inr (wdb w1)"
    by (auto simp: UpdateInterface_def run_simps returns Let_def split: option.splits sum.splits)
  then have "get_iface k (wdb w1) = Some (i\<lparr>if_Enabled := False, if_UpdatedAt := now\<rparr>)"
    using sql_update_interface_row i k v2 by fastforce
  with SyncInterface_returns [OF assms(2)] show ?thesis by auto
qed

lemma stopped_interface_stays_down_witness:
  "\<exists>w1 w2. run_state (StopInterface sample_env ''wg0'') sample_world = (Inr (), w1)
     \<and> run_state (SyncInterface sample_env ''wg0'') w1 = (Inr (), w2)
     \<and> net_log w2 = [NetQuickDown ''wg0'', NetSetDown ''wg0'']"
proof -
  have "fst (run_state (StopInterface sample_env ''wg0'') sample_world) = Inr ()" by code_simp
  then obtain w1 where 1: "run_state (StopInterface sample_env ''wg0'') sample_world = (Inr (), w1)"
    by (rule run_obtain)
  have "fst (run_state (SyncInterface sample_env ''wg0'') (snd (run_state (StopInterface sample_env ''wg0'') sample_world)))
    = Inr ()" by code_simp
  then obtain w2 where 2: "run_state (SyncInterface sample_env ''wg0'') w1 = (Inr (), w2)"
    by (auto simp: 1 intro: run_obtain)
  have "net_log (snd (run_state (StopInterface sample_env ''wg0'') sample_world)) = [NetQuickDown ''wg0'']"
    by code_simp
  with stopped_interface_stays_down [OF 1 2] 1 2 show ?thesis by auto
qed

lemma GetStatus_connected_witness:
  "\<exists>st. fst (run_state (GetStatus (sample_env\<lparr>wg_device := \<lambda>_ _. Inr
      [\<lparr>lp_PublicKey = ''k1'', lp_LastHandshakeTime = 1, lp_ReceiveBytes = 0, lp_TransmitBytes = 0, lp_Endpoint = None\<rparr>]\<rparr>)
      ''wg0'') sample_world) = Inr st \<and> map st_Peer (is_Peers st) = [sample_peer] \<and> map st_Connected (is_Peers st) = [True]"
proof -
  let ?m = "GetStatus (sample_env\<lparr>wg_device := \<lambda>_ _. Inr
      [\<lparr>lp_PublicKey = ''k1'', lp_LastHandshakeTime = 1, lp_ReceiveBytes = 0, lp_TransmitBytes = 0, lp_Endpoint = None\<rparr>]\<rparr>)
      ''wg0''"
  have c: "map_sum (\<lambda>_. ()) (\<lambda>st. map st_Connected (is_Peers st)) (fst (run_state ?m sample_world)) = Inr [True]"
    by code_simp
  then obtain st where st: "fst (run_state ?m sample_world) = Inr st" "map st_Connected (is_Peers st) = [True]"
    by (cases "fst (run_state ?m sample_world)") auto
  then obtain w' where "run_state ?m sample_world = (Inr st, w')" by (metis run_obtain)
  from GetStatus_connected [OF this] have "map st_Peer (is_Peers st) = peers_of ''wg0'' sample_db" by simp
  moreover have "peers_of ''wg0'' sample_db = [sample_peer]" by (simp add: peers_of_def sample_db_def)
  ultimately show ?thesis using st by auto
qed

end
