(* ===== verification/PollerFacts.thy ===== *)
theory PollerFacts
  imports Samples
begin

text \<open>
  What the poller records: connection logs, alerts and its own snapshots over a series of
  observations of a peer; and what it can undo, since it writes back rows it has read before.
\<close>

section \<open>One observation\<close>

definition key_of :: "PeerStatus \<Rightarrow> string" where "key_of ps = p_PublicKey (st_Peer ps)"

text \<open>The rows of the connection log that belong to a peer, as their events.\<close>

definition events_of :: "string \<Rightarrow> db \<Rightarrow> string list" where
  "events_of x d = map cl_Event (filter (\<lambda>l. cl_PeerID l = x) (t_logs d))"

lemma UpdatePeer_logs:
  "run_state (UpdatePeer env p) w = (r, v) \<Longrightarrow> t_logs (wdb v) = t_logs (wdb w)
    \<and> map p_ID (t_peers (wdb v)) = map p_ID (t_peers (wdb w)) \<and> last_state v = last_state w
    \<and> alerts v = alerts w"
  by (auto simp: UpdatePeer_def run_simps Let_def sql_update_peer_def map_set_rows
      split: option.splits sum.splits if_splits)

lemma connected_since_frame:
  "run_state (connected_since env prev seeded ps) w = (t, v) \<Longrightarrow> wdb v = wdb w \<and> last_state v = last_state w
    \<and> alerts v = alerts w"
  by (auto simp: connected_since_def Let_def run_simps split: if_splits option.splits)

lemma raise_alert_frame:
  "run_state (raise_alert env i ps e t) w = (u, v) \<Longrightarrow> wdb v = wdb w \<and> last_state v = last_state w"
  by (auto simp: raise_alert_def run_simps split: if_splits)

lemma CreateConnectionLog_ok:
  assumes "\<And>t. db_fault env t = None" and "event_ok (cl_Event l)" and "has_row p_ID (cl_PeerID l) (t_peers (wdb w))"
    and "run_state (CreateConnectionLog env l) w = (r, v)"
  shows "events_of x (wdb v) = events_of x (wdb w) @ (if cl_PeerID l = x then [cl_Event l] else [])
    \<and> t_peers (wdb v) = t_peers (wdb w) \<and> last_state v = last_state w \<and> alerts v = alerts w"
  using assms
  by (auto simp: CreateConnectionLog_def run_simps Let_def sql_insert_log_def events_of_def split: if_splits)

text \<open>The event that an observation of connectedness \<open>c\<close> after \<open>prev\<close> records.\<close>

definition change :: "bool option \<Rightarrow> bool \<Rightarrow> string list" where
  "change prev c = (if prev = Some (\<not> c) then [if c then ''connected'' else ''disconnected''] else [])"

definition was_connected :: "world \<Rightarrow> string \<Rightarrow> bool option" where
  "was_connected w k = map_option sn_Connected (last_state w k)"

text \<open>The three parts of \<open>poll_peer\<close> that touch the world.\<close>

definition record_change :: "env \<Rightarrow> iface \<Rightarrow> PeerStatus \<Rightarrow> peer_snapshot option \<Rightarrow> unit io" where
  "record_change env i ps prev = (case prev of
           None \<Rightarrow> State_Monad.return ()
         | Some s \<Rightarrow>
             if sn_Connected s \<noteq> st_Connected ps then
               let l = transition_log (if_ID i) ps in
               ignore (CreateConnectionLog env l)
                 (raise_alert env i ps (cl_Event l) (sn_ConnectedSince s))
             else State_Monad.return ())"

definition store_counters :: "env \<Rightarrow> PeerStatus \<Rightarrow> peer_snapshot option \<Rightarrow> unit io" where
  "store_counters env ps prev =
     (let (rx, tx) = (case prev of None \<Rightarrow> (0, 0) | Some s \<Rightarrow> (sn_TransferRx s, sn_TransferTx s)) in
         if st_TransferRx ps \<noteq> rx \<or> st_TransferTx ps \<noteq> tx
         then ignore (UpdatePeer env (polled_peer ps)) (State_Monad.return ())
         else State_Monad.return ())"

definition snapshot_of :: "PeerStatus \<Rightarrow> time \<Rightarrow> peer_snapshot" where
  "snapshot_of ps since = \<lparr>sn_Connected = st_Connected ps, sn_ConnectedSince = since,
     sn_TransferRx = st_TransferRx ps, sn_TransferTx = st_TransferTx ps, sn_Endpoint = st_Endpoint ps\<rparr>"

lemma poll_peer_parts:
  assumes "run_state (poll_peer env i ps) w = (u, w')"
  shows "\<exists>since v1 v2 v3.
    run_state (connected_since env (last_state w (key_of ps)) (seed_connected w (p_ID (st_Peer ps))) ps) w = (since, v1)
    \<and> run_state (record_change env i ps (last_state w (key_of ps))) v1 = ((), v2)
    \<and> run_state (store_counters env ps (last_state w (key_of ps))) v2 = ((), v3)
    \<and> w' = v3\<lparr>last_state := (last_state v3)(key_of ps \<mapsto> snapshot_of ps since)\<rparr>"
  using assms
  unfolding poll_peer_def Let_def [of "key_of ps"] record_change_def [symmetric] store_counters_def [symmetric]
    key_of_def [symmetric] snapshot_of_def [symmetric]
  by (auto simp: run_gets run_set_memory returns)

lemma record_change_frame:
  assumes "run_state (record_change env i ps prev) w = (u, v)"
    and "\<And>t. db_fault env t = None" and "has_row p_ID (p_ID (st_Peer ps)) (t_peers (wdb w))"
  shows "events_of (p_ID (st_Peer ps)) (wdb v)
      = events_of (p_ID (st_Peer ps)) (wdb w) @ change (map_option sn_Connected prev) (st_Connected ps)
    \<and> t_peers (wdb v) = t_peers (wdb w) \<and> last_state v = last_state w"
proof (cases "\<exists>s. prev = Some s \<and> sn_Connected s \<noteq> st_Connected ps")
  case True
  then obtain s where s: "prev = Some s" "sn_Connected s \<noteq> st_Connected ps" by blast
  let ?l = "transition_log (if_ID i) ps"
  obtain r v1 where c: "run_state (CreateConnectionLog env ?l) w = (r, v1)" by fastforce
  have a: "run_state (raise_alert env i ps (cl_Event ?l) (sn_ConnectedSince s)) v1 = (u, v)"
    using assms(1) s c by (simp add: record_change_def Let_def run_ignore)
  have "event_ok (cl_Event ?l)" "cl_PeerID ?l = p_ID (st_Peer ps)"
    by (auto simp: transition_log_def event_ok_def)
  with CreateConnectionLog_ok [OF assms(2) _ _ c] raise_alert_frame [OF a] assms(3)
  show ?thesis using s by (auto simp: change_def transition_log_def)
next
  case False
  with assms(1) show ?thesis by (auto simp: record_change_def change_def split: option.splits if_splits)
qed

lemma store_counters_frame:
  "run_state (store_counters env ps prev) w = (u, v) \<Longrightarrow> t_logs (wdb v) = t_logs (wdb w)
    \<and> map p_ID (t_peers (wdb v)) = map p_ID (t_peers (wdb w)) \<and> last_state v = last_state w
    \<and> alerts v = alerts w"
  by (auto simp: store_counters_def run_ignore dest: UpdatePeer_logs split: if_splits prod.splits option.splits)
    (metis UpdatePeer_logs prod.collapse)+

lemma poll_peer_step:
  assumes "\<And>t. db_fault env t = None" and "has_row p_ID (p_ID (st_Peer ps)) (t_peers (wdb w))"
    and "run_state (poll_peer env i ps) w = (u, w')"
  shows "events_of (p_ID (st_Peer ps)) (wdb w')
      = events_of (p_ID (st_Peer ps)) (wdb w) @ change (was_connected w (key_of ps)) (st_Connected ps)
    \<and> was_connected w' (key_of ps) = Some (st_Connected ps)
    \<and> map p_ID (t_peers (wdb w')) = map p_ID (t_peers (wdb w))"
proof -
  obtain since v1 v2 v3 where 1: "run_state (connected_since env (last_state w (key_of ps))
      (seed_connected w (p_ID (st_Peer ps))) ps) w = (since, v1)"
    and 2: "run_state (record_change env i ps (last_state w (key_of ps))) v1 = ((), v2)"
    and 3: "run_state (store_counters env ps (last_state w (key_of ps))) v2 = ((), v3)"
    and w': "w' = v3\<lparr>last_state := (last_state v3)(key_of ps \<mapsto> snapshot_of ps since)\<rparr>"
    using poll_peer_parts [OF assms(3)] by blast
  have "wdb v1 = wdb w" using connected_since_frame [OF 1] by simp
  with record_change_frame [OF 2 assms(1)] store_counters_frame [OF 3] assms(2)
  show ?thesis by (auto simp: w' was_connected_def snapshot_of_def events_of_def)
qed

section \<open>A series of observations\<close>

fun transitions :: "bool option \<Rightarrow> bool list \<Rightarrow> string list" where
  "transitions prev [] = []"
| "transitions prev (c # cs) = change prev c @ transitions (Some c) cs"

lemma poll_series:
  assumes "\<And>t. db_fault env t = None" and "\<And>ps. ps \<in> set obs \<Longrightarrow> p_ID (st_Peer ps) = x \<and> key_of ps = k"
    and "has_row p_ID x (t_peers (wdb w))"
    and "run_state (fold_act obs (\<lambda>ps _. poll_peer env i ps) ()) w = (u, w')"
  shows "events_of x (wdb w') = events_of x (wdb w) @ transitions (was_connected w k) (map st_Connected obs)"
  using assms(2-4)
proof (induction obs arbitrary: w)
  case (Cons ps obs)
  obtain v where 1: "run_state (poll_peer env i ps) w = ((), v)"
    and 2: "run_state (fold_act obs (\<lambda>ps _. poll_peer env i ps) ()) v = (u, w')"
    using Cons.prems(3) by (auto simp: returns)
  have x: "p_ID (st_Peer ps) = x" "key_of ps = k" using Cons.prems(1) by auto
  note step = poll_peer_step [OF assms(1) _ 1, unfolded x, OF Cons.prems(2)]
  have "has_row p_ID x (t_peers (wdb v))"
    using step Cons.prems(2) unfolding has_row_iff by (metis list.set_map)
  with Cons.IH [OF _ this 2] Cons.prems(1) step show ?case by simp
qed simp

text \<open>C17. Over a series of observations of a peer, the connection log gains exactly the changes between
  connected and disconnected: the first observation after a start records nothing, an unchanged
  state records nothing, and every change records one event that names the new state.\<close>

theorem poll_logs_transitions:
  assumes "\<And>t. db_fault env t = None" and "\<And>ps. ps \<in> set obs \<Longrightarrow> p_ID (st_Peer ps) = x \<and> p_PublicKey (st_Peer ps) = k"
    and "get_peer x (wdb w) \<noteq> None" and "last_state w k = None"
    and "run_state (fold_act obs (\<lambda>ps _. poll_peer env i ps) ()) w = (u, w')"
  shows "events_of x (wdb w') = events_of x (wdb w) @ transitions None (map st_Connected obs)"
proof -
  have "has_row p_ID x (t_peers (wdb w))"
    using assms(3) row_taken [of p_ID x "t_peers (wdb w)"] by (simp add: get_peer_def)
  moreover have "was_connected w k = None" using assms(4) by (simp add: was_connected_def)
  ultimately show ?thesis
    using poll_series [OF assms(1) _ _ assms(5), of x k] assms(2) by (simp add: key_of_def)
qed

definition observed :: "bool \<Rightarrow> int \<Rightarrow> PeerStatus" where
  "observed c rx = (db_status sample_peer)\<lparr>st_Connected := c, st_LastHandshake := 5, st_TransferRx := rx\<rparr>"

lemma poll_logs_transitions_witness:
  "events_of ''p1'' (wdb (snd (run_state (fold_act [observed True 1, observed True 2, observed False 2, observed True 3]
     (\<lambda>ps _. poll_peer sample_env sample_iface ps) ()) sample_world))) = [''disconnected'', ''connected'']"
proof -
  let ?obs = "[observed True 1, observed True 2, observed False 2, observed True 3]"
  obtain u w' where r: "run_state (fold_act ?obs (\<lambda>ps _. poll_peer sample_env sample_iface ps) ()) sample_world = (u, w')"
    by (rule prod.exhaust)
  have "events_of ''p1'' (wdb w') = events_of ''p1'' (wdb sample_world) @ transitions None (map st_Connected ?obs)"
    by (rule poll_logs_transitions [OF _ _ _ _ r, where k = "''k1''"])
      (auto simp: observed_def db_status_def sample_peer_def sample_world_def world_of_def initial_world_def)
  also have "\<dots> = [''disconnected'', ''connected'']"
    by (simp add: events_of_def observed_def db_status_def sample_db_def empty_db_def change_def)
  finally show ?thesis unfolding r snd_conv .
qed

section \<open>Snapshots and alerts\<close>

lemma raise_alert_alerts:
  assumes "run_state (raise_alert env i ps e t) w = (u, v)"
  shows "\<exists>new. alerts v = alerts w @ new \<and> length new = (if shouldAlert e (st_Peer ps) then 1 else 0)
    \<and> (\<forall>a \<in> set new. al_Event a = e \<and> p_ID (al_Peer a) = p_ID (st_Peer ps) \<and> al_Iface a = i)"
  using assms by (auto simp: raise_alert_def run_simps split: if_splits)

lemma CreateConnectionLog_frame:
  "run_state (CreateConnectionLog env l) w = (r, v) \<Longrightarrow> last_state v = last_state w \<and> alerts v = alerts w"
  by (auto simp: CreateConnectionLog_def run_simps Let_def split: if_splits option.splits sum.splits)

lemma record_change_alerts:
  assumes "run_state (record_change env i ps prev) w = (u, v)"
  shows "last_state v = last_state w \<and> (\<exists>new. alerts v = alerts w @ new
    \<and> map al_Event new = filter (\<lambda>e. shouldAlert e (st_Peer ps)) (change (map_option sn_Connected prev) (st_Connected ps))
    \<and> (\<forall>a \<in> set new. p_ID (al_Peer a) = p_ID (st_Peer ps) \<and> al_Iface a = i))"
proof (cases "\<exists>s. prev = Some s \<and> sn_Connected s \<noteq> st_Connected ps")
  case True
  then obtain s where s: "prev = Some s" "sn_Connected s \<noteq> st_Connected ps" by blast
  let ?l = "transition_log (if_ID i) ps"
  obtain r v1 where c: "run_state (CreateConnectionLog env ?l) w = (r, v1)" by fastforce
  have a: "run_state (raise_alert env i ps (cl_Event ?l) (sn_ConnectedSince s)) v1 = (u, v)"
    using assms(1) s c by (simp add: record_change_def Let_def run_ignore)
  have "change (map_option sn_Connected prev) (st_Connected ps) = [cl_Event ?l]"
    using s by (auto simp: change_def transition_log_def)
  moreover obtain new where "alerts v = alerts v1 @ new"
    "length new = (if shouldAlert (cl_Event ?l) (st_Peer ps) then 1 else 0)"
    "\<forall>a \<in> set new. al_Event a = cl_Event ?l \<and> p_ID (al_Peer a) = p_ID (st_Peer ps) \<and> al_Iface a = i"
    using raise_alert_alerts [OF a] by blast
  ultimately show ?thesis
    using CreateConnectionLog_frame [OF c] raise_alert_frame [OF a]
    by (intro conjI exI [of _ new]) (auto simp: length_Suc_conv split: if_splits)
next
  case False
  with assms show ?thesis by (auto simp: record_change_def change_def split: option.splits if_splits)
qed

lemma connected_since_result:
  assumes "run_state (connected_since env prev seeded ps) w = (t, v)"
  shows "(\<not> st_Connected ps \<longrightarrow> t = 0)
    \<and> (\<forall>s. prev = Some s \<and> sn_Connected s \<and> st_Connected ps \<longrightarrow> t = sn_ConnectedSince s)"
  using assms by (auto simp: connected_since_def split: option.splits)



section \<open>Rows read before\<close>

lemma update_back:
  assumes "constraints_ok d" and "get_peer k d = Some q" and "has_row if_ID (p_InterfaceID q) (t_interfaces d)"
    and "p_ID p = k" and "p_PublicKey p = p_PublicKey q" and "p_Type p = p_Type q" and "p_InterfaceID p = p_InterfaceID q"
  shows "\<exists>d'. sql_update_peer fk p d = Inr d'"
proof -
  have q: "q \<in> set (t_peers d)" "p_ID q = k" using assms(2) by (auto simp: get_peer_def dest: row_Some)
  have "r = q" if "r \<in> set (t_peers d)" "p_PublicKey r = p_PublicKey q" for r
    using that q assms(1) by (auto simp: constraints_ok_def peers_ok_def intro: distinct_map_inj)
  moreover have "peer_type_ok (p_Type q)" using q assms(1) by (auto simp: constraints_ok_def peers_ok_def)
  ultimately show ?thesis using assms q by (auto simp: sql_update_peer_def list_ex_iff)
qed

text \<open>C19. The poller writes back whole rows that it read at the beginning of its cycle. If a peer is
  disabled between the read and the write, and its counters have moved, the write enables the
  peer again: the disable is lost.\<close>

theorem stale_poll_enables_peer:
  assumes "run_state (DisablePeer env k) w = (Inr d, w1)"
    and "get_peer k (wdb w) = Some (st_Peer ps)" and "p_Enabled (st_Peer ps)"
    and "constraints_ok (wdb w)" and "refs_ok (wdb w)"
    and "\<And>t. db_fault env t = None" and "last_state w1 (p_PublicKey (st_Peer ps)) = None" and "st_TransferRx ps \<noteq> 0"
    and "run_state (poll_peer env i ps) w1 = (u, w2)"
  shows "(\<exists>q. get_peer k (wdb w1) = Some q \<and> \<not> p_Enabled q) \<and> (\<exists>q. get_peer k (wdb w2) = Some q \<and> p_Enabled q)"
proof -
  let ?p = "st_Peer ps"
  obtain now fk v where up: "sql_update_peer fk (?p\<lparr>p_Enabled := False, p_UpdatedAt := now\<rparr>) (wdb w) = Inr (wdb v)"
    and sy: "run_state (SyncInterface env (p_InterfaceID ?p)) v = (Inr d, w1)"
    using setPeerEnabled_returns [of env k False w d w1] assms(1,2) unfolding DisablePeer_def by auto
  let ?q = "?p\<lparr>p_Enabled := False, p_UpdatedAt := now, p_CreatedAt := p_CreatedAt ?p\<rparr>"
  have k: "p_ID ?p = k" using assms(2) by (auto simp: get_peer_def dest: row_Some)
  have w1: "wdb w1 = wdb v" using SyncInterface_wdb [OF sy] .
  note row = sql_update_peer_row [OF up, of ?p]
  have g1: "get_peer k (wdb w1) = Some ?q" using row(2) [of k] assms(2) k w1 by simp
  have ok1: "constraints_ok (wdb w1)" using constraints_update_peer [OF assms(4) up] w1 by simp
  have fk1: "has_row if_ID (p_InterfaceID ?q) (t_interfaces (wdb w1))"
    using assms(2,5) row(1) k w1 by (auto simp: refs_ok_def get_peer_def dest: row_Some)
  obtain since v1 v2 v3 where 1: "run_state (connected_since env None (seed_connected w1 (p_ID ?p)) ps) w1 = (since, v1)"
    and 2: "run_state (record_change env i ps None) v1 = ((), v2)"
    and 3: "run_state (store_counters env ps None) v2 = ((), v3)"
    and w2: "wdb w2 = wdb v3"
    using poll_peer_parts [OF assms(9)] assms(7) unfolding key_of_def by auto
  have v2: "wdb v2 = wdb w1" using connected_since_frame [OF 1] 2 by (simp add: record_change_def)
  have succeeds: "\<exists>d'. sql_update_peer f ((polled_peer ps)\<lparr>p_UpdatedAt := n\<rparr>) (wdb w1) = Inr d'" for f n
    using k by (intro update_back [OF ok1 g1 fk1]) (simp_all add: polled_peer_def)
  obtain t fk' where up2: "sql_update_peer fk' ((polled_peer ps)\<lparr>p_UpdatedAt := t\<rparr>) (wdb w1) = Inr (wdb v3)"
    using 3 assms(6,8) v2 succeeds [of "fk_on env (Suc (tick v2))" "now_at env (tick v2)"]
    by (auto simp: store_counters_def run_simps UpdatePeer_def Let_def)
  have "get_peer k (wdb w2) = Some ((polled_peer ps)\<lparr>p_UpdatedAt := t, p_CreatedAt := p_CreatedAt ?q\<rparr>)"
    using sql_update_peer_row(2) [OF up2, of ?q] g1 k w2 by (simp add: polled_peer_def)
  with g1 assms(3) show ?thesis by (simp add: polled_peer_def)
qed

lemma stale_poll_enables_peer_witness:
  "\<exists>q. get_peer ''p1'' (wdb (snd (run_state (poll_peer sample_env sample_iface (observed True 1))
      (snd (run_state (DisablePeer sample_env ''p1'') sample_world))))) = Some q \<and> p_Enabled q"
proof -
  have "fst (run_state (DisablePeer sample_env ''p1'') sample_world) = Inr ()"
    "last_state (snd (run_state (DisablePeer sample_env ''p1'') sample_world)) ''k1'' = None" by code_simp+
  then obtain w1 where r: "run_state (DisablePeer sample_env ''p1'') sample_world = (Inr (), w1)"
    and l: "last_state w1 ''k1'' = None" by (metis run_obtain snd_conv)
  obtain u w2 where p: "run_state (poll_peer sample_env sample_iface (observed True 1)) w1 = (u, w2)"
    by (rule prod.exhaust)
  have o: "st_Peer (observed True 1) = sample_peer" "st_TransferRx (observed True 1) \<noteq> 0"
    by (simp_all add: observed_def db_status_def)
  have e: "p_Enabled sample_peer" "p_PublicKey sample_peer = ''k1''" by (simp_all add: sample_peer_def)
  have "\<exists>q. get_peer ''p1'' (wdb w2) = Some q \<and> p_Enabled q"
    by (rule stale_poll_enables_peer [OF r _ _ _ _ _ _ o(2) p, THEN conjunct2])
      (simp_all add: o e l sample_db_ok)
  then show ?thesis by (simp add: r p)
qed

end
