(* ===== verification/LogFacts.thy ===== *)
theory LogFacts
  imports Samples
begin

text \<open>The connection logs: durations on a page, the connections that are open, and paging.\<close>

section \<open>Durations\<close>

lemma computeLogDurations_nth:
  "j < length ls \<Longrightarrow> computeLogDurations ls ! j =
     (if cl_Event (ls ! j) \<noteq> ''disconnected'' then ls ! j
      else case List.find (\<lambda>m. cl_PeerID m = cl_PeerID (ls ! j) \<and> cl_Event m = ''connected'') (drop (Suc j) ls) of
             None \<Rightarrow> ls ! j
           | Some m \<Rightarrow> (ls ! j)\<lparr>cl_Duration := whole_seconds (time_sub (cl_RecordedAt (ls ! j)) (cl_RecordedAt m))\<rparr>)"
proof (induction ls arbitrary: j rule: computeLogDurations.induct)
  case (2 l ls)
  show ?case
  proof (cases j)
    case 0
    show ?thesis unfolding 0 by (simp split: option.split)
  next
    case (Suc i)
    with 2 have "i < length ls" by simp
    from 2(1) [OF this] show ?thesis
      unfolding Suc computeLogDurations.simps nth_Cons_Suc drop_Suc_Cons .
  qed
qed simp

lemma length_computeLogDurations [simp]: "length (computeLogDurations ls) = length ls"
  by (induction ls rule: computeLogDurations.induct) auto

lemma find_take: "List.find P (take n xs) = Some x \<Longrightarrow> List.find P xs = Some x"
  by (induction xs arbitrary: n) (auto simp: take_Cons split: nat.splits if_splits)


definition two_logs :: "conn_log list" where
  "two_logs = [zero_log\<lparr>cl_PeerID := ''p'', cl_Event := ''disconnected'', cl_RecordedAt := 90 * second\<rparr>,
     zero_log\<lparr>cl_PeerID := ''p'', cl_Event := ''connected'', cl_RecordedAt := 30 * second\<rparr>]"


section \<open>Open connections\<close>

text \<open>The latest entry of a peer; entries are appended with increasing identifiers.\<close>

definition last_entry :: "string \<Rightarrow> db \<Rightarrow> conn_log option" where
  "last_entry x d = List.find (\<lambda>l. cl_PeerID l = x) (rev (t_logs d))"

lemma find_rev_greatest:
  "sorted_wrt (<) (map cl_ID t) \<Longrightarrow> List.find P (rev t) = Some l \<longleftrightarrow>
     l \<in> set t \<and> P l \<and> (\<forall>m \<in> set t. P m \<longrightarrow> cl_ID m \<le> cl_ID l)"
proof (induction t rule: rev_induct)
  case (snoc a t)
  have lt: "\<forall>m \<in> set t. cl_ID m < cl_ID a" and s: "sorted_wrt (<) (map cl_ID t)"
    using snoc.prems by (auto simp: sorted_wrt_append)
  show ?case
  proof (cases "P a")
    case True
    with lt show ?thesis by fastforce
  next
    case False
    with snoc.IH [OF s] show ?thesis by auto
  qed
qed simp

lemma last_entry_Some:
  assumes "logs_ok n (t_logs d)"
  shows "last_entry x d = Some l \<longleftrightarrow> l \<in> set (t_logs d) \<and> cl_PeerID l = x
    \<and> (\<forall>m \<in> set (t_logs d). cl_PeerID m = x \<longrightarrow> cl_ID m \<le> cl_ID l)"
  using assms unfolding last_entry_def logs_ok_def by (simp add: find_rev_greatest)

lemma open_connections_iff:
  assumes "logs_ok n (t_logs d)"
  shows "l \<in> set (open_connections d) \<longleftrightarrow> last_entry (cl_PeerID l) d = Some l \<and> cl_Event l = ''connected''"
proof -
  have e: "cl_Event m = ''connected'' \<or> cl_Event m = ''disconnected''" if "m \<in> set (t_logs d)" for m
    using assms that by (auto simp: logs_ok_def event_ok_def)
  show ?thesis
    unfolding last_entry_Some [OF assms] open_connections_def
    by (auto simp: list_all_iff list_ex_iff not_less dest: e)
qed

lemma foldl_times:
  assumes "\<And>l. l \<in> set ls \<Longrightarrow> cl_PeerID l = x \<Longrightarrow> l = z"
  shows "foldl (\<lambda>m l. m(cl_PeerID l \<mapsto> cl_RecordedAt l)) m0 ls x =
    (if x \<in> cl_PeerID ` set ls then Some (cl_RecordedAt z) else m0 x)"
  using assms
proof (induction ls arbitrary: m0)
  case (Cons a ls)
  have "\<And>l. l \<in> set ls \<Longrightarrow> cl_PeerID l = x \<Longrightarrow> l = z" using Cons.prems by auto
  moreover have "cl_PeerID a = x \<Longrightarrow> a = z" using Cons.prems by auto
  ultimately show ?case using Cons.IH [of "m0(cl_PeerID a \<mapsto> cl_RecordedAt a)"] by auto
qed simp

text \<open>\<open>LastConnectedEvents\<close> finds the connections that are open: a peer is in its map exactly if
  the latest entry of the peer is a connect, with the time of that entry.\<close>

lemma LastConnectedEvents_open:
  assumes "constraints_ok (wdb w)" and "run_state (LastConnectedEvents env) w = ((m, None), w')"
  shows "m x = Some t \<longleftrightarrow> (\<exists>l. last_entry x (wdb w) = Some l \<and> cl_Event l = ''connected'' \<and> cl_RecordedAt l = t)"
proof -
  have ok: "logs_ok (next_log_id (wdb w)) (t_logs (wdb w))" using assms(1) by (simp add: constraints_ok_def)
  have m: "m = foldl (\<lambda>m l. m(cl_PeerID l \<mapsto> cl_RecordedAt l)) Map.empty (open_connections (wdb w))"
    using assms(2) by (auto simp: LastConnectedEvents_def run_query_partial split: option.splits fault.splits if_splits)
  have row: "l \<in> set (open_connections (wdb w)) \<and> cl_PeerID l = x \<longleftrightarrow>
      last_entry x (wdb w) = Some l \<and> cl_Event l = ''connected''" for l
    using open_connections_iff [OF ok, of l] last_entry_Some [OF ok, of x l] by auto
  show ?thesis
  proof (cases "\<exists>l. last_entry x (wdb w) = Some l \<and> cl_Event l = ''connected''")
    case True
    then obtain l where l: "last_entry x (wdb w) = Some l" "cl_Event l = ''connected''" by blast
    have "m x = Some (cl_RecordedAt l)"
    proof -
      have "l \<in> set (open_connections (wdb w))" "cl_PeerID l = x" using row l by blast+
      then have "x \<in> cl_PeerID ` set (open_connections (wdb w))" by blast
      moreover have "k = l" if "k \<in> set (open_connections (wdb w))" "cl_PeerID k = x" for k
        using row [of k] that l(1) by simp
      ultimately show ?thesis unfolding m by (simp add: foldl_times [where z = l])
    qed
    with l show ?thesis by auto
  next
    case False
    then have "x \<notin> cl_PeerID ` set (open_connections (wdb w))" using row by auto
    then have "m x = None" unfolding m by (subst foldl_times [where z = undefined]) auto
    with False show ?thesis by auto
  qed
qed

definition log_db :: db where
  "log_db = sample_db\<lparr>t_logs := [zero_log\<lparr>cl_ID := 1, cl_PeerID := ''p1'', cl_Event := ''disconnected'', cl_RecordedAt := 5\<rparr>,
     zero_log\<lparr>cl_ID := 2, cl_PeerID := ''p1'', cl_Event := ''connected'', cl_RecordedAt := 9\<rparr>], next_log_id := 3\<rparr>"

lemma LastConnectedEvents_open_witness:
  "\<exists>m. fst (run_state (LastConnectedEvents sample_env) (world_of log_db)) = (m, None) \<and> m ''p1'' = Some 9"
proof -
  have ok: "constraints_ok (wdb (world_of log_db))"
    using sample_db_ok(1) by (simp add: log_db_def world_of_def constraints_ok_def logs_ok_def event_ok_def zero_log_def)
  obtain m w' where r: "run_state (LastConnectedEvents sample_env) (world_of log_db) = ((m, None), w')"
    by (auto simp: LastConnectedEvents_def run_query_partial)
  have "map_option (\<lambda>l. (cl_Event l, cl_RecordedAt l)) (last_entry ''p1'' (wdb (world_of log_db)))
    = Some (''connected'', 9)" by code_simp
  then have "m ''p1'' = Some 9" unfolding LastConnectedEvents_open [OF ok r] by auto
  then show ?thesis by (simp add: r)
qed

end
