(* ===== verification/OidcFacts.thy ===== *)
theory OidcFacts
  imports Samples
begin

text \<open>
  Single sign-on: what a successful callback has checked, that a login state works only once, and
  where the browser is sent afterwards.
\<close>

lemma run_GetOIDCState:
  "run_state (GetOIDCState env k) w =
     (case db_fault env (tick w) of
        Some x \<Rightarrow> Inl (Wrap ''querying OIDC state'' (Err (fault_text x))) | None \<Rightarrow> Inr (get_state k (wdb w)),
      w\<lparr>tick := Suc (tick w)\<rparr>)"
  by (simp add: GetOIDCState_def run_simps split: option.split)

lemma DeleteOIDCState_run:
  obtains r d where "run_state (DeleteOIDCState env k) w = (r, w\<lparr>tick := Suc (tick w), wdb := d\<rparr>)"
    and "d = (if db_fault env (tick w) = None then sql_delete_state k (wdb w) else wdb w)"
  by (cases "db_fault env (tick w)") (auto simp: DeleteOIDCState_def run_simps)

text \<open>What the account of an identity looks like after the login: the two fields that identify it
  are those of the token.\<close>

lemma updated_oidc_user_simps [simp]:
  "u_ID (updated_oidc_user c role u) = u_ID u"
  "u_OIDCProvider (updated_oidc_user c role u) = u_OIDCProvider u"
  "u_OIDCSubject (updated_oidc_user c role u) = u_OIDCSubject u"
  "u_Role (updated_oidc_user c role u) = role"
  by (simp_all add: updated_oidc_user_def Let_def)

lemma login_existing_returns:
  assumes "run_state (login_existing env c role u) w = (Inr v, w')"
  shows "u_ID v = u_ID u \<and> u_OIDCProvider v = u_OIDCProvider u \<and> u_OIDCSubject v = u_OIDCSubject u \<and> u_Role v = role"
proof (cases "updated_oidc_user c role u = u")
  case True
  with assms have "v = updated_oidc_user c role u" by (simp add: login_existing_def)
  then show ?thesis by simp
next
  case False
  with assms obtain t where "v = (updated_oidc_user c role u)\<lparr>u_UpdatedAt := t\<rparr>"
    by (auto simp: login_existing_def Let_def run_simps)
  then show ?thesis by simp
qed

lemma CreateUser_returns:
  assumes "run_state (CreateUser env q) w = (Inr v, w')"
  shows "t_users (wdb w') = t_users (wdb w) @ [stored_user v] \<and> t_states (wdb w') = t_states (wdb w)
    \<and> u_OIDCProvider v = u_OIDCProvider q \<and> u_OIDCSubject v = u_OIDCSubject q \<and> u_Role v = u_Role q
    \<and> u_PasswordHash v = u_PasswordHash q"
  using assms by (auto simp: CreateUser_def returns run_simps fresh_id_def sql_insert_user_def Let_def
      split: option.splits sum.splits if_splits)

lemma provision_user_returns:
  assumes "run_state (provision_user env p c role) w = (Inr v, w')"
  shows "u_OIDCProvider v = op_Name p \<and> u_OIDCSubject v = uc_Subject c \<and> u_Role v = role \<and> u_PasswordHash v = []
    \<and> t_users (wdb w') = t_users (wdb w) @ [stored_user v]"
proof -
  obtain n q x where n: "run_state (GetUserByUsername env (oidc_username c)) w = (n, x)"
    and q: "run_state (CreateUser env q) x = (Inr v, w')" "u_PasswordHash q = []" "u_Role q = role"
      "u_OIDCProvider q = op_Name p" "u_OIDCSubject q = uc_Subject c"
    using assms
    by (auto simp: provision_user_def run_or_zero Let_def run_check split: prod.splits sum.splits)
  from CreateUser_returns [OF q(1)] q(2-) reads_wdb [OF reads_methods(9) n] show ?thesis by simp
qed

lemma GetUserByOIDCIdentity_returns:
  "run_state (GetUserByOIDCIdentity env p j) w = (Inr r, w') \<longleftrightarrow>
     db_fault env (tick w) = None \<and> r = List.find (\<lambda>u. u_OIDCProvider u = p \<and> u_OIDCSubject u = j) (t_users (wdb w))
     \<and> w' = w\<lparr>tick := Suc (tick w)\<rparr>"
  by (auto simp: GetUserByOIDCIdentity_def returns run_simps split: option.splits)

text \<open>The account of an identity: found and brought up to date, or created.\<close>

definition account_of :: "env \<Rightarrow> oidc_provider \<Rightarrow> user_claims \<Rightarrow> string \<Rightarrow> user option \<Rightarrow> (error + user) io" where
  "account_of env p c role found =
     (case found of Some u \<Rightarrow> login_existing env c role u | None \<Rightarrow> provision_user env p c role)"

lemma HandleCallback_returns:
  assumes "run_state (HandleCallback env code st ext) w = (Inr (u, url), w')"
  shows "\<exists>os p raw tok c found x. get_state st (wdb w) = Some os
    \<and> time_sub (now_at env (tick w + 2)) (os_CreatedAt os) \<le> 10 * minute
    \<and> map_of (oidc_providers w) (os_ProviderID os) = Some p
    \<and> exchange_code env (tick w + 3) ((rp_oauth p)\<lparr>oc_RedirectURL := callback_url ext\<rparr>) code = Inr (Some raw)
    \<and> verify_token env (tick w + 4) p raw = Inr tok \<and> it_Nonce tok = os_Nonce os \<and> it_Claims tok = Inr c
    \<and> found = List.find (\<lambda>u. u_OIDCProvider u = op_Name (rp_model p) \<and> u_OIDCSubject u = uc_Subject c) (t_users (wdb w))
    \<and> t_users (wdb x) = t_users (wdb w)
    \<and> run_state (account_of env (rp_model p) c (oidc_role (rp_model p) tok) found) x = (Inr u, w')
    \<and> url = os_RedirectURL os"
proof -
  obtain r d where del: "run_state (DeleteOIDCState env st) (w\<lparr>tick := Suc (tick w)\<rparr>)
      = (r, w\<lparr>tick := Suc (Suc (tick w)), wdb := d\<rparr>)" and d: "t_users d = t_users (wdb w)"
    by (rule DeleteOIDCState_run [of env st "w\<lparr>tick := Suc (tick w)\<rparr>"]) (auto simp: sql_delete_state_def)
  obtain os where g: "get_state st (wdb w) = Some os" "db_fault env (tick w) = None"
    using assms by (auto simp: HandleCallback_def returns run_GetOIDCState split: option.splits)
  obtain p raw tok c where h: "\<not> 10 * minute < time_sub (now_at env (Suc (Suc (tick w)))) (os_CreatedAt os)"
    "map_of (oidc_providers w) (os_ProviderID os) = Some p"
    "exchange_code env (Suc (Suc (Suc (tick w)))) ((rp_oauth p)\<lparr>oc_RedirectURL := callback_url ext\<rparr>) code = Inr (Some raw)"
    "verify_token env (Suc (Suc (Suc (Suc (tick w))))) p raw = Inr tok" "it_Nonce tok = os_Nonce os"
    "it_Claims tok = Inr c" "url = os_RedirectURL os"
    "run_state (account_of env (rp_model p) c (oidc_role (rp_model p) tok)
        (List.find (\<lambda>u. u_OIDCProvider u = op_Name (rp_model p) \<and> u_OIDCSubject u = uc_Subject c) (t_users d)))
      (w\<lparr>wdb := d, tick := Suc (Suc (Suc (Suc (Suc (Suc (tick w))))))\<rparr>) = (Inr u, w')"
    using assms g del
    by (auto simp: HandleCallback_def returns run_GetOIDCState run_ignore run_time_now run_gets run_ask account_of_def
        GetUserByOIDCIdentity_returns Let_def split: if_splits)
  from h(1) have "time_sub (now_at env (tick w + 2)) (os_CreatedAt os) \<le> 10 * minute" by simp
  moreover from h(3) have "exchange_code env (tick w + 3) ((rp_oauth p)\<lparr>oc_RedirectURL := callback_url ext\<rparr>) code = Inr (Some raw)"
    by (simp add: eval_nat_numeral)
  moreover from h(4) have "verify_token env (tick w + 4) p raw = Inr tok" by (simp add: eval_nat_numeral)
  moreover have "t_users (wdb (w\<lparr>wdb := d, tick := Suc (Suc (Suc (Suc (Suc (Suc (tick w))))))\<rparr>)) = t_users (wdb w)"
    using d by simp
  ultimately show ?thesis using g(1) h(2,5-) unfolding d by blast
qed

text \<open>A provider, a login that was begun, and its callback.\<close>

definition sample_provider :: oidc_provider where
  "sample_provider = \<lparr>op_ID = ''idp'', op_Name = ''Corp'', op_Issuer = ''https://idp'', op_ClientID = ''c'',
     op_ClientSecretEncrypted = [], op_Scopes = [], op_AutoDiscover = True, op_AdminClaim = [], op_AdminValue = [],
     op_DefaultRole = ''viewer'', op_Enabled = True, op_CreatedAt = 0, op_UpdatedAt = 0\<rparr>"

definition sample_state :: oidc_state where
  "sample_state = \<lparr>os_State = ''st'', os_ProviderID = ''idp'', os_Nonce = ''n'', os_RedirectURL = ''/users'', os_CreatedAt = 0\<rparr>"

definition oidc_world :: world where
  "oidc_world = sample_world\<lparr>oidc_providers := [(''idp'', \<lparr>rp_model = sample_provider,
     rp_oauth = \<lparr>oc_ClientID = ''c'', oc_ClientSecret = [], oc_Scopes = [], oc_Endpoint = ''e'', oc_RedirectURL = []\<rparr>\<rparr>)],
     wdb := sample_db\<lparr>t_states := [sample_state]\<rparr>\<rparr>"

text \<open>C21. A callback logs somebody in only if its state was issued here and is at most ten minutes old,
  the code could be exchanged with the provider of that state, the verified token carries the nonce
  of that state, and then the user is the account of the token's subject at that provider: the one
  stored under this identity, or a new one without a password. The role is the one the claims give,
  and the browser goes on to the address that was stored with the state.\<close>

theorem callback_identity:
  assumes "run_state (HandleCallback env code st ext) w = (Inr (u, url), w')"
  shows "\<exists>os p raw tok c. get_state st (wdb w) = Some os
    \<and> time_sub (now_at env (tick w + 2)) (os_CreatedAt os) \<le> 10 * minute
    \<and> map_of (oidc_providers w) (os_ProviderID os) = Some p
    \<and> exchange_code env (tick w + 3) ((rp_oauth p)\<lparr>oc_RedirectURL := callback_url ext\<rparr>) code = Inr (Some raw)
    \<and> verify_token env (tick w + 4) p raw = Inr tok \<and> it_Nonce tok = os_Nonce os \<and> it_Claims tok = Inr c
    \<and> u_OIDCProvider u = op_Name (rp_model p) \<and> u_OIDCSubject u = uc_Subject c
    \<and> u_Role u = oidc_role (rp_model p) tok \<and> url = os_RedirectURL os
    \<and> ((\<exists>v \<in> set (t_users (wdb w)). u_ID v = u_ID u \<and> u_OIDCProvider v = u_OIDCProvider u
          \<and> u_OIDCSubject v = u_OIDCSubject u)
       \<or> u_PasswordHash u = [] \<and> t_users (wdb w') = t_users (wdb w) @ [stored_user u])"
proof -
  obtain os p raw tok c found x where h: "get_state st (wdb w) = Some os"
    "time_sub (now_at env (tick w + 2)) (os_CreatedAt os) \<le> 10 * minute"
    "map_of (oidc_providers w) (os_ProviderID os) = Some p"
    "exchange_code env (tick w + 3) ((rp_oauth p)\<lparr>oc_RedirectURL := callback_url ext\<rparr>) code = Inr (Some raw)"
    "verify_token env (tick w + 4) p raw = Inr tok" "it_Nonce tok = os_Nonce os" "it_Claims tok = Inr c"
    "url = os_RedirectURL os"
    and f: "found = List.find (\<lambda>u. u_OIDCProvider u = op_Name (rp_model p) \<and> u_OIDCSubject u = uc_Subject c) (t_users (wdb w))"
    and x: "t_users (wdb x) = t_users (wdb w)"
    and a: "run_state (account_of env (rp_model p) c (oidc_role (rp_model p) tok) found) x = (Inr u, w')"
    using HandleCallback_returns [OF assms] by blast
  have "u_OIDCProvider u = op_Name (rp_model p) \<and> u_OIDCSubject u = uc_Subject c \<and> u_Role u = oidc_role (rp_model p) tok
    \<and> ((\<exists>v \<in> set (t_users (wdb w)). u_ID v = u_ID u \<and> u_OIDCProvider v = u_OIDCProvider u
          \<and> u_OIDCSubject v = u_OIDCSubject u)
       \<or> u_PasswordHash u = [] \<and> t_users (wdb w') = t_users (wdb w) @ [stored_user u])"
  proof (cases found)
    case None
    with a have "run_state (provision_user env (rp_model p) c (oidc_role (rp_model p) tok)) x = (Inr u, w')"
      by (simp add: account_of_def)
    from provision_user_returns [OF this] x show ?thesis by simp
  next
    case (Some v)
    with a have "run_state (login_existing env c (oidc_role (rp_model p) tok) v) x = (Inr u, w')"
      by (simp add: account_of_def)
    from login_existing_returns [OF this] find_Some_in [of _ _ v] Some f show ?thesis by fastforce
  qed
  with h show ?thesis by blast
qed

lemma callback_identity_witness:
  "\<exists>u w'. run_state (HandleCallback sample_env ''code'' ''st'' ''https://vpn'') oidc_world = (Inr (u, ''/users''), w')
    \<and> u_OIDCProvider u = ''Corp'' \<and> u_OIDCSubject u = ''s''"
proof -
  have "case fst (run_state (HandleCallback sample_env ''code'' ''st'' ''https://vpn'') oidc_world) of
      Inr (u, url) \<Rightarrow> url = ''/users'' | Inl _ \<Rightarrow> False"
    by code_simp
  then obtain u where "fst (run_state (HandleCallback sample_env ''code'' ''st'' ''https://vpn'') oidc_world) = Inr (u, ''/users'')"
    by (auto split: sum.splits)
  then obtain w' where r: "run_state (HandleCallback sample_env ''code'' ''st'' ''https://vpn'') oidc_world = (Inr (u, ''/users''), w')"
    by (rule run_obtain)
  from callback_identity [OF this] show ?thesis
    using r by (auto simp: oidc_world_def sample_provider_def sample_state_def sample_env_def get_state_def row_def)
qed

lemma keeps_states_login:
  "keeps (on_db (\<lambda>d. t_states d = xs)) (login_existing env c role u)"
  "keeps (on_db (\<lambda>d. t_states d = xs)) (provision_user env p c role)"
  unfolding login_existing_def provision_user_def UpdateUser_def CreateUser_def
  by (auto intro!: keeps_intros keeps_exec_stmt
      simp: sql_insert_user_def sql_update_user_def Let_def split: if_splits option.splits)

lemma keeps_states_rest:
  "keeps (on_db (\<lambda>d. t_states d = xs)) (case found of
     Some u \<Rightarrow> login_existing env c role u | None \<Rightarrow> provision_user env p c role)"
  by (cases found) (simp_all add: keeps_states_login)

text \<open>The callback after the state was deleted writes no state.\<close>

lemma HandleCallback_rest:
  "\<exists>f. HandleCallback env code st ext =
      check ''looking up OIDC state'' (GetOIDCState env st) (\<lambda>r. case r of
        None \<Rightarrow> fail (Err ''invalid or expired OIDC state'')
      | Some os \<Rightarrow> ignore (DeleteOIDCState env st) (f os))
    \<and> (\<forall>os. keeps (on_db (\<lambda>d. t_states d = xs)) (f os))"
  unfolding HandleCallback_def
  by (rule exI, rule conjI, rule refl, unfold Let_def, intro allI keeps_intros keeps_states_login)

text \<open>A login state works once. When the lookup and the delete of a callback reach the database, the
  state is gone afterwards, whatever became of the callback, and another callback with it fails and
  changes nothing.\<close>

lemma callback_state_once:
  assumes "db_fault env (tick w) = None" and "db_fault env (Suc (tick w)) = None"
    and "run_state (HandleCallback env code st ext) w = (r, w')"
  shows "get_state st (wdb w') = None
    \<and> (\<exists>e v. run_state (HandleCallback env code2 st ext2) w' = (Inl e, v) \<and> wdb v = wdb w')"
proof -
  have gone: "get_state st (wdb w') = None"
  proof (cases "get_state st (wdb w)")
    case None
    with assms show ?thesis by (auto simp: HandleCallback_def run_check run_GetOIDCState)
  next
    case (Some os)
    let ?xs = "t_states (sql_delete_state st (wdb w))"
    obtain f where f: "HandleCallback env code st ext =
        check ''looking up OIDC state'' (GetOIDCState env st) (\<lambda>r. case r of
          None \<Rightarrow> fail (Err ''invalid or expired OIDC state'')
        | Some os \<Rightarrow> ignore (DeleteOIDCState env st) (f os))"
      and keeps: "keeps (on_db (\<lambda>d. t_states d = ?xs)) (f os)"
      using HandleCallback_rest [of env code st ext ?xs] by blast
    have "run_state (f os) (w\<lparr>tick := Suc (Suc (tick w)), wdb := sql_delete_state st (wdb w)\<rparr>) = (r, w')"
      using assms Some by (simp add: f run_check run_GetOIDCState run_ignore DeleteOIDCState_def run_simps)
    from validD [OF keeps _ this] show ?thesis by (simp add: get_state_def sql_delete_state_def row_del_rows)
  qed
  moreover from gone have "\<exists>e v. run_state (HandleCallback env code2 st ext2) w' = (Inl e, v) \<and> wdb v = wdb w'"
    by (auto simp: HandleCallback_def run_check run_GetOIDCState split: option.splits)
  ultimately show ?thesis by blast
qed

lemma callback_state_once_witness:
  "\<exists>r w'. run_state (HandleCallback sample_env ''code'' ''st'' ''https://vpn'') oidc_world = (r, w')
    \<and> (\<exists>e v. run_state (HandleCallback sample_env ''code'' ''st'' ''https://vpn'') w' = (Inl e, v))"
proof -
  obtain r w' where r: "run_state (HandleCallback sample_env ''code'' ''st'' ''https://vpn'') oidc_world = (r, w')"
    by (rule prod.exhaust)
  show ?thesis using callback_state_once [OF _ _ r, of "''code''" "''https://vpn''"] r by auto
qed



end
