(* ===== verification/Migrations.thy ===== *)
theory Migrations
  imports GoLib "HOL-Library.List_Lexorder" "HOL-Library.Char_ord"
begin

text \<open>
  The migrations runner (internal/store/migrate.go), which brings the schema up to date when the
  store is opened. The effect of a script on the rest of the database is a parameter, so are the
  embedded files and the failures of the driver; \<open>Schema\<close> describes what the scripts of the
  repository lead to. What a transaction has done is lost when it is rolled back or its commit fails.
\<close>

record 'd migrator =
  mg_entries :: "error + (string \<times> bool) list" \<comment> \<open>\<open>ReadDir\<close>: names, and whether each is a directory\<close>
  mg_read :: "string \<Rightarrow> error + string"
  mg_script :: "string \<Rightarrow> 'd \<Rightarrow> error + 'd"
  mg_fault :: "nat \<Rightarrow> error option"

record 'd mig_db =
  md_names :: "string list option" \<comment> \<open>the table \<open>_migrations\<close>, by rising \<open>id\<close>; \<open>None\<close> before it is created\<close>
  md_data :: 'd
  md_tick :: nat

type_synonym ('d, 'a) mig = "('d mig_db, error + 'a) state"

text \<open>One call of the driver: it fails, or has its effect.\<close>

definition driver :: "'d migrator \<Rightarrow> ('d mig_db \<Rightarrow> error + 'a \<times> 'd mig_db) \<Rightarrow> ('d, 'a) mig" where
  "driver g f = State (\<lambda>s.
     let s' = s\<lparr>md_tick := Suc (md_tick s)\<rparr> in
     case mg_fault g (md_tick s) of
       Some e \<Rightarrow> (Inl e, s')
     | None \<Rightarrow> (case f s' of Inl e \<Rightarrow> (Inl e, s') | Inr (x, t) \<Rightarrow> (Inr x, t)))"

definition create_table :: "'d migrator \<Rightarrow> ('d, unit) mig" where
  "create_table g = driver g (\<lambda>s. Inr ((),
     case md_names s of None \<Rightarrow> s\<lparr>md_names := Some []\<rparr> | Some _ \<Rightarrow> s))"

text \<open>\<open>SELECT COUNT(*) FROM _migrations WHERE name = ?\<close>\<close>

definition count_name :: "'d migrator \<Rightarrow> string \<Rightarrow> ('d, nat) mig" where
  "count_name g name = driver g (\<lambda>s. case md_names s of
       None \<Rightarrow> Inl (Err ''no such table: _migrations'')
     | Some ns \<Rightarrow> Inr (length (filter (\<lambda>n. n = name) ns), s))"

definition exec_script :: "'d migrator \<Rightarrow> string \<Rightarrow> ('d, unit) mig" where
  "exec_script g sql = driver g (\<lambda>s. case mg_script g sql (md_data s) of
       Inl e \<Rightarrow> Inl e | Inr d \<Rightarrow> Inr ((), s\<lparr>md_data := d\<rparr>))"

definition insert_name :: "'d migrator \<Rightarrow> string \<Rightarrow> ('d, unit) mig" where
  "insert_name g name = driver g (\<lambda>s. case md_names s of
       None \<Rightarrow> Inl (Err ''no such table: _migrations'')
     | Some ns \<Rightarrow> if name \<in> set ns then Inl (SqlConstraint UniqueFailed)
         else Inr ((), s\<lparr>md_names := Some (ns @ [name])\<rparr>))"

text \<open>\<open>db.Begin\<close> and \<open>tx.Commit\<close> only fail or not; a failed transaction puts the tables back.\<close>

definition transaction :: "('d, unit) mig \<Rightarrow> ('d, unit) mig" where
  "transaction m = State (\<lambda>s. case run_state m s of
       (Inl e, t) \<Rightarrow> (Inl e, s\<lparr>md_tick := md_tick t\<rparr>)
     | (Inr x, t) \<Rightarrow> (Inr x, t))"

definition run_migration :: "'d migrator \<Rightarrow> string \<Rightarrow> ('d, unit) mig" where
  "run_migration g name =
     check (''checking migration '' @ name) (count_name g name) (\<lambda>count.
     if count > 0 then ok ()
     else
       check (''reading migration '' @ name) (State_Monad.return (mg_read g (''migrations/'' @ name))) (\<lambda>data.
       check (''beginning transaction for '' @ name) (driver g (\<lambda>s. Inr ((), s))) (\<lambda>_.
       transaction
         (check (''executing migration '' @ name) (exec_script g data) (\<lambda>_.
          check (''recording migration '' @ name) (insert_name g name) (\<lambda>_.
          check (''committing migration '' @ name) (driver g (\<lambda>s. Inr ((), s))) ok))))))"

definition script_names :: "(string \<times> bool) list \<Rightarrow> string list" where
  "script_names es = sort (map fst (filter (\<lambda>(name, dir). \<not> dir \<and> ends_with name ''.sql'') es))"

definition runMigrations :: "'d migrator \<Rightarrow> ('d, unit) mig" where
  "runMigrations g =
     check ''creating migrations table'' (create_table g) (\<lambda>_.
     check ''reading migrations dir'' (State_Monad.return (mg_entries g)) (\<lambda>entries.
     for_each (script_names entries) (run_migration g)))"

section \<open>What it does\<close>

text \<open>The scripts that are still to run, and the data after running some scripts in turn.\<close>

definition pending :: "string list \<Rightarrow> string list \<Rightarrow> string list" where
  "pending old names = filter (\<lambda>n. n \<notin> set old) names"

fun run_scripts :: "'d migrator \<Rightarrow> string list \<Rightarrow> 'd \<Rightarrow> 'd option" where
  "run_scripts g [] d = Some d"
| "run_scripts g (n # ns) d = (case mg_read g (''migrations/'' @ n) of
       Inl _ \<Rightarrow> None
     | Inr sql \<Rightarrow> (case mg_script g sql d of Inl _ \<Rightarrow> None | Inr d' \<Rightarrow> run_scripts g ns d'))"

lemma run_driver [run_simps]:
  "run_state (driver g f) s =
     (case mg_fault g (md_tick s) of
       Some e \<Rightarrow> (Inl e, s\<lparr>md_tick := Suc (md_tick s)\<rparr>)
     | None \<Rightarrow> (case f (s\<lparr>md_tick := Suc (md_tick s)\<rparr>) of
           Inl e \<Rightarrow> (Inl e, s\<lparr>md_tick := Suc (md_tick s)\<rparr>) | Inr (x, t) \<Rightarrow> (Inr x, t)))"
  by (simp add: driver_def Let_def split: option.split sum.split)

lemma run_transaction [run_simps]:
  "run_state (transaction m) s = (case run_state m s of
       (Inl e, t) \<Rightarrow> (Inl e, s\<lparr>md_tick := md_tick t\<rparr>) | (Inr x, t) \<Rightarrow> (Inr x, t))"
  by (simp add: transaction_def)

text \<open>One script: skipped, run and recorded, or failed without a trace.\<close>

lemma run_migration_cases:
  assumes "run_state (run_migration g n) s = (r, t)" and "md_names s = Some ns"
  shows "md_names t = Some ns \<and> md_data t = md_data s \<and> (r = Inr () \<longrightarrow> n \<in> set ns)
    \<or> n \<notin> set ns \<and> r = Inr () \<and> md_names t = Some (ns @ [n]) \<and> run_scripts g [n] (md_data s) = Some (md_data t)"
proof (cases "n \<in> set ns")
  case True
  then have "0 < length (filter (\<lambda>m. m = n) ns)" by (induction ns) auto
  with assms True show ?thesis
    by (auto simp: run_migration_def run_simps count_name_def split: option.splits)
next
  case False
  then have none: "filter (\<lambda>m. m = n) ns = []" by (induction ns) auto
  note simps = run_migration_def run_simps count_name_def
  let ?same = "md_names t = Some ns \<and> md_data t = md_data s \<and> r \<noteq> Inr ()"
  consider (fault) e where "mg_fault g (md_tick s) = Some e"
    | (unread) e where "mg_fault g (md_tick s) = None" "mg_read g (''migrations/'' @ n) = Inl e"
    | (begin_fault) e where "mg_fault g (md_tick s) = None" "mg_fault g (Suc (md_tick s)) = Some e"
    | (started) sql where "mg_fault g (md_tick s) = None" "mg_fault g (Suc (md_tick s)) = None"
        "mg_read g (''migrations/'' @ n) = Inr sql"
    by (cases "mg_fault g (md_tick s)"; cases "mg_fault g (Suc (md_tick s))"; cases "mg_read g (''migrations/'' @ n)")
  then show ?thesis
  proof cases
    case (begin_fault e)
    with assms none have ?same by (cases "mg_read g (''migrations/'' @ n)") (auto simp: simps)
    then show ?thesis by auto
  next
    case (started sql)
    note begun = assms none started
    show ?thesis
    proof (cases "mg_script g sql (md_data s)")
      case (Inl e)
      with begun have ?same
        by (cases "mg_fault g (Suc (Suc (md_tick s)))") (auto simp: simps exec_script_def)
      then show ?thesis by auto
    next
      case (Inr d)
      with begun False show ?thesis
        by (cases "mg_fault g (Suc (Suc (md_tick s)))"; cases "mg_fault g (Suc (Suc (Suc (md_tick s))))";
            cases "mg_fault g (Suc (Suc (Suc (Suc (md_tick s)))))")
          (auto simp: simps exec_script_def insert_name_def)
    qed
  qed (use assms none in \<open>auto simp: simps\<close>)
qed

lemma run_scripts_append:
  "run_scripts g (xs @ ys) d = (case run_scripts g xs d of None \<Rightarrow> None | Some d' \<Rightarrow> run_scripts g ys d')"
  by (induction xs arbitrary: d) (auto split: sum.splits)

lemma pending_Cons: "pending old (n # names) = (if n \<in> set old then pending old names else n # pending old names)"
  by (simp add: pending_def)

lemma pending_append: "n \<notin> set names \<Longrightarrow> pending (old @ [n]) names = pending old names"
  by (induction names) (auto simp: pending_def)

lemma migrations_prefix:
  assumes "run_state (for_each names (run_migration g)) s = (r, t)" and "md_names s = Some old" and "distinct names"
  shows "\<exists>k \<le> length (pending old names). md_names t = Some (old @ take k (pending old names))
    \<and> run_scripts g (take k (pending old names)) (md_data s) = Some (md_data t)
    \<and> (r = Inr () \<longrightarrow> k = length (pending old names))"
  using assms
proof (induction names arbitrary: s old)
  case Nil
  then show ?case by (auto simp: pending_def)
next
  case (Cons n names)
  obtain q v where one: "run_state (run_migration g n) s = (q, v)" by (rule prod.exhaust)
  show ?case
  proof (cases q)
    case (Inl e)
    with run_migration_cases [OF one Cons.prems(2)] Cons.prems(1) one
    have "md_names t = Some old" "md_data t = md_data s" "r = Inl e" by (auto simp: run_attempt)
    then show ?thesis by (intro exI [of _ 0]) simp
  next
    case (Inr u)
    with Cons.prems(1) one have rest: "run_state (for_each names (run_migration g)) v = (r, t)"
      by (simp add: run_attempt)
    have d: "distinct names" "n \<notin> set names" using Cons.prems(3) by auto
    from run_migration_cases [OF one Cons.prems(2)] Inr
    consider (old) "n \<in> set old" "md_names v = Some old" "md_data v = md_data s"
      | (new) "n \<notin> set old" "md_names v = Some (old @ [n])" "run_scripts g [n] (md_data s) = Some (md_data v)"
      by auto
    then show ?thesis
    proof cases
      case old
      from Cons.IH [OF rest old(2) d(1)] old show ?thesis by (simp add: pending_Cons)
    next
      case new
      from Cons.IH [OF rest new(2) d(1)] obtain k where k: "k \<le> length (pending old names)"
        "md_names t = Some (old @ n # take k (pending old names))"
        "run_scripts g (take k (pending old names)) (md_data v) = Some (md_data t)"
        "r = Inr () \<longrightarrow> k = length (pending old names)"
        by (auto simp: pending_append [OF d(2)])
      with new show ?thesis
        by (intro exI [of _ "Suc k"]) (auto simp: pending_Cons split: sum.splits)
    qed
  qed
qed

text \<open>C23. The runner applies exactly the scripts that are not recorded yet, once each and in the order of
  their names. It stops at the first failure, and then a script is either recorded with all of its
  effect on the data or has left no trace.\<close>

theorem runMigrations_pending:
  assumes "run_state (runMigrations g) s = (r, t)" and "mg_entries g = Inr es" and "distinct (map fst es)"
    and "old = (case md_names s of None \<Rightarrow> [] | Some ns \<Rightarrow> ns)" and "todo = pending old (script_names es)"
  shows "\<exists>k \<le> length todo. (md_names t = Some (old @ take k todo) \<or> k = 0 \<and> md_names t = md_names s)
    \<and> run_scripts g (take k todo) (md_data s) = Some (md_data t) \<and> (r = Inr () \<longrightarrow> k = length todo)
    \<and> sorted todo"
proof -
  have sorted: "sorted todo" using assms(5) by (simp add: script_names_def pending_def sorted_filter [where f = "\<lambda>x. x", simplified])
  show ?thesis
  proof (cases "mg_fault g (md_tick s)")
    case (Some e)
    with assms(1) have "md_names t = md_names s" "md_data t = md_data s" "r \<noteq> Inr ()"
      by (auto simp: runMigrations_def create_table_def run_simps)
    with sorted show ?thesis by (intro exI [of _ 0]) simp
  next
    case None
    define v where "v = (case md_names s of
        None \<Rightarrow> s\<lparr>md_tick := Suc (md_tick s), md_names := Some []\<rparr> | Some _ \<Rightarrow> s\<lparr>md_tick := Suc (md_tick s)\<rparr>)"
    have "run_state (for_each (script_names es) (run_migration g)) v = (r, t)"
      using assms(1,2,4) None
      by (auto simp: runMigrations_def create_table_def run_simps v_def split: option.splits)
    moreover have "md_names v = Some old" "md_data v = md_data s"
      using assms(4) by (simp_all add: v_def split: option.splits)
    moreover have "distinct (script_names es)"
      using assms(3) by (simp add: script_names_def distinct_map_filter')
    ultimately show ?thesis using migrations_prefix sorted assms(5) by metis
  qed
qed

definition sample_migrator :: "string list migrator" where
  "sample_migrator = \<lparr>mg_entries = Inr [(''002_b.sql'', False), (''001_a.sql'', False), (''README'', False)],
     mg_read = \<lambda>p. Inr p, mg_script = \<lambda>sql d. Inr (d @ [sql]), mg_fault = \<lambda>_. None\<rparr>"

lemma runMigrations_pending_witness:
  "\<exists>t. run_state (runMigrations sample_migrator) \<lparr>md_names = Some [''001_a.sql''], md_data = [], md_tick = 0\<rparr> = (Inr (), t)
    \<and> md_names t = Some [''001_a.sql'', ''002_b.sql''] \<and> md_data t = [''migrations/002_b.sql'']"
proof -
  let ?s = "\<lparr>md_names = Some [''001_a.sql''], md_data = [], md_tick = 0\<rparr>"
  obtain r t where run: "run_state (runMigrations sample_migrator) ?s = (r, t)" by (rule prod.exhaust)
  have "fst (run_state (runMigrations sample_migrator) ?s) = Inr ()" by code_simp
  with run have "r = Inr ()" by simp
  have todo: "pending [''001_a.sql''] (script_names [(''002_b.sql'', False), (''001_a.sql'', False), (''README'', False)]) = [''002_b.sql'']"
    by code_simp
  from runMigrations_pending [OF run, of "[(''002_b.sql'', False), (''001_a.sql'', False), (''README'', False)]"
      "[''001_a.sql'']" "[''002_b.sql'']"] \<open>r = Inr ()\<close> todo run
  show ?thesis by (auto simp: sample_migrator_def)
qed

end
