(* ===== verification/WebForms.thy ===== *)
theory WebForms
  imports HandlersNet
begin

text \<open>
  The forms of the web application (ui/web): address helpers, the defaults they offer, and what is
  sent to the server when a form is submitted. The state of a form is a record of its signals and of
  the texts still pending in its inputs; rendering is not modelled. A body is the request that the
  handler of \<open>HandlersNet\<close> decodes from the JSON object, with the zero value for a missing field.
\<close>

section \<open>Addresses\<close>

definition normalizeCIDR :: "string \<Rightarrow> string \<Rightarrow> string \<times> bool" where
  "normalizeCIDR input defaultPrefix =
     (let s = TrimSpace input in
      if s = [] then (s, True)
      else if ParseCIDR s \<noteq> None then (s, True)
      else if ParseIP s \<noteq> None \<and> ParseCIDR (s @ defaultPrefix) \<noteq> None then (s @ defaultPrefix, True)
      else (s, False))"

definition trim_slash :: "string \<Rightarrow> string" where
  "trim_slash p = (if starts_with ''/'' p then drop 1 p else p)"

definition splitCIDR :: "string \<Rightarrow> string \<Rightarrow> string \<times> string" where
  "splitCIDR val defaultPrefix =
     (let v = TrimSpace val in
      if v = [] then ([], trim_slash defaultPrefix)
      else (case cut CHR ''/'' v of Some (a, b) \<Rightarrow> (a, b) | None \<Rightarrow> (v, trim_slash defaultPrefix)))"

text \<open>\<open>net.CIDRMask\<close>, \<open>IP.Mask\<close> and the complement of a mask, byte by byte.\<close>

definition mask_byte :: "nat \<Rightarrow> nat \<Rightarrow> nat" where
  "mask_byte ones k = (let n = min 8 (ones - 8 * k) in 256 - 2 ^ (8 - n))"

definition mask_ip :: "nat \<Rightarrow> nat list \<Rightarrow> nat list" where
  "mask_ip ones bs = map (\<lambda>k. bs ! k AND mask_byte ones k) [0..<length bs]"

definition broadcast_ip :: "nat \<Rightarrow> nat list \<Rightarrow> nat list" where
  "broadcast_ip ones net = map (\<lambda>k. net ! k OR (255 - mask_byte ones k)) [0..<length net]"

fun group3 :: "string \<Rightarrow> string" where
  "group3 [] = []"
| "group3 (c # s) = c # (if s \<noteq> [] \<and> length s mod 3 = 0 then CHR '','' # group3 s else group3 s)"

definition formatNumber :: "int \<Rightarrow> string" where
  "formatNumber n = (let s = itoa n in if length s \<le> 3 then s else group3 s)"

definition pluralize :: "int \<Rightarrow> string \<Rightarrow> string \<Rightarrow> string" where
  "pluralize n singular plural = (if n = 1 then singular else plural)"

definition cidrSummary :: "string \<Rightarrow> string \<Rightarrow> string" where
  "cidrSummary ipStr prefixStr =
     (if ipStr = [] \<or> prefixStr = [] then []
      else case Atoi prefixStr of
        Inl _ \<Rightarrow> []
      | Inr p \<Rightarrow>
        if p < 0 \<or> p > 32 then []
        else case (case ParseIP ipStr of None \<Rightarrow> None | Some a \<Rightarrow> To4 a) of
          None \<Rightarrow> []
        | Some ip4 \<Rightarrow>
          if p = 32 then ''Single host''
          else
            let net = mask_ip (nat p) ip4;
                hosts = max 1 (2 ^ nat (32 - p) - 2) in
            string4 net @ [CHR '' '', CHR 0xE2, CHR 0x80, CHR 0x93, CHR '' '']
              @ string4 (broadcast_ip (nat p) net) @ [CHR '' '', CHR 0xC2, CHR 0xB7, CHR '' '']
              @ formatNumber hosts @ '' '' @ pluralize hosts ''host'' ''hosts'')"

definition extractHostIP :: "string \<Rightarrow> string" where
  "extractHostIP addr =
     (case ParseCIDR addr of
        Some (ip, _) \<Rightarrow> IP_String ip
      | None \<Rightarrow> (case ParseIP addr of Some ip \<Rightarrow> IP_String ip | None \<Rightarrow> []))"

definition isIPInUse :: "string \<Rightarrow> string list \<Rightarrow> bool" where
  "isIPInUse addr usedAddrs =
     (let target = extractHostIP addr in
      target \<noteq> [] \<and> list_ex (\<lambda>used. extractHostIP used = target) usedAddrs)"

text \<open>
  \<open>nextAvailableIP\<close>. The map \<open>used\<close> has the keys below; \<open>String\<close> of the nil address is
  \<open><nil>\<close>. \<open>int\<close> has 64 bits, also for \<^verbatim>\<open>wasm\<close>.
\<close>

definition used_keys :: "nat list \<Rightarrow> string list \<Rightarrow> string list" where
  "used_keys gateway usedAddrs =
     string4 gateway # List.map_filter (\<lambda>addr.
       case (case ParseCIDR addr of Some (a, _) \<Rightarrow> Some a | None \<Rightarrow> ParseIP addr) of
         None \<Rightarrow> None
       | Some a \<Rightarrow> Some (case To4 a of Some q \<Rightarrow> string4 q | None \<Rightarrow> ''<nil>'')) usedAddrs"

definition candidate_ip :: "nat list \<Rightarrow> int \<Rightarrow> nat list" where
  "candidate_ip base i = map (\<lambda>k. (base ! k + nat (i div 2 ^ (8 * (3 - k)) mod 256)) mod 256) [0..<4]"

function first_free :: "nat list \<Rightarrow> string list \<Rightarrow> int \<Rightarrow> int \<Rightarrow> string" where
  "first_free base used limit i =
     (if i < limit then
        (if string4 (candidate_ip base i) \<notin> set used then string4 (candidate_ip base i) @ ''/32''
         else first_free base used limit (i + 1))
      else [])"
  by auto
termination by (relation "measure (\<lambda>(_, _, limit, i). nat (limit - i))") auto

declare first_free.simps [simp del]

definition network_base :: "ip \<Rightarrow> nat \<Rightarrow> nat \<Rightarrow> nat list" where
  "network_base a ones bits =
     (if bits = 32 then mask_ip ones (drop 12 a)
      else case To4 (mask_ip ones a) of Some q \<Rightarrow> q | None \<Rightarrow> [0, 0, 0, 0])"

definition nextAvailableIP :: "string \<Rightarrow> string list \<Rightarrow> string" where
  "nextAvailableIP ifaceAddr usedAddrs =
     (case ParseCIDR ifaceAddr of
        None \<Rightarrow> []
      | Some (a, ones, bits) \<Rightarrow>
        (case To4 a of
           None \<Rightarrow> []
         | Some gateway \<Rightarrow>
             let hostCount = (if bits - ones < 64 then int64 (2 ^ (bits - ones)) else 0) in
             first_free (network_base a ones bits) (used_keys gateway usedAddrs) (int64 (hostCount - 1)) 1))"

definition dash :: string where "dash = [CHR 0xE2, CHR 0x80, CHR 0x94]"

definition formatAvailableIPs :: "string \<Rightarrow> int \<Rightarrow> string" where
  "formatAvailableIPs address peerCount =
     (case cut CHR ''/'' address of
        None \<Rightarrow> dash
      | Some (_, p) \<Rightarrow> (case Atoi p of
          Inl _ \<Rightarrow> dash
        | Inr n \<Rightarrow>
            if n < 1 \<or> n > 30 then dash
            else
              let total = max 0 (2 ^ nat (32 - n) - 3) in
              itoa (max 0 (total - peerCount)) @ '' / '' @ itoa total))"

definition parseCSV :: "string \<Rightarrow> string list" where
  "parseCSV s = (let t = TrimSpace s in if t = [] then [] else map TrimSpace (split_char CHR '','' t))"

section \<open>Defaults of a new interface\<close>

record interfaceData =
  id_ID :: string
  id_ListenPort :: int
  id_Address :: string

function next_port :: "int list \<Rightarrow> int \<Rightarrow> int" where
  "next_port used p = (if p \<in> set used then next_port used (p + 1) else p)"
  by auto

text \<open>Every step past a used port leaves fewer used ports in front.\<close>

termination
proof (relation "measure (\<lambda>(used, p). length (filter (\<lambda>q. p \<le> q) used))", goal_cases)
  case (2 used p)
  have "length (filter (\<lambda>q. p + 1 \<le> q) used) < length (filter (\<lambda>q. p \<le> q) used)" if "p \<in> set used" for used
    using that
  proof (induction used)
    case (Cons q used)
    have "length (filter (\<lambda>q. p + 1 \<le> q) used) \<le> length (filter (\<lambda>q. p \<le> q) used)"
      by (induction used) auto
    with Cons show ?case by auto
  qed simp
  with 2 show ?case by simp
qed simp

declare next_port.simps [simp del]

definition nextInterfaceDefaults :: "interfaceData list \<Rightarrow> string \<times> string \<times> string" where
  "nextInterfaceDefaults existing =
     (let names = map (\<lambda>i. ''wg'' @ itoa (int i)) [0..<100] in
      ((case List.find (\<lambda>n. n \<notin> set (map id_ID existing)) names of Some n \<Rightarrow> n | None \<Rightarrow> ''wg0''),
       itoa (next_port (map id_ListenPort existing) 51820),
       ''10.100.'' @ itoa (int (length existing)) @ ''.1/24''))"

section \<open>The peer forms\<close>

text \<open>\<open>None\<close> is an input that is not on the page.\<close>

record peer_form =
  pf_Type :: string
  pf_Name :: string
  pf_Address :: string
  pf_DNS :: string
  pf_Keepalive :: string
  pf_PSK :: bool
  pf_AlertConnect :: bool
  pf_AlertDisconnect :: bool
  pf_AlertEmails :: string
  pf_Err :: string
  pf_AllowedIPs :: "string list"
  pf_ClientAllowedIPs :: "string list"
  pf_Input :: "string option"
  pf_ClientInput :: "string option"
  pf_EmailInput :: "string option"

text \<open>\<open>addIP\<close> and \<open>addClientIP\<close>: the text becomes a new chip, or is refused with a message.\<close>

datatype chip = NoChip | BadChip string | NewChip "string list"

definition add_chip :: "string \<Rightarrow> string list \<Rightarrow> chip" where
  "add_chip raw chips =
     (let ip = TrimSpace (trim_right_char CHR '','' (TrimSpace raw)) in
      if ip = [] then NoChip
      else
        let ip' = (case normalizeCIDR ip ''/32'' of (n, fine) \<Rightarrow> if fine then n else ip) in
        if ParseCIDR ip' = None then BadChip (''Invalid CIDR: '' @ ip')
        else if ip' \<in> set chips then NoChip
        else NewChip (chips @ [ip']))"

definition addIP :: "string \<Rightarrow> peer_form \<Rightarrow> peer_form" where
  "addIP raw f = (case add_chip raw (pf_AllowedIPs f) of
       NoChip \<Rightarrow> f
     | BadChip m \<Rightarrow> f\<lparr>pf_Err := m\<rparr>
     | NewChip xs \<Rightarrow> f\<lparr>pf_AllowedIPs := xs, pf_Input := map_option (\<lambda>_. []) (pf_Input f)\<rparr>)"

definition addClientIP :: "string \<Rightarrow> peer_form \<Rightarrow> peer_form" where
  "addClientIP raw f = (case add_chip raw (pf_ClientAllowedIPs f) of
       NoChip \<Rightarrow> f
     | BadChip m \<Rightarrow> f\<lparr>pf_Err := m\<rparr>
     | NewChip xs \<Rightarrow> f\<lparr>pf_ClientAllowedIPs := xs, pf_ClientInput := map_option (\<lambda>_. []) (pf_ClientInput f)\<rparr>)"

definition flushAlertEmailInput :: "peer_form \<Rightarrow> peer_form" where
  "flushAlertEmailInput f = (case pf_EmailInput f of
       None \<Rightarrow> f
     | Some raw \<Rightarrow>
         let val = TrimSpace raw in
         if val = [] then f
         else f\<lparr>pf_AlertEmails := (if pf_AlertEmails f = [] then val else pf_AlertEmails f @ '', '' @ val),
                pf_EmailInput := Some []\<rparr>)"

definition flush_inputs :: "peer_form \<Rightarrow> peer_form" where
  "flush_inputs f =
     (let f1 = (case pf_Input f of Some v \<Rightarrow> if TrimSpace v \<noteq> [] then addIP v f else f | None \<Rightarrow> f);
          f2 = (case pf_ClientInput f1 of Some v \<Rightarrow> if TrimSpace v \<noteq> [] then addClientIP v f1 else f1 | None \<Rightarrow> f1)
      in flushAlertEmailInput f2)"

definition tunnel_network :: "string \<Rightarrow> string" where
  "tunnel_network a = (case ParseCIDR a of
       Some (ip, _) \<Rightarrow> IP_String ip @ ''/32''
     | None \<Rightarrow> (case ParseIP a of Some ip \<Rightarrow> IP_String ip @ ''/32'' | None \<Rightarrow> a))"

text \<open>What both forms check before they send: a message, or the form that is sent.\<close>

definition check_addresses :: "string list \<Rightarrow> peer_form \<Rightarrow> string + peer_form" where
  "check_addresses usedAddrs f =
     (if pf_Address f \<noteq> [] \<and> isIPInUse (pf_Address f) usedAddrs then Inl ''Tunnel IP address is already in use''
      else
        let f' = (if pf_AllowedIPs f = [] \<and> pf_Address f \<noteq> []
                  then f\<lparr>pf_AllowedIPs := [tunnel_network (pf_Address f)]\<rparr> else f) in
        if pf_AllowedIPs f' = [] then Inl ''Tunnel address is required'' else Inr f')"

text \<open>The number of the keepalive field; what is no number counts as 0.\<close>

definition keepalive_value :: "string \<Rightarrow> int" where
  "keepalive_value s = (if s \<noteq> [] then (case Atoi s of Inr k \<Rightarrow> k | Inl _ \<Rightarrow> 0) else 0)"

definition PeerForm :: "string \<Rightarrow> string list \<Rightarrow> peer_form" where
  "PeerForm ifaceAddr usedAddrs =
     \<lparr>pf_Type = ''client'', pf_Name = [], pf_Address = nextAvailableIP ifaceAddr usedAddrs, pf_DNS = [],
      pf_Keepalive = ''25'', pf_PSK = False, pf_AlertConnect = False, pf_AlertDisconnect = False, pf_AlertEmails = [],
      pf_Err = [], pf_AllowedIPs = [], pf_ClientAllowedIPs = [], pf_Input = Some [], pf_ClientInput = Some [],
      pf_EmailInput = Some []\<rparr>"

definition doAdd :: "string list \<Rightarrow> peer_form \<Rightarrow> string + addPeerRequest" where
  "doAdd usedAddrs f =
     (if TrimSpace (pf_Name f) = [] then Inl ''Name is required''
      else case check_addresses usedAddrs (flush_inputs (f\<lparr>pf_Err := []\<rparr>)) of
        Inl m \<Rightarrow> Inl m
      | Inr f' \<Rightarrow> Inr \<lparr>aq_Type = pf_Type f', aq_Name = pf_Name f', aq_Address = pf_Address f',
          aq_AllowedIPs = join '', '' (pf_AllowedIPs f'), aq_ClientAllowedIPs = join '', '' (pf_ClientAllowedIPs f'),
          aq_DNS = pf_DNS f', aq_Endpoint = [], aq_PersistentKeepalive = keepalive_value (pf_Keepalive f'),
          aq_PSK = pf_PSK f', aq_AlertOnConnect = pf_AlertConnect f', aq_AlertOnDisconnect = pf_AlertDisconnect f',
          aq_AlertEmails = pf_AlertEmails f'\<rparr>)"

definition csv_chips :: "string \<Rightarrow> string list" where
  "csv_chips s = filter (\<lambda>ip. ip \<noteq> []) (map TrimSpace (split_char CHR '','' s))"

definition PeerEditForm :: "peer \<Rightarrow> peer_form" where
  "PeerEditForm p =
     \<lparr>pf_Type = (if p_Type p = [] then ''client'' else p_Type p), pf_Name = p_Name p, pf_Address = p_Address p,
      pf_DNS = p_DNS p,
      pf_Keepalive = (if p_PersistentKeepalive p > 0 then itoa (p_PersistentKeepalive p) else ''25''),
      pf_PSK = False, pf_AlertConnect = p_AlertOnConnect p, pf_AlertDisconnect = p_AlertOnDisconnect p,
      pf_AlertEmails = p_AlertEmails p, pf_Err = [], pf_AllowedIPs = csv_chips (p_AllowedIPs p),
      pf_ClientAllowedIPs = csv_chips (p_ClientAllowedIPs p), pf_Input = Some [], pf_ClientInput = Some [],
      pf_EmailInput = Some []\<rparr>"

definition doSave :: "string list \<Rightarrow> peer_form \<Rightarrow> string + updatePeerRequest" where
  "doSave usedAddrs f =
     (case check_addresses usedAddrs (flush_inputs (f\<lparr>pf_Err := []\<rparr>)) of
        Inl m \<Rightarrow> Inl m
      | Inr f' \<Rightarrow> Inr \<lparr>uq_Type = pf_Type f', uq_Name = pf_Name f', uq_Address = pf_Address f',
          uq_AllowedIPs = join '', '' (pf_AllowedIPs f'), uq_ClientAllowedIPs = Some (join '', '' (pf_ClientAllowedIPs f')),
          uq_DNS = Some (pf_DNS f'), uq_Endpoint = [], uq_PersistentKeepalive = keepalive_value (pf_Keepalive f'),
          uq_AlertOnConnect = Some (pf_AlertConnect f'), uq_AlertOnDisconnect = Some (pf_AlertDisconnect f'),
          uq_AlertEmails = Some (pf_AlertEmails f')\<rparr>)"

section \<open>The forms of interfaces\<close>

definition port_message :: string where "port_message = ''Port must be a number between 1 and 65535''"

definition valid_port :: "string \<Rightarrow> int option" where
  "valid_port s = (case Atoi s of Inl _ \<Rightarrow> None | Inr p \<Rightarrow> if p < 1 \<or> p > 65535 then None else Some p)"

text \<open>\<open>createInterfaceForm\<close>: identifier, port, address, DNS and endpoint as typed.\<close>

definition doCreate :: "string \<Rightarrow> string \<Rightarrow> string \<Rightarrow> string \<Rightarrow> string \<Rightarrow> string + createInterfaceRequest" where
  "doCreate ident port address dns endpoint =
     (if ident = [] then Inl ''Interface ID is required''
      else if address = [] then Inl ''Address is required''
      else case valid_port port of
        None \<Rightarrow> Inl port_message
      | Some p \<Rightarrow> Inr \<lparr>ciq_ID = ident, ciq_Type = ''client-access'', ciq_ListenPort = p, ciq_Address = address,
          ciq_DNS = dns, ciq_MTU = 0, ciq_Endpoint = endpoint, ciq_PostUp = [], ciq_PostDown = []\<rparr>)"

definition doImport :: "string \<Rightarrow> string \<Rightarrow> string + importConfigRequest" where
  "doImport ident config =
     (if ident = [] then Inl ''Interface ID is required''
      else if config = [] then Inl ''Paste your WireGuard config''
      else Inr \<lparr>imq_ID = ident, imq_Type = ''client-access'', imq_Config = config\<rparr>)"

text \<open>\<open>interfaceEditForm\<close>: address, port, DNS, MTU, endpoint and the two hooks.\<close>

definition interfaceEditForm_doSave ::
  "string \<Rightarrow> string \<Rightarrow> string \<Rightarrow> string \<Rightarrow> string \<Rightarrow> string \<Rightarrow> string \<Rightarrow> string + updateInterfaceRequest" where
  "interfaceEditForm_doSave address port dns mtu endpoint postUp postDown =
     (case valid_port port of
        None \<Rightarrow> Inl port_message
      | Some p \<Rightarrow> (case Atoi mtu of
          Inl _ \<Rightarrow> Inl ''MTU must be a positive number''
        | Inr m \<Rightarrow>
            if m < 1 then Inl ''MTU must be a positive number''
            else Inr \<lparr>uiq_Address = address, uiq_ListenPort = p, uiq_DNS = dns, uiq_MTU = m, uiq_Endpoint = endpoint,
              uiq_PostUp = postUp, uiq_PostDown = postDown\<rparr>))"

end
