(* ===== verification/WebFacts.thy ===== *)
theory WebFacts
  imports Samples WebForms
begin

text \<open>
  The forms of the web application: the address that is offered to a new peer, and the edit of a
  peer from the form to the stored row.
\<close>

section \<open>Addresses as numbers\<close>

definition ip_val :: "nat list \<Rightarrow> nat" where "ip_val q = foldl (\<lambda>n b. 256 * n + b) 0 q"

definition ip_bytes :: "nat \<Rightarrow> nat list" where
  "ip_bytes v = [v div 2 ^ 24 mod 256, v div 2 ^ 16 mod 256, v div 2 ^ 8 mod 256, v mod 256]"

definition quad :: "nat list \<Rightarrow> bool" where "quad q \<longleftrightarrow> length q = 4 \<and> (\<forall>b \<in> set q. b < 256)"

lemma quadE:
  assumes "quad q"
  obtains a b c d where "q = [a, b, c, d]" "a < 256" "b < 256" "c < 256" "d < 256"
proof -
  obtain a b c d where "q = [a, b, c, d]" using assms
    by (auto simp: quad_def length_Suc_conv numeral_eq_Suc)
  with assms that show ?thesis by (auto simp: quad_def)
qed

lemma quad_ip_bytes [simp]: "quad (ip_bytes v)"
  by (simp add: quad_def ip_bytes_def)

lemma ip_bytes_horner:
  fixes a b c d :: nat
  assumes "a < 256" "b < 256" "c < 256" "d < 256"
  shows "ip_bytes (256 * (256 * (256 * a + b) + c) + d) = [a, b, c, d]"
proof -
  have d: "(256 * x + y) div 256 = x" "(256 * x + y) mod 256 = y" if "y < 256" for x y :: nat
    using that by (simp_all only: mod_mult_self4 div_mult_self4 mod_less div_less)
  have "v div 2 ^ 16 = v div 256 div 256" "v div 2 ^ 24 = v div 256 div 256 div 256" for v :: nat
    by (simp_all only: div_mult2_eq [symmetric]) simp_all
  then have "ip_bytes v = [v div 256 div 256 div 256 mod 256, v div 256 div 256 mod 256, v div 256 mod 256, v mod 256]" for v
    by (simp add: ip_bytes_def)
  then show ?thesis using assms by (simp only: d mod_less)
qed

lemma ip_bytes_val: "quad q \<Longrightarrow> ip_bytes (ip_val q) = q"
  using ip_bytes_horner by (elim quadE) (simp add: ip_val_def)

lemma wf_quad: "quad q \<Longrightarrow> wf_ip (v4_in_v6 @ q)"
  by (auto simp: quad_def intro: wf_v4)

lemma To4_quad: "To4 (v4_in_v6 @ q) = Some q"
  by (simp add: To4_def v4_in_v6_def)

lemma IP_String_quad: "IP_String (v4_in_v6 @ q) = string4 q"
  by (simp add: IP_String_def To4_quad)

lemma string4_inj: "quad p \<Longrightarrow> quad q \<Longrightarrow> string4 p = string4 q \<longleftrightarrow> p = q"
  using IP_String_inj [OF wf_quad wf_quad, of p q] by (auto simp: IP_String_quad)

section \<open>Masks\<close>

lemma and_mask:
  fixes x :: nat
  assumes "x < 256" "k \<le> 8"
  shows "x AND (256 - 2 ^ k) = x div 2 ^ k * 2 ^ k"
proof -
  have x: "take_bit 8 x = x" using assms(1) by (simp add: take_bit_eq_mod)
  have "(2::nat) ^ (8 - k) * 2 ^ k = 256" using assms(2) by (simp add: power_add [symmetric])
  then have "256 - 2 ^ k = push_bit k (mask (8 - k) :: nat)"
    by (simp add: push_bit_eq_mult mask_eq_exp_minus_1 diff_mult_distrib)
  moreover have "x AND push_bit k (mask (8 - k)) = push_bit k (drop_bit k x)"
  proof (rule bit_eqI)
    fix i
    have "bit x i \<longleftrightarrow> i < 8 \<and> bit x i" using bit_take_bit_iff [of 8 x i] by (simp add: x)
    then show "bit (x AND push_bit k (mask (8 - k))) i = bit (push_bit k (drop_bit k x)) i"
      using assms(2) by (auto simp: bit_and_iff bit_push_bit_iff bit_mask_iff bit_drop_bit_eq)
  qed
  ultimately show ?thesis by (simp add: push_bit_eq_mult drop_bit_eq_div)
qed

lemma mask_byte_and:
  assumes "x < 256"
  shows "x AND mask_byte n k = x div 2 ^ (8 - min 8 (n - 8 * k)) * 2 ^ (8 - min 8 (n - 8 * k))"
  unfolding mask_byte_def Let_def by (rule and_mask [OF assms]) simp

text \<open>The network of an address as a number: the largest multiple of the size of the network that is not above it.\<close>

lemma aligned_unique:
  fixes v :: nat
  assumes "m dvd w" "w \<le> v" "v < w + m"
  shows "w = v div m * m"
proof -
  obtain k where k: "w = k * m" using assms(1) by (metis dvd_def mult.commute)
  then have "v div m = k" using assms by (intro div_nat_eqI) (simp_all add: algebra_simps)
  with k show ?thesis by simp
qed

lemma ip_val_mask:
  assumes "quad q" "n \<le> 32"
  shows "quad (mask_ip n q)" and "ip_val (mask_ip n q) = ip_val q div 2 ^ (32 - n) * 2 ^ (32 - n)"
proof -
  obtain a b c d where q: "q = [a, b, c, d]" "a < 256" "b < 256" "c < 256" "d < 256"
    using assms(1) by (rule quadE)
  define e where "e k = 8 - min 8 (n - 8 * k)" for k
  define f where "f x k = x div 2 ^ e k * 2 ^ e k" for x k :: nat
  have m: "mask_ip n q = [f a 0, f b 1, f c 2, f d 3]"
    using q by (simp add: mask_ip_def mask_byte_and f_def e_def upt_rec)
  have le: "f x k \<le> x" for x k by (simp add: f_def)
  have gt: "x < f x k + 2 ^ e k" for x k
  proof -
    have "x mod 2 ^ e k < 2 ^ e k" by simp
    then show ?thesis using div_mod_decomp [of x "2 ^ e k"] unfolding f_def by linarith
  qed
  have dvd: "2 ^ e k dvd y * 256 + f x k" for x y k
  proof -
    have "2 ^ e k dvd (2::nat) ^ 8" by (intro le_imp_power_dvd) (simp add: e_def)
    then show ?thesis by (simp add: f_def)
  qed
  have all: "f x k = x" if "8 * k + 8 \<le> n" for x k using that by (simp add: f_def e_def)
  have none: "f x k = 0" if "n \<le> 8 * k" "x < 256" for x k using that by (simp add: f_def e_def)
  show "quad (mask_ip n q)"
    using q(2-) le [of a 0] le [of b 1] le [of c 2] le [of d 3] unfolding m by (simp add: quad_def)
  show "ip_val (mask_ip n q) = ip_val q div 2 ^ (32 - n) * 2 ^ (32 - n)"
  proof (rule aligned_unique)
    consider "n \<le> 8" | "8 < n" "n \<le> 16" | "16 < n" "n \<le> 24" | "24 < n" by linarith
    then have "2 ^ (32 - n) dvd ip_val (mask_ip n q) \<and> ip_val (mask_ip n q) \<le> ip_val q
      \<and> ip_val q < ip_val (mask_ip n q) + 2 ^ (32 - n)"
    proof cases
      case 1
      then have "32 - n = e 0 + 24" by (simp add: e_def)
      then have size: "(2::nat) ^ (32 - n) = 2 ^ e 0 * 2 ^ 24" by (simp only: power_add)
      have "ip_val (mask_ip n q) = (0 * 256 + f a 0) * 2 ^ 24" using 1 q(2-) none by (simp add: m ip_val_def)
      moreover have "2 ^ (32 - n) dvd (0 * 256 + f a 0) * 2 ^ 24"
        unfolding size by (rule mult_dvd_mono [OF dvd dvd_refl])
      ultimately show ?thesis
        using q(1) gt [of a 0] le [of a 0] q(2-) unfolding size by (auto simp: ip_val_def)
    next
      case 2
      then have "32 - n = e 1 + 16" by (simp add: e_def)
      then have size: "(2::nat) ^ (32 - n) = 2 ^ e 1 * 2 ^ 16" by (simp only: power_add)
      have "ip_val (mask_ip n q) = (a * 256 + f b 1) * 2 ^ 16" using 2 q(2-) none all by (simp add: m ip_val_def)
      moreover have "2 ^ (32 - n) dvd (a * 256 + f b 1) * 2 ^ 16"
        unfolding size by (rule mult_dvd_mono [OF dvd dvd_refl])
      ultimately show ?thesis
        using q(1) gt [of b 1] le [of b 1] q(2-) unfolding size by (auto simp: ip_val_def)
    next
      case 3
      then have "32 - n = e 2 + 8" by (simp add: e_def)
      then have size: "(2::nat) ^ (32 - n) = 2 ^ e 2 * 2 ^ 8" by (simp only: power_add)
      have "ip_val (mask_ip n q) = ((a * 256 + b) * 256 + f c 2) * 2 ^ 8" using 3 q(2-) none all by (simp add: m ip_val_def)
      moreover have "2 ^ (32 - n) dvd ((a * 256 + b) * 256 + f c 2) * 2 ^ 8"
        unfolding size by (rule mult_dvd_mono [OF dvd dvd_refl])
      ultimately show ?thesis
        using q(1) gt [of c 2] le [of c 2] q(2-) unfolding size by (auto simp: ip_val_def)
    next
      case 4
      then have size: "(2::nat) ^ (32 - n) = 2 ^ e 3" using assms(2) by (simp add: e_def)
      have "ip_val (mask_ip n q) = ((a * 256 + b) * 256 + c) * 256 + f d 3" using 4 q(2-) none all by (simp add: m ip_val_def)
      moreover have "2 ^ (32 - n) dvd ((a * 256 + b) * 256 + c) * 256 + f d 3" unfolding size by (rule dvd)
      ultimately show ?thesis
        using q(1) gt [of d 3] le [of d 3] unfolding size by (auto simp: ip_val_def)
    qed
    then show "2 ^ (32 - n) dvd ip_val (mask_ip n q)" "ip_val (mask_ip n q) \<le> ip_val q"
      "ip_val q < ip_val (mask_ip n q) + 2 ^ (32 - n)" by auto
  qed
qed

section \<open>Candidates\<close>

lemma div_add_aligned:
  fixes x i :: nat
  assumes "2 ^ s dvd x" "i < 2 ^ s"
  shows "(x + i) div 2 ^ t = x div 2 ^ t + i div 2 ^ t"
proof (cases "s \<le> t")
  case True
  obtain k where k: "x = 2 ^ s * k" using assms(1) by (rule dvdE)
  have t: "(2::nat) ^ t = 2 ^ s * 2 ^ (t - s)" using True by (simp add: power_add [symmetric])
  have "(x + i) div 2 ^ s = k" "x div 2 ^ s = k" using assms(2) k by simp_all
  then have "(x + i) div 2 ^ t = x div 2 ^ t" by (simp add: t div_mult2_eq)
  moreover have "i div 2 ^ t = 0" using assms(2) True by (simp add: order_less_le_trans)
  ultimately show ?thesis by simp
next
  case False
  then have "2 ^ t dvd x" using assms(1) by (meson dvd_trans le_imp_power_dvd nat_le_linear)
  then show ?thesis by (rule div_plus_div_distrib_dvd_left)
qed

lemma candidate_ip_val:
  assumes "quad q" "2 ^ s dvd ip_val q" "i < 2 ^ s"
  shows "candidate_ip q (int i) = ip_bytes (ip_val q + i)"
proof -
  have byte: "nat (int i div 2 ^ t mod 256) = i div 2 ^ t mod 256" for t
  proof -
    have "int i div 2 ^ t mod 256 = int (i div 2 ^ t mod 256)" by (simp add: zdiv_int zmod_int)
    then show ?thesis by simp
  qed
  have step: "(ip_val q div 2 ^ t mod 256 + i div 2 ^ t mod 256) mod 256 = (ip_val q + i) div 2 ^ t mod 256" for t
    by (simp add: div_add_aligned [OF assms(2,3)] mod_add_eq)
  have entries: "q ! 0 = v div 2 ^ 24 mod 256" "q ! 1 = v div 2 ^ 16 mod 256" "q ! 2 = v div 2 ^ 8 mod 256"
    "q ! 3 = v mod 256" if "q = ip_bytes v" for v
    using that by (simp_all add: ip_bytes_def)
  note entries [OF ip_bytes_val [OF assms(1), symmetric]]
  moreover have "map f [0..<4] = [f 0, f 1, f 2, f 3]" for f :: "nat \<Rightarrow> nat"
    by (simp add: upt_rec eval_nat_numeral)
  ultimately have "candidate_ip q (int i) = [(ip_val q div 2 ^ 24 mod 256 + i div 2 ^ 24 mod 256) mod 256,
      (ip_val q div 2 ^ 16 mod 256 + i div 2 ^ 16 mod 256) mod 256,
      (ip_val q div 2 ^ 8 mod 256 + i div 2 ^ 8 mod 256) mod 256, (ip_val q mod 256 + i div 2 ^ 0 mod 256) mod 256]"
    by (simp add: candidate_ip_def byte)
  then show ?thesis using step [of 24] step [of 16] step [of 8] step [of 0]
    by (simp only: ip_bytes_def power_0 div_by_1)
qed

lemma in_map_filter: "y \<in> set (List.map_filter f xs) \<longleftrightarrow> (\<exists>x \<in> set xs. f x = Some y)"
  by (induction xs) (auto split: option.splits)

lemma used_keys_iff:
  assumes "quad gw" "quad q"
  shows "string4 q \<in> set (used_keys gw used) \<longleftrightarrow> q = gw \<or> (\<exists>u \<in> set used. host_addr u = Some (v4_in_v6 @ q))"
proof -
  have nil: "string4 q \<noteq> ''<nil>''"
  proof
    assume "string4 q = ''<nil>''"
    then have "ParseIP ''<nil>'' = Some (v4_in_v6 @ q)"
      using ParseIP_IP_String [OF wf_quad [OF assms(2)]] by (simp add: IP_String_quad)
    then show False by (simp add: ParseIP_def parse_addr_def)
  qed
  have key: "(case To4 a of Some p \<Rightarrow> string4 p | None \<Rightarrow> ''<nil>'') = string4 q \<longleftrightarrow> a = v4_in_v6 @ q"
    if a: "host_addr u = Some a" for u a
  proof (cases "To4 a")
    case None
    with nil show ?thesis using To4_quad [of q] by auto
  next
    case (Some p)
    with host_addr_wf [OF a] have "a = v4_in_v6 @ p" "quad p" by (auto simp: quad_def dest: To4_Some)
    with string4_inj [OF _ assms(2)] Some show ?thesis by auto
  qed
  have "used_keys gw used = string4 gw # List.map_filter (\<lambda>u. map_option
      (\<lambda>a. case To4 a of Some p \<Rightarrow> string4 p | None \<Rightarrow> ''<nil>'') (host_addr u)) used"
    by (simp add: used_keys_def host_addr_def map_option_case)
  with string4_inj [OF assms] key show ?thesis by (auto simp: in_map_filter)
qed

lemma first_free_result:
  "first_free base used limit i = [] \<and> (\<forall>j. i \<le> j \<and> j < limit \<longrightarrow> string4 (candidate_ip base j) \<in> set used)
    \<or> (\<exists>j. i \<le> j \<and> j < limit \<and> string4 (candidate_ip base j) \<notin> set used
        \<and> (\<forall>k. i \<le> k \<and> k < j \<longrightarrow> string4 (candidate_ip base k) \<in> set used)
        \<and> first_free base used limit i = string4 (candidate_ip base j) @ ''/32'')"
proof (induction base used limit i rule: first_free.induct)
  case (1 base used limit i)
  show ?case
  proof (cases "i < limit \<and> string4 (candidate_ip base i) \<in> set used")
    case True
    then have skip: "first_free base used limit i = first_free base used limit (i + 1)"
      by (subst first_free.simps) simp
    have split: "i \<le> j \<longleftrightarrow> j = i \<or> i + 1 \<le> j" for j by auto
    from 1 True show ?thesis unfolding skip by (auto simp: split)
  next
    case False
    then show ?thesis by (subst (1 2) first_free.simps) auto
  qed
qed

text \<open>An address of the network that may be given away: not the network address, the broadcast
  address, the address of the interface, or one that is used.\<close>

definition network_of :: "nat list \<Rightarrow> nat \<Rightarrow> nat" where
  "network_of gw n = ip_val gw div 2 ^ (32 - n) * 2 ^ (32 - n)"

definition free_host :: "nat list \<Rightarrow> nat \<Rightarrow> string list \<Rightarrow> nat \<Rightarrow> bool" where
  "free_host gw n used i \<longleftrightarrow> 0 < i \<and> i < 2 ^ (32 - n) - 1 \<and> ip_bytes (network_of gw n + i) \<noteq> gw
     \<and> \<not> (\<exists>u \<in> set used. host_addr u = Some (v4_in_v6 @ ip_bytes (network_of gw n + i)))"

lemma ParseCIDR_v4:
  assumes "ParseCIDR s = Some (a, n, 32)"
  shows "a = v4_in_v6 @ drop 12 a" "quad (drop 12 a)" "n \<le> 32"
proof -
  obtain q where "a = v4_in_v6 @ q" "quad q" "n \<le> 32"
    using assms by (auto simp: ParseCIDR_def parse_addr_def quad_def split: option.splits prod.splits if_splits
        dest: parse_ipv4_wf)
  then show "a = v4_in_v6 @ drop 12 a" "quad (drop 12 a)" "n \<le> 32" by (simp_all add: v4_in_v6_def)
qed

text \<open>C26. The address that the form offers to a new peer of an interface with an IPv4 network is the
  first one of the network that is free, and it offers none exactly if there is none.\<close>

theorem nextAvailableIP_first_free:
  assumes "ParseCIDR ifaceAddr = Some (a, n, 32)"
  shows "nextAvailableIP ifaceAddr used = [] \<and> (\<forall>i. \<not> free_host (drop 12 a) n used i)
    \<or> (\<exists>i. free_host (drop 12 a) n used i \<and> (\<forall>k < i. \<not> free_host (drop 12 a) n used k)
        \<and> nextAvailableIP ifaceAddr used = string4 (ip_bytes (network_of (drop 12 a) n + i)) @ ''/32'')"
proof -
  let ?gw = "drop 12 a" and ?base = "mask_ip n (drop 12 a)"
  let ?used = "used_keys ?gw used" and ?size = "2 ^ (32 - n) :: int"
  note gw = ParseCIDR_v4 [OF assms]
  have "To4 a = Some ?gw" using To4_quad gw(1) by metis
  moreover have "int64 (int64 z - 1) = z - 1" if "1 \<le> z" "z \<le> 2 ^ 32" for z
    using that by (simp add: int64_id)
  then have "int64 (int64 ?size - 1) = ?size - 1"
    using power_increasing [of "32 - n" 32 "2::int"] by simp
  moreover have "32 - n < 64" by simp
  ultimately have result: "nextAvailableIP ifaceAddr used = first_free ?base ?used (?size - 1) 1"
    using assms by (simp add: nextAvailableIP_def network_base_def)
  have base: "quad ?base" "ip_val ?base = network_of ?gw n" "2 ^ (32 - n) dvd ip_val ?base"
    using ip_val_mask [OF gw(2,3)] by (simp_all add: network_of_def)
  have key: "string4 (candidate_ip ?base (int i)) \<in> set ?used \<longleftrightarrow> \<not> free_host ?gw n used i"
    "candidate_ip ?base (int i) = ip_bytes (network_of ?gw n + i)" if "0 < i" "i < 2 ^ (32 - n) - 1" for i
    using that candidate_ip_val [OF base(1,3), of i] used_keys_iff [OF gw(2) quad_ip_bytes, of "network_of ?gw n + i" used]
    by (auto simp: free_host_def base(2))
  have "int (2 ^ (32 - n) - 1) = ?size - 1" by (simp add: of_nat_diff)
  then have lt: "int i < ?size - 1 \<longleftrightarrow> i < 2 ^ (32 - n) - 1" for i by (metis of_nat_less_iff)
  have nofree: "\<not> free_host ?gw n used k" if "0 < k \<Longrightarrow> k < 2 ^ (32 - n) - 1
      \<Longrightarrow> string4 (candidate_ip ?base (int k)) \<in> set ?used" for k
    using that key(1) [of k] by (auto simp: free_host_def)
  from first_free_result [of ?base ?used "?size - 1" 1]
  consider (none) "first_free ?base ?used (?size - 1) 1 = []"
      "\<forall>j. 1 \<le> j \<and> j < ?size - 1 \<longrightarrow> string4 (candidate_ip ?base j) \<in> set ?used"
    | (found) j where "1 \<le> j" "j < ?size - 1" "string4 (candidate_ip ?base j) \<notin> set ?used"
      "\<forall>k. 1 \<le> k \<and> k < j \<longrightarrow> string4 (candidate_ip ?base k) \<in> set ?used"
      "first_free ?base ?used (?size - 1) 1 = string4 (candidate_ip ?base j) @ ''/32''"
    by blast
  then show ?thesis unfolding result
  proof cases
    case none
    have "\<not> free_host ?gw n used i" for i using none(2) by (intro nofree) (simp add: lt)
    with none(1) show "first_free ?base ?used (?size - 1) 1 = [] \<and> (\<forall>i. \<not> free_host ?gw n used i)
      \<or> (\<exists>i. free_host ?gw n used i \<and> (\<forall>k < i. \<not> free_host ?gw n used k)
          \<and> first_free ?base ?used (?size - 1) 1 = string4 (ip_bytes (network_of ?gw n + i)) @ ''/32'')" by blast
  next
    case found
    obtain i where i: "j = int i" "0 < i" using found(1) by (metis nat_0_le not_one_le_zero of_nat_0_less_iff
          order_trans zero_le_one zero_less_one order_less_le_trans)
    with found(2) have "i < 2 ^ (32 - n) - 1" by (simp add: lt)
    note at = key [OF i(2) this]
    have "\<forall>k < i. \<not> free_host ?gw n used k" using found(4) i by (auto intro!: nofree)
    moreover have "free_host ?gw n used i" using at(1) found(3) i(1) by simp
    ultimately show "first_free ?base ?used (?size - 1) 1 = [] \<and> (\<forall>i. \<not> free_host ?gw n used i)
      \<or> (\<exists>i. free_host ?gw n used i \<and> (\<forall>k < i. \<not> free_host ?gw n used k)
          \<and> first_free ?base ?used (?size - 1) 1 = string4 (ip_bytes (network_of ?gw n + i)) @ ''/32'')"
      using found(5) at(2) i(1) by auto
  qed
qed

lemma nextAvailableIP_first_free_witness:
  "nextAvailableIP ''10.0.0.1/29'' [''10.0.0.1/29'', ''10.0.0.2/32''] = ''10.0.0.3/32''
    \<and> (\<exists>i. free_host [10, 0, 0, 1] 29 [''10.0.0.1/29'', ''10.0.0.2/32''] i)"
proof -
  have p: "ParseCIDR ''10.0.0.1/29'' = Some (v4_in_v6 @ [10, 0, 0, 1], 29, 32)" by code_simp
  have r: "nextAvailableIP ''10.0.0.1/29'' [''10.0.0.1/29'', ''10.0.0.2/32''] = ''10.0.0.3/32''" by code_simp
  have "drop 12 (v4_in_v6 @ [10, 0, 0, 1]) = [10, 0, 0, 1]" by (simp add: v4_in_v6_def)
  with nextAvailableIP_first_free [OF p, of "[''10.0.0.1/29'', ''10.0.0.2/32'']"] r show ?thesis by auto
qed

section \<open>Editing a peer\<close>

lemma get_peer_found: "get_peer k d = Some p \<Longrightarrow> p \<in> set (t_peers d) \<and> p_ID p = k"
  by (auto simp: get_peer_def dest: row_Some)

lemma store_update_returns:
  assumes "run_state (UpdatePeer env p) v = (Inr p', v')" "get_peer (p_ID p) (wdb v) = Some q"
    and "wdb v = wdb w" "run_state (SyncInterface env k) v' = (r, w')"
  shows "\<exists>now. p' = p\<lparr>p_UpdatedAt := now\<rparr> \<and> get_peer (p_ID p) (wdb w') = Some (p'\<lparr>p_CreatedAt := p_CreatedAt q\<rparr>)"
proof -
  obtain now fk where p': "p' = p\<lparr>p_UpdatedAt := now\<rparr>" and u: "sql_update_peer fk p' (wdb v) = Inr (wdb v')"
    using UpdatePeer_returns [OF assms(1)] by blast
  have same: "p_ID p' = p_ID p" by (simp add: p')
  with assms(2) have "get_peer (p_ID p') (wdb v) = Some q" by simp
  from sql_update_peer_row(2) [OF u this, of "p_ID p"] same
  have "get_peer (p_ID p) (wdb v') = Some (p'\<lparr>p_CreatedAt := p_CreatedAt q\<rparr>)" by simp
  with p' show ?thesis unfolding SyncInterface_wdb [OF assms(4)] by blast
qed

lemma check_tunnel_ip_returns:
  assumes "run_state (check_tunnel_ip env a j l m) v = (JSON n x, w')"
  shows "\<exists>y. wdb y = wdb v \<and> run_state m y = (JSON n x, w')"
proof -
  obtain b y where "run_state (IsTunnelIPInUse env a j l) v = (Inr b, y)" and m: "run_state m y = (JSON n x, w')"
    using assms by (auto simp: check_tunnel_ip_def returns split: if_splits)
  with validD [OF keeps_reads(6) _ this(1), of "\<lambda>d. d = wdb v"] show ?thesis by auto
qed

lemma handleUpdatePeer_returns:
  assumes "run_state (handleUpdatePeer env k (Inr q)) w = (JSON n p', w')"
  shows "\<exists>p now. get_peer k (wdb w) = Some p \<and> p' = (apply_peer_update q p)\<lparr>p_UpdatedAt := now\<rparr>
    \<and> get_peer k (wdb w') = Some (p'\<lparr>p_CreatedAt := p_CreatedAt p\<rparr>)"
proof -
  let ?save = "\<lambda>p. or_error 500 (UpdatePeer env (apply_peer_update q p)) (\<lambda>p'.
      or_prefix 500 ''peer updated but sync failed: '' (SyncInterface env (p_InterfaceID p')) (\<lambda>_.
      State_Monad.return (JSON 200 p')))"
  obtain p v where g: "run_state (GetPeer env k) w = (Inr (Some p), v)"
    and body: "run_state (
      let continue = or_error 400 (State_Monad.return (case uq_AlertEmails q of
            Some e \<Rightarrow> if e \<noteq> [] then validateEmails env e else Inr () | None \<Rightarrow> Inr ())) (\<lambda>_. ?save p) in
      if uq_Address q \<noteq> [] \<and> ExtractHostIP (uq_Address q) \<noteq> ExtractHostIP (p_Address p)
      then check_tunnel_ip env (uq_Address q) (p_ID p) [] continue else continue) v = (JSON n p', w')"
    using assms unfolding handleUpdatePeer_def json_returns(6) with_body_def sum.case by blast
  have p: "get_peer k (wdb w) = Some p" "wdb v = wdb w" using GetPeer_result [OF g] by auto
  have emails: "run_state (?save p) x = (JSON n p', w')"
    if "run_state (or_error 400 (State_Monad.return e) (\<lambda>_. ?save p)) x = (JSON n p', w')" for e :: "error + unit" and x
    using that by (auto simp: run_or_error split: sum.splits)
  have "\<exists>x. wdb x = wdb w \<and> run_state (?save p) x = (JSON n p', w')"
  proof (cases "uq_Address q \<noteq> [] \<and> ExtractHostIP (uq_Address q) \<noteq> ExtractHostIP (p_Address p)")
    case True
    from check_tunnel_ip_returns [OF body [unfolded Let_def if_P [OF True]]] obtain y where y: "wdb y = wdb v"
      "run_state (or_error 400 (State_Monad.return (case uq_AlertEmails q of
         Some e \<Rightarrow> if e \<noteq> [] then validateEmails env e else Inr () | None \<Rightarrow> Inr ())) (\<lambda>_. ?save p)) y = (JSON n p', w')"
      by blast
    from emails [OF y(2)] y(1) p(2) show ?thesis by auto
  next
    case False
    from emails [OF body [unfolded Let_def if_not_P [OF False]]] p(2) show ?thesis by blast
  qed
  then obtain x p2 y r where x: "wdb x = wdb w" "run_state (UpdatePeer env (apply_peer_update q p)) x = (Inr p2, y)"
    "run_state (SyncInterface env (p_InterfaceID p2)) y = (r, w')" "p' = p2"
    by (auto simp: returns)
  have "p_ID (apply_peer_update q p) = k" using get_peer_found [OF p(1)] by (simp add: apply_peer_update_def)
  with store_update_returns [OF x(2) _ x(1) x(3), of p] p x(1,4) show ?thesis by auto
qed

text \<open>C27. The edit form does not send the endpoint of a peer, and the handler takes the missing field for
  an empty one: whoever saves the form, even without a change, erases a configured endpoint.\<close>

theorem edit_form_erases_endpoint:
  assumes "doSave others f = Inr q" and "run_state (handleUpdatePeer env k (Inr q)) w = (JSON n p', w')"
  shows "\<exists>p. get_peer k (wdb w') = Some p \<and> p_Endpoint p = []"
proof -
  have "uq_Endpoint q = []" using assms(1) by (auto simp: doSave_def split: sum.splits)
  then show ?thesis using handleUpdatePeer_returns [OF assms(2)] by (auto simp: apply_peer_update_def)
qed

definition site_peer :: peer where
  "site_peer = sample_peer\<lparr>p_Type := ''site'', p_Endpoint := ''198.51.100.7:51820''\<rparr>"

definition site_world :: world where
  "site_world = world_of (sample_db\<lparr>t_peers := [site_peer]\<rparr>)"

lemma edit_form_erases_endpoint_witness:
  "\<exists>q w'. doSave [''10.0.0.1/24''] (PeerEditForm site_peer) = Inr q
    \<and> snd (run_state (handleUpdatePeer sample_env ''p1'' (Inr q)) site_world) = w'
    \<and> get_peer ''p1'' (wdb site_world) = Some site_peer \<and> p_Endpoint site_peer \<noteq> []
    \<and> (\<exists>p. get_peer ''p1'' (wdb w') = Some p \<and> p_Endpoint p = [])"
proof -
  let ?q = "case doSave [''10.0.0.1/24''] (PeerEditForm site_peer) of Inr q \<Rightarrow> q | Inl _ \<Rightarrow> undefined"
  have "case doSave [''10.0.0.1/24''] (PeerEditForm site_peer) of Inr _ \<Rightarrow> True | Inl _ \<Rightarrow> False" by code_simp
  then have q: "doSave [''10.0.0.1/24''] (PeerEditForm site_peer) = Inr ?q" by (auto split: sum.splits)
  have "case fst (run_state (handleUpdatePeer sample_env ''p1'' (Inr ?q)) site_world) of JSON _ _ \<Rightarrow> True | _ \<Rightarrow> False"
    by code_simp
  then obtain n p' where "fst (run_state (handleUpdatePeer sample_env ''p1'' (Inr ?q)) site_world) = JSON n p'"
    by (auto split: response.splits)
  then obtain w' where r: "run_state (handleUpdatePeer sample_env ''p1'' (Inr ?q)) site_world = (JSON n p', w')" by (rule run_obtain)
  have "get_peer ''p1'' (wdb site_world) = Some site_peer" "p_Endpoint site_peer \<noteq> []"
    by (simp_all add: site_world_def site_peer_def world_of_def get_peer_def row_def sample_peer_def)
  with edit_form_erases_endpoint [OF q r] q r show ?thesis by auto
qed

end
