(* ===== verification/MailMessage.thy ===== *)
theory MailMessage
  imports Crypto "HOL-Library.List_Lexorder" "HOL-Library.Char_ord"
begin

text \<open>
  The messages the server sends and the SMTP dialogue (internal/mail). A message is the text that
  is handed to the server; the two random boundaries of \<^verbatim>\<open>mime/multipart\<close> and the answers of the mail
  server are parameters. The execution of an HTML template is one here, too: nothing below depends on
  it, and \<open>MailTemplates\<close> supplies it. The writer of \<^verbatim>\<open>mime/multipart\<close> itself is modelled.
\<close>

section \<open>Template data\<close>

record templateData =
  td_PeerName :: string
  td_Note :: string
  td_HasQR :: bool
  td_Filename :: string
  td_ServerURL :: string

record alertTemplateData =
  at_PeerName :: string
  at_PublicKey :: string
  at_InterfaceName :: string
  at_IsConnect :: bool
  at_Message :: string
  at_Endpoint :: string
  at_TransferRx :: string
  at_TransferTx :: string
  at_HasTransfer :: bool
  at_Duration :: string
  at_Timestamp :: string
  at_ServerURL :: string

record testTemplateData =
  tt_To :: string
  tt_Timestamp :: string
  tt_ServerURL :: string

datatype template = PeerConfigTmpl templateData | AlertTmpl alertTemplateData | TestTmpl testTemplateData

datatype smtp_call =
    DialTLS string string
  | DialTCP string
  | NewClient string
  | AuthPlain string string string
  | MailFrom string
  | RcptTo string
  | DataCmd
  | WriteData string
  | CloseData
  | Quit
  | SendMailCall string "(string \<times> string \<times> string) option" string string string

record mailer =
  ml_execute :: "template \<Rightarrow> error + string"
  ml_mixed :: string \<comment> \<open>boundary of the outer writer\<close>
  ml_related :: string \<comment> \<open>boundary of the inner writer\<close>
  ml_stamp :: string \<comment> \<open>the formatted time\<close>
  ml_answer :: "smtp_call \<Rightarrow> error option"

definition or_hash :: "string \<Rightarrow> string" where
  "or_hash url = (if url = [] then ''#'' else url)"

text \<open>
  \<open>float64(b)\<close>: the nearest number of 53 bits, halves to even. The quotient by a power of two is
  exact, and \<open>%.1f\<close> rounds its exact value, halves to even.
\<close>

definition round_half_even :: "int \<Rightarrow> int \<Rightarrow> int" where
  "round_half_even a d =
     (let q = a div d; r = a mod d in
      if 2 * r > d \<or> 2 * r = d \<and> odd q then q + 1 else q)"

fun bit_length :: "nat \<Rightarrow> nat \<Rightarrow> nat" where
  "bit_length 0 n = 0"
| "bit_length (Suc k) n = (if n = 0 then 0 else Suc (bit_length k (n div 2)))"

definition float64 :: "int \<Rightarrow> int" where
  "float64 b =
     (let s = bit_length 64 (nat b) - 53 in round_half_even b (2 ^ s) * 2 ^ s)"

definition one_decimal :: "int \<Rightarrow> int \<Rightarrow> string" where
  "one_decimal b unit =
     (let t = round_half_even (10 * float64 b) unit in itoa (t div 10) @ ''.'' @ itoa (t mod 10))"

definition formatBytes :: "int \<Rightarrow> string" where
  "formatBytes b =
     (if b \<ge> 1024 * 1024 * 1024 then one_decimal b (1024 * 1024 * 1024) @ '' GB''
      else if b \<ge> 1024 * 1024 then one_decimal b (1024 * 1024) @ '' MB''
      else if b \<ge> 1024 then one_decimal b 1024 @ '' KB''
      else itoa b @ '' B'')"

definition renderPeerConfigEmail :: "mailer \<Rightarrow> PeerConfigEmail \<Rightarrow> error + string" where
  "renderPeerConfigEmail g p =
     (case ml_execute g (PeerConfigTmpl \<lparr>td_PeerName = pe_PeerName p, td_Note = pe_Note p,
          td_HasQR = (pe_QRCodePNG p \<noteq> []),
          td_Filename = (if pe_PeerName p \<noteq> [] then pe_PeerName p @ ''.conf'' else ''wgrift.conf''),
          td_ServerURL = or_hash (pe_ServerName p)\<rparr>) of
        Inl e \<Rightarrow> Inl (Wrap ''rendering email template'' e)
      | Inr html \<Rightarrow> Inr html)"

definition renderAlertEmail :: "mailer \<Rightarrow> AlertEmail \<Rightarrow> error + string" where
  "renderAlertEmail g a =
     ml_execute g (AlertTmpl \<lparr>at_PeerName = ae_PeerName a, at_PublicKey = ae_PublicKey a,
       at_InterfaceName = ae_InterfaceName a, at_IsConnect = (ae_Event a = ''connected''),
       at_Message = ae_PeerName a @ (if ae_Event a = ''connected''
         then '' has connected to the tunnel and is now online.''
         else '' has disconnected from the tunnel and is no longer reachable.''),
       at_Endpoint = ae_Endpoint a, at_TransferRx = formatBytes (ae_TransferRx a),
       at_TransferTx = formatBytes (ae_TransferTx a),
       at_HasTransfer = (ae_TransferRx a > 0 \<or> ae_TransferTx a > 0), at_Duration = ae_Duration a,
       at_Timestamp = ml_stamp g, at_ServerURL = or_hash (ae_ServerName a)\<rparr>)"

definition renderTestEmail :: "mailer \<Rightarrow> string \<Rightarrow> string \<Rightarrow> error + string" where
  "renderTestEmail g serverURL to =
     ml_execute g (TestTmpl \<lparr>tt_To = to, tt_Timestamp = ml_stamp g, tt_ServerURL = or_hash serverURL\<rparr>)"

section \<open>Multipart messages\<close>

definition crlf :: string where "crlf = [CHR 0x0D, CHR 0x0A]"

definition header_line :: "string \<Rightarrow> string \<Rightarrow> string" where
  "header_line k v = k @ '': '' @ v @ crlf"

text \<open>\<open>CreatePart\<close>: the delimiter, the header sorted by key (\<open>Set\<close> has put the keys into their
  canonical form, e.g. \<open>Content-Id\<close>) and an empty line. \<open>Close\<close> writes the last delimiter.\<close>

definition part_start :: "bool \<Rightarrow> string \<Rightarrow> (string \<times> string) list \<Rightarrow> string" where
  "part_start is_first boundary header =
     (if is_first then [] else crlf) @ ''--'' @ boundary @ crlf
     @ concat (map (\<lambda>(k, v). header_line k v) (sort_key fst header)) @ crlf"

definition close_delimiter :: "string \<Rightarrow> string" where
  "close_delimiter boundary = crlf @ ''--'' @ boundary @ ''--'' @ crlf"

function wrap76 :: "string \<Rightarrow> string" where
  "wrap76 s = (if s = [] then [] else take 76 s @ crlf @ wrap76 (drop 76 s))"
  by auto
termination by (relation "measure length") auto

declare wrap76.simps [simp del]

text \<open>The length of the first rune of a non-empty text, as Go decodes it: 1 for an invalid byte.\<close>

definition byte_in :: "nat \<Rightarrow> nat \<Rightarrow> char \<Rightarrow> bool" where
  "byte_in lo hi c \<longleftrightarrow> lo \<le> (of_char c :: nat) \<and> (of_char c :: nat) \<le> hi"

abbreviation cont :: "char \<Rightarrow> bool" where "cont \<equiv> byte_in 0x80 0xBF"

fun rune_len :: "string \<Rightarrow> nat" where
  "rune_len (a # s) =
     (if byte_in 0xC2 0xDF a \<and> list_all cont (take 1 s) \<and> length s \<ge> 1 then 2
      else if length s \<ge> 2 \<and> list_all cont (take 2 s) \<and>
        (byte_in 0xE1 0xEC a \<or> byte_in 0xEE 0xEF a \<or> a = CHR 0xE0 \<and> byte_in 0xA0 0xBF (hd s)
          \<or> a = CHR 0xED \<and> byte_in 0x80 0x9F (hd s)) then 3
      else if length s \<ge> 3 \<and> list_all cont (take 3 s) \<and>
        (byte_in 0xF1 0xF3 a \<or> a = CHR 0xF0 \<and> byte_in 0x90 0xBF (hd s)
          \<or> a = CHR 0xF4 \<and> byte_in 0x80 0x8F (hd s)) then 4
      else 1)"
| "rune_len [] = 1"

definition name_char :: "char \<Rightarrow> bool" where
  "name_char c \<longleftrightarrow> byte_in 97 122 c \<or> byte_in 65 90 c \<or> byte_in 48 57 c \<or> c = CHR ''-'' \<or> c = CHR ''_''"

text \<open>\<open>strings.Map\<close> of the filter of file names, rune by rune.\<close>

function safe_name :: "string \<Rightarrow> string" where
  "safe_name [] = []"
| "safe_name (c # s) = (if name_char c then c # safe_name s else CHR ''_'' # safe_name (drop (rune_len (c # s)) (c # s)))"
  by pat_completeness auto
termination by (relation "measure length") (auto simp: less_Suc_eq_le)

declare rune_len.simps [simp del] safe_name.simps(2) [simp del]

definition attachment_name :: "string \<Rightarrow> string" where
  "attachment_name peer = (if peer \<noteq> [] then safe_name peer @ ''.conf'' else ''wgrift.conf'')"

definition quote :: "string \<Rightarrow> string" where "quote s = [CHR 0x22] @ s @ [CHR 0x22]"

definition qr_part :: "string \<Rightarrow> string \<Rightarrow> string" where
  "qr_part boundary png =
     (if png = [] then []
      else part_start False boundary
        [(''Content-Type'', ''image/png''), (''Content-Transfer-Encoding'', ''base64''),
         (''Content-Id'', ''<qrcode>''), (''Content-Disposition'', ''inline; filename='' @ quote ''qrcode.png'')]
        @ wrap76 (EncodeToString png))"

definition conf_header :: "string \<Rightarrow> string \<Rightarrow> string" where
  "conf_header boundary peer = part_start False boundary
     [(''Content-Type'', ''application/octet-stream''), (''Content-Transfer-Encoding'', ''base64''),
      (''Content-Disposition'', ''attachment; filename='' @ quote (attachment_name peer))]"

definition top_header :: "string \<Rightarrow> string \<Rightarrow> string \<Rightarrow> string \<Rightarrow> string" where
  "top_header from to subject ctype =
     header_line ''From'' from @ header_line ''To'' to @ header_line ''Subject'' subject
     @ header_line ''MIME-Version'' ''1.0'' @ header_line ''Content-Type'' ctype @ crlf"

definition buildPeerConfigMessage :: "mailer \<Rightarrow> string \<Rightarrow> PeerConfigEmail \<Rightarrow> string \<Rightarrow> error + string" where
  "buildPeerConfigMessage g from p subject =
     (case renderPeerConfigEmail g p of
        Inl e \<Rightarrow> Inl e
      | Inr html \<Rightarrow> Inr
          (top_header from (pe_To p) subject (''multipart/mixed; boundary='' @ quote (ml_mixed g))
           @ part_start True (ml_mixed g)
               [(''Content-Type'', ''multipart/related; boundary='' @ quote (ml_related g))]
           @ part_start True (ml_related g) [(''Content-Type'', ''text/html; charset=utf-8'')]
           @ html @ qr_part (ml_related g) (pe_QRCodePNG p) @ close_delimiter (ml_related g)
           @ conf_header (ml_mixed g) (pe_PeerName p) @ wrap76 (EncodeToString (pe_ConfData p))
           @ close_delimiter (ml_mixed g)))"

section \<open>The SMTP dialogue\<close>

text \<open>Calls in order, each with the text that wraps its error; the first failure ends the dialogue.\<close>

fun dialogue :: "mailer \<Rightarrow> (string option \<times> smtp_call) list \<Rightarrow> error + unit" where
  "dialogue g [] = Inr ()"
| "dialogue g ((w, c) # cs) = (case ml_answer g c of
       None \<Rightarrow> dialogue g cs
     | Some e \<Rightarrow> Inl (case w of None \<Rightarrow> e | Some t \<Rightarrow> Wrap t e))"

definition client_calls :: "SMTPSettings \<Rightarrow> string \<Rightarrow> string \<Rightarrow> (string option \<times> smtp_call) list" where
  "client_calls s to msg =
     (Some ''SMTP client'', NewClient (sm_Host s))
     # (if sm_Username s \<noteq> [] then [(Some ''SMTP auth'', AuthPlain (sm_Username s) (sm_Password s) (sm_Host s))] else [])
     @ [(Some ''SMTP MAIL'', MailFrom (sm_From s)), (Some ''SMTP RCPT'', RcptTo to), (Some ''SMTP DATA'', DataCmd),
        (Some ''writing message'', WriteData msg), (Some ''closing message'', CloseData), (None, Quit)]"

definition sendMailTLS :: "mailer \<Rightarrow> SMTPSettings \<Rightarrow> string \<Rightarrow> string \<Rightarrow> string \<Rightarrow> error + unit" where
  "sendMailTLS g s addr to msg =
     dialogue g ((Some ''TLS dial'', DialTLS addr (sm_Host s)) # client_calls s to msg)"

definition sendMailPlain :: "mailer \<Rightarrow> SMTPSettings \<Rightarrow> string \<Rightarrow> string \<Rightarrow> string \<Rightarrow> error + unit" where
  "sendMailPlain g s addr to msg = dialogue g ((Some ''dial'', DialTCP addr) # client_calls s to msg)"

definition sendMailSTARTTLS :: "mailer \<Rightarrow> SMTPSettings \<Rightarrow> string \<Rightarrow> string \<Rightarrow> string \<Rightarrow> error + unit" where
  "sendMailSTARTTLS g s addr to msg =
     dialogue g [(None, SendMailCall addr
       (if sm_Username s \<noteq> [] then Some (sm_Username s, sm_Password s, sm_Host s) else None) (sm_From s) to msg)]"

text \<open>\<open>net.JoinHostPort\<close>.\<close>

definition JoinHostPort :: "string \<Rightarrow> string \<Rightarrow> string" where
  "JoinHostPort host port =
     (if CHR '':'' \<in> set host then ''['' @ host @ '']:'' @ port else host @ '':'' @ port)"

definition sendMail :: "mailer \<Rightarrow> SMTPSettings \<Rightarrow> string \<Rightarrow> string \<Rightarrow> error + unit" where
  "sendMail g s to msg =
     (let addr = JoinHostPort (sm_Host s) (itoa (sm_Port s)) in
      if ToLower (sm_TLS s) = ''tls'' then sendMailTLS g s addr to msg
      else if ToLower (sm_TLS s) = ''none'' then sendMailPlain g s addr to msg
      else sendMailSTARTTLS g s addr to msg)"

section \<open>The three kinds of mail\<close>

definition html_message :: "string \<Rightarrow> string \<Rightarrow> string \<Rightarrow> string \<Rightarrow> string" where
  "html_message from to subject html = top_header from to subject ''text/html; charset=utf-8'' @ html"

definition alert_subject :: "AlertEmail \<Rightarrow> string" where
  "alert_subject a = ''WireGuard Alert: '' @ ae_PeerName a @ '' ''
     @ (if ae_Event a \<noteq> ''connected'' then ''Disconnected'' else ''Connected'')"

definition SendAlertEmail :: "mailer \<Rightarrow> SMTPSettings \<Rightarrow> AlertEmail \<Rightarrow> error + unit" where
  "SendAlertEmail g s a =
     (case renderAlertEmail g a of
        Inl e \<Rightarrow> Inl (Wrap ''rendering alert email'' e)
      | Inr html \<Rightarrow> sendMail g s (ae_To a) (html_message (sm_From s) (ae_To a) (alert_subject a) html))"

definition config_subject :: "PeerConfigEmail \<Rightarrow> string" where
  "config_subject p = ''WireGuard Configuration'' @ (if pe_PeerName p \<noteq> [] then '': '' @ pe_PeerName p else [])"

definition SendPeerConfig :: "mailer \<Rightarrow> SMTPSettings \<Rightarrow> PeerConfigEmail \<Rightarrow> error + unit" where
  "SendPeerConfig g s p =
     (case buildPeerConfigMessage g (sm_From s) p (config_subject p) of
        Inl e \<Rightarrow> Inl (Wrap ''building email'' e)
      | Inr body \<Rightarrow> sendMail g s (pe_To p) body)"

definition SendTestEmail :: "mailer \<Rightarrow> SMTPSettings \<Rightarrow> string \<Rightarrow> string \<Rightarrow> error + unit" where
  "SendTestEmail g s to serverURL =
     (case renderTestEmail g serverURL to of
        Inl e \<Rightarrow> Inl (Wrap ''rendering test email'' e)
      | Inr html \<Rightarrow> sendMail g s to (html_message (sm_From s) to ''wgRift SMTP Test'' html))"

section \<open>Attachments\<close>

lemma wrap76_filter:
  "\<forall>c \<in> set s. c \<noteq> CHR 0x0A \<and> c \<noteq> CHR 0x0D \<Longrightarrow> filter (\<lambda>c. c \<noteq> CHR 0x0A \<and> c \<noteq> CHR 0x0D) (wrap76 s) = s"
proof (induction s rule: wrap76.induct)
  case (1 s)
  show ?case
  proof (cases "s = []")
    case False
    have "filter (\<lambda>c. c \<noteq> CHR 0x0A \<and> c \<noteq> CHR 0x0D) (take 76 s) = take 76 s"
      using 1(2) by (intro filter_True) (meson in_set_takeD)
    moreover have "filter (\<lambda>c. c \<noteq> CHR 0x0A \<and> c \<noteq> CHR 0x0D) (wrap76 (drop 76 s)) = drop 76 s"
      using 1 False by (meson in_set_dropD)
    ultimately show ?thesis using False by (subst wrap76.simps) (simp add: crlf_def)
  qed (simp add: wrap76.simps)
qed

lemma DecodeString_wrap76: "DecodeString (wrap76 (EncodeToString s)) = Inr s"
proof -
  have "filter (\<lambda>c. c \<noteq> CHR 0x0A \<and> c \<noteq> CHR 0x0D) (wrap76 (EncodeToString s)) = EncodeToString s"
    using Encode_chars by (intro wrap76_filter) blast
  then show ?thesis by (simp add: DecodeString_def decode_quanta_Encode)
qed

lemma split_line: "c \<notin> set xs \<Longrightarrow> split_char c (xs @ c # ys) = xs # split_char c ys"
  by (induction xs) auto

lemma wrap76_lines:
  "\<forall>c \<in> set s. c \<noteq> CHR 0x0A \<Longrightarrow> l \<in> set (split_char (CHR 0x0A) (wrap76 s)) \<Longrightarrow> length l \<le> 77"
proof (induction s rule: wrap76.induct)
  case (1 s)
  show ?case
  proof (cases "s = []")
    case False
    have "CHR 0x0A \<notin> set (take 76 s @ [CHR 0x0D])" using 1(2) by (auto dest: in_set_takeD)
    from split_line [OF this, of "wrap76 (drop 76 s)"]
    have "split_char (CHR 0x0A) (wrap76 s) = (take 76 s @ [CHR 0x0D]) # split_char (CHR 0x0A) (wrap76 (drop 76 s))"
      using False by (subst wrap76.simps) (simp add: crlf_def)
    with 1(3) consider "l = take 76 s @ [CHR 0x0D]" | "l \<in> set (split_char (CHR 0x0A) (wrap76 (drop 76 s)))"
      by auto
    then show ?thesis
    proof cases
      case 2
      have "\<forall>c \<in> set (drop 76 s). c \<noteq> CHR 0x0A" using 1(2) by (meson in_set_dropD)
      from 1(1) [OF False this 2] show ?thesis .
    qed simp
  qed (use 1 in \<open>simp add: wrap76.simps\<close>)
qed

lemma b64_dash: "\<forall>n \<in> set [0..<64]. b64_char n \<noteq> CHR ''-''"
  by code_simp

lemma Encode_dash: "CHR ''-'' \<notin> set (EncodeToString s)"
  using b64_dash by (induction s rule: EncodeToString.induct) (auto simp: Let_def sextets)

lemma wrap76_chars: "c \<in> set (wrap76 s) \<Longrightarrow> c \<in> set s \<or> c \<in> set crlf"
proof (induction s rule: wrap76.induct)
  case (1 s)
  show ?case
  proof (cases "s = []")
    case False
    with 1(2) have "c \<in> set (take 76 s) \<or> c \<in> set crlf \<or> c \<in> set (wrap76 (drop 76 s))"
      by (subst (asm) wrap76.simps) auto
    with 1(1) [OF False] show ?thesis by (auto dest: in_set_takeD in_set_dropD)
  qed (use 1 in \<open>simp add: wrap76.simps\<close>)
qed

lemma safe_name_chars: "c \<in> set (safe_name s) \<Longrightarrow> name_char c"
proof (induction s rule: safe_name.induct)
  case (2 a s)
  then show ?case
    by (cases "name_char a") (auto simp: safe_name.simps(2) name_char_def [of "CHR ''_''"])
qed simp

text \<open>C24. The attached configuration is the peer's configuration: the body of its part decodes to it,
  in lines of at most 76 characters, and contains no hyphen, so no delimiter can occur in it. The
  name of the attachment is made of letters, digits, \<open>-\<close>, \<open>_\<close> and the dot of its ending.\<close>

theorem attachment_decodes:
  assumes "buildPeerConfigMessage g from p subject = Inr msg"
  shows "\<exists>front body. msg = front @ conf_header (ml_mixed g) (pe_PeerName p) @ body @ close_delimiter (ml_mixed g)
    \<and> DecodeString body = Inr (pe_ConfData p) \<and> CHR ''-'' \<notin> set body
    \<and> (\<forall>l \<in> set (split_char (CHR 0x0A) body). length l \<le> 76 + 1)
    \<and> (\<forall>c \<in> set (attachment_name (pe_PeerName p)). name_char c \<or> c = CHR ''.'')"
proof -
  let ?body = "wrap76 (EncodeToString (pe_ConfData p))"
  obtain front where "msg = front @ conf_header (ml_mixed g) (pe_PeerName p) @ ?body @ close_delimiter (ml_mixed g)"
    using assms by (auto simp: buildPeerConfigMessage_def split: sum.splits)
  moreover have "CHR ''-'' \<notin> set ?body"
    using wrap76_chars [of "CHR ''-''"] Encode_dash by (auto simp: crlf_def)
  moreover have "\<forall>l \<in> set (split_char (CHR 0x0A) ?body). length l \<le> 76 + 1"
    using wrap76_lines Encode_chars by fastforce
  moreover have "\<forall>c \<in> set (attachment_name (pe_PeerName p)). name_char c \<or> c = CHR ''.''"
    by (auto simp: attachment_name_def name_char_def byte_in_def dest: safe_name_chars [unfolded name_char_def byte_in_def])
  ultimately show ?thesis using DecodeString_wrap76 by blast
qed

definition sample_mailer :: mailer where
  "sample_mailer = \<lparr>ml_execute = \<lambda>_. Inr ''<html></html>'', ml_mixed = ''aa'', ml_related = ''bb'', ml_stamp = ''now'',
     ml_answer = \<lambda>_. None\<rparr>"

definition sample_mail :: PeerConfigEmail where
  "sample_mail = \<lparr>pe_To = ''a@b'', pe_PeerName = ''Bob s laptop'', pe_Note = [], pe_ConfData = ''[Interface]'',
     pe_QRCodePNG = ''png'', pe_ServerName = []\<rparr>"

lemma attachment_decodes_witness:
  "\<exists>msg body. buildPeerConfigMessage sample_mailer ''vpn@x'' sample_mail ''s'' = Inr msg
    \<and> DecodeString body = Inr ''[Interface]'' \<and> attachment_name (pe_PeerName sample_mail) = ''Bob_s_laptop.conf''"
proof -
  obtain msg where m: "buildPeerConfigMessage sample_mailer ''vpn@x'' sample_mail ''s'' = Inr msg"
    by (simp add: buildPeerConfigMessage_def renderPeerConfigEmail_def sample_mailer_def)
  have "attachment_name (pe_PeerName sample_mail) = ''Bob_s_laptop.conf''" by code_simp
  with attachment_decodes [OF m] m show ?thesis by (auto simp: sample_mail_def)
qed

section \<open>Header lines\<close>

text \<open>The header of a message as a reader takes it: its lines up to the first empty one.\<close>

definition message_lines :: "string \<Rightarrow> string list" where
  "message_lines msg = map (\<lambda>l. if l \<noteq> [] \<and> last l = CHR 0x0D then butlast l else l) (split_char (CHR 0x0A) msg)"

definition header_lines :: "string \<Rightarrow> string list" where
  "header_lines msg = takeWhile (\<lambda>l. l \<noteq> []) (message_lines msg)"

definition one_line :: "string \<Rightarrow> bool" where
  "one_line s \<longleftrightarrow> CHR 0x0A \<notin> set s \<and> CHR 0x0D \<notin> set s"

lemma one_line_append [simp]: "one_line (s @ t) \<longleftrightarrow> one_line s \<and> one_line t"
  by (auto simp: one_line_def)

lemma header_lines_line: "one_line l \<Longrightarrow> l \<noteq> [] \<Longrightarrow> header_lines (l @ crlf @ rest) = l # header_lines rest"
  using split_line [of "CHR 0x0A" "l @ [CHR 0x0D]" rest]
  by (auto simp: header_lines_def message_lines_def crlf_def one_line_def)

lemma header_lines_header:
  assumes "one_line k" and "one_line v"
  shows "header_lines (header_line k v @ rest) = (k @ '': '' @ v) # header_lines rest"
proof -
  have "one_line (k @ '': '' @ v)" using assms by (simp add: one_line_def)
  from header_lines_line [OF this, of rest] show ?thesis by (simp add: header_line_def)
qed

lemma injected_line:
  assumes "one_line sender" "one_line rcpt" "one_line subject" "one_line l" "l \<noteq> []"
  shows "l \<in> set (header_lines (top_header sender rcpt (subject @ crlf @ l @ crlf @ tail) ctype @ body))"
proof -
  let ?rest = "tail @ crlf @ header_line ''MIME-Version'' ''1.0'' @ header_line ''Content-Type'' ctype @ crlf @ body"
  have "one_line (''Subject: '' @ subject)" using assms(3) by (simp add: one_line_def)
  from header_lines_line [OF this, of "l @ crlf @ ?rest"] header_lines_line [OF assms(4,5), of ?rest]
  have "header_lines (header_line ''Subject'' (subject @ crlf @ l @ crlf @ tail)
      @ header_line ''MIME-Version'' ''1.0'' @ header_line ''Content-Type'' ctype @ crlf @ body)
    = (''Subject: '' @ subject) # l # header_lines ?rest"
    by (simp add: header_line_def)
  with header_lines_header [of "''From''" sender] header_lines_header [of "''To''" rcpt] assms(1,2)
  show ?thesis by (simp add: top_header_def one_line_def)
qed

text \<open>The name of a peer goes into the subject as it is. A name with line ends adds header lines of
  the writer's choice, for instance a further recipient, to the alerts and to the mail with the
  configuration.\<close>

lemma peer_name_injects_header:
  assumes "one_line (sm_From s)" and "one_line a" "one_line l" "l \<noteq> []"
    and "one_line (ae_To m)" "ae_PeerName m = a @ crlf @ l @ crlf @ tail" "renderAlertEmail g m = Inr html"
    and "one_line (pe_To p)" "pe_PeerName p = a @ crlf @ l @ crlf @ tail" "renderPeerConfigEmail g p = Inr html2"
  shows "(\<exists>msg. SendAlertEmail g s m = sendMail g s (ae_To m) msg \<and> l \<in> set (header_lines msg))
    \<and> (\<exists>msg. SendPeerConfig g s p = sendMail g s (pe_To p) msg \<and> l \<in> set (header_lines msg))"
proof -
  have "one_line (''WireGuard Alert: '' @ a)" "one_line (''WireGuard Configuration: '' @ a)"
    using assms(2) by (simp_all add: one_line_def)
  note inject = injected_line [OF assms(1) _ this(1) assms(3,4)] injected_line [OF assms(1) _ this(2) assms(3,4)]
  have "\<exists>msg. SendAlertEmail g s m = sendMail g s (ae_To m) msg \<and> l \<in> set (header_lines msg)"
    using inject(1) [OF assms(5)] assms(6,7) by (auto simp: SendAlertEmail_def html_message_def alert_subject_def)
  moreover have "\<exists>msg. SendPeerConfig g s p = sendMail g s (pe_To p) msg \<and> l \<in> set (header_lines msg)"
    using inject(2) [OF assms(8)] assms(9,10)
    by (auto simp: SendPeerConfig_def buildPeerConfigMessage_def config_subject_def crlf_def)
  ultimately show ?thesis by blast
qed

lemma peer_name_injects_header_witness:
  "\<exists>msg. SendPeerConfig sample_mailer \<lparr>sm_Host = ''h'', sm_Port = 25, sm_Username = [], sm_Password = [], sm_From = ''vpn@x'', sm_TLS = []\<rparr>
      (sample_mail\<lparr>pe_PeerName := ''x'' @ crlf @ ''Bcc: eve@y'' @ crlf\<rparr>)
      = sendMail sample_mailer \<lparr>sm_Host = ''h'', sm_Port = 25, sm_Username = [], sm_Password = [], sm_From = ''vpn@x'', sm_TLS = []\<rparr> ''a@b'' msg
    \<and> ''Bcc: eve@y'' \<in> set (header_lines msg)"
  using peer_name_injects_header
    [of "\<lparr>sm_Host = ''h'', sm_Port = 25, sm_Username = [], sm_Password = [], sm_From = ''vpn@x'', sm_TLS = []\<rparr>"
      "''x''" "''Bcc: eve@y''"
      "\<lparr>ae_To = ''a@b'', ae_PeerName = ''x'' @ crlf @ ''Bcc: eve@y'' @ crlf, ae_PublicKey = [], ae_InterfaceName = [], ae_Event = [],
        ae_Endpoint = [], ae_TransferRx = 0, ae_TransferTx = 0, ae_Duration = [], ae_ServerName = []\<rparr>" "[]"
      sample_mailer "''<html></html>''" "sample_mail\<lparr>pe_PeerName := ''x'' @ crlf @ ''Bcc: eve@y'' @ crlf\<rparr>" "''<html></html>''"]
  by (simp add: one_line_def renderAlertEmail_def renderPeerConfigEmail_def sample_mailer_def sample_mail_def)

end
