(* ===== verification/WebClient.thy ===== *)
theory WebClient
  imports HandlersSettings MailMessage
begin

text \<open>
  The client side of the web application (ui/web): how it talks to the server, how it finds out
  whether somebody is logged in, its routes, its remaining forms and the texts it formats. The
  browser is a record of what the code reads and writes; rendering is not modelled. A body that the
  server answers is the value its handler returned, before and after JSON.
\<close>

section \<open>Talking to the server\<close>

record browser =
  br_path :: string
  br_search :: string
  br_stored :: "string option" \<comment> \<open>\<open>sessionStorage\<close> under \<open>wgrift_redirect\<close>\<close>
  br_reloads :: nat

text \<open>A JSON object as \<open>json.Unmarshal\<close> into a map gives it; \<open>None\<close> is a text that is no object.\<close>

datatype json = JString string | JOther

type_synonym json_object = "(string \<Rightarrow> json option) option"

definition string_field :: "(string \<Rightarrow> json option) \<Rightarrow> string \<Rightarrow> string" where
  "string_field obj k = (case obj k of Some (JString s) \<Rightarrow> s | _ \<Rightarrow> [])"

definition extractErrorMessage :: "json_object \<Rightarrow> string \<Rightarrow> string" where
  "extractErrorMessage parsed body =
     (case parsed of
        None \<Rightarrow> body
      | Some obj \<Rightarrow>
          if string_field obj ''error'' \<noteq> [] then string_field obj ''error''
          else if string_field obj ''description'' \<noteq> [] then string_field obj ''description''
          else if string_field obj ''message'' \<noteq> [] then string_field obj ''message''
          else body)"

record apiError =
  ap_Status :: int
  ap_Message :: string
  ap_Raw :: string

datatype client_error = ApiError apiError | OtherError string

record ErrorInfo =
  ei_Message :: string
  ei_Detail :: string

definition error_text :: "client_error \<Rightarrow> string" where
  "error_text e = (case e of ApiError a \<Rightarrow> ap_Message a | OtherError t \<Rightarrow> t)"

definition apiErrorInfo :: "client_error \<Rightarrow> ErrorInfo" where
  "apiErrorInfo e = (case e of
       ApiError a \<Rightarrow> \<lparr>ei_Message = ap_Message a, ei_Detail = ap_Raw a\<rparr>
     | OtherError t \<Rightarrow> \<lparr>ei_Message = t, ei_Detail = []\<rparr>)"

definition saveRedirectPath :: "browser \<Rightarrow> browser" where
  "saveRedirectPath b =
     (if br_path b \<noteq> [] \<and> br_path b \<noteq> ''/'' then b\<lparr>br_stored := Some (br_path b @ br_search b)\<rparr> else b)"

definition consumeRedirectPath :: "browser \<Rightarrow> string \<times> browser" where
  "consumeRedirectPath b = (case br_stored b of
       None \<Rightarrow> ([], b) | Some path \<Rightarrow> (path, b\<lparr>br_stored := None\<rparr>))"

definition request_headers :: "string \<Rightarrow> string \<Rightarrow> (string \<times> string) list" where
  "request_headers csrfToken meth =
     (''Content-Type'', ''application/json'')
     # (if csrfToken \<noteq> [] \<and> meth \<noteq> ''GET'' then [(''X-CSRF-Token'', csrfToken)] else [])"

text \<open>What \<open>fetch\<close> ends with: the promise is rejected (also by the timeout), or a status and a text.\<close>

datatype fetched = Rejected string | Answered int string json_object

definition session_paths :: "string list" where
  "session_paths = [''/api/v1/auth/login'', ''/api/v1/auth/session'']"

definition apiFetch :: "string \<Rightarrow> fetched \<Rightarrow> browser \<Rightarrow> (client_error + string) \<times> browser" where
  "apiFetch path answer b =
     (case answer of
        Rejected reason \<Rightarrow> (Inl (OtherError (''fetch error: '' @ reason)), b)
      | Answered status body parsed \<Rightarrow>
          let msg = extractErrorMessage parsed body in
          if status = 403 \<and> path \<notin> set session_paths \<and> (msg = ''authentication required'' \<or> msg = ''invalid session'')
          then (Inl (OtherError ''session expired''),
                (saveRedirectPath b)\<lparr>br_reloads := Suc (br_reloads (saveRedirectPath b))\<rparr>)
          else if status \<ge> 400 then
            (Inl (ApiError \<lparr>ap_Status = status, ap_Message = msg,
               ap_Raw = ''HTTP '' @ itoa status @ '': '' @ body\<rparr>), b)
          else (Inr body, b))"

section \<open>Who is logged in\<close>

record preload =
  pl_NeedsSetup :: bool
  pl_User :: "user option"
  pl_CSRF :: string
  pl_Authed :: bool
  pl_OIDCProviders :: "oidcProviderInfo list"
  pl_LocalAuthEnabled :: bool
  pl_DemoMode :: bool
  pl_SMTPEnabled :: bool

definition no_preload :: preload where
  "no_preload = \<lparr>pl_NeedsSetup = False, pl_User = None, pl_CSRF = [], pl_Authed = False, pl_OIDCProviders = [],
     pl_LocalAuthEnabled = False, pl_DemoMode = False, pl_SMTPEnabled = False\<rparr>"

text \<open>The three attempts to decode a body: a field that is missing has its zero value.\<close>

definition as_setup :: "auth_body \<Rightarrow> bool" where
  "as_setup x = (case x of SetupCheck b \<Rightarrow> b | _ \<Rightarrow> False)"

definition as_options :: "auth_body \<Rightarrow> authOptionsResponse option" where
  "as_options x = (case x of AuthOptions a \<Rightarrow> if ao_AuthRequired a then Some a else None | _ \<Rightarrow> None)"

definition as_session :: "auth_body \<Rightarrow> sessionResponse option" where
  "as_session x = (case x of SessionBody r _ \<Rightarrow> if u_ID (sr_User r) \<noteq> [] then Some r else None | _ \<Rightarrow> None)"

definition preload_of :: "auth_body \<Rightarrow> preload" where
  "preload_of x =
     (if as_setup x then no_preload\<lparr>pl_NeedsSetup := True\<rparr>
      else case as_options x of
        Some a \<Rightarrow> no_preload\<lparr>pl_OIDCProviders := ao_OIDCProviders a, pl_LocalAuthEnabled := ao_LocalAuthEnabled a,
            pl_DemoMode := ao_Demo a\<rparr>
      | None \<Rightarrow> (case as_session x of
          Some r \<Rightarrow> no_preload\<lparr>pl_User := Some (sr_User r), pl_CSRF := sr_CSRFToken r, pl_Authed := True,
              pl_SMTPEnabled := sr_SMTPEnabled r\<rparr>
        | None \<Rightarrow> no_preload))"

text \<open>At most three attempts; the argument is what they would end with.\<close>

definition checkSessionPreload :: "(client_error + auth_body) list \<Rightarrow> preload" where
  "checkSessionPreload answers =
     (case List.find (\<lambda>a. case a of Inl _ \<Rightarrow> False | Inr _ \<Rightarrow> True) (take 3 answers) of
        Some (Inr x) \<Rightarrow> preload_of x
      | _ \<Rightarrow> no_preload)"

definition checkSessionAlive :: "client_error + auth_body \<Rightarrow> browser \<Rightarrow> browser" where
  "checkSessionAlive answer b = (case answer of
       Inl _ \<Rightarrow> b
     | Inr x \<Rightarrow> if as_options x \<noteq> None
         then (saveRedirectPath b)\<lparr>br_reloads := Suc (br_reloads (saveRedirectPath b))\<rparr> else b)"

datatype start_view = SetupView | LoginView | Application

definition App :: "preload \<Rightarrow> browser \<Rightarrow> start_view \<times> browser" where
  "App p b =
     (if pl_NeedsSetup p then (SetupView, b)
      else if \<not> pl_Authed p then (LoginView, saveRedirectPath b)
      else (Application, b))"

text \<open>\<open>url.QueryEscape\<close>, and the address behind a provider's button.\<close>

definition upper_hex :: "nat \<Rightarrow> char" where
  "upper_hex d = (if d < 10 then char_of (48 + d) else char_of (55 + d))"

definition QueryEscape :: "string \<Rightarrow> string" where
  "QueryEscape s = concat (map (\<lambda>c.
     if name_char c \<or> c = CHR ''.'' \<or> c = CHR ''~'' then [c]
     else if c = CHR '' '' then ''+''
     else [CHR ''%'', upper_hex (of_char c div 16), upper_hex (of_char c mod 16)]) s)"

definition provider_button :: "oidcProviderInfo \<Rightarrow> browser \<Rightarrow> string \<times> browser" where
  "provider_button p b = (case consumeRedirectPath b of
       (dest, b') \<Rightarrow> (oi_LoginURL p @ (if dest \<noteq> [] then ''?redirect='' @ QueryEscape dest else []), b'))"

section \<open>Routes\<close>

datatype view =
    DashboardView
  | InterfacesView
  | PeerConfigView string string
  | InterfaceDetailView string
  | LogsView string
  | UsersView
  | SettingsView

text \<open>The text in front of the first \<open>sep\<close>.\<close>

definition before :: "char \<Rightarrow> string \<Rightarrow> string" where
  "before sep s = takeWhile (\<lambda>c. c \<noteq> sep) s"

definition routeParam :: "string \<Rightarrow> string \<Rightarrow> string" where
  "routeParam route p = (if starts_with p route then before CHR ''/'' (drop (length p) route) else [])"

text \<open>The route a path leads to, and whether it is the current one, which is then mounted again.\<close>

definition navigate :: "string \<Rightarrow> string \<Rightarrow> string \<times> bool" where
  "navigate current path = (let r = before CHR ''?'' path in (r, r = current))"

definition trim_prefix :: "string \<Rightarrow> string \<Rightarrow> string" where
  "trim_prefix s p = (if starts_with p s then drop (length p) s else s)"

definition resolveRoute :: "string \<Rightarrow> string \<times> view" where
  "resolveRoute r =
     (if r = ''/'' \<or> r = [] then (''Dashboard'', DashboardView)
      else if r = ''/interfaces'' then (''Interfaces'', InterfacesView)
      else if contains r ''/peers/'' \<and> ends_with r ''/config'' then
        (let parts = split_char CHR ''/'' (trim_prefix r ''/interfaces/'') in
         if length parts \<ge> 4 then (''Peer Config'', PeerConfigView (parts ! 0) (parts ! 2))
         else ([], DashboardView))
      else if starts_with ''/interfaces/'' r \<and> \<not> contains r ''/peers/'' then
        (routeParam r ''/interfaces/'', InterfaceDetailView (routeParam r ''/interfaces/''))
      else if r = ''/logs'' then (''Connection Logs'', LogsView [])
      else if starts_with ''/logs/'' r then (''Connection Logs'', LogsView (routeParam r ''/logs/''))
      else if r = ''/users'' then (''Users'', UsersView)
      else if r = ''/settings'' then (''Settings'', SettingsView)
      else ([], DashboardView))"

section \<open>Forms\<close>

definition password_message :: string where
  "password_message = ''Password must be at least 16 characters''"

definition createUserForm_doCreate :: "string \<Rightarrow> string \<Rightarrow> string \<Rightarrow> string \<Rightarrow> string + createUserRequest" where
  "createUserForm_doCreate username password displayName role =
     (if username = [] then Inl ''Username is required''
      else if password = [] then Inl ''Password is required''
      else if length password < 16 then Inl password_message
      else Inr \<lparr>cuq_Username = username, cuq_Password = password, cuq_DisplayName = displayName, cuq_Role = role\<rparr>)"

definition changePasswordForm_doChange :: "string \<Rightarrow> string + string" where
  "changePasswordForm_doChange password =
     (if password = [] then Inl ''Password is required''
      else if length password < 16 then Inl password_message
      else Inr password)"

definition doSetup :: "string \<Rightarrow> string \<Rightarrow> string \<Rightarrow> string + loginRequest" where
  "doSetup username password confirm =
     (if password \<noteq> confirm then Inl ''Passwords do not match''
      else if length password < 16 then Inl password_message
      else Inr \<lparr>lq_Username = username, lq_Password = password\<rparr>)"

definition smtpSettingsForm :: "smtpSettingsData option \<Rightarrow> updateSMTPRequest" where
  "smtpSettingsForm existing =
     (case existing of
        Some s \<Rightarrow> if sd_Host s \<noteq> [] then \<lparr>usq_Host = sd_Host s, usq_Port = sd_Port s, usq_Username = sd_Username s,
            usq_Password = [], usq_From = sd_From s, usq_TLS = sd_TLS s\<rparr>
          else \<lparr>usq_Host = [], usq_Port = ''587'', usq_Username = [], usq_Password = [], usq_From = [], usq_TLS = ''starttls''\<rparr>
      | None \<Rightarrow> \<lparr>usq_Host = [], usq_Port = ''587'', usq_Username = [], usq_Password = [], usq_From = [], usq_TLS = ''starttls''\<rparr>)"

definition smtpSettingsForm_doSave :: "smtpSettingsData option \<Rightarrow> updateSMTPRequest \<Rightarrow> string + updateSMTPRequest" where
  "smtpSettingsForm_doSave existing q =
     (let isEdit = (case existing of Some s \<Rightarrow> sd_Host s \<noteq> [] | None \<Rightarrow> False) in
      if usq_Host q = [] then Inl ''Host is required''
      else if usq_From q = [] then Inl ''From address is required''
      else if \<not> isEdit \<and> usq_Password q = [] \<and> usq_Username q \<noteq> []
      then Inl ''Password is required for authenticated SMTP''
      else Inr q)"

definition oidcProviderForm :: "oidc_provider option \<Rightarrow> oidcProviderRequest" where
  "oidcProviderForm existing =
     (case existing of
        Some p \<Rightarrow> \<lparr>opq_Name = op_Name p, opq_Issuer = op_Issuer p, opq_ClientID = op_ClientID p, opq_ClientSecret = [],
          opq_Scopes = op_Scopes p, opq_AutoDiscover = True, opq_AdminClaim = op_AdminClaim p,
          opq_AdminValue = op_AdminValue p, opq_DefaultRole = op_DefaultRole p, opq_Enabled = op_Enabled p\<rparr>
      | None \<Rightarrow> \<lparr>opq_Name = [], opq_Issuer = [], opq_ClientID = [], opq_ClientSecret = [],
          opq_Scopes = ''openid profile email groups'', opq_AutoDiscover = True, opq_AdminClaim = [],
          opq_AdminValue = [], opq_DefaultRole = ''viewer'', opq_Enabled = True\<rparr>)"

definition oidcProviderForm_doSave :: "bool \<Rightarrow> oidcProviderRequest \<Rightarrow> string + oidcProviderRequest" where
  "oidcProviderForm_doSave isEdit q =
     (if opq_Name q = [] \<or> opq_Issuer q = [] \<or> opq_ClientID q = []
      then Inl ''Name, Issuer URL, and Client ID are required''
      else if \<not> isEdit \<and> opq_ClientSecret q = [] then Inl ''Client Secret is required''
      else Inr (q\<lparr>opq_AutoDiscover := True\<rparr>))"

definition oidcCallbackURL :: "settingsResponse option \<Rightarrow> string" where
  "oidcCallbackURL settings = (case settings of
       None \<Rightarrow> ''(set External URL above first)''
     | Some s \<Rightarrow> if sg_ExternalURL s = [] then ''(set External URL above first)''
         else sg_ExternalURL s @ ''/api/v1/auth/oidc/callback'')"

text \<open>\<open>addEmail\<close> of the alert section: what is no address, or is listed, is dropped without a message.\<close>

definition addEmail :: "string \<Rightarrow> string list \<Rightarrow> string list" where
  "addEmail raw emails =
     (let e = TrimSpace (trim_right_char CHR '','' (TrimSpace raw)) in
      if e = [] \<or> CHR ''@'' \<notin> set e \<or> CHR ''.'' \<notin> set e \<or> e \<in> set emails then emails else emails @ [e])"

section \<open>Texts\<close>

definition FormatBytes :: "int \<Rightarrow> string" where
  "FormatBytes b =
     (if b \<ge> 1024 * 1024 * 1024 then one_decimal b (1024 * 1024 * 1024) @ '' GiB''
      else if b \<ge> 1024 * 1024 then one_decimal b (1024 * 1024) @ '' MiB''
      else if b \<ge> 1024 then one_decimal b 1024 @ '' KiB''
      else itoa b @ '' B'')"

definition FormatSeconds :: "int \<Rightarrow> string" where
  "FormatSeconds t =
     (if t \<le> 0 then ''0s''
      else
        let days = t div 86400; hours = t mod 86400 div 3600; mins = t mod 3600 div 60; secs = t mod 60 in
        if days > 0 \<and> hours > 0 then itoa days @ ''d '' @ itoa hours @ ''h''
        else if days > 0 then itoa days @ ''d''
        else if hours > 0 \<and> mins > 0 then itoa hours @ ''h '' @ itoa mins @ ''m''
        else if hours > 0 then itoa hours @ ''h''
        else if mins > 0 \<and> secs > 0 then itoa mins @ ''m '' @ itoa secs @ ''s''
        else if mins > 0 then itoa mins @ ''m''
        else itoa secs @ ''s'')"

definition formatListenAddr :: "string \<Rightarrow> int \<Rightarrow> string" where
  "formatListenAddr endpoint port = endpoint @ '':'' @ itoa port"

definition truncateKey :: "string \<Rightarrow> string" where
  "truncateKey key = (if length key > 12 then take 8 key @ ''...'' @ drop (length key - 4) key else key)"

section \<open>Client and server\<close>

text \<open>The token the client attaches is the one the server asks for.\<close>

lemma client_token_accepted:
  assumes "pl_CSRF (preload_of (SessionBody r ck)) = se_CSRFToken se" "se_CSRFToken se \<noteq> []"
  shows "csrfProtect meth (Some se)
     (case map_of (request_headers (pl_CSRF (preload_of (SessionBody r ck))) meth) ''X-CSRF-Token'' of
        Some t \<Rightarrow> t | None \<Rightarrow> []) = None"
  using assms by (simp add: request_headers_def csrfProtect_def safe_method_def)

end
