(* ===== verification/WebViews.thy ===== *)
theory WebViews
  imports WebForms WebClient
begin

text \<open>
  The views of the web application as far as they compute something (ui/web): the chips of the peer
  forms, the address field, the state of the interface page and what its buttons do, the log page, the
  dashboard's figures and the page of a peer's configuration. The trees of elements are not modelled.
\<close>

section \<open>Chips\<close>

text \<open>\<open>renderChipList\<close>: what is assigned to \<open>innerHTML\<close> of each chip.\<close>

definition chip_button :: string where
  "chip_button = '' <button class='' @ quote ''text-ink-4 hover:text-red-400 ml-0.5 transition-colors'' @ ''>&times;</button>''"

definition renderChipList :: "string list \<Rightarrow> string list" where
  "renderChipList items = map (\<lambda>ip. ip @ chip_button) items"

definition remove_chip :: "nat \<Rightarrow> 'a list \<Rightarrow> 'a list" where
  "remove_chip idx items = take idx items @ drop (idx + 1) items"

text \<open>The key handler of an input: whether the default is prevented, and the new state of the form.\<close>

definition chip_key :: "(string \<Rightarrow> 's \<Rightarrow> 's) \<Rightarrow> ('s \<Rightarrow> 's) \<Rightarrow> string \<Rightarrow> string \<Rightarrow> 's \<Rightarrow> bool \<times> 's" where
  "chip_key addFn onBackspace key val s =
     (let add = (key = ''Enter'' \<or> key = '','' \<or> key = ''Tab'');
          s' = (if add then addFn val s else s)
      in (add, if key = ''Backspace'' \<and> val = [] then onBackspace s' else s'))"

definition chip_paste :: "(string \<Rightarrow> 's \<Rightarrow> 's) \<Rightarrow> string option \<Rightarrow> 's \<Rightarrow> 's" where
  "chip_paste addFn val s = (case val of None \<Rightarrow> s | Some v \<Rightarrow> fold addFn (split_char CHR '','' v) s)"

definition last_chip_removed :: "peer_form \<Rightarrow> peer_form" where
  "last_chip_removed f = f\<lparr>pf_AllowedIPs := butlast (pf_AllowedIPs f)\<rparr>"

text \<open>The list of the alert section, and the text it writes back after a change.\<close>

definition alert_emails :: "string \<Rightarrow> string list" where
  "alert_emails initialEmails = csv_chips initialEmails"

definition syncEmails :: "string list \<Rightarrow> string" where
  "syncEmails emails = join '', '' emails"

section \<open>The address field\<close>

record cidr_field =
  ff_IP :: string
  ff_Prefix :: string
  ff_Hint :: string

definition CIDRField :: "string \<Rightarrow> string \<Rightarrow> cidr_field" where
  "CIDRField defaultPrefix val =
     (case splitCIDR val defaultPrefix of (ip, pfx) \<Rightarrow> \<lparr>ff_IP = ip, ff_Prefix = pfx, ff_Hint = []\<rparr>)"

definition syncValue :: "cidr_field \<Rightarrow> string" where
  "syncValue f =
     (if ff_IP f \<noteq> [] \<and> ff_Prefix f \<noteq> [] then ff_IP f @ ''/'' @ ff_Prefix f
      else if ff_IP f \<noteq> [] then ff_IP f else [])"

definition validateIP :: "cidr_field \<Rightarrow> cidr_field" where
  "validateIP f =
     (if ff_IP f \<noteq> [] \<and> ParseIP (ff_IP f) = None then f\<lparr>ff_Hint := ''Invalid IP address''\<rparr> else f\<lparr>ff_Hint := []\<rparr>)"

datatype field_event = TypeIP string | ChoosePrefix string | Blur

text \<open>The new state, and the value that is handed to the form.\<close>

fun field_step :: "field_event \<Rightarrow> cidr_field \<Rightarrow> cidr_field \<times> string" where
  "field_step (TypeIP v) f = (let g = f\<lparr>ff_IP := v, ff_Hint := []\<rparr> in (g, syncValue g))"
| "field_step (ChoosePrefix v) f = (let g = f\<lparr>ff_Prefix := v, ff_Hint := []\<rparr> in (g, syncValue g))"
| "field_step Blur f = (validateIP f, syncValue f)"

definition field_summary :: "string \<Rightarrow> cidr_field \<Rightarrow> string" where
  "field_summary defaultPrefix f = (if defaultPrefix = ''/32'' then [] else cidrSummary (ff_IP f) (ff_Prefix f))"

section \<open>The page of an interface\<close>

record detail_state =
  dt_Current :: string
  dt_EditInterface :: bool
  dt_EditPeer :: string
  dt_SetKey :: string

definition open_detail :: "string \<Rightarrow> detail_state \<Rightarrow> detail_state" where
  "open_detail ifaceID s =
     (if ifaceID \<noteq> dt_Current s
      then \<lparr>dt_Current = ifaceID, dt_EditInterface = False, dt_EditPeer = [], dt_SetKey = []\<rparr> else s)"

text \<open>The tick of the poll loads the status only while no form is open.\<close>

definition detail_editing :: "detail_state \<Rightarrow> bool" where
  "detail_editing s \<longleftrightarrow> dt_EditInterface s \<or> dt_EditPeer s \<noteq> [] \<or> dt_SetKey s \<noteq> []"

text \<open>A button: its title, the question it asks first, the request it sends, what it does to the state
  of the page, and the route it leads to (\<open>None\<close> mounts the page again).\<close>

record 's button =
  bt_Title :: string
  bt_Confirm :: "string option"
  bt_Request :: "(string \<times> string) option"
  bt_Update :: "'s \<Rightarrow> 's"
  bt_Route :: "string option"

definition iface_path :: "string \<Rightarrow> string" where "iface_path i = ''/api/v1/interfaces/'' @ i"
definition peer_path :: "string \<Rightarrow> string \<Rightarrow> string" where "peer_path i p = iface_path i @ ''/peers/'' @ p"

definition detail_buttons :: "string \<Rightarrow> detail_state button list" where
  "detail_buttons i =
     [\<lparr>bt_Title = ''Interfaces'', bt_Confirm = None, bt_Request = None,
        bt_Update = \<lambda>s. s\<lparr>dt_EditInterface := False, dt_EditPeer := [], dt_SetKey := []\<rparr>, bt_Route = Some ''/interfaces''\<rparr>,
      \<lparr>bt_Title = ''Add Peer'', bt_Confirm = None, bt_Request = None,
        bt_Update = \<lambda>s. s\<lparr>dt_EditInterface := False,
          dt_EditPeer := (if dt_EditPeer s = ''__add__'' then [] else ''__add__'')\<rparr>, bt_Route = None\<rparr>,
      \<lparr>bt_Title = ''Delete'',
        bt_Confirm = Some (''Delete interface '' @ i @ ''? This will remove all peers and cannot be undone.''),
        bt_Request = Some (''DELETE'', iface_path i), bt_Update = \<lambda>s. s, bt_Route = Some ''/interfaces''\<rparr>]"

definition status_buttons :: "string \<Rightarrow> bool \<Rightarrow> detail_state button list" where
  "status_buttons i running =
     (if running then
        [\<lparr>bt_Title = ''Restart'', bt_Confirm = None, bt_Request = Some (''POST'', iface_path i @ ''/restart''),
           bt_Update = \<lambda>s. s, bt_Route = None\<rparr>,
         \<lparr>bt_Title = ''Stop'', bt_Confirm = None, bt_Request = Some (''POST'', iface_path i @ ''/stop''),
           bt_Update = \<lambda>s. s, bt_Route = None\<rparr>]
      else
        [\<lparr>bt_Title = ''Start'', bt_Confirm = None, bt_Request = Some (''POST'', iface_path i @ ''/start''),
           bt_Update = \<lambda>s. s, bt_Route = None\<rparr>])
     @ [\<lparr>bt_Title = ''Sync'', bt_Confirm = None, bt_Request = Some (''POST'', iface_path i @ ''/sync''),
           bt_Update = \<lambda>s. s\<lparr>dt_EditInterface := False, dt_EditPeer := []\<rparr>, bt_Route = None\<rparr>]"

definition peerActions :: "string \<Rightarrow> PeerStatus \<Rightarrow> bool \<Rightarrow> detail_state button list" where
  "peerActions i ps hasKey =
     (let p = st_Peer ps; k = p_ID p in
     [(if hasKey
       then \<lparr>bt_Title = ''View config'', bt_Confirm = None, bt_Request = None, bt_Update = \<lambda>s. s,
          bt_Route = Some (''/interfaces/'' @ i @ ''/peers/'' @ k @ ''/config'')\<rparr>
       else \<lparr>bt_Title = ''Set private key'', bt_Confirm = None, bt_Request = None,
          bt_Update = \<lambda>s. s\<lparr>dt_EditInterface := False, dt_EditPeer := [],
            dt_SetKey := (if dt_SetKey s = k then [] else k)\<rparr>, bt_Route = None\<rparr>),
      \<lparr>bt_Title = ''Edit peer'', bt_Confirm = None, bt_Request = None,
          bt_Update = \<lambda>s. s\<lparr>dt_EditInterface := False, dt_EditPeer := k\<rparr>, bt_Route = None\<rparr>,
      (if p_Enabled p
       then \<lparr>bt_Title = ''Disable peer'',
          bt_Confirm = Some (''Disable peer '' @ p_Name p @ ''? The peer will be disconnected immediately.''),
          bt_Request = Some (''POST'', peer_path i k @ ''/disable''),
          bt_Update = \<lambda>s. s\<lparr>dt_EditPeer := []\<rparr>, bt_Route = None\<rparr>
       else \<lparr>bt_Title = ''Enable peer'', bt_Confirm = None, bt_Request = Some (''POST'', peer_path i k @ ''/enable''),
          bt_Update = \<lambda>s. s\<lparr>dt_EditPeer := []\<rparr>, bt_Route = None\<rparr>),
      \<lparr>bt_Title = ''Remove peer'', bt_Confirm = Some (''Remove peer '' @ p_Name p @ ''? This cannot be undone.''),
          bt_Request = Some (''DELETE'', peer_path i k), bt_Update = \<lambda>s. s\<lparr>dt_EditPeer := []\<rparr>, bt_Route = None\<rparr>])"

text \<open>The addresses the two forms take as used.\<close>

definition add_used_addrs :: "string \<Rightarrow> peer list \<Rightarrow> string list" where
  "add_used_addrs ifaceAddr peers = ifaceAddr # filter (\<lambda>a. a \<noteq> []) (map p_Address peers)"

definition edit_used_addrs :: "string \<Rightarrow> peer list \<Rightarrow> string \<Rightarrow> string list" where
  "edit_used_addrs ifaceAddr peers k =
     ifaceAddr # filter (\<lambda>a. a \<noteq> []) (map p_Address (filter (\<lambda>p. p_ID p \<noteq> k) peers))"

definition peerSetKeyForm_doSet :: "string \<Rightarrow> string + string" where
  "peerSetKeyForm_doSet privKey = (if privKey = [] then Inl ''Private key is required'' else Inr privKey)"

section \<open>Other pages\<close>

text \<open>A slice \<open>s[:8]\<close> of a shorter text panics.\<close>

definition short_id :: "string \<Rightarrow> string option" where
  "short_id s = (if length s < 8 then None else Some (take 8 s @ ''...''))"

record logs_state =
  lg_Logs :: "conn_log list"
  lg_Ifaces :: "interfaceData list option"
  lg_Iface :: string

text \<open>What the log page does when it is mounted: load the interfaces, load one log, or render.\<close>

datatype logs_action = LoadInterfaces | LoadLogs string | Render

definition LogsView_mount :: "string \<Rightarrow> logs_state \<Rightarrow> logs_state \<times> logs_action" where
  "LogsView_mount initialIfaceID s =
     (case lg_Ifaces s of
        None \<Rightarrow> (s, LoadInterfaces)
      | Some _ \<Rightarrow>
          if initialIfaceID \<noteq> [] \<and> initialIfaceID \<noteq> lg_Iface s
          then (s\<lparr>lg_Iface := initialIfaceID, lg_Logs := []\<rparr>, LoadLogs initialIfaceID)
          else (s, Render))"

text \<open>The answer to \<open>LoadInterfaces\<close>. A slice that nothing was appended to is nil, travels as \<open>null\<close>
  and arrives as nil, which is how the page marks a list that was not loaded yet.\<close>

definition json_slice :: "'a list \<Rightarrow> 'a list option" where
  "json_slice xs = (if xs = [] then None else Some xs)"

definition interfaces_loaded :: "string \<Rightarrow> interfaceData list option \<Rightarrow> logs_state \<Rightarrow> logs_state \<times> logs_action" where
  "interfaces_loaded initialIfaceID answer s =
     (let xs = (case answer of Some l \<Rightarrow> l | None \<Rightarrow> []);
          selected = (if initialIfaceID = [] \<and> xs \<noteq> [] then id_ID (hd xs) else initialIfaceID)
      in if selected \<noteq> [] then (s\<lparr>lg_Ifaces := answer, lg_Iface := selected\<rparr>, LoadLogs selected)
      else (s\<lparr>lg_Ifaces := answer\<rparr>, Render))"

definition logs_start :: logs_state where
  "logs_start = \<lparr>lg_Logs = [], lg_Ifaces = None, lg_Iface = []\<rparr>"

text \<open>One round: the page is mounted, loads what it asks for, and \<open>refreshRoute\<close> mounts it again.\<close>

definition logs_round :: "string \<Rightarrow> interfaceData list option \<Rightarrow> logs_state \<Rightarrow> logs_state" where
  "logs_round initialIfaceID answer s =
     (case LogsView_mount initialIfaceID s of
        (s', LoadInterfaces) \<Rightarrow> fst (interfaces_loaded initialIfaceID answer s')
      | (s', _) \<Rightarrow> s')"

definition peer_label :: "conn_log \<Rightarrow> string \<Rightarrow> string option" where
  "peer_label l name = (case short_id (cl_PeerID l) of
       None \<Rightarrow> None | Some t \<Rightarrow> Some (if name \<noteq> [] then name else t))"

datatype health = AllRunning | SomeRunning | NoneRunning

definition dashboard_health :: "bool list \<Rightarrow> nat \<times> health" where
  "dashboard_health running =
     (let n = length (filter (\<lambda>b. b) running) in
      (n, if n > 0 \<and> n = length running then AllRunning else if n > 0 then SomeRunning else NoneRunning))"

definition nav_active :: "string \<Rightarrow> string \<Rightarrow> bool" where
  "nav_active route href \<longleftrightarrow> route = href \<or> href \<noteq> ''/'' \<and> starts_with href route"

text \<open>The name that is celebrated when the peer is connected: from the status, the header, or the
  identifier.\<close>

definition celebrated :: "string \<Rightarrow> string \<Rightarrow> PeerStatus list \<Rightarrow> string option option" where
  "celebrated peerID peerName sts =
     (case List.find (\<lambda>ps. p_ID (st_Peer ps) = peerID \<and> st_Connected ps) sts of
        None \<Rightarrow> None
      | Some ps \<Rightarrow> Some
          (if p_Name (st_Peer ps) \<noteq> [] then Some (p_Name (st_Peer ps))
           else if peerName \<noteq> [] then Some peerName else short_id peerID))"

section \<open>The masked configuration\<close>

text \<open>
  \<open>privateKeyRe\<close>: \<^verbatim>\<open>(?m)(PrivateKey\s*=\s*)(.+)$\<close>, leftmost and greedy. The value starts behind all
  white space, or, when nothing else follows, at the last blank that is no line end.
\<close>

definition re_space :: "char \<Rightarrow> bool" where
  "re_space c \<longleftrightarrow> c = CHR 0x09 \<or> c = CHR 0x0A \<or> c = CHR 0x0C \<or> c = CHR 0x0D \<or> c = CHR '' ''"

definition not_nl :: "char \<Rightarrow> bool" where "not_nl c \<longleftrightarrow> c \<noteq> CHR 0x0A"

definition value_split :: "string \<Rightarrow> (string \<times> string \<times> string) option" where
  "value_split s =
     (let ws = takeWhile re_space s; r = dropWhile re_space s in
      if r \<noteq> [] then Some (ws, takeWhile not_nl r, dropWhile not_nl r)
      else
        let w = rev (dropWhile (\<lambda>c. \<not> not_nl c) (rev ws)) in
        if w = [] then None else Some (butlast w, [last w], drop (length w) ws))"

definition key_match :: "string \<Rightarrow> (string \<times> string \<times> string) option" where
  "key_match s =
     (if \<not> starts_with ''PrivateKey'' s then None
      else
        let t = drop 10 s; ws = takeWhile re_space t; r = dropWhile re_space t in
        if r = [] \<or> hd r \<noteq> CHR ''='' then None
        else case value_split (tl r) of
          None \<Rightarrow> None
        | Some (ws2, v, rest) \<Rightarrow> Some (''PrivateKey'' @ ws @ ''='' @ ws2, v, rest))"

definition bullet :: string where "bullet = [CHR 0xE2, CHR 0x80, CHR 0xA2]"

definition mask_text :: string where "mask_text = concat (replicate 44 bullet)"

lemma value_split_shorter: "value_split s = Some (a, v, r) \<Longrightarrow> length r < length s"
proof (cases "dropWhile re_space s = []")
  case False
  assume "value_split s = Some (a, v, r)"
  with False have r: "r = dropWhile not_nl (dropWhile re_space s)" by (simp add: value_split_def Let_def)
  have hd: "\<not> re_space (hd (dropWhile re_space s))" using False by (rule hd_dropWhile)
  then have "not_nl (hd (dropWhile re_space s))" by (auto simp: re_space_def not_nl_def)
  with False have "length (dropWhile not_nl (dropWhile re_space s)) < length (dropWhile re_space s)"
    by (cases "dropWhile re_space s") (auto simp: less_Suc_eq_le length_dropWhile_le)
  also have "\<dots> \<le> length s" by (rule length_dropWhile_le)
  finally show ?thesis using r by simp
next
  case True
  assume v: "value_split s = Some (a, v, r)"
  let ?w = "rev (dropWhile (\<lambda>c. \<not> not_nl c) (rev (takeWhile re_space s)))"
  from True v have "?w \<noteq> []" "r = drop (length ?w) (takeWhile re_space s)"
    by (auto simp: value_split_def Let_def split: if_splits)
  then have "length r < length (takeWhile re_space s)"
    by (cases "takeWhile re_space s") (auto simp: length_dropWhile_le)
  with length_takeWhile_le [of re_space s] show ?thesis by simp
qed

lemma key_match_shorter: "key_match s = Some (a, v, r) \<Longrightarrow> length r < length s"
proof -
  assume "key_match s = Some (a, v, r)"
  then obtain t ws2 where t: "dropWhile re_space (drop 10 s) = CHR ''='' # t" "value_split t = Some (ws2, v, r)"
    by (cases "dropWhile re_space (drop 10 s)")
      (auto simp: key_match_def Let_def split: if_splits option.splits prod.splits)
  have "length r < length t" using t(2) by (rule value_split_shorter)
  also have "length t < length (dropWhile re_space (drop 10 s))" using t(1) by simp
  also have "\<dots> \<le> length s" using length_dropWhile_le [of re_space "drop 10 s"] by simp
  finally show ?thesis .
qed

function maskedConf :: "string \<Rightarrow> string" where
  "maskedConf [] = []"
| "maskedConf (c # s) = (case key_match (c # s) of
       None \<Rightarrow> c # maskedConf s
     | Some (a, v, r) \<Rightarrow> a @ mask_text @ maskedConf r)"
  by pat_completeness auto
termination by (relation "measure length") (auto dest: key_match_shorter)

declare maskedConf.simps(2) [simp del]

definition shown_conf :: "bool \<Rightarrow> string \<Rightarrow> string" where
  "shown_conf showKey conf = (if showKey then conf else maskedConf conf)"

end
