(* ===== verification/WebViewFacts.thy ===== *)
theory WebViewFacts
  imports WebFacts WebViews
begin

text \<open>
  What the pages show: the chips of a stored peer and the masked configuration.
\<close>

section \<open>Chips\<close>

lemma csv_chips_single: "TrimSpace h = h \<Longrightarrow> h \<noteq> [] \<Longrightarrow> CHR '','' \<notin> set h \<Longrightarrow> csv_chips h = [h]"
  by (simp add: csv_chips_def split_char_single)

text \<open>C32. What the server stores as the client networks of a peer is not checked, neither by the handler
  nor by the form that shows it: a text without a comma becomes the \<open>innerHTML\<close> of a chip as it is, for
  every user who opens the form.\<close>

theorem stored_chip_injects:
  assumes "run_state (handleUpdatePeer env k (Inr q)) w = (JSON n p', w')"
    and "uq_ClientAllowedIPs q = Some h" and "TrimSpace h = h" and "h \<noteq> []" and "CHR '','' \<notin> set h"
  shows "\<exists>p. get_peer k (wdb w') = Some p
    \<and> renderChipList (pf_ClientAllowedIPs (PeerEditForm p)) = [h @ chip_button]"
proof -
  obtain p where "get_peer k (wdb w') = Some p" "p_ClientAllowedIPs p = h"
    using handleUpdatePeer_returns [OF assms(1)] assms(2) by (auto simp: apply_peer_update_def)
  then show ?thesis using csv_chips_single [OF assms(3-5)] by (simp add: PeerEditForm_def renderChipList_def)
qed

definition script_text :: string where
  "script_text = ''<img src=x onerror=alert(1)>''"

definition script_request :: updatePeerRequest where
  "script_request = \<lparr>uq_Type = [], uq_Name = ''laptop'', uq_Address = [], uq_AllowedIPs = [],
     uq_ClientAllowedIPs = Some script_text, uq_DNS = None, uq_Endpoint = [], uq_PersistentKeepalive = 0,
     uq_AlertOnConnect = None, uq_AlertOnDisconnect = None, uq_AlertEmails = None\<rparr>"

text \<open>The form itself would refuse the text as a new chip.\<close>

lemma stored_chip_injects_witness:
  "\<exists>w' p. snd (run_state (handleUpdatePeer sample_env ''p1'' (Inr script_request)) sample_world) = w'
    \<and> get_peer ''p1'' (wdb w') = Some p
    \<and> renderChipList (pf_ClientAllowedIPs (PeerEditForm p)) = [script_text @ chip_button]
    \<and> (\<exists>m. add_chip script_text [] = BadChip m)"
proof -
  have "case fst (run_state (handleUpdatePeer sample_env ''p1'' (Inr script_request)) sample_world) of JSON _ _ \<Rightarrow> True | _ \<Rightarrow> False"
    by code_simp
  then obtain n p' where "fst (run_state (handleUpdatePeer sample_env ''p1'' (Inr script_request)) sample_world) = JSON n p'"
    by (auto split: response.splits)
  then obtain w' where r: "run_state (handleUpdatePeer sample_env ''p1'' (Inr script_request)) sample_world = (JSON n p', w')"
    by (rule run_obtain)
  have "TrimSpace script_text = script_text" "script_text \<noteq> []" "CHR '','' \<notin> set script_text" by code_simp+
  moreover have "case add_chip script_text [] of BadChip _ \<Rightarrow> True | _ \<Rightarrow> False" by code_simp
  then have "\<exists>m. add_chip script_text [] = BadChip m" by (auto split: chip.splits)
  ultimately show ?thesis
    using stored_chip_injects [OF r, of script_text] r by (auto simp: script_request_def)
qed

section \<open>The masked configuration\<close>

lemma key_match_sublist: "key_match s \<noteq> None \<Longrightarrow> starts_with ''PrivateKey'' s"
  by (auto simp: key_match_def split: if_splits)

lemma maskedConf_unmasked: "\<not> contains s ''PrivateKey'' \<Longrightarrow> maskedConf s = s"
proof (induction s)
  case (Cons c s)
  have "\<not> starts_with ''PrivateKey'' (c # s)"
    using Cons.prems by simp
  then have "key_match (c # s) = None" using key_match_sublist by blast
  moreover have "\<not> contains s ''PrivateKey''" using Cons.prems by simp
  ultimately show ?case using Cons.IH by (simp add: maskedConf.simps(2))
qed simp

lemma maskedConf_skip: "key_match (c # s) = None \<Longrightarrow> maskedConf (c # s) = c # maskedConf s"
  by (simp add: maskedConf.simps(2))

definition plain_key :: "string \<Rightarrow> bool" where "plain_key k \<longleftrightarrow> k \<noteq> [] \<and> (\<forall>c \<in> set k. \<not> re_space c)"

lemma key_match_line:
  assumes "plain_key k"
  shows "key_match (field ''PrivateKey'' k @ r) = Some (''PrivateKey = '', k, nl @ r)"
proof -
  have n: "\<forall>c \<in> set k. not_nl c" using assms by (auto simp: plain_key_def re_space_def not_nl_def)
  have "dropWhile re_space (k @ t) = k @ t" "takeWhile re_space (k @ t) = []" for t
    using assms by (cases k; simp add: plain_key_def)+
  moreover have "takeWhile not_nl (k @ nl @ r) = k" "dropWhile not_nl (k @ nl @ r) = nl @ r"
    using n by (simp_all add: takeWhile_append dropWhile_append not_nl_def)
  ultimately show ?thesis using assms
    by (simp add: key_match_def field_def key_value_def value_split_def re_space_def Let_def plain_key_def)
qed

lemma maskedConf_key_line:
  assumes "plain_key k"
  shows "maskedConf (field ''PrivateKey'' k @ r) = ''PrivateKey = '' @ mask_text @ maskedConf (nl @ r)"
proof -
  obtain c s where s: "field ''PrivateKey'' k @ r = c # s" by (simp add: field_def key_value_def)
  with key_match_line [OF assms, of r] show ?thesis by (simp add: maskedConf.simps(2))
qed


lemma maskedConf_other: "c \<noteq> CHR ''P'' \<Longrightarrow> maskedConf (c # s) = c # maskedConf s"
  by (rule maskedConf_skip) (simp add: key_match_def)

definition conf_tail :: "PeerConfParams \<Rightarrow> string" where
  "conf_tail p = drop (length (''[Interface]'' @ nl @ field ''PrivateKey'' (cp_PrivateKey p))) (GeneratePeerConf p)"

lemma GeneratePeerConf_tail:
  "GeneratePeerConf p = ''[Interface]'' @ nl @ field ''PrivateKey'' (cp_PrivateKey p) @ conf_tail p"
  by (simp add: conf_tail_def GeneratePeerConf_def)

text \<open>C33. The page of a peer's configuration hides exactly the private key behind a fixed number of
  bullets: the rest of the file, and with it the preshared key, stays readable.\<close>

theorem masked_configuration:
  assumes "plain_key (cp_PrivateKey p)"
  shows "shown_conf False (GeneratePeerConf p) =
      ''[Interface]'' @ nl @ ''PrivateKey = '' @ mask_text @ nl @ maskedConf (conf_tail p)
    \<and> (\<not> contains (conf_tail p) ''PrivateKey'' \<longrightarrow> maskedConf (conf_tail p) = conf_tail p)
    \<and> conf_tail (p\<lparr>cp_PrivateKey := k\<rparr>) = conf_tail p"
proof -
  have "maskedConf (GeneratePeerConf p) = ''[Interface]'' @ nl @ maskedConf (field ''PrivateKey'' (cp_PrivateKey p) @ conf_tail p)"
    by (simp add: GeneratePeerConf_tail maskedConf_other)
  also have "\<dots> = ''[Interface]'' @ nl @ ''PrivateKey = '' @ mask_text @ nl @ maskedConf (conf_tail p)"
    by (simp add: maskedConf_key_line [OF assms] maskedConf_other)
  finally have "shown_conf False (GeneratePeerConf p) =
      ''[Interface]'' @ nl @ ''PrivateKey = '' @ mask_text @ nl @ maskedConf (conf_tail p)"
    by (simp add: shown_conf_def)
  then show ?thesis using maskedConf_unmasked by (simp add: conf_tail_def GeneratePeerConf_def)
qed

definition sample_conf :: PeerConfParams where
  "sample_conf = \<lparr>cp_Name = ''laptop'', cp_PrivateKey = ''cHJpdmF0ZQ=='', cp_Address = ''10.0.0.2/32'', cp_DNS = ''1.1.1.1'', 
     cp_ServerPublicKey = ''cHVibGlj'', cp_ServerEndpoint = ''vpn.example.org:51820'', cp_AllowedIPs = ''0.0.0.0/0'',
     cp_PresharedKey = ''c2hhcmVk'', cp_PersistentKeepalive = 25, cp_MTU = 1420\<rparr>"

lemma masked_configuration_witness:
  "shown_conf False (GeneratePeerConf sample_conf) =
      ''[Interface]'' @ nl @ ''PrivateKey = '' @ mask_text @ nl @ conf_tail sample_conf
    \<and> contains (conf_tail sample_conf) (field ''PresharedKey'' ''c2hhcmVk'')
    \<and> conf_tail (sample_conf\<lparr>cp_PrivateKey := ''b3RoZXI=''\<rparr>) = conf_tail sample_conf"
proof -
  have "plain_key (cp_PrivateKey sample_conf)" by code_simp
  moreover have "\<not> contains (conf_tail sample_conf) ''PrivateKey''" by code_simp
  moreover have "contains (conf_tail sample_conf) (field ''PresharedKey'' ''c2hhcmVk'')" by code_simp
  ultimately show ?thesis using masked_configuration [of sample_conf "''b3RoZXI=''"] by simp
qed

section \<open>The log page\<close>

lemma handleListInterfaces_rows:
  "run_state (handleListInterfaces env) w = (JSON n is, w') \<Longrightarrow> is = sort_key if_CreatedAt (t_interfaces (wdb w))"
  by (auto simp: handleListInterfaces_def ListInterfaces_def run_or_error run_query_rows run_simps split: sum.splits option.splits fault.splits if_splits)

lemma mount_unloaded: "lg_Ifaces s = None \<Longrightarrow> LogsView_mount i s = (s, LoadInterfaces)"
  by (simp add: LogsView_mount_def)

lemma mount_loaded: "lg_Ifaces s = Some xs \<Longrightarrow> LogsView_mount [] s = (s, Render)"
  by (simp add: LogsView_mount_def)

lemma round_unloaded: "lg_Ifaces s = None \<Longrightarrow> lg_Ifaces (logs_round i a s) = a"
  by (simp add: logs_round_def mount_unloaded interfaces_loaded_def Let_def)

lemma logs_rounds_empty: "lg_Ifaces ((logs_round [] None ^^ k) logs_start) = None"
  by (induction k) (simp_all add: round_unloaded logs_start_def)

text \<open>C31. The page of the logs, opened without an interface in its route, comes to rest if and only if there
  is an interface: without one the answer of the server is what the page takes for a list that was not
  loaded, and it asks for the list again after every answer, without end.\<close>

theorem logs_page_settles:
  assumes "run_state (handleListInterfaces env) w = (JSON n is, w')"
  shows "(\<forall>k. snd (LogsView_mount [] ((logs_round [] (json_slice (map dec is)) ^^ k) logs_start)) = LoadInterfaces)
    \<longleftrightarrow> t_interfaces (wdb w) = []"
proof
  assume loads: "\<forall>k. snd (LogsView_mount [] ((logs_round [] (json_slice (map dec is)) ^^ k) logs_start)) = LoadInterfaces"
  show "t_interfaces (wdb w) = []"
  proof (rule ccontr)
    assume "t_interfaces (wdb w) \<noteq> []"
    moreover have "length is = length (t_interfaces (wdb w))" using handleListInterfaces_rows [OF assms] by simp
    ultimately have "is \<noteq> []" by auto
    then have "lg_Ifaces (logs_round [] (json_slice (map dec is)) logs_start) = Some (map dec is)"
      by (simp add: round_unloaded json_slice_def logs_start_def)
    from mount_loaded [OF this] loads [rule_format, of 1] show False by simp
  qed
next
  assume "t_interfaces (wdb w) = []"
  then have "json_slice (map dec is) = None" using handleListInterfaces_rows [OF assms] by (simp add: json_slice_def)
  then show "\<forall>k. snd (LogsView_mount [] ((logs_round [] (json_slice (map dec is)) ^^ k) logs_start)) = LoadInterfaces"
    by (simp add: mount_unloaded logs_rounds_empty)
qed

definition iface_data :: "iface \<Rightarrow> interfaceData" where
  "iface_data i = \<lparr>id_ID = if_ID i, id_ListenPort = if_ListenPort i, id_Address = if_Address i\<rparr>"

lemma logs_page_settles_witness:
  "(\<forall>k. snd (LogsView_mount [] ((logs_round [] (json_slice (map iface_data [])) ^^ k) logs_start)) = LoadInterfaces)
   \<and> (\<exists>k. snd (LogsView_mount [] ((logs_round [] (json_slice (map iface_data [sample_iface])) ^^ k) logs_start)) \<noteq> LoadInterfaces)"
proof -
  have "run_state (handleListInterfaces sample_env) (world_of empty_db) = (JSON 200 [], snd (run_state (handleListInterfaces sample_env) (world_of empty_db)))"
    "run_state (handleListInterfaces sample_env) sample_world = (JSON 200 [sample_iface], snd (run_state (handleListInterfaces sample_env) sample_world))"
    by (simp_all add: handleListInterfaces_def ListInterfaces_def run_or_error run_query_rows run_simps sample_env_def sample_world_def sample_db_def
      world_of_def empty_db_def)
  from logs_page_settles [OF this(1), of iface_data] logs_page_settles [OF this(2), of iface_data]
  show ?thesis by (simp add: world_of_def sample_world_def sample_db_def empty_db_def)
qed

end
