(* ===== verification/Durations.thy ===== *)
theory Durations
  imports MailMessage "HOL-Library.Log_Nat"
begin

text \<open>
  \<open>time.ParseDuration\<close>, which reads the durations of the configuration. Numbers are naturals, and
  the tests the library makes against \<open>2^63\<close> keep them below the range of an unsigned 64-bit
  number. A fraction is computed in binary64, rounded to 53 bits after each operation.
\<close>

definition round53 :: "int \<Rightarrow> int" where
  "round53 n = (let s = nat (bitlen n - 53) in round_half_even n (2 ^ s) * 2 ^ s)"

text \<open>\<open>uint64(float64(f) * (float64(unit) / scale))\<close>: 128 more bits of the quotient, the last one set
  if there is a remainder, decide its rounding as the exact quotient would.\<close>

definition fraction_value :: "int \<Rightarrow> int \<Rightarrow> int \<Rightarrow> int" where
  "fraction_value f unit scale =
     (let n = unit * 2 ^ 128; q = 2 * (n div scale) + (if n mod scale \<noteq> 0 then 1 else 0)
      in round53 (round53 f * round53 q) div 2 ^ 129)"

fun leadingInt :: "int \<Rightarrow> string \<Rightarrow> (int \<times> string) option" where
  "leadingInt x [] = Some (x, [])"
| "leadingInt x (c # s) =
     (if \<not> is_digit c then Some (x, c # s)
      else if x > 2 ^ 63 div 10 then None
      else let y = x * 10 + int (digit_val c) in if y > 2 ^ 63 then None else leadingInt y s)"

fun leadingFraction :: "int \<Rightarrow> int \<Rightarrow> bool \<Rightarrow> string \<Rightarrow> int \<times> int \<times> string" where
  "leadingFraction x scale overflow [] = (x, scale, [])"
| "leadingFraction x scale overflow (c # s) =
     (if \<not> is_digit c then (x, scale, c # s)
      else if overflow \<or> x > (2 ^ 63 - 1) div 10 \<or> x * 10 + int (digit_val c) > 2 ^ 63
      then leadingFraction x scale True s
      else leadingFraction (x * 10 + int (digit_val c)) (scale * 10) False s)"

definition unit_of :: "string \<Rightarrow> int option" where
  "unit_of u = map_of
     [(''ns'', 1), (''us'', 1000), ([CHR 0xC2, CHR 0xB5] @ ''s'', 1000), ([CHR 0xCE, CHR 0xBC] @ ''s'', 1000),
      (''ms'', 1000000), (''s'', second), (''m'', minute), (''h'', hour)] u"

definition unit_char :: "char \<Rightarrow> bool" where "unit_char c \<longleftrightarrow> c \<noteq> CHR ''.'' \<and> \<not> is_digit c"

definition bad_duration :: "string \<Rightarrow> error" where
  "bad_duration s = ErrQ ''time: invalid duration '' s []"

text \<open>One number with its unit: its value and the rest, or the error.\<close>

definition duration_part :: "string \<Rightarrow> string \<Rightarrow> error + int \<times> string" where
  "duration_part orig s =
     (if s = [] \<or> \<not> (hd s = CHR ''.'' \<or> is_digit (hd s)) then Inl (bad_duration orig)
      else case leadingInt 0 s of
        None \<Rightarrow> Inl (bad_duration orig)
      | Some (v, s1) \<Rightarrow>
          let pre = length s1 \<noteq> length s;
              dot = (s1 \<noteq> [] \<and> hd s1 = CHR ''.'');
              (f, scale, s2) = (if dot then leadingFraction 0 1 False (tl s1) else (0, 1, s1));
              post = (dot \<and> length s2 \<noteq> length (tl s1)) in
          if \<not> pre \<and> \<not> post then Inl (bad_duration orig)
          else
            let u = takeWhile unit_char s2; s3 = dropWhile unit_char s2 in
            if u = [] then Inl (ErrQ ''time: missing unit in duration '' orig [])
            else (case unit_of u of
              None \<Rightarrow> Inl (ErrQ ''time: unknown unit in duration '' orig [])
            | Some unit \<Rightarrow>
                if v > 2 ^ 63 div unit then Inl (bad_duration orig)
                else let w = v * unit + (if f > 0 then fraction_value f unit scale else 0) in
                  if f > 0 \<and> w > 2 ^ 63 then Inl (bad_duration orig) else Inr (w, s3)))"

lemma leadingInt_length: "leadingInt x s = Some (y, r) \<Longrightarrow> length r \<le> length s"
  by (induction s arbitrary: x) (fastforce simp: Let_def split: if_splits)+

lemma leadingFraction_length: "leadingFraction x sc ov s = (y, sc', r) \<Longrightarrow> length r \<le> length s"
  by (induction x sc ov s arbitrary: y sc' r rule: leadingFraction.induct) (fastforce split: if_splits)+

lemma duration_part_shorter: "duration_part orig s = Inr (w, r) \<Longrightarrow> length r < length s"
proof -
  assume d: "duration_part orig s = Inr (w, r)"
  then obtain v s1 where v: "leadingInt 0 s = Some (v, s1)" and "s \<noteq> []"
    by (auto simp: duration_part_def split: if_splits option.splits)
  let ?dot = "s1 \<noteq> [] \<and> hd s1 = CHR ''.''"
  obtain f scale s2 where f: "(if ?dot then leadingFraction 0 1 False (tl s1) else (0, 1, s1)) = (f, scale, s2)"
    by (metis surj_pair)
  have "length s1 \<le> length s" using leadingInt_length v by blast
  moreover have "length s2 \<le> length s1"
    using leadingFraction_length [of 0 1 False "tl s1" f scale s2] f by (auto split: if_splits)
  moreover from d v f have "takeWhile unit_char s2 \<noteq> [] \<and> r = dropWhile unit_char s2"
    by (auto simp: duration_part_def Let_def split: if_splits option.splits)
  then have "length r < length s2"
    by (metis append_eq_conv_conj dropWhile_eq_drop length_append length_greater_0_conv less_add_same_cancel2 takeWhile_dropWhile_id)
  ultimately show "length r < length s" by linarith
qed

function duration_sum :: "string \<Rightarrow> string \<Rightarrow> int \<Rightarrow> error + int" where
  "duration_sum orig s d =
     (if s = [] then Inr d
      else case duration_part orig s of
        Inl e \<Rightarrow> Inl e
      | Inr (w, r) \<Rightarrow> if d + w > 2 ^ 63 then Inl (bad_duration orig) else duration_sum orig r (d + w))"
  by auto
termination by (relation "measure (\<lambda>(_, s, _). length s)") (auto dest: duration_part_shorter)

declare duration_sum.simps [simp del]

definition ParseDuration :: "string \<Rightarrow> error + duration" where
  "ParseDuration s =
     (let neg = (s \<noteq> [] \<and> hd s = CHR ''-'');
          t = (if s \<noteq> [] \<and> (hd s = CHR ''-'' \<or> hd s = CHR ''+'') then tl s else s)
      in if t = ''0'' then Inr 0
         else if t = [] then Inl (bad_duration s)
         else case duration_sum s t 0 of
           Inl e \<Rightarrow> Inl e
         | Inr d \<Rightarrow> if neg then Inr (- d) else if d > 2 ^ 63 - 1 then Inl (bad_duration s) else Inr d)"

section \<open>Whole seconds\<close>

lemma leadingInt_append:
  assumes "\<forall>c \<in> set xs. is_digit c"
  shows "leadingInt a (xs @ ys) = (case leadingInt a xs of None \<Rightarrow> None | Some (m, _) \<Rightarrow> leadingInt m ys)"
  using assms by (induction xs arbitrary: a) (auto simp: Let_def)

lemma leadingInt_digits:
  "leadingInt 0 (digits n) = (if n \<le> 2 ^ 63 then Some (int n, []) else None)"
proof (induction n rule: digits.induct)
  case (1 n)
  show ?case
  proof (cases "n < 10")
    case True
    then show ?thesis
      by (subst digits.simps) (simp add: is_digit_digit_char digit_val_digit_char)
  next
    case False
    note ih = 1 [OF False]
    have n: "int (n div 10) * 10 + int (n mod 10) = int n"
      by (metis div_mult_mod_eq of_nat_add of_nat_mult of_nat_numeral)
    show ?thesis
    proof (cases "n \<le> 2 ^ 63")
      case True
      then have "n div 10 \<le> 2 ^ 63" "int (n div 10) \<le> 2 ^ 63 div 10" "int n \<le> 2 ^ 63" by simp_all
      with False ih n True show ?thesis
        by (subst digits.simps)
          (simp add: leadingInt_append digits_digit is_digit_digit_char digit_val_digit_char)
    next
      case over: False
      then have "int n > 2 ^ 63" by simp
      with False ih n over show ?thesis
        by (subst digits.simps)
          (simp add: leadingInt_append digits_digit is_digit_digit_char digit_val_digit_char)
    qed
  qed
qed

lemma unit_of_s: "unit_of ''s'' = Some second"
  by (simp add: unit_of_def)

text \<open>A number of seconds is read as such up to the largest that fits 63 bits of nanoseconds.\<close>

lemma ParseDuration_seconds:
  "ParseDuration (digits n @ ''s'') =
     (if n \<le> 9223372036 then Inr (int n * second) else Inl (bad_duration (digits n @ ''s'')))"
proof -
  obtain c cs where c: "digits n = c # cs" by (cases "digits n") auto
  then have digit: "is_digit c" using digits_digit [of c n] by simp
  then have sign: "c \<noteq> CHR ''-''" "c \<noteq> CHR ''+''" by (auto dest: not_digit_sign)
  have s: "\<not> is_digit CHR ''s''" "unit_char CHR ''s''" by (simp_all add: is_digit_def unit_char_def)
  have lead: "leadingInt 0 (digits n @ ''s'') = (if n \<le> 2 ^ 63 then Some (int n, ''s'') else None)"
    using leadingInt_append [of "digits n" 0 "''s''"] digits_digit leadingInt_digits [of n] s by auto
  have part: "duration_part (digits n @ ''s'') (digits n @ ''s'') =
      (if n \<le> 9223372036 then Inr (int n * second, []) else Inl (bad_duration (digits n @ ''s'')))"
    using digit by (simp add: duration_part_def lead c [symmetric] s unit_of_s second_def Let_def) (simp add: c)
  have sum: "duration_sum (digits n @ ''s'') (digits n @ ''s'') 0 =
      (if n \<le> 9223372036 then Inr (int n * second) else Inl (bad_duration (digits n @ ''s'')))"
    using part by (auto simp: duration_sum.simps [of _ "digits n @ ''s''"] duration_sum.simps [of _ "[]"] second_def)
  have "hd (digits n @ ''s'') \<noteq> CHR ''-''" "hd (digits n @ ''s'') \<noteq> CHR ''+''" "digits n @ ''s'' \<noteq> ''0''"
    using sign c by auto
  then show ?thesis
    using sum by (auto simp: ParseDuration_def Let_def second_def)
qed

end
