(* ===== verification/Demo.thy ===== *)
theory Demo
  imports Store Crypto
begin

text \<open>
  Demo mode (internal/wg/demo_seed.go and demo_wgclient.go): the sample rows and the simulated
  device. A random generator is the stream of the values it draws; \<open>Intn(n)\<close> is in the range from
  \<open>0\<close> to \<open>n - 1\<close>, whatever the stream.
\<close>

definition Intn :: "(nat \<Rightarrow> int) \<Rightarrow> nat \<Rightarrow> int \<Rightarrow> int" where "Intn r i n = r i mod n"

lemma Intn_bounds: "0 < n \<Longrightarrow> 0 \<le> Intn r i n \<and> Intn r i n < n"
  by (simp add: Intn_def)

section \<open>The history of a sample peer\<close>

definition event_name :: "bool \<Rightarrow> string" where
  "event_name connected = (if connected then ''connected'' else ''disconnected'')"

text \<open>The state of the loop: the next time, what the next entry says, the two counters and the number of
  the next draw. \<open>tmpl\<close> has the fields that all entries share.\<close>

function history_loop ::
  "(nat \<Rightarrow> int) \<Rightarrow> time \<Rightarrow> conn_log \<Rightarrow> time \<Rightarrow> bool \<Rightarrow> int \<Rightarrow> int \<Rightarrow> nat
    \<Rightarrow> conn_log list \<times> bool \<times> int \<times> int \<times> nat" where
  "history_loop r now tmpl t connected rx tx i =
     (if t < now then
        let rx' = (if connected then rx + (1000000 + Intn r i 50000000) else rx);
            tx' = (if connected then tx + (500000 + Intn r (i + 1) 10000000) else tx);
            j = (if connected then i + 2 else i);
            entry = tmpl\<lparr>cl_Event := event_name connected, cl_TransferRx := rx', cl_TransferTx := tx', cl_RecordedAt := t\<rparr>;
            pause = (if connected then 30 + Intn r j 210 else 5 + Intn r j 40) * minute
        in case history_loop r now tmpl (t + pause) (\<not> connected) rx' tx' (j + 1) of
             (es, rest) \<Rightarrow> (entry # es, rest)
      else ([], connected, rx, tx, i))"
  by auto

text \<open>Every pause is positive, so the loop reaches the present.\<close>

termination
proof (relation "measure (\<lambda>(r, now, tmpl, t, connected, rx, tx, i). nat (now - t))", goal_cases)
  case (2 r now tmpl t connected rx tx i rx' tx' j entry pause)
  have "0 < (if connected then 30 + Intn r j 210 else 5 + Intn r j 40)"
    using Intn_bounds [of 210 r j] Intn_bounds [of 40 r j] by auto
  then have "0 < pause" unfolding 2(6) by (simp add: minute_def second_def)
  with 2(1) show ?case by simp
qed simp

declare history_loop.simps [simp del]

definition demo_history :: "(nat \<Rightarrow> int) \<Rightarrow> time \<Rightarrow> conn_log \<Rightarrow> bool \<Rightarrow> conn_log list" where
  "demo_history r now tmpl wanted =
     (case history_loop r now tmpl (now - 24 * hour) True 0 0 0 of (es, connected, rx, tx, i) \<Rightarrow>
        if connected \<noteq> wanted then
          let rx' = (if wanted then rx + (1000000 + Intn r i 10000000) else rx);
              tx' = (if wanted then tx + (500000 + Intn r (i + 1) 5000000) else tx);
              j = (if wanted then i + 2 else i)
          in es @ [tmpl\<lparr>cl_Event := event_name wanted, cl_TransferRx := rx', cl_TransferTx := tx',
               cl_RecordedAt := now - (1 + Intn r j 10) * minute\<rparr>]
        else es)"

record demoPeerDef =
  dp_name :: string
  dp_address :: string
  dp_clientAllowedIPs :: string
  dp_enabled :: bool
  dp_psk :: bool
  dp_connected :: bool
  dp_endpoint :: string
  dp_alertEmails :: string
  dp_alertOnConnect :: bool
  dp_alertOnDisconnect :: bool

text \<open>\<open>rng\<close> gives the stream of the generator that is seeded with the hash of a text.\<close>

definition seedPeerHistory ::
  "env \<Rightarrow> (string \<Rightarrow> nat \<Rightarrow> int) \<Rightarrow> string \<Rightarrow> string \<Rightarrow> demoPeerDef \<Rightarrow> (error + unit) io" where
  "seedPeerHistory env rng ifaceID peerID p =
     State_Monad.bind (time_now env) (\<lambda>now.
     for_each (demo_history (rng peerID) now
         (zero_log\<lparr>cl_PeerID := peerID, cl_InterfaceID := ifaceID, cl_Endpoint := dp_endpoint p\<rparr>) (dp_connected p))
       (\<lambda>l. attempt (CreateConnectionLog env l) fail (\<lambda>_. ok ())))"

section \<open>Sample rows\<close>

definition createDemoPeer :: "env \<Rightarrow> string \<Rightarrow> string \<Rightarrow> demoPeerDef \<Rightarrow> (error + string) io" where
  "createDemoPeer env ifaceID peerType p =
     attempt (GenerateKeyPair env) fail (\<lambda>(privKey, pubKey).
     attempt (Encrypt env privKey) fail (\<lambda>encPriv.
     let peer = zero_peer\<lparr>p_InterfaceID := ifaceID, p_Type := peerType, p_Name := dp_name p, p_PublicKey := pubKey,
           p_PrivateKeyEncrypted := encPriv, p_Address := dp_address p, p_AllowedIPs := dp_address p,
           p_ClientAllowedIPs := dp_clientAllowedIPs p, p_Enabled := dp_enabled p, p_AlertEmails := dp_alertEmails p,
           p_AlertOnConnect := dp_alertOnConnect p, p_AlertOnDisconnect := dp_alertOnDisconnect p\<rparr> in
     attempt
       (if dp_psk p then
          attempt (GeneratePresharedKey env) fail (\<lambda>k.
          attempt (Encrypt env k) fail (\<lambda>encPSK. ok (peer\<lparr>p_PresharedKeyEncrypted := encPSK\<rparr>)))
        else ok peer) fail (\<lambda>peer.
     attempt (CreatePeer env peer) fail (\<lambda>peer.
     if dp_connected p then
       State_Monad.bind (time_now env) (\<lambda>now.
       ignore (UpdatePeer env (peer\<lparr>p_LastHandshake := Some now\<rparr>)) (ok (p_ID peer)))
     else ok (p_ID peer)))))"

text \<open>An interface of the demo with its peers; \<open>all\<close> is for the sites, whose history is always seeded.\<close>

definition seed_peer ::
  "env \<Rightarrow> (string \<Rightarrow> nat \<Rightarrow> int) \<Rightarrow> string \<Rightarrow> string \<Rightarrow> bool \<Rightarrow> demoPeerDef \<Rightarrow> (error + unit) io" where
  "seed_peer env rng ifaceID peerType all p =
     check (''creating peer '' @ dp_name p) (createDemoPeer env ifaceID peerType p) (\<lambda>peerID.
     if all \<or> dp_enabled p
     then check (''seeding history for '' @ dp_name p) (seedPeerHistory env rng ifaceID peerID p) ok
     else ok ())"

definition seed_interface ::
  "env \<Rightarrow> (string \<Rightarrow> nat \<Rightarrow> int) \<Rightarrow> iface \<Rightarrow> string \<Rightarrow> bool \<Rightarrow> demoPeerDef list \<Rightarrow> (error + unit) io" where
  "seed_interface env rng i peerType all peers =
     attempt (GenerateKeyPair env) fail (\<lambda>(privKey, _).
     attempt (Encrypt env privKey) fail (\<lambda>encPriv.
     check (''creating '' @ if_ID i) (CreateInterface env (i\<lparr>if_PrivateKeyEncrypted := encPriv\<rparr>)) (\<lambda>_.
     for_each peers (seed_peer env rng (if_ID i) peerType all))))"

abbreviation demo_peer ::
  "string \<Rightarrow> string \<Rightarrow> string \<Rightarrow> bool \<Rightarrow> bool \<Rightarrow> bool \<Rightarrow> string \<Rightarrow> string \<Rightarrow> bool \<Rightarrow> bool \<Rightarrow> demoPeerDef" where
  "demo_peer n a c e k up ep mail on_up on_down \<equiv> \<lparr>dp_name = n, dp_address = a, dp_clientAllowedIPs = c, dp_enabled = e,
     dp_psk = k, dp_connected = up, dp_endpoint = ep, dp_alertEmails = mail, dp_alertOnConnect = on_up,
     dp_alertOnDisconnect = on_down\<rparr>"

definition vpn_peers :: "demoPeerDef list" where
  "vpn_peers =
     [demo_peer ''george-macbook'' ''10.200.0.2/32'' ''0.0.0.0/0, ::/0'' True True True ''73.42.118.205''
        ''george@vandelay.io'' True True,
      demo_peer ''george-iphone'' ''10.200.0.3/32'' ''0.0.0.0/0, ::/0'' True True False ''73.42.118.205'' [] False False,
      demo_peer ''jerry-macbook'' ''10.200.0.4/32'' ''0.0.0.0/0, ::/0'' True True True ''98.207.45.12'' [] False False,
      demo_peer ''elaine-macbook'' ''10.200.0.5/32'' ''0.0.0.0/0, ::/0'' True True False ''174.63.221.88''
        ''elaine@vandelay.io'' False True,
      demo_peer ''kramer-macbook'' ''10.200.0.6/32'' ''0.0.0.0/0, ::/0'' True False True ''24.185.93.140'' [] False False,
      demo_peer ''newman-desktop'' ''10.200.0.7/32'' ''0.0.0.0/0, ::/0'' False False False [] [] False False]"

definition seedVandelayVPN :: "env \<Rightarrow> (string \<Rightarrow> nat \<Rightarrow> int) \<Rightarrow> (error + unit) io" where
  "seedVandelayVPN env rng =
     seed_interface env rng
       (zero_iface\<lparr>if_ID := ''wg0'', if_Type := InterfaceTypeClientAccess, if_ListenPort := 51820,
          if_Address := ''10.200.0.1/24'', if_DNS := ''1.1.1.1, 1.0.0.1'', if_MTU := 1420,
          if_Endpoint := ''vpn.vandelay.io'', if_Enabled := True\<rparr>)
       PeerTypeClient False vpn_peers"

definition site_peers :: "demoPeerDef list" where
  "site_peers =
     [demo_peer ''warehouse-nj'' ''10.100.0.2/32'' ''10.100.0.2/32, 192.168.10.0/24'' True True True ''203.45.167.22''
        ''ops@vandelay.io'' False True,
      demo_peer ''office-manhattan'' ''10.100.0.3/32'' ''10.100.0.3/32, 192.168.20.0/24'' True True True ''68.132.91.44''
        ''ops@vandelay.io'' False True,
      demo_peer ''george-home'' ''10.100.0.4/32'' ''10.100.0.4/32, 192.168.30.0/24'' True True True ''73.42.118.205''
        [] False False,
      demo_peer ''kramer-home'' ''10.100.0.5/32'' ''10.100.0.5/32, 192.168.40.0/24'' True True False ''24.185.93.140''
        [] False False]"

definition seedVandelaySites :: "env \<Rightarrow> (string \<Rightarrow> nat \<Rightarrow> int) \<Rightarrow> (error + unit) io" where
  "seedVandelaySites env rng =
     seed_interface env rng
       (zero_iface\<lparr>if_ID := ''wg1'', if_Type := InterfaceTypeSiteToSite, if_ListenPort := 51821,
          if_Address := ''10.100.0.1/24'', if_MTU := 1420, if_Endpoint := ''hq.vandelay.io'', if_Enabled := True\<rparr>)
       PeerTypeSite True site_peers"

definition set_settings :: "env \<Rightarrow> (string \<times> string) list \<Rightarrow> (error + unit) io" where
  "set_settings env kvs = for_each kvs (\<lambda>(k, v). SetSetting env k v)"

definition seedDemoSettings :: "env \<Rightarrow> (error + unit) io" where
  "seedDemoSettings env =
     attempt (set_settings env [(''external_url'', ''https://vpn.vandelay.io''), (''smtp_host'', ''smtp.vandelay.io''),
       (''smtp_port'', ''587''), (''smtp_from'', ''vpn@vandelay.io''), (''smtp_username'', ''vpn@vandelay.io'')]) fail (\<lambda>_.
     attempt (Encrypt env ''demo-smtp-password'') fail (\<lambda>encPw.
     attempt (set_settings env [(''smtp_password_encrypted'', encPw), (''smtp_tls'', ''starttls'')]) fail (\<lambda>_.
     attempt (Encrypt env ''demo-client-secret'') fail (\<lambda>encSecret.
     attempt (CreateOIDCProvider env \<lparr>op_ID = [], op_Name = ''Okta'', op_Issuer = ''https://vandelay.okta.com'',
         op_ClientID = ''0oa1b2c3d4e5f6g7h8i9'', op_ClientSecretEncrypted = encSecret,
         op_Scopes = ''openid profile email groups'', op_AutoDiscover = True, op_AdminClaim = ''groups'',
         op_AdminValue = ''vpn-admins'', op_DefaultRole = ''viewer'', op_Enabled = True, op_CreatedAt = 0,
         op_UpdatedAt = 0\<rparr>) fail (\<lambda>_. ok ())))))"

definition seedDemoAdmin :: "env \<Rightarrow> (error + unit) io" where
  "seedDemoAdmin env =
     attempt (CountUsers env) fail (\<lambda>count.
     if count > 0 then ok ()
     else
       check ''hashing password'' (ask (\<lambda>t. bcrypt_hash env t ''admin'')) (\<lambda>hash.
       attempt (CreateUser env (zero_user\<lparr>u_Username := ''admin'', u_PasswordHash := hash, u_DisplayName := ''Admin'',
         u_Role := ''admin'', u_IsInitial := True\<rparr>)) fail (\<lambda>_. ok ())))"

definition SeedDemoData :: "env \<Rightarrow> (string \<Rightarrow> nat \<Rightarrow> int) \<Rightarrow> (error + unit) io" where
  "SeedDemoData env rng =
     check ''checking existing interfaces'' (ListInterfaces env) (\<lambda>ifaces.
     if ifaces \<noteq> [] then ok ()
     else
       check ''seeding demo admin'' (seedDemoAdmin env) (\<lambda>_.
       check ''seeding Vandelay VPN'' (seedVandelayVPN env rng) (\<lambda>_.
       check ''seeding Vandelay sites'' (seedVandelaySites env rng) (\<lambda>_.
       check ''seeding demo settings'' (seedDemoSettings env) ok))))"

section \<open>The simulated device\<close>

text \<open>
  \<open>demoPeerState\<close> with the address of its endpoint. \<open>Float64\<close> is a multiple of \<open>2 ^ -53\<close> below 1, here
  its numerator; a constant of the program is the binary64 number next to it, here in units of
  \<open>2 ^ -57\<close>.
\<close>

record demoPeerState =
  ds_connected :: bool
  ds_persistent :: bool
  ds_lastHandshake :: time
  ds_rxBytes :: int
  ds_txBytes :: int
  ds_endpoint :: ip
  ds_port :: int
  ds_nextFlipAfter :: time

definition Float64_less :: "(nat \<Rightarrow> int) \<Rightarrow> nat \<Rightarrow> int \<Rightarrow> bool" where
  "Float64_less r i c \<longleftrightarrow> 16 * Intn r i (2 ^ 53) < c"

definition endpoint_prefixes :: "nat list" where
  "endpoint_prefixes = [24, 47, 68, 73, 76, 98, 108, 174, 184, 203]"

definition demoEndpointIP :: "(nat \<Rightarrow> int) \<Rightarrow> nat \<Rightarrow> ip" where
  "demoEndpointIP r i = v4_in_v6 @ [endpoint_prefixes ! nat (Intn r i 10), nat (Intn r (i + 1) 256),
     nat (1 + Intn r (i + 2) 254), nat (1 + Intn r (i + 3) 254)]"

text \<open>\<open>age\<close> is the time since the last handshake of the row, when it has one.\<close>

definition new_peer_state :: "(nat \<Rightarrow> int) \<Rightarrow> peer \<Rightarrow> duration option \<Rightarrow> time \<Rightarrow> demoPeerState" where
  "new_peer_state r p age now =
     (let connected = (case age of Some a \<Rightarrow> a < 180 * second | None \<Rightarrow> False);
          persistent = (p_Type p = PeerTypeSite);
          i = (if connected then 1 else 0);
          parsed = (if p_Endpoint p \<noteq> [] then ParseIP (p_Endpoint p) else None);
          j = (if parsed = None then i + 5 else i + 1)
      in \<lparr>ds_connected = connected, ds_persistent = persistent,
          ds_lastHandshake = (if connected then now - Intn r 0 60 * second else 0),
          ds_rxBytes = (if persistent then Intn r j 2000000000 + 500000000 else Intn r j 500000000 + 1000000),
          ds_txBytes = (if persistent then Intn r (j + 1) 500000000 + 100000000 else Intn r (j + 1) 100000000 + 500000),
          ds_endpoint = (case parsed of Some a \<Rightarrow> a | None \<Rightarrow> demoEndpointIP r (i + 1)),
          ds_port = 1024 + Intn r i 64000,
          ds_nextFlipAfter = now + (if persistent \<and> connected then 300 + Intn r (j + 2) 600
             else if persistent then 60 + Intn r (j + 2) 180
             else if connected then 120 + Intn r (j + 2) 300
             else 300 + Intn r (j + 2) 600) * second\<rparr>)"

text \<open>\<open>evolveState\<close>: maybe change sides, then let the counters of a connected peer grow.\<close>

definition flip_state :: "(nat \<Rightarrow> int) \<Rightarrow> time \<Rightarrow> demoPeerState \<Rightarrow> demoPeerState \<times> nat" where
  "flip_state r now s =
     (if now > ds_nextFlipAfter s then
        (if ds_persistent s then
           (s\<lparr>ds_connected := (if ds_connected s then \<not> Float64_less r 0 7205759403792794 else Float64_less r 0 129703669268270288),
              ds_nextFlipAfter := now + (120 + Intn r 1 480) * second\<rparr>, 2)
         else
           (s\<lparr>ds_connected := (if ds_connected s then \<not> Float64_less r 0 36028797018963968 else Float64_less r 0 57646075230342352),
              ds_nextFlipAfter := now + (30 + Intn r 1 270) * second\<rparr>, 2))
      else (s, 0))"

definition evolveState :: "(nat \<Rightarrow> int) \<Rightarrow> time \<Rightarrow> demoPeerState \<Rightarrow> demoPeerState" where
  "evolveState r now s =
     (case flip_state r now s of (s', i) \<Rightarrow>
        if ds_connected s' then
          (if ds_persistent s'
           then s'\<lparr>ds_rxBytes := ds_rxBytes s' + (100000 + Intn r i 5000000),
                   ds_txBytes := ds_txBytes s' + (50000 + Intn r (i + 1) 2000000),
                   ds_lastHandshake := now - Intn r (i + 2) 120 * second\<rparr>
           else s'\<lparr>ds_rxBytes := ds_rxBytes s' + (50000 + Intn r i 2000000),
                   ds_txBytes := ds_txBytes s' + (10000 + Intn r (i + 1) 500000),
                   ds_lastHandshake := now - Intn r (i + 2) 120 * second\<rparr>)
        else s')"

text \<open>
  \<open>Device\<close>. The map of the states goes in and comes out; \<open>seeded\<close> and \<open>timed\<close> are the streams of the
  generators seeded with a key and with the time. \<open>since\<close> is what \<open>time.Since\<close> gives for a time.
\<close>

definition demo_device ::
  "env \<Rightarrow> (string \<Rightarrow> nat \<Rightarrow> int) \<Rightarrow> (time \<Rightarrow> nat \<Rightarrow> int) \<Rightarrow> (time \<Rightarrow> duration) \<Rightarrow> time
    \<Rightarrow> peer \<Rightarrow> (string \<Rightarrow> demoPeerState option) \<times> live_peer list \<Rightarrow> (string \<Rightarrow> demoPeerState option) \<times> live_peer list" where
  "demo_device env seeded timed since now p acc =
     (case acc of (states, found) \<Rightarrow>
        if \<not> p_Enabled p then acc
        else case wg_parse_key env (p_PublicKey p) of
          Inl _ \<Rightarrow> acc
        | Inr key \<Rightarrow>
            let s = (case states (p_PublicKey p) of
                  Some s \<Rightarrow> s
                | None \<Rightarrow> new_peer_state (seeded (p_PublicKey p)) p (map_option since (p_LastHandshake p)) now);
                s' = evolveState (timed now) now s
            in (states(p_PublicKey p \<mapsto> s'),
                found @ [\<lparr>lp_PublicKey = EncodeToString key, lp_LastHandshakeTime = ds_lastHandshake s',
                  lp_ReceiveBytes = ds_rxBytes s', lp_TransmitBytes = ds_txBytes s',
                  lp_Endpoint = Some (IP_String (ds_endpoint s'))\<rparr>]))"

definition Device ::
  "env \<Rightarrow> (string \<Rightarrow> nat \<Rightarrow> int) \<Rightarrow> (time \<Rightarrow> nat \<Rightarrow> int) \<Rightarrow> (time \<Rightarrow> duration)
    \<Rightarrow> (string \<Rightarrow> demoPeerState option) \<Rightarrow> string \<Rightarrow> (error + (string \<Rightarrow> demoPeerState option) \<times> live_peer list) io" where
  "Device env seeded timed since states name =
     attempt (ListPeers env name) fail (\<lambda>peers.
     State_Monad.bind (time_now env) (\<lambda>now.
     ok (fold (demo_device env seeded timed since now) peers (states, []))))"

text \<open>\<open>isPersistentPeer\<close> has no caller.\<close>

definition isPersistentPeer :: "env \<Rightarrow> string \<Rightarrow> bool" where
  "isPersistentPeer env name =
     list_ex (contains (unicode_lower env name))
       [''warehouse'', ''office'', ''datacenter'', ''server'', ''router'', ''gateway'']"

section \<open>The seeded history\<close>

lemma event_name_eq [simp]: "event_name a = event_name b \<longleftrightarrow> a = b"
  by (simp add: event_name_def)

lemma history_loop_done: "\<not> t < now \<Longrightarrow> history_loop r now tmpl t c rx tx i = ([], c, rx, tx, i)"
  by (simp add: history_loop.simps)

lemma history_loop_step:
  assumes "t < now"
  obtains rx' tx' i' d where "5 * minute \<le> d"
    "history_loop r now tmpl t c rx tx i =
       (case history_loop r now tmpl (t + d) (\<not> c) rx' tx' i' of (es, rest) \<Rightarrow>
         (tmpl\<lparr>cl_Event := event_name c, cl_TransferRx := rx', cl_TransferTx := tx', cl_RecordedAt := t\<rparr> # es, rest))"
proof -
  let ?rx = "if c then rx + (1000000 + Intn r i 50000000) else rx"
  let ?tx = "if c then tx + (500000 + Intn r (i + 1) 10000000) else tx"
  let ?j = "if c then i + 2 else i"
  let ?d = "(if c then 30 + Intn r ?j 210 else 5 + Intn r ?j 40) * minute"
  have "5 * minute \<le> ?d"
    using Intn_bounds [of 210 r ?j] Intn_bounds [of 40 r ?j] by (auto simp: minute_def second_def)
  then show thesis
    by (rule that [of ?d ?tx ?rx "?j + 1"])
      (subst history_loop.simps, simp only: assms if_True Let_def)
qed

lemma history_loop_events:
  assumes "history_loop r now tmpl t c rx tx i = (es, c', rest)"
  shows "successively (\<lambda>a b. cl_Event a \<noteq> cl_Event b \<and> cl_RecordedAt a < cl_RecordedAt b) es \<and>
    (\<forall>e \<in> set es. t \<le> cl_RecordedAt e \<and> cl_RecordedAt e < now) \<and>
    int (length es) * (5 * minute) < max 0 (now - t) + 5 * minute \<and>
    (if es = [] then \<not> t < now \<and> c' = c else cl_Event (hd es) = event_name c \<and> cl_RecordedAt (hd es) = t \<and> cl_Event (List.last es) = event_name (\<not> c'))"
  using assms
proof (induction "nat (now - t)" arbitrary: t c rx tx i es rule: less_induct)
  case less
  have pos: "0 < minute" by (simp add: minute_def second_def)
  show ?case
  proof (cases "t < now")
    case True
    then obtain rx' tx' i' d where d: "5 * minute \<le> d" and s: "history_loop r now tmpl t c rx tx i =
        (case history_loop r now tmpl (t + d) (\<not> c) rx' tx' i' of (es, rest) \<Rightarrow>
         (tmpl\<lparr>cl_Event := event_name c, cl_TransferRx := rx', cl_TransferTx := tx', cl_RecordedAt := t\<rparr> # es, rest))"
      by (rule history_loop_step)
    obtain es' where es': "history_loop r now tmpl (t + d) (\<not> c) rx' tx' i' = (es', c', rest)"
      "es = tmpl\<lparr>cl_Event := event_name c, cl_TransferRx := rx', cl_TransferTx := tx', cl_RecordedAt := t\<rparr> # es'"
      using s less.prems by (auto split: prod.splits)
    have "nat (now - (t + d)) < nat (now - t)" using True d pos by linarith
    note ih = less.hyps [OF this es'(1)]
    have len: "int (length es) * (5 * minute) < max 0 (now - t) + 5 * minute"
      using ih d True pos unfolding es'(2) by (auto simp: algebra_simps max_def split: if_splits)
    have d0: "0 < d" using d pos by linarith
    show ?thesis using ih d0 True len unfolding es'(2)
      by (cases es') (auto split: if_splits)
  qed (use less.prems in \<open>auto simp: history_loop_done minute_def second_def\<close>)
qed

text \<open>The loop that invents the history of a sample peer ends, with at most 289 entries in all, the first one a
  connect. The entry added after the loop is meant to make the history end in the state that the
  peer shows, but the flag it tests is the state after the next change: for a peer that is up and
  for one that is down the history ends with the same event, only the number of entries differs.\<close>

lemma demo_history_end:
  "demo_history r now tmpl up \<noteq> [] \<and>
   cl_Event (hd (demo_history r now tmpl up)) = ''connected'' \<and>
   cl_Event (List.last (demo_history r now tmpl True)) = cl_Event (List.last (demo_history r now tmpl False)) \<and>
   length (demo_history r now tmpl True) \<noteq> length (demo_history r now tmpl False) \<and>
   length (demo_history r now tmpl up) \<le> 289"
proof -
  obtain es c rx tx i where h: "history_loop r now tmpl (now - 24 * hour) True 0 0 0 = (es, c, rx, tx, i)"
    by (metis surj_pair)
  note e = history_loop_events [OF h]
  have ne: "es \<noteq> []" using e by (auto simp: hour_def minute_def second_def split: if_splits)
  have "cl_Event (hd es) = ''connected''" "cl_Event (List.last es) = event_name (\<not> c)"
    using e ne by (auto simp: event_name_def)
  moreover have "length es \<le> 288"
    using e by (simp add: hour_def minute_def second_def)
  ultimately show ?thesis using ne by (simp add: demo_history_def h Let_def)
qed

end
