(* ===== verification/Startup.thy ===== *)
theory Startup
  imports Routes Durations Demo Migrations
begin

text \<open>
  How the server comes up (cmd/wgrift/main.go, \<open>store.New\<close>, \<open>server.New\<close> and \<open>Start\<close>): opening the
  database, the settings that are read from the configuration, and the order of the steps in front of
  the first request. What \<open>runServe\<close> hands on is the environment with the answers of the parts it
  has chosen, the server and the two settings of the poller.
\<close>

section \<open>Opening the database\<close>

definition pragmas :: "string list" where
  "pragmas = [''PRAGMA journal_mode=WAL'', ''PRAGMA foreign_keys=ON'', ''PRAGMA busy_timeout=5000'']"

text \<open>\<open>opened\<close> is what \<open>sql.Open\<close> returns for the path; a pragma does not change the tables.\<close>

definition store_New :: "'d migrator \<Rightarrow> error + unit \<Rightarrow> ('d, unit) mig" where
  "store_New g opened =
     check ''opening database'' (State_Monad.return opened) (\<lambda>_.
     attempt (for_each pragmas (\<lambda>p. check (''setting '' @ p) (driver g (\<lambda>s. Inr ((), s))) ok)) fail (\<lambda>_.
     check ''running migrations'' (runMigrations g) ok))"

section \<open>Settings\<close>

definition duration_or :: "duration \<Rightarrow> string \<Rightarrow> duration" where
  "duration_or d s = (case ParseDuration s of Inl _ \<Rightarrow> d | Inr x \<Rightarrow> if x = 0 then d else x)"

definition auth_settings :: "config \<Rightarrow> auth_service" where
  "auth_settings cfg =
     \<lparr>sessionTimeout = duration_or (30 * minute) (ac_SessionTimeout (cf_Auth cfg)),
      maxSessionAge = duration_or (24 * hour) (ac_MaxSessionAge (cf_Auth cfg)),
      minPasswordLen = (let n = la_MinPasswordLength (ac_Local (cf_Auth cfg)) in if n = 0 then 16 else n)\<rparr>"

text \<open>\<open>NewPoller\<close>: the interval, and the retention as a 64-bit product.\<close>

definition NewPoller :: "config \<Rightarrow> duration \<times> duration" where
  "NewPoller cfg =
     ((case ParseDuration (lc_ConnectionPollInterval (cf_Logging cfg)) of Inr d \<Rightarrow> d | Inl _ \<Rightarrow> 10 * second),
      int64 (int64 (lc_RetentionDays (cf_Logging cfg) * 24) * hour))"

text \<open>\<open>time.NewTicker\<close> panics unless its interval is positive.\<close>

definition ticker_ok :: "duration \<Rightarrow> bool" where "ticker_ok interval \<longleftrightarrow> interval > 0"

section \<open>The server process\<close>

record running =
  rs_env :: env
  rs_server :: server
  rs_interval :: duration
  rs_retention :: duration

definition server_New :: "env \<Rightarrow> config \<Rightarrow> auth_service \<Rightarrow> running" where
  "server_New env cfg auth =
     \<lparr>rs_env = env, rs_server = \<lparr>sv_cfg = cfg, sv_auth = auth, sv_oidc = True\<rparr>,
      rs_interval = fst (NewPoller cfg), rs_retention = snd (NewPoller cfg)\<rparr>"

definition load_config :: "env \<Rightarrow> (string \<Rightarrow> config \<Rightarrow> error + config) \<Rightarrow> string \<Rightarrow> (error + config) io" where
  "load_config env unmarshal cfgPath =
     attempt (if cfgPath \<noteq> [] then check ''loading config'' (Load env unmarshal cfgPath) ok else ok (Defaults env)) fail (\<lambda>cfg.
     let listen = getenv env ''WGRIFT_LISTEN'' in
     ok (if listen \<noteq> [] then cfg\<lparr>cf_Server := (cf_Server cfg)\<lparr>srv_Listen := listen\<rparr>\<rparr> else cfg))"

definition with_key :: "string \<Rightarrow> env \<Rightarrow> env" where
  "with_key key env = env\<lparr>passphrase := key\<rparr>"

definition demo_env :: "env \<Rightarrow> env" where
  "demo_env env = env\<lparr>net_result := \<lambda>_. demoNetManager, external_ip := ''demo.vandelay.io''\<rparr>"

text \<open>\<open>open_db\<close> is \<open>store.New\<close> on a path, \<open>wgctrl\<close> what \<open>wgctrl.New\<close> returns. An error of the automatic
  start is logged and the server goes on.\<close>

definition runServe ::
  "env \<Rightarrow> (string \<Rightarrow> config \<Rightarrow> error + config) \<Rightarrow> (string \<Rightarrow> error + unit) \<Rightarrow> error + unit
    \<Rightarrow> (string \<Rightarrow> nat \<Rightarrow> int) \<Rightarrow> string \<Rightarrow> (error + running) io" where
  "runServe env unmarshal open_db wgctrl rng cfgPath =
     attempt (load_config env unmarshal cfgPath) fail (\<lambda>cfg.
     check ''master key'' (MasterKey env cfg) (\<lambda>key.
     check ''opening database'' (State_Monad.return (open_db (cf_DatabasePath cfg))) (\<lambda>_.
     attempt
       (if cf_Demo cfg then
          let e = demo_env (with_key key env) in check ''seeding demo data'' (SeedDemoData e rng) (\<lambda>_. ok e)
        else check ''creating wgctrl client'' (State_Monad.return wgctrl) (\<lambda>_. ok (with_key key env))) fail (\<lambda>env'.
     ignore (if ShouldAutoStart (cf_Server cfg) \<and> \<not> cf_Demo cfg then drop_result (SyncAll env') else State_Monad.return ())
       (ok (server_New env' cfg (auth_settings cfg)))))))"

text \<open>\<open>Start\<close> sends the poller and the cleaning of sessions on their way; from then on the steps of
  \<open>Routes\<close> happen in any order. The poller crashes the process if its ticker panics.\<close>

definition Start :: "running \<Rightarrow> step list \<Rightarrow> unit io" where
  "Start rs steps =
     fold_act (PollStart # CleanSessions # ReloadOIDC # steps)
       (\<lambda>e _. run_step (rs_env rs) (rs_server rs) (rs_retention rs) e) ()"

section \<open>Facts\<close>

lemma duration_or_seconds:
  "duration_or d (digits n @ ''s'') = (if 1 \<le> n \<and> n \<le> 9223372036 then int n * second else d)"
  by (auto simp: duration_or_def ParseDuration_seconds second_def split: sum.splits)

text \<open>C29. A setting of \<open>n\<close> seconds takes effect exactly from 1 to 9223372036: everything else counts as no
  setting and silently gives the default, a zero included. The interval of the poller has no such guard
  at the lower end: a zero is taken, and the ticker panics.\<close>

theorem duration_settings:
  "sessionTimeout (auth_settings (cfg\<lparr>cf_Auth := (cf_Auth cfg)\<lparr>ac_SessionTimeout := digits n @ ''s''\<rparr>\<rparr>)) =
      (if 1 \<le> n \<and> n \<le> 9223372036 then int n * second else 30 * minute)
    \<and> maxSessionAge (auth_settings (cfg\<lparr>cf_Auth := (cf_Auth cfg)\<lparr>ac_MaxSessionAge := digits n @ ''s''\<rparr>\<rparr>)) =
      (if 1 \<le> n \<and> n \<le> 9223372036 then int n * second else 24 * hour)
    \<and> fst (NewPoller (cfg\<lparr>cf_Logging := (cf_Logging cfg)\<lparr>lc_ConnectionPollInterval := digits n @ ''s''\<rparr>\<rparr>)) =
      (if n \<le> 9223372036 then int n * second else 10 * second)
    \<and> ticker_ok (fst (NewPoller (cfg\<lparr>cf_Logging := (cf_Logging cfg)\<lparr>lc_ConnectionPollInterval := digits n @ ''s''\<rparr>\<rparr>))) = (n \<noteq> 0)"
  by (simp add: auth_settings_def NewPoller_def duration_or_seconds ParseDuration_seconds ticker_ok_def second_def)

end
