(* ===== verification/StaticFiles.thy ===== *)
theory StaticFiles
  imports GoLib
begin

text \<open>
  The handler of the embedded web application (internal/server/static.go). The embedded files are a
  map from names to contents; \<open>fs.Open\<close> also finds directories and refuses names that are not clean,
  so what it opens is a parameter, and so are the hash and \<^verbatim>\<open>http.FileServer\<close>. A header that is not
  sent is the empty text.
\<close>

section \<open>Preloaded assets\<close>

record preloadedAsset =
  pa_data :: string
  pa_etag :: string

record web_fs =
  wf_read :: "string \<Rightarrow> string option"
  wf_opens :: "string \<Rightarrow> bool"
  wf_hash :: "string \<Rightarrow> string" \<comment> \<open>the first 8 bytes of the SHA-256 in hexadecimal\<close>

definition preload_file :: "web_fs \<Rightarrow> string \<Rightarrow> preloadedAsset option" where
  "preload_file fs name = (case wf_read fs name of
       None \<Rightarrow> None
     | Some data \<Rightarrow> Some \<lparr>pa_data = data, pa_etag = [CHR 0x22] @ wf_hash fs data @ [CHR 0x22]\<rparr>)"

section \<open>Answers\<close>

datatype static_answer =
    NotFound
  | NotModified
  | Content "(string \<times> string) list" string
  | FileServer "(string \<times> string) list" string

definition pick_wasm :: "web_fs \<Rightarrow> string \<Rightarrow> preloadedAsset option \<times> string" where
  "pick_wasm fs ae =
     (let br = preload_file fs ''wgrift.wasm.br''; gz = preload_file fs ''wgrift.wasm.gz'' in
      if br \<noteq> None \<and> contains ae ''br'' then (br, ''br'')
      else if gz \<noteq> None \<and> contains ae ''gzip'' then (gz, ''gzip'')
      else (preload_file fs ''wgrift.wasm'', []))"

definition fresh :: "string \<Rightarrow> preloadedAsset \<Rightarrow> bool" where
  "fresh ifNoneMatch a \<longleftrightarrow> ifNoneMatch \<noteq> [] \<and> ifNoneMatch = pa_etag a"

definition serve_wasm :: "web_fs \<Rightarrow> string \<Rightarrow> string \<Rightarrow> static_answer" where
  "serve_wasm fs ae ifNoneMatch =
     (case pick_wasm fs ae of
        (None, _) \<Rightarrow> NotFound
      | (Some a, enc) \<Rightarrow>
          if fresh ifNoneMatch a then NotModified
          else Content
            ([(''Content-Type'', ''application/wasm'')]
             @ (if enc \<noteq> [] then [(''Content-Encoding'', enc)] else [])
             @ [(''Content-Length'', itoa (int (length (pa_data a)))), (''ETag'', pa_etag a),
                (''Vary'', ''Accept-Encoding''), (''Cache-Control'', ''public, max-age=604800'')])
            (pa_data a))"

definition serve_index :: "string \<Rightarrow> preloadedAsset \<Rightarrow> static_answer" where
  "serve_index ifNoneMatch a =
     (if fresh ifNoneMatch a then NotModified
      else Content [(''Content-Type'', ''text/html; charset=utf-8''), (''ETag'', pa_etag a),
        (''Cache-Control'', ''no-cache'')] (pa_data a))"

definition serve_other :: "web_fs \<Rightarrow> string \<Rightarrow> string \<Rightarrow> static_answer" where
  "serve_other fs path rel =
     (if wf_opens fs rel then FileServer [(''Cache-Control'', ''public, max-age=604800'')] path
      else case preload_file fs ''index.html'' of
        Some a \<Rightarrow> Content [(''Content-Type'', ''text/html; charset=utf-8''), (''Cache-Control'', ''no-store'')] (pa_data a)
      | None \<Rightarrow> NotFound)"

definition staticHandler :: "web_fs \<Rightarrow> string \<Rightarrow> string \<Rightarrow> string \<Rightarrow> static_answer" where
  "staticHandler fs urlPath ae ifNoneMatch =
     (let path = (if urlPath = ''/'' then ''/index.html'' else urlPath);
          rel = (if starts_with ''/'' path then drop 1 path else path) in
      if rel = ''wgrift.wasm'' then serve_wasm fs ae ifNoneMatch
      else if rel = ''index.html'' then
        (case preload_file fs ''index.html'' of
           Some a \<Rightarrow> serve_index ifNoneMatch a
         | None \<Rightarrow> serve_other fs urlPath rel)
      else serve_other fs urlPath rel)"

section \<open>What is served\<close>

lemma preload_file_Some:
  "preload_file fs n = Some a \<longleftrightarrow>
     wf_read fs n = Some (pa_data a) \<and> pa_etag a = [CHR 0x22] @ wf_hash fs (pa_data a) @ [CHR 0x22]"
  by (cases a) (auto simp: preload_file_def split: option.split)

lemma pick_wasm_cases:
  assumes "pick_wasm fs ae = (Some a, enc)"
  shows "enc = ''br'' \<and> contains ae ''br'' \<and> preload_file fs ''wgrift.wasm.br'' = Some a
    \<or> enc = ''gzip'' \<and> contains ae ''gzip'' \<and> preload_file fs ''wgrift.wasm.gz'' = Some a
    \<or> enc = [] \<and> preload_file fs ''wgrift.wasm'' = Some a"
  using assms by (auto simp: pick_wasm_def Let_def split: if_splits)

lemma serve_wasm_content:
  assumes "serve_wasm fs ae tag = Content hs body"
  shows "\<exists>a enc. pick_wasm fs ae = (Some a, enc) \<and> \<not> fresh tag a \<and> body = pa_data a
    \<and> map_of hs ''Content-Type'' = Some ''application/wasm'' \<and> map_of hs ''ETag'' = Some (pa_etag a)
    \<and> map_of hs ''Content-Encoding'' = (if enc = [] then None else Some enc)"
proof -
  obtain a enc where p: "pick_wasm fs ae = (Some a, enc)"
    using assms by (auto simp: serve_wasm_def split: prod.splits option.splits)
  with assms show ?thesis
    by (intro exI [of _ a] exI [of _ enc]) (auto simp: serve_wasm_def split: if_splits)
qed

lemma serve_index_content:
  assumes "staticHandler fs path ae tag = Content hs body" and "\<not> serve_wasm fs ae tag = Content hs body"
  shows "\<exists>a. preload_file fs ''index.html'' = Some a \<and> body = pa_data a
    \<and> map_of hs ''Content-Type'' = Some ''text/html; charset=utf-8'' \<and> map_of hs ''Content-Encoding'' = None
    \<and> (map_of hs ''ETag'' = None \<or> map_of hs ''ETag'' = Some (pa_etag a) \<and> \<not> fresh tag a)"
  using assms by (auto simp: staticHandler_def Let_def serve_other_def serve_index_def split: option.splits if_splits)

text \<open>The web application is served as it was built: the body is the variant of the module that the
  answer's Content-Encoding names, which the request has mentioned, or the start page; and a tag is
  the tag of exactly these bytes, sent only if the browser did not have it.\<close>

lemma staticHandler_content:
  assumes "staticHandler fs path ae tag = Content hs body"
  shows "(case map_of hs ''Content-Encoding'' of
       Some enc \<Rightarrow> contains ae enc
         \<and> (enc = ''br'' \<and> wf_read fs ''wgrift.wasm.br'' = Some body \<or> enc = ''gzip'' \<and> wf_read fs ''wgrift.wasm.gz'' = Some body)
     | None \<Rightarrow> wf_read fs (if map_of hs ''Content-Type'' = Some ''application/wasm'' then ''wgrift.wasm'' else ''index.html'') = Some body)
    \<and> (\<forall>e. map_of hs ''ETag'' = Some e \<longrightarrow> e = [CHR 0x22] @ wf_hash fs body @ [CHR 0x22] \<and> tag \<noteq> e)"
proof (cases "serve_wasm fs ae tag = Content hs body")
  case True
  from serve_wasm_content [OF this] obtain a enc where a: "pick_wasm fs ae = (Some a, enc)" "\<not> fresh tag a" "body = pa_data a"
    "map_of hs ''Content-Type'' = Some ''application/wasm''" "map_of hs ''ETag'' = Some (pa_etag a)"
    "map_of hs ''Content-Encoding'' = (if enc = [] then None else Some enc)" by blast
  from pick_wasm_cases [OF a(1)] a(2-) show ?thesis by (auto simp: preload_file_Some fresh_def)
next
  case False
  from serve_index_content [OF assms this] show ?thesis by (auto simp: preload_file_Some fresh_def)
qed

definition sample_fs :: web_fs where
  "sample_fs = \<lparr>wf_read = (\<lambda>n. if n = ''index.html'' then Some ''<html>'' else if n = ''wgrift.wasm.br'' then Some ''BR''
       else if n = ''wgrift.wasm'' then Some ''WASM'' else None),
     wf_opens = \<lambda>n. n \<in> {''index.html'', ''wgrift.wasm'', ''wgrift.wasm.br''}, wf_hash = \<lambda>d. d\<rparr>"

lemma staticHandler_content_witness:
  "wf_read sample_fs ''wgrift.wasm.br'' = Some ''BR'' \<and> wf_read sample_fs ''index.html'' = Some ''<html>''"
proof -
  have module: "staticHandler sample_fs ''/wgrift.wasm'' ''gzip, br'' [] = Content
      [(''Content-Type'', ''application/wasm''), (''Content-Encoding'', ''br''), (''Content-Length'', ''2''),
       (''ETag'', [CHR 0x22] @ ''BR'' @ [CHR 0x22]), (''Vary'', ''Accept-Encoding''),
       (''Cache-Control'', ''public, max-age=604800'')] ''BR''"
    by code_simp
  have start: "staticHandler sample_fs ''/users'' [] [] = Content
      [(''Content-Type'', ''text/html; charset=utf-8''), (''Cache-Control'', ''no-store'')] ''<html>''"
    by code_simp
  from staticHandler_content [OF module] staticHandler_content [OF start] show ?thesis by simp
qed

end
