(* ===== verification/QrCodes.thy ===== *)
theory QrCodes
  imports Prelude GoLib
begin

text \<open>
  The QR codes of client configurations (internal/qr/qr.go). The encoder of the library is a parameter:
  what it returns for a text is an image, or a bitmap with a row of modules per element. A code drawn
  for the terminal can be read back: nothing of the bitmap is lost.
\<close>

definition GeneratePNG :: "(string \<Rightarrow> int \<Rightarrow> error + string) \<Rightarrow> string \<Rightarrow> int \<Rightarrow> error + string" where
  "GeneratePNG encode content px = (case encode content px of
       Inl e \<Rightarrow> Inl (Wrap ''generating QR PNG'' e) | Inr png \<Rightarrow> Inr png)"

text \<open>The four runes in UTF-8: full block, upper half, lower half, blank.\<close>

fun half_block :: "bool \<Rightarrow> bool \<Rightarrow> string" where
  "half_block True True = [CHR 0xE2, CHR 0x96, CHR 0x88]"
| "half_block True False = [CHR 0xE2, CHR 0x96, CHR 0x80]"
| "half_block False True = [CHR 0xE2, CHR 0x96, CHR 0x84]"
| "half_block False False = '' ''"

text \<open>One line of text for two rows: \<open>cols\<close> is the length of the first row of the bitmap, a row that
  is shorter makes the code panic (\<open>None\<close>), the second row may be missing.\<close>

definition terminal_line :: "nat \<Rightarrow> bool list \<Rightarrow> bool list option \<Rightarrow> string option" where
  "terminal_line cols upper lower =
     (if length upper < cols \<or> (case lower of Some b \<Rightarrow> length b < cols | None \<Rightarrow> False) then None
      else Some (concat (map (\<lambda>x. half_block (upper ! x) (case lower of Some b \<Rightarrow> b ! x | None \<Rightarrow> False)) [0..<cols])
        @ [CHR 0x0A]))"

fun terminal_lines :: "nat \<Rightarrow> bool list list \<Rightarrow> string option" where
  "terminal_lines cols [] = Some []"
| "terminal_lines cols [upper] = terminal_line cols upper None"
| "terminal_lines cols (upper # lower # rows) =
     (case terminal_line cols upper (Some lower) of None \<Rightarrow> None | Some l \<Rightarrow>
        map_option ((@) l) (terminal_lines cols rows))"

definition GenerateTerminal :: "(string \<Rightarrow> error + bool list list) \<Rightarrow> string \<Rightarrow> (error + string) option" where
  "GenerateTerminal new_code content = (case new_code content of
       Inl e \<Rightarrow> Some (Inl (Wrap ''generating QR code'' e))
     | Inr bitmap \<Rightarrow> map_option Inr (terminal_lines (case bitmap of [] \<Rightarrow> 0 | r # _ \<Rightarrow> length r) bitmap))"

section \<open>Reading a drawn code\<close>

text \<open>The two rows that a line shows.\<close>

fun read_line :: "string \<Rightarrow> bool list \<times> bool list" where
  "read_line (c # s) =
     (if c = CHR '' '' then (case read_line s of (t, b) \<Rightarrow> (False # t, False # b))
      else case s of
        _ # g # r \<Rightarrow> (case read_line r of (t, b) \<Rightarrow> ((g \<noteq> CHR 0x84) # t, (g \<noteq> CHR 0x80) # b))
      | _ \<Rightarrow> ([], []))"
| "read_line [] = ([], [])"

definition read_code :: "string \<Rightarrow> bool list list" where
  "read_code s = concat (map (\<lambda>l. case read_line l of (t, b) \<Rightarrow> [t, b]) (butlast (split_char (CHR 0x0A) s)))"

lemma read_line_blocks:
  "length t = length b \<Longrightarrow> read_line (concat (map (\<lambda>(x, y). half_block x y) (zip t b))) = (t, b)"
proof (induction t b rule: list_induct2)
  case (Cons x t y b)
  then show ?case by (cases x; cases y) simp_all
qed simp

definition second_row :: "nat \<Rightarrow> bool list option \<Rightarrow> bool list" where
  "second_row n b = (case b of Some r \<Rightarrow> r | None \<Rightarrow> replicate n False)"

lemma terminal_line_eq:
  assumes "length t = n" and "\<And>r. b = Some r \<Longrightarrow> length r = n"
  shows "terminal_line n t b = Some (concat (map (\<lambda>(x, y). half_block x y) (zip t (second_row n b))) @ [CHR 0x0A])"
proof -
  have l: "length (second_row n b) = n" using assms(2) by (cases b) (simp_all add: second_row_def)
  have "map (\<lambda>x. half_block (t ! x) (case b of Some r \<Rightarrow> r ! x | None \<Rightarrow> False)) [0..<n]
      = map (\<lambda>(x, y). half_block x y) (zip t (second_row n b))"
    using assms(1) l by (intro nth_equalityI) (auto simp: second_row_def split: option.splits)
  then show ?thesis using assms by (auto simp: terminal_line_def split: option.splits)
qed

lemma half_block_chars: "CHR 0x0A \<notin> set (half_block x y)"
  by (cases x; cases y) simp_all

lemma read_code_line:
  assumes "length t = n" "length b = n"
  shows "read_code (concat (map (\<lambda>(x, y). half_block x y) (zip t b)) @ CHR 0x0A # s) = t # b # read_code s"
proof -
  have "CHR 0x0A \<notin> set (concat (map (\<lambda>(x, y). half_block x y) (zip t b)))" using half_block_chars by auto
  then show ?thesis using assms by (simp add: read_code_def split_char_append read_line_blocks)
qed

lemma terminal_lines_read:
  assumes "\<And>r. r \<in> set rows \<Longrightarrow> length r = n"
  shows "\<exists>s. terminal_lines n rows = Some s
    \<and> read_code s = rows @ (if odd (length rows) then [replicate n False] else [])"
  using assms
proof (induction n rows rule: terminal_lines.induct)
  case (2 n upper)
  then show ?case using terminal_line_eq [of upper n None] read_code_line [of upper n "replicate n False" "[]"]
    by (simp add: second_row_def read_code_def)
next
  case (3 n upper lower rows)
  have l: "terminal_line n upper (Some lower) = Some (concat (map (\<lambda>(x, y). half_block x y) (zip upper lower)) @ [CHR 0x0A])"
    using terminal_line_eq [of upper n "Some lower"] 3(2) by (simp add: second_row_def)
  with 3 obtain s where "terminal_lines n rows = Some s"
    "read_code s = rows @ (if odd (length rows) then [replicate n False] else [])" by auto
  with l 3(2) show ?case using read_code_line [of upper n lower s] by auto
qed (simp add: read_code_def)

text \<open>A code drawn for the terminal reads back as the bitmap of the library, with a light row below it
  when the number of rows is odd; drawing a rectangular bitmap never panics.\<close>

lemma GenerateTerminal_reads:
  assumes "new_code content = Inr bitmap" and "\<forall>r \<in> set bitmap. length r = n"
  shows "\<exists>s. GenerateTerminal new_code content = Some (Inr s)
    \<and> read_code s = bitmap @ (if odd (length bitmap) then [replicate n False] else [])"
proof -
  have "(case bitmap of [] \<Rightarrow> 0 | r # _ \<Rightarrow> length r) = n \<or> bitmap = []" using assms(2) by (cases bitmap) auto
  then show ?thesis using terminal_lines_read [of bitmap n] assms by (auto simp: GenerateTerminal_def read_code_def)
qed

lemma GenerateTerminal_reads_witness:
  "\<exists>s. GenerateTerminal (\<lambda>_. Inr [[True, False], [True, True], [False, True]]) ''x'' = Some (Inr s)
    \<and> read_code s = [[True, False], [True, True], [False, True], [False, False]]"
proof -
  have "replicate 2 False = [False, False]" by (simp add: numeral_2_eq_2)
  with GenerateTerminal_reads [of "\<lambda>_. Inr [[True, False], [True, True], [False, True]]" "''x''" _ 2]
  show ?thesis by simp
qed

end
