(* ===== verification/LoginFlow.thy ===== *)
theory LoginFlow
  imports Samples
begin

text \<open>
  Progress of a login: from the correct password to an accepted request. The hypotheses on the
  environment are about the calls that are made here: the database does not fail, the random
  tokens are new, and the clock neither goes back nor jumps past the limits of a session.
\<close>

definition calm :: "env \<Rightarrow> auth_service \<Rightarrow> nat \<Rightarrow> nat \<Rightarrow> bool" where
  "calm env s n k \<longleftrightarrow> (\<forall>t \<in> set [n..<n + k]. db_fault env t = None) \<and>
     (\<forall>t \<in> set [n..<n + k]. \<forall>t' \<in> set [t..<n + k]. now_at env t \<le> now_at env t'
        \<and> now_at env t' \<le> now_at env t + maxSessionAge s \<and> now_at env t' \<le> now_at env t + sessionTimeout s)"

lemma calm_fault: "calm env s n k \<Longrightarrow> n \<le> t \<Longrightarrow> t < n + k \<Longrightarrow> db_fault env t = None"
  by (simp add: calm_def)

lemma calm_clock:
  "calm env s n k \<Longrightarrow> n \<le> t \<Longrightarrow> t \<le> t' \<Longrightarrow> t' < n + k \<Longrightarrow>
     now_at env t \<le> now_at env t' \<and> now_at env t' \<le> now_at env t + maxSessionAge s
     \<and> now_at env t' \<le> now_at env t + sessionTimeout s"
  by (simp add: calm_def)

lemma time_sub_le: "a \<le> b \<Longrightarrow> b \<le> a + d \<Longrightarrow> time_sub b a \<le> d"
  by (auto simp: time_sub_def)

lemma hex_encode_nonempty: "b \<noteq> [] \<Longrightarrow> hex_encode b \<noteq> []"
  by (cases b) (auto simp: hex_encode_def)

lemma run_generateToken:
  "rand_bytes_at env (tick w) = Inr b \<Longrightarrow>
     run_state (generateToken env) w = (Inr (hex_encode b), w\<lparr>tick := Suc (tick w)\<rparr>)"
  by (simp add: generateToken_def run_simps)

lemma run_Auth_CreateSession:
  assumes "rand_bytes_at env (tick w) = Inr a" and "rand_bytes_at env (Suc (tick w)) = Inr b"
    and "db_fault env (tick w + 4) = None" and "get_session (hex_encode a) (wdb w) = None"
    and "get_user k (wdb w) = Some u"
    and "se = \<lparr>se_ID = hex_encode a, se_UserID = k, se_CSRFToken = hex_encode b,
      se_ExpiresAt = now_at env (tick w + 2) + maxSessionAge s, se_CreatedAt = now_at env (tick w + 3),
      se_LastSeenAt = now_at env (tick w + 3), se_IPAddress = ip, se_UserAgent = agent\<rparr>"
  shows "run_state (Auth_CreateSession env s k ip agent) w =
    (Inr se, w\<lparr>tick := tick w + 5, wdb := (wdb w)\<lparr>t_sessions := t_sessions (wdb w) @ [se]\<rparr>\<rparr>)"
proof -
  have "has_row u_ID k (t_users (wdb w))" using assms(5) by (simp add: get_user_def row_has)
  moreover have "\<not> has_row se_ID (hex_encode a) (t_sessions (wdb w))"
    using assms(4) by (simp add: get_session_def row_None has_row_iff)
  ultimately show ?thesis
    using assms(1-3)
    by (simp add: Auth_CreateSession_def run_simps generateToken_def CreateSession_def Let_def sql_insert_session_def assms(6)
        eval_nat_numeral)
qed

lemma run_ValidateSession:
  assumes "get_session k (wdb w) = Some se" and "get_user (se_UserID se) (wdb w) = Some u"
    and "\<forall>t \<in> {tick w, tick w + 3, tick w + 4}. db_fault env t = None"
    and "now_at env (Suc (tick w)) \<le> se_ExpiresAt se"
    and "time_sub (now_at env (Suc (tick w))) (se_LastSeenAt se) \<le> sessionTimeout s"
  shows "\<exists>w'. run_state (ValidateSession env s k) w = (Inr (se, u), w')"
  using assms
  by (simp add: ValidateSession_def run_simps GetSession_def TouchSession_def GetUser_def eval_nat_numeral
      sql_touch_session_def get_user_def)

text \<open>C28. A login with the right password succeeds and lets its user in: the answer is 200 with a session,
  and the next request with the session's cookie and token, whatever its method, reaches its handler as this
  user. The hypotheses exclude only failures of the database and of the random source, a session
  identifier that is taken, and a clock that passes the limits of the session in between.\<close>

theorem login_gets_in:
  assumes user: "row u_Username (lq_Username q) (t_users (wdb w)) = Some u" "get_user (u_ID u) (wdb w) = Some u"
      "bcrypt_match env (u_PasswordHash u) (lq_Password q)" "u_OIDCProvider u = []" "local_enabled s"
    and tokens: "rand_bytes_at env (tick w + 1) = Inr a" "rand_bytes_at env (tick w + 2) = Inr b" "b \<noteq> []"
      "get_session (hex_encode a) (wdb w) = None"
    and calm: "calm env (sv_auth s) (tick w) 12"
  shows "\<exists>r ck w1 se w2. run_state (handleLogin env s ip agent (Inr q)) w = (JSON 200 (SessionBody r (Some ck)), w1)
    \<and> run_state (protected_route env (sv_auth s) (Some (ck_Value ck)) meth (sr_CSRFToken r) nxt) w1
      = (case run_state (nxt (se, u)) w2 of (x, w3) \<Rightarrow> (Inr x, w3))"
proof -
  let ?n = "tick w" and ?w1 = "w\<lparr>tick := Suc (tick w)\<rparr>"
  define se where "se = \<lparr>se_ID = hex_encode a, se_UserID = u_ID u, se_CSRFToken = hex_encode b,
      se_ExpiresAt = now_at env (?n + 3) + maxSessionAge (sv_auth s), se_CreatedAt = now_at env (?n + 4),
      se_LastSeenAt = now_at env (?n + 4), se_IPAddress = ip, se_UserAgent = agent\<rparr>"
  define d where "d = (wdb w)\<lparr>t_sessions := t_sessions (wdb w) @ [se]\<rparr>"
  define v where "v = w\<lparr>tick := ?n + 7, wdb := d\<rparr>"
  note ok = calm_fault [OF calm]
  have "run_state (Authenticate env (lq_Username q) (lq_Password q)) w = (Inr u, ?w1)"
    using user ok [of ?n] by (simp add: Authenticate_def GetUserByUsername_def CheckPassword_def run_simps)
  moreover have "run_state (Auth_CreateSession env (sv_auth s) (u_ID u) ip agent) ?w1 =
      (Inr se, w\<lparr>tick := ?n + 6, wdb := d\<rparr>)"
    using run_Auth_CreateSession [of env ?w1 a b "u_ID u" u] tokens user(2) ok [of "?n + 5"]
    by (simp add: se_def d_def eval_nat_numeral)
  moreover have "db_fault env (?n + 6) = None" by (rule ok) simp_all
  then obtain mailing where "run_state (smtpEnabled env s) (w\<lparr>tick := ?n + 6, wdb := d\<rparr>) = (mailing, v)"
    by (simp add: smtpEnabled_def GetSetting_def run_simps v_def add.commute)
  ultimately have login: "run_state (handleLogin env s ip agent (Inr q)) w =
      (JSON 200 (SessionBody \<lparr>sr_User = u, sr_CSRFToken = se_CSRFToken se, sr_SMTPEnabled = mailing\<rparr>
         (Some (session_cookie s SameSiteStrict se))), v)"
    using user(4,5) by (simp add: handleLogin_def with_body_def run_or_text run_simps)
  have "get_session (se_ID se) (wdb v) = Some se" "get_user (se_UserID se) (wdb v) = Some u"
    using tokens(4) user(2) by (simp_all add: v_def d_def get_session_def get_user_def row_append se_def)
  moreover have "\<forall>t \<in> {tick v, tick v + 3, tick v + 4}. db_fault env t = None" by (simp add: v_def ok)
  moreover have "now_at env (Suc (tick v)) \<le> se_ExpiresAt se"
    "time_sub (now_at env (Suc (tick v))) (se_LastSeenAt se) \<le> sessionTimeout (sv_auth s)"
    using calm_clock [OF calm, of "?n + 3" "?n + 8"] calm_clock [OF calm, of "?n + 4" "?n + 8"]
    by (simp_all add: v_def se_def time_sub_le add.commute [of 8])
  ultimately obtain w2 where "run_state (ValidateSession env (sv_auth s) (se_ID se)) v = (Inr (se, u), w2)"
    using run_ValidateSession by blast
  moreover have "se_CSRFToken se \<noteq> []" using tokens(3) by (simp add: se_def hex_encode_nonempty)
  ultimately have "run_state (protected_route env (sv_auth s) (Some (se_ID se)) meth (se_CSRFToken se) nxt) v
      = (case run_state (nxt (se, u)) w2 of (x, w3) \<Rightarrow> (Inr x, w3))"
    by (simp add: protected_route_def authRequired_def csrfProtect_def)
  with login show ?thesis by (fastforce simp: session_cookie_def)
qed

lemma login_gets_in_witness:
  "\<exists>r ck w1 x w3. run_state (handleLogin sample_env sample_server ''ip'' ''agent''
       (Inr \<lparr>lq_Username = ''eve'', lq_Password = []\<rparr>)) sample_world = (JSON 200 (SessionBody r (Some ck)), w1)
     \<and> run_state (protected_route sample_env sample_auth (Some (ck_Value ck)) ''DELETE'' (sr_CSRFToken r)
         (\<lambda>(se, u). State_Monad.return (u_Username u))) w1 = (Inr ''eve'', w3)"
proof -
  have calm: "calm sample_env (sv_auth sample_server) (tick sample_world) 12"
    by (auto simp: calm_def sample_server_def sample_auth_def second_def minute_def hour_def sample_world_def
        world_of_def initial_world_def)
  have users: "row u_Username ''eve'' (t_users sample_db) = Some sample_viewer"
    "get_user (u_ID sample_viewer) sample_db = Some sample_viewer"
    "u_PasswordHash sample_viewer = []" "u_OIDCProvider sample_viewer = []" "u_Username sample_viewer = ''eve''"
    by (simp_all add: row_def get_user_def sample_db_def sample_admin_def sample_viewer_def zero_user_def)
  have "local_enabled sample_server"
    by (simp add: local_enabled_def sample_server_def Defaults_def)
  moreover have "get_session (hex_encode (replicate (tick sample_world + 1) CHR ''r'')) sample_db = None"
    by code_simp
  ultimately show ?thesis
    using login_gets_in [of "\<lparr>lq_Username = ''eve'', lq_Password = []\<rparr>" sample_world sample_viewer sample_env
        sample_server "replicate (tick sample_world + 1) CHR ''r''" "replicate (tick sample_world + 2) CHR ''r''"
        "''ip''" "''agent''" "''DELETE''" "\<lambda>(se, u). State_Monad.return (u_Username u)"] users calm
    by (fastforce simp: sample_env_def sample_server_def)
qed

end
