(* ===== verification/MailTemplates.thy ===== *)
theory MailTemplates
  imports MailMessage
begin

text \<open>
  The HTML of the mails: the three templates of internal/mail and what \<^verbatim>\<open>html/template\<close> makes of them. A
  template is the list of its texts and actions; executing it drops the HTML comments of a text, escapes
  a field that stands between tags, and filters, normalises and escapes a field that is the value of
  \<^verbatim>\<open>href\<close>. These are the only two places in which the three templates have fields. Texts and fields are UTF-8.
\<close>

section \<open>Templates and their execution\<close>

text \<open>\<open>Branch b ps qs\<close> is \<^verbatim>\<open>{{if .B}} ps {{else}} qs {{end}}\<close>; an empty string counts as false.\<close>

datatype 'd part =
    Lit string
  | Field "'d \<Rightarrow> string"
  | Url "'d \<Rightarrow> string"
  | Branch "'d \<Rightarrow> bool" "'d part list" "'d part list"

definition lns :: "string list \<Rightarrow> string" where
  "lns ls = join [CHR 0x0A] ls"

text \<open>
  The escaper of text: a comment goes from the first \<open><!--\<close> to the next \<open>-->\<close> after it. A conditional
  comment of Outlook is a comment like any other.
\<close>

function strip :: "bool \<Rightarrow> string \<Rightarrow> string" where
  "strip inside [] = []"
| "strip False (c # s) = (if prefix ''<!--'' (c # s) then strip True (drop 3 s) else c # strip False s)"
| "strip True (c # s) = (if prefix ''-->'' (c # s) then strip False (drop 2 s) else strip True s)"
  by pat_completeness auto
termination by (relation "measure (\<lambda>(i, s). length s)") auto

definition strip_comments :: "string \<Rightarrow> string" where
  "strip_comments s = strip False s"

text \<open>\<open>htmlReplacementTable\<close>: NUL becomes the replacement character.\<close>

definition escape_char :: "char \<Rightarrow> string" where
  "escape_char c =
     (if c = CHR 0x00 then [CHR 0xEF, CHR 0xBF, CHR 0xBD]
      else if c = CHR 0x22 then ''&#34;''
      else if c = CHR ''&'' then ''&amp;''
      else if c = CHR 0x27 then ''&#39;''
      else if c = CHR ''+'' then ''&#43;''
      else if c = CHR ''<'' then ''&lt;''
      else if c = CHR ''>'' then ''&gt;''
      else [c])"

definition html_escape :: "string \<Rightarrow> string" where
  "html_escape s = concat (map escape_char s)"

text \<open>
  \<open>strings.EqualFold\<close> with a scheme in ASCII without \<open>k\<close>: beside the letters themselves only the long
  \<open>s\<close> (U+017F) folds to one of them.
\<close>

fun fold_scheme :: "string \<Rightarrow> string" where
  "fold_scheme (a # b # s) = (if a = CHR 0xC5 \<and> b = CHR 0xBF then CHR ''s'' # fold_scheme s else lower_char a # fold_scheme (b # s))"
| "fold_scheme [a] = [lower_char a]"
| "fold_scheme [] = []"

text \<open>\<open>isSafeURL\<close>: what stands before the first colon is no scheme, or one of three.\<close>

definition isSafeURL :: "string \<Rightarrow> bool" where
  "isSafeURL s =
     (let p = takeWhile (\<lambda>c. c \<noteq> CHR '':'') s in
      CHR '':'' \<notin> set s \<or> CHR ''/'' \<in> set p \<or> fold_scheme p \<in> {''http'', ''https'', ''mailto''})"

definition urlFilter :: "string \<Rightarrow> string" where
  "urlFilter s = (if isSafeURL s then s else ''#ZgotmplZ'')"

definition is_hex_char :: "char \<Rightarrow> bool" where
  "is_hex_char c \<longleftrightarrow> c \<in> set ''0123456789abcdefABCDEF''"

definition url_char :: "char \<Rightarrow> bool" where
  "url_char c \<longleftrightarrow>
     c \<in> set ''!#$&*+,/:;=?@[]-._~0123456789abcdefghijklmnopqrstuvwxyzABCDEFGHIJKLMNOPQRSTUVWXYZ''"

definition percent :: "char \<Rightarrow> string" where
  "percent c =
     (let n = of_char c :: nat; h = ''0123456789abcdef'' in [CHR ''%'', h ! (n div 16), h ! (n mod 16)])"

text \<open>\<open>urlNormalizer\<close> keeps an escape that is already there.\<close>

fun urlNormalizer :: "string \<Rightarrow> string" where
  "urlNormalizer [] = []"
| "urlNormalizer (c # s) =
     (if url_char c \<or> c = CHR ''%'' \<and> length s \<ge> 2 \<and> is_hex_char (s ! 0) \<and> is_hex_char (s ! 1) then [c] else percent c)
     @ urlNormalizer s"

fun execute_part :: "'d part \<Rightarrow> 'd \<Rightarrow> string"
  and execute :: "'d part list \<Rightarrow> 'd \<Rightarrow> string" where
  "execute_part (Lit s) d = strip_comments s"
| "execute_part (Field f) d = html_escape (f d)"
| "execute_part (Url f) d = html_escape (urlNormalizer (urlFilter (f d)))"
| "execute_part (Branch b ps qs) d = (if b d then execute ps d else execute qs d)"
| "execute [] d = []"
| "execute (p # ps) d = execute_part p d @ execute ps d"

section \<open>The three templates\<close>

definition peerConfigTmpl :: "templateData part list" where
  \<open>peerConfigTmpl = [
    Lit (lns [''<!DOCTYPE html>'',
        ''<html xmlns="http://www.w3.org/1999/xhtml" xmlns:v="urn:schemas-microsoft-com:vml" xmlns:o="urn:schemas-microsoft-com:office:office">'',
        ''<head>'',
        ''<meta charset="utf-8">'',
        ''<meta name="viewport" content="width=device-width,initial-scale=1">'',
        ''<meta name="color-scheme" content="light dark">'',
        ''<meta name="supported-color-schemes" content="light dark">'',
        ''<!--[if mso]>'',
        ''<noscript>'',
        ''<xml>'',
        ''<o:OfficeDocumentSettings>'',
        ''<o:PixelsPerInch>96</o:PixelsPerInch>'',
        ''</o:OfficeDocumentSettings>'',
        ''</xml>'',
        ''</noscript>'',
        ''<style>'',
        ''td,th,div,p,a,h1,h2,h3,h4,h5,h6 {font-family:"Segoe UI",Helvetica,Arial,sans-serif;}'',
        ''table {border-collapse:collapse;}'',
        ''</style>'',
        ''<![endif]-->'',
        ''<style>'',
        '':root { color-scheme: light dark; }'',
        ''body, .body-bg { background-color: transparent !important; }'',
        ''.card-bg { background-color: transparent !important; }'',
        ''.card-border { border: 1px solid #e5e5ea !important; }'',
        ''.header-border { border-bottom: 1px solid #e5e5ea !important; }'',
        ''.footer-border { border-top: 1px solid #e5e5ea !important; }'',
        ''.h1-text { color: #1c1c1e !important; }'',
        ''.h2-text { color: #1c1c1e !important; }'',
        ''.sub-text { color: #8e8e93 !important; }'',
        ''.body-text { color: #3a3a3c !important; }'',
        ''.muted-text { color: #8e8e93 !important; }'',
        ''.note-bg { background-color: transparent !important; }'',
        ''.note-border { border: 1px solid #e5e5ea !important; }'',
        ''.note-text { color: #3a3a3c !important; }'',
        ''.step-bg { background-color: #fee2e2 !important; }'',
        ''.step-text { color: #dc2626 !important; }'',
        ''.link { color: #dc2626 !important; }'',
        ''.attach-bg { background-color: transparent !important; }'',
        ''.attach-border { border: 1px solid #e5e5ea !important; }'',
        ''.attach-text { color: #8e8e93 !important; }'',
        ''.attach-name { color: #3a3a3c !important; }'',
        ''.footer-text { color: #aeaeb2 !important; }'',
        ''.footer-link { color: #aeaeb2 !important; }'',
        [],
        ''@media (prefers-color-scheme: dark) {'',
        ''  body, .body-bg { background-color: transparent !important; }'',
        ''  .card-bg { background-color: transparent !important; }'',
        ''  .card-border { border: 1px solid #2c2c34 !important; }'',
        ''  .header-border { border-bottom: 1px solid #2c2c34 !important; }'',
        ''  .footer-border { border-top: 1px solid #2c2c34 !important; }'',
        ''  .h1-text { color: #f0f0f5 !important; }'',
        ''  .h2-text { color: #f0f0f5 !important; }'',
        ''  .sub-text { color: #8888a0 !important; }'',
        ''  .body-text { color: #b4b4c8 !important; }'',
        ''  .muted-text { color: #8888a0 !important; }'',
        ''  .note-bg { background-color: transparent !important; }'',
        ''  .note-border { border: 1px solid #2c2c34 !important; }'',
        ''  .note-text { color: #b4b4c8 !important; }'',
        ''  .step-bg { background-color: #3b1114 !important; }'',
        ''  .step-text { color: #f87171 !important; }'',
        ''  .link { color: #f87171 !important; }'',
        ''  .attach-bg { background-color: transparent !important; }'',
        ''  .attach-border { border: 1px solid #2c2c34 !important; }'',
        ''  .attach-text { color: #8888a0 !important; }'',
        ''  .attach-name { color: #b4b4c8 !important; }'',
        ''  .footer-text { color: #606078 !important; }'',
        ''  .footer-link { color: #606078 !important; }'',
        ''}'',
        ''</style>'',
        ''</head>'',
        ''<body class="body-bg" style="margin:0;padding:0;background-color:transparent;font-family:-apple-system,BlinkMacSystemFont,'Segoe UI',Roboto,Helvetica,Arial,sans-serif;-webkit-text-size-adjust:100%;-ms-text-size-adjust:100%;">'',
        ''<table role="presentation" width="100%" cellpadding="0" cellspacing="0" border="0" class="body-bg" style="background-color:transparent;">'',
        ''<tr><td align="center" style="padding:32px 16px;">'',
        [],
        ''<!--[if mso]><table role="presentation" cellpadding="0" cellspacing="0" border="0" width="560"><tr><td><![endif]-->'',
        ''<table role="presentation" width="100%" cellpadding="0" cellspacing="0" border="0" class="card-bg card-border" style="background-color:transparent;border:1px solid #e5e5ea;border-radius:12px;max-width:560px;">'',
        [],
        ''<!-- Header -->'',
        ''<tr><td class="header-border" style="padding:28px 32px 20px;border-bottom:1px solid #e5e5ea;">'',
        ''  <span class="h1-text" style="font-size:18px;font-weight:700;color:#1c1c1e;letter-spacing:-0.3px;">WireGuard Configuration</span>'',
        ''  '']),
    Branch (\<lambda>d. td_PeerName d \<noteq> [])
       [Lit ''<br><span class="sub-text" style="font-size:13px;color:#8e8e93;margin-top:4px;display:inline-block;">'',
        Field td_PeerName,
        Lit ''</span>'']
       [],
    Lit (lns [[],
        ''</td></tr>'',
        [],
        []]),
    Branch (\<lambda>d. td_Note d \<noteq> [])
       [Lit (lns [[],
            ''<!-- Custom Note -->'',
            ''<tr><td style="padding:24px 32px 0;">'',
            ''  <table role="presentation" width="100%" cellpadding="0" cellspacing="0" border="0" class="note-bg note-border" style="background-color:transparent;border:1px solid #e5e5ea;border-radius:8px;">'',
            ''  <tr><td style="padding:16px 20px;">'',
            ''    <span class="note-text" style="font-size:13px;color:#3a3a3c;white-space:pre-wrap;line-height:1.5;">'']),
        Field td_Note,
        Lit (lns [''</span>'',
            ''  </td></tr>'',
            ''  </table>'',
            ''</td></tr>'',
            []])]
       [],
    Lit (lns [[],
        [],
        []]),
    Branch td_HasQR
       [Lit (lns [[],
            ''<!-- QR Code -->'',
            ''<tr><td style="padding:24px 32px 0;" align="center">'',
            ''  <span class="muted-text" style="display:block;font-size:11px;font-weight:600;color:#8e8e93;text-transform:uppercase;letter-spacing:1.2px;margin-bottom:12px;">Scan to Connect</span>'',
            ''  <img src="cid:qrcode" width="200" height="200" alt="QR Code" style="border-radius:8px;display:block;margin:0 auto;">'',
            ''</td></tr>'',
            []])]
       [],
    Lit (lns [[],
        [],
        ''<!-- Setup Instructions -->'',
        ''<tr><td style="padding:24px 32px;">'',
        ''  <span class="muted-text" style="display:block;font-size:11px;font-weight:600;color:#8e8e93;text-transform:uppercase;letter-spacing:1.2px;margin-bottom:16px;">Setup Instructions</span>'',
        [],
        ''  <table role="presentation" width="100%" cellpadding="0" cellspacing="0" border="0">'',
        ''  <tr><td style="padding-bottom:14px;">'',
        ''    <table role="presentation" cellpadding="0" cellspacing="0" border="0"><tr>'',
        ''      <td width="28" style="width:28px;vertical-align:top;padding-top:1px;">'',
        ''        <!--[if mso]><v:roundrect xmlns:v="urn:schemas-microsoft-com:vml" style="width:28px;height:28px;v-text-anchor:middle;" arcsize="50%" fillcolor="#fee2e2" stroke="f"><v:textbox inset="0,0,0,0"><center style="font-size:12px;font-weight:700;color:#dc2626;">1</center></v:textbox></v:roundrect><![endif]-->'',
        ''        <!--[if !mso]><!--><div class="step-bg" style="width:28px;height:28px;background-color:#fee2e2;border-radius:14px;text-align:center;line-height:28px;font-size:12px;font-weight:700;mso-hide:all;"><span class="step-text" style="color:#dc2626;">1</span></div><!--<![endif]-->'',
        ''      </td>'',
        ''      <td style="padding-left:12px;">'',
        ''        <span class="h2-text" style="font-size:13px;font-weight:600;color:#1c1c1e;">Install WireGuard</span><br>'',
        ''        <span class="muted-text" style="font-size:12px;color:#8e8e93;">Download for'',
        ''          <a href="https://itunes.apple.com/us/app/wireguard/id1451685025?ls=1&mt=12" class="link" style="color:#dc2626;text-decoration:none;">macOS</a> '' @ [CHR 0xC2, CHR 0xB7],
        ''          <a href="https://itunes.apple.com/us/app/wireguard/id1441195209?ls=1&mt=8" class="link" style="color:#dc2626;text-decoration:none;">iOS</a> '' @ [CHR 0xC2, CHR 0xB7],
        ''          <a href="https://play.google.com/store/apps/details?id=com.wireguard.android" class="link" style="color:#dc2626;text-decoration:none;">Android</a> '' @ [CHR 0xC2, CHR 0xB7],
        ''          <a href="https://download.wireguard.com/windows-client/wireguard-installer.exe" class="link" style="color:#dc2626;text-decoration:none;">Windows</a>'',
        ''        </span>'',
        ''      </td>'',
        ''    </tr></table>'',
        ''  </td></tr>'',
        ''  <tr><td style="padding-bottom:14px;">'',
        ''    <table role="presentation" cellpadding="0" cellspacing="0" border="0"><tr>'',
        ''      <td width="28" style="width:28px;vertical-align:top;padding-top:1px;">'',
        ''        <!--[if mso]><v:roundrect xmlns:v="urn:schemas-microsoft-com:vml" style="width:28px;height:28px;v-text-anchor:middle;" arcsize="50%" fillcolor="#fee2e2" stroke="f"><v:textbox inset="0,0,0,0"><center style="font-size:12px;font-weight:700;color:#dc2626;">2</center></v:textbox></v:roundrect><![endif]-->'',
        ''        <!--[if !mso]><!--><div class="step-bg" style="width:28px;height:28px;background-color:#fee2e2;border-radius:14px;text-align:center;line-height:28px;font-size:12px;font-weight:700;mso-hide:all;"><span class="step-text" style="color:#dc2626;">2</span></div><!--<![endif]-->'',
        ''      </td>'',
        ''      <td style="padding-left:12px;">'',
        ''        <span class="h2-text" style="font-size:13px;font-weight:600;color:#1c1c1e;">Add Tunnel</span><br>'',
        ''        <span class="muted-text" style="font-size:12px;color:#8e8e93;">Open WireGuard, tap + or "Add Tunnel", then scan the QR code above or import the attached .conf file.</span>'',
        ''      </td>'',
        ''    </tr></table>'',
        ''  </td></tr>'',
        ''  <tr><td>'',
        ''    <table role="presentation" cellpadding="0" cellspacing="0" border="0"><tr>'',
        ''      <td width="28" style="width:28px;vertical-align:top;padding-top:1px;">'',
        ''        <!--[if mso]><v:roundrect xmlns:v="urn:schemas-microsoft-com:vml" style="width:28px;height:28px;v-text-anchor:middle;" arcsize="50%" fillcolor="#fee2e2" stroke="f"><v:textbox inset="0,0,0,0"><center style="font-size:12px;font-weight:700;color:#dc2626;">3</center></v:textbox></v:roundrect><![endif]-->'',
        ''        <!--[if !mso]><!--><div class="step-bg" style="width:28px;height:28px;background-color:#fee2e2;border-radius:14px;text-align:center;line-height:28px;font-size:12px;font-weight:700;mso-hide:all;"><span class="step-text" style="color:#dc2626;">3</span></div><!--<![endif]-->'',
        ''      </td>'',
        ''      <td style="padding-left:12px;">'',
        ''        <span class="h2-text" style="font-size:13px;font-weight:600;color:#1c1c1e;">Activate</span><br>'',
        ''        <span class="muted-text" style="font-size:12px;color:#8e8e93;">Toggle the tunnel on. A handshake within a few seconds confirms the connection is active.</span>'',
        ''      </td>'',
        ''    </tr></table>'',
        ''  </td></tr>'',
        ''  </table>'',
        ''</td></tr>'',
        [],
        ''<!-- Attachment note -->'',
        ''<tr><td style="padding:0 32px 24px;">'',
        ''  <table role="presentation" width="100%" cellpadding="0" cellspacing="0" border="0" class="attach-bg attach-border" style="background-color:transparent;border:1px solid #e5e5ea;border-radius:8px;">'',
        ''  <tr><td style="padding:12px 16px;">'',
        ''    <span class="attach-text" style="font-size:12px;color:#8e8e93;">'' @ [CHR 0xF0, CHR 0x9F, CHR 0x93, CHR 0x8E] @ '' The configuration file <strong class="attach-name" style="color:#3a3a3c;">'']),
    Field td_Filename,
    Lit (lns [''</strong> is attached to this email.</span>'',
        ''  </td></tr>'',
        ''  </table>'',
        ''</td></tr>'',
        [],
        ''<!-- Footer -->'',
        ''<tr><td class="footer-border" style="padding:16px 32px;border-top:1px solid #e5e5ea;">'',
        ''  <span class="footer-text" style="font-size:11px;color:#aeaeb2;">Sent from <a href="'']),
    Url td_ServerURL,
    Lit (lns [''" class="footer-link" style="color:#aeaeb2;text-decoration:none;">wgRift</a></span>'',
        ''</td></tr>'',
        [],
        ''</table>'',
        ''<!--[if mso]></td></tr></table><![endif]-->'',
        [],
        ''</td></tr>'',
        ''</table>'',
        ''</body>'',
        ''</html>''])]\<close>

definition alertTmpl :: "alertTemplateData part list" where
  \<open>alertTmpl = [
    Lit (lns [''<!DOCTYPE html>'',
        ''<html xmlns="http://www.w3.org/1999/xhtml" xmlns:v="urn:schemas-microsoft-com:vml" xmlns:o="urn:schemas-microsoft-com:office:office">'',
        ''<head>'',
        ''<meta charset="utf-8">'',
        ''<meta name="viewport" content="width=device-width,initial-scale=1">'',
        ''<meta name="color-scheme" content="light dark">'',
        ''<meta name="supported-color-schemes" content="light dark">'',
        ''<!--[if mso]>'',
        ''<noscript>'',
        ''<xml>'',
        ''<o:OfficeDocumentSettings>'',
        ''<o:PixelsPerInch>96</o:PixelsPerInch>'',
        ''</o:OfficeDocumentSettings>'',
        ''</xml>'',
        ''</noscript>'',
        ''<style>'',
        ''td,th,div,p,a,h1,h2,h3,h4,h5,h6 {font-family:"Segoe UI",Helvetica,Arial,sans-serif;}'',
        ''table {border-collapse:collapse;}'',
        ''</style>'',
        ''<![endif]-->'',
        ''<style>'',
        '':root { color-scheme: light dark; }'',
        ''body, .body-bg { background-color: transparent !important; }'',
        ''.card-bg { background-color: transparent !important; }'',
        ''.card-border { border: 1px solid #e5e5ea !important; }'',
        ''.header-border { border-bottom: 1px solid #e5e5ea !important; }'',
        ''.footer-border { border-top: 1px solid #e5e5ea !important; }'',
        ''.h1-text { color: #1c1c1e !important; }'',
        ''.sub-text { color: #8e8e93 !important; }'',
        ''.body-text { color: #3a3a3c !important; }'',
        ''.muted-text { color: #8e8e93 !important; }'',
        ''.detail-bg { background-color: transparent !important; }'',
        ''.detail-border { border: 1px solid #e5e5ea !important; }'',
        ''.detail-label { color: #8e8e93 !important; }'',
        ''.detail-value { color: #3a3a3c !important; }'',
        ''.badge-connect-bg { background-color: #dcfce7 !important; }'',
        ''.badge-connect-text { color: #166534 !important; }'',
        ''.badge-disconnect-bg { background-color: #fee2e2 !important; }'',
        ''.badge-disconnect-text { color: #991b1b !important; }'',
        ''.iface-badge { background-color: #e5e5ea !important; color: #636366 !important; }'',
        ''.footer-text { color: #aeaeb2 !important; }'',
        ''.footer-link { color: #aeaeb2 !important; }'',
        [],
        ''@media (prefers-color-scheme: dark) {'',
        ''  body, .body-bg { background-color: transparent !important; }'',
        ''  .card-bg { background-color: transparent !important; }'',
        ''  .card-border { border: 1px solid #2c2c34 !important; }'',
        ''  .header-border { border-bottom: 1px solid #2c2c34 !important; }'',
        ''  .footer-border { border-top: 1px solid #2c2c34 !important; }'',
        ''  .h1-text { color: #f0f0f5 !important; }'',
        ''  .sub-text { color: #8888a0 !important; }'',
        ''  .body-text { color: #b4b4c8 !important; }'',
        ''  .muted-text { color: #8888a0 !important; }'',
        ''  .detail-bg { background-color: transparent !important; }'',
        ''  .detail-border { border: 1px solid #2c2c34 !important; }'',
        ''  .detail-label { color: #8888a0 !important; }'',
        ''  .detail-value { color: #b4b4c8 !important; }'',
        ''  .badge-connect-bg { background-color: #14532d !important; }'',
        ''  .badge-connect-text { color: #86efac !important; }'',
        ''  .badge-disconnect-bg { background-color: #3b1114 !important; }'',
        ''  .badge-disconnect-text { color: #fca5a5 !important; }'',
        ''  .iface-badge { background-color: #2c2c34 !important; color: #8888a0 !important; }'',
        ''  .footer-text { color: #606078 !important; }'',
        ''  .footer-link { color: #606078 !important; }'',
        ''}'',
        ''</style>'',
        ''</head>'',
        ''<body class="body-bg" style="margin:0;padding:0;background-color:transparent;font-family:-apple-system,BlinkMacSystemFont,'Segoe UI',Roboto,Helvetica,Arial,sans-serif;-webkit-text-size-adjust:100%;-ms-text-size-adjust:100%;">'',
        ''<table role="presentation" width="100%" cellpadding="0" cellspacing="0" border="0" class="body-bg" style="background-color:transparent;">'',
        ''<tr><td align="center" style="padding:32px 16px;">'',
        [],
        ''<!--[if mso]><table role="presentation" cellpadding="0" cellspacing="0" border="0" width="560"><tr><td><![endif]-->'',
        ''<table role="presentation" width="100%" cellpadding="0" cellspacing="0" border="0" class="card-bg card-border" style="background-color:transparent;border:1px solid #e5e5ea;border-radius:12px;max-width:560px;">'',
        [],
        ''<!-- Header -->'',
        ''<tr><td class="header-border" style="padding:28px 32px 20px;border-bottom:1px solid #e5e5ea;">'',
        ''  <span class="h1-text" style="font-size:18px;font-weight:700;color:#1c1c1e;letter-spacing:-0.3px;">'']),
    Field at_PeerName,
    Lit '' '',
    Branch at_IsConnect
       [Lit ''Connected'']
       [Lit ''Disconnected''],
    Lit (lns [''</span>'',
        ''  <span class="iface-badge" style="display:inline-block;background-color:#e5e5ea;color:#636366;font-size:11px;font-weight:600;padding:2px 8px;border-radius:4px;vertical-align:text-bottom;margin-left:6px;font-family:ui-monospace,SFMono-Regular,Menlo,Monaco,monospace;">'']),
    Field at_InterfaceName,
    Lit (lns [''</span>'',
        ''  <br><span class="sub-text" style="font-size:12px;color:#8e8e93;margin-top:4px;display:inline-block;font-family:ui-monospace,SFMono-Regular,Menlo,Monaco,monospace;">'']),
    Field at_PublicKey,
    Lit (lns [''</span>'',
        ''</td></tr>'',
        [],
        ''<!-- Status Message -->'',
        ''<tr><td style="padding:24px 32px 0;">'',
        ''  '']),
    Branch at_IsConnect
       [Lit (lns [[],
            ''  <span class="badge-connect-bg badge-connect-text" style="display:inline-block;background-color:#dcfce7;color:#166534;font-size:13px;font-weight:500;padding:8px 16px;border-radius:8px;line-height:1.4;">'']),
        Field at_Message,
        Lit (lns [''</span>'',
            ''  ''])]
       [Lit (lns [[],
            ''  <span class="badge-disconnect-bg badge-disconnect-text" style="display:inline-block;background-color:#fee2e2;color:#991b1b;font-size:13px;font-weight:500;padding:8px 16px;border-radius:8px;line-height:1.4;">'']),
        Field at_Message,
        Lit (lns [''</span>'',
            ''  ''])],
    Lit (lns [[],
        ''</td></tr>'',
        [],
        ''<!-- Details -->'',
        ''<tr><td style="padding:20px 32px 24px;">'',
        ''  <table role="presentation" width="100%" cellpadding="0" cellspacing="0" border="0" class="detail-bg detail-border" style="background-color:transparent;border:1px solid #e5e5ea;border-radius:8px;">'',
        ''  '']),
    Branch (\<lambda>d. at_Endpoint d \<noteq> [])
       [Lit (lns [[],
            ''  <tr><td style="padding:12px 16px 0;">'',
            ''    <span class="detail-label" style="font-size:11px;font-weight:600;color:#8e8e93;text-transform:uppercase;letter-spacing:1px;">Endpoint</span><br>'',
            ''    <span class="detail-value" style="font-size:13px;color:#3a3a3c;font-family:ui-monospace,SFMono-Regular,Menlo,Monaco,monospace;">'']),
        Field at_Endpoint,
        Lit (lns [''</span>'',
            ''  </td></tr>'',
            ''  ''])]
       [],
    Lit (lns [[],
        ''  '']),
    Branch at_HasTransfer
       [Lit (lns [[],
            ''  <tr><td style="padding:12px 16px 0;">'',
            ''    <span class="detail-label" style="font-size:11px;font-weight:600;color:#8e8e93;text-transform:uppercase;letter-spacing:1px;">Transfer</span><br>'',
            ''    <span class="detail-value" style="font-size:13px;color:#3a3a3c;">'']),
        Field at_TransferRx,
        Lit '' received, '',
        Field at_TransferTx,
        Lit (lns ['' sent</span>'',
            ''  </td></tr>'',
            ''  ''])]
       [],
    Lit (lns [[],
        ''  '']),
    Branch (\<lambda>d. at_Duration d \<noteq> [])
       [Lit (lns [[],
            ''  <tr><td style="padding:12px 16px 0;">'',
            ''    <span class="detail-label" style="font-size:11px;font-weight:600;color:#8e8e93;text-transform:uppercase;letter-spacing:1px;">Session Duration</span><br>'',
            ''    <span class="detail-value" style="font-size:13px;color:#3a3a3c;">'']),
        Field at_Duration,
        Lit (lns [''</span>'',
            ''  </td></tr>'',
            ''  ''])]
       [],
    Lit (lns [[],
        ''  <tr><td style="padding:12px 16px;">'',
        ''    <span class="detail-label" style="font-size:11px;font-weight:600;color:#8e8e93;text-transform:uppercase;letter-spacing:1px;">Time</span><br>'',
        ''    <span class="detail-value" style="font-size:13px;color:#3a3a3c;">'']),
    Field at_Timestamp,
    Lit (lns [''</span>'',
        ''  </td></tr>'',
        ''  </table>'',
        ''</td></tr>'',
        [],
        ''<!-- Footer -->'',
        ''<tr><td class="footer-border" style="padding:16px 32px;border-top:1px solid #e5e5ea;">'',
        ''  <span class="footer-text" style="font-size:11px;color:#aeaeb2;">Sent from <a href="'']),
    Url at_ServerURL,
    Lit (lns [''" class="footer-link" style="color:#aeaeb2;text-decoration:none;">wgRift</a></span>'',
        ''</td></tr>'',
        [],
        ''</table>'',
        ''<!--[if mso]></td></tr></table><![endif]-->'',
        [],
        ''</td></tr>'',
        ''</table>'',
        ''</body>'',
        ''</html>''])]\<close>

definition testTmpl :: "testTemplateData part list" where
  \<open>testTmpl = [
    Lit (lns [''<!DOCTYPE html>'',
        ''<html xmlns="http://www.w3.org/1999/xhtml" xmlns:v="urn:schemas-microsoft-com:vml" xmlns:o="urn:schemas-microsoft-com:office:office">'',
        ''<head>'',
        ''<meta charset="utf-8">'',
        ''<meta name="viewport" content="width=device-width,initial-scale=1">'',
        ''<meta name="color-scheme" content="light dark">'',
        ''<meta name="supported-color-schemes" content="light dark">'',
        ''<!--[if mso]>'',
        ''<noscript>'',
        ''<xml>'',
        ''<o:OfficeDocumentSettings>'',
        ''<o:PixelsPerInch>96</o:PixelsPerInch>'',
        ''</o:OfficeDocumentSettings>'',
        ''</xml>'',
        ''</noscript>'',
        ''<style>'',
        ''td,th,div,p,a,h1,h2,h3,h4,h5,h6 {font-family:"Segoe UI",Helvetica,Arial,sans-serif;}'',
        ''table {border-collapse:collapse;}'',
        ''</style>'',
        ''<![endif]-->'',
        ''<style>'',
        '':root { color-scheme: light dark; }'',
        ''body, .body-bg { background-color: transparent !important; }'',
        ''.card-bg { background-color: transparent !important; }'',
        ''.card-border { border: 1px solid #e5e5ea !important; }'',
        ''.header-border { border-bottom: 1px solid #e5e5ea !important; }'',
        ''.footer-border { border-top: 1px solid #e5e5ea !important; }'',
        ''.h1-text { color: #1c1c1e !important; }'',
        ''.sub-text { color: #8e8e93 !important; }'',
        ''.body-text { color: #3a3a3c !important; }'',
        ''.muted-text { color: #8e8e93 !important; }'',
        ''.detail-bg { background-color: transparent !important; }'',
        ''.detail-border { border: 1px solid #e5e5ea !important; }'',
        ''.detail-label { color: #8e8e93 !important; }'',
        ''.detail-value { color: #3a3a3c !important; }'',
        ''.check-circle { background-color: #dcfce7 !important; }'',
        ''.check-icon { color: #16a34a !important; }'',
        ''.success-text { color: #166534 !important; }'',
        ''.footer-text { color: #aeaeb2 !important; }'',
        ''.footer-link { color: #aeaeb2 !important; }'',
        [],
        ''@media (prefers-color-scheme: dark) {'',
        ''  body, .body-bg { background-color: transparent !important; }'',
        ''  .card-bg { background-color: transparent !important; }'',
        ''  .card-border { border: 1px solid #2c2c34 !important; }'',
        ''  .header-border { border-bottom: 1px solid #2c2c34 !important; }'',
        ''  .footer-border { border-top: 1px solid #2c2c34 !important; }'',
        ''  .h1-text { color: #f0f0f5 !important; }'',
        ''  .sub-text { color: #8888a0 !important; }'',
        ''  .body-text { color: #b4b4c8 !important; }'',
        ''  .muted-text { color: #8888a0 !important; }'',
        ''  .detail-bg { background-color: transparent !important; }'',
        ''  .detail-border { border: 1px solid #2c2c34 !important; }'',
        ''  .detail-label { color: #8888a0 !important; }'',
        ''  .detail-value { color: #b4b4c8 !important; }'',
        ''  .check-circle { background-color: #14532d !important; }'',
        ''  .check-icon { color: #4ade80 !important; }'',
        ''  .success-text { color: #86efac !important; }'',
        ''  .footer-text { color: #606078 !important; }'',
        ''  .footer-link { color: #606078 !important; }'',
        ''}'',
        ''</style>'',
        ''</head>'',
        ''<body class="body-bg" style="margin:0;padding:0;background-color:transparent;font-family:-apple-system,BlinkMacSystemFont,'Segoe UI',Roboto,Helvetica,Arial,sans-serif;-webkit-text-size-adjust:100%;-ms-text-size-adjust:100%;">'',
        ''<table role="presentation" width="100%" cellpadding="0" cellspacing="0" border="0" class="body-bg" style="background-color:transparent;">'',
        ''<tr><td align="center" style="padding:32px 16px;">'',
        [],
        ''<!--[if mso]><table role="presentation" cellpadding="0" cellspacing="0" border="0" width="560"><tr><td><![endif]-->'',
        ''<table role="presentation" width="100%" cellpadding="0" cellspacing="0" border="0" class="card-bg card-border" style="background-color:transparent;border:1px solid #e5e5ea;border-radius:12px;max-width:560px;">'',
        [],
        ''<!-- Header -->'',
        ''<tr><td class="header-border" style="padding:28px 32px 20px;border-bottom:1px solid #e5e5ea;">'',
        ''  <span class="h1-text" style="font-size:18px;font-weight:700;color:#1c1c1e;letter-spacing:-0.3px;">SMTP Test</span>'',
        ''</td></tr>'',
        [],
        ''<!-- Checkmark -->'',
        ''<tr><td align="center" style="padding:32px 32px 0;">'',
        ''  <table role="presentation" cellpadding="0" cellspacing="0" border="0">'',
        ''  <tr><td align="center" class="check-circle" style="width:80px;height:80px;background-color:#dcfce7;border-radius:50%;text-align:center;vertical-align:middle;">'',
        ''    <!--[if mso]>'',
        ''    <v:roundrect xmlns:v="urn:schemas-microsoft-com:vml" style="width:80px;height:80px;v-text-anchor:middle;" arcsize="50%" fillcolor="#dcfce7" stroke="f">'',
        ''    <v:textbox inset="0,0,0,0"><center>'',
        ''    <![endif]-->'',
        ''    <span class="check-icon" style="font-size:40px;line-height:80px;color:#16a34a;">&#10003;</span>'',
        ''    <!--[if mso]>'',
        ''    </center></v:textbox>'',
        ''    </v:roundrect>'',
        ''    <![endif]-->'',
        ''  </td></tr>'',
        ''  </table>'',
        ''</td></tr>'',
        [],
        ''<!-- Success Message -->'',
        ''<tr><td align="center" style="padding:20px 32px 0;">'',
        ''  <span class="success-text" style="font-size:15px;font-weight:600;color:#166534;">Configuration Verified</span>'',
        ''  <br><span class="body-text" style="font-size:13px;color:#3a3a3c;margin-top:4px;display:inline-block;">Your SMTP configuration is working correctly. Emails from wgRift will be delivered to this address.</span>'',
        ''</td></tr>'',
        [],
        ''<!-- Details -->'',
        ''<tr><td style="padding:20px 32px 24px;">'',
        ''  <table role="presentation" width="100%" cellpadding="0" cellspacing="0" border="0" class="detail-bg detail-border" style="background-color:transparent;border:1px solid #e5e5ea;border-radius:8px;">'',
        ''  <tr><td style="padding:12px 16px 0;">'',
        ''    <span class="detail-label" style="font-size:11px;font-weight:600;color:#8e8e93;text-transform:uppercase;letter-spacing:1px;">Delivered To</span><br>'',
        ''    <span class="detail-value" style="font-size:13px;color:#3a3a3c;">'']),
    Field tt_To,
    Lit (lns [''</span>'',
        ''  </td></tr>'',
        ''  <tr><td style="padding:12px 16px;">'',
        ''    <span class="detail-label" style="font-size:11px;font-weight:600;color:#8e8e93;text-transform:uppercase;letter-spacing:1px;">Time</span><br>'',
        ''    <span class="detail-value" style="font-size:13px;color:#3a3a3c;">'']),
    Field tt_Timestamp,
    Lit (lns [''</span>'',
        ''  </td></tr>'',
        ''  </table>'',
        ''</td></tr>'',
        [],
        ''<!-- Footer -->'',
        ''<tr><td class="footer-border" style="padding:16px 32px;border-top:1px solid #e5e5ea;">'',
        ''  <span class="footer-text" style="font-size:11px;color:#aeaeb2;">Sent from <a href="'']),
    Url tt_ServerURL,
    Lit (lns [''" class="footer-link" style="color:#aeaeb2;text-decoration:none;">wgRift</a></span>'',
        ''</td></tr>'',
        [],
        ''</table>'',
        ''<!--[if mso]></td></tr></table><![endif]-->'',
        [],
        ''</td></tr>'',
        ''</table>'',
        ''</body>'',
        ''</html>''])]\<close>

section \<open>The mailer with these templates\<close>

text \<open>\<open>Execute\<close> writes into a buffer and these templates always escape, so it does not fail.\<close>

definition execute_template :: "template \<Rightarrow> error + string" where
  "execute_template t = Inr (case t of
       PeerConfigTmpl d \<Rightarrow> execute peerConfigTmpl d
     | AlertTmpl d \<Rightarrow> execute alertTmpl d
     | TestTmpl d \<Rightarrow> execute testTmpl d)"

definition html_mailer :: "mailer \<Rightarrow> mailer" where
  "html_mailer g = g\<lparr>ml_execute := execute_template\<rparr>"

lemma html_mailer_simps [simp]:
  "ml_execute (html_mailer g) t = execute_template t" "ml_stamp (html_mailer g) = ml_stamp g"
  by (simp_all add: html_mailer_def)

section \<open>Fields and markup\<close>

text \<open>The characters that open or close a tag or the value of an attribute.\<close>

definition markup_char :: "char \<Rightarrow> bool" where
  "markup_char c \<longleftrightarrow> c \<in> {CHR ''<'', CHR ''>'', CHR 0x22}"

definition markup :: "string \<Rightarrow> string" where
  "markup s = filter markup_char s"

lemma markup_append [simp]: "markup (s @ t) = markup s @ markup t"
  by (simp add: markup_def)

lemma escape_char_markup: "markup (escape_char c) = []"
  by (auto simp: markup_def markup_char_def escape_char_def)

lemma html_escape_markup [simp]: "markup (html_escape s) = []"
  by (induction s) (simp_all add: html_escape_def escape_char_markup, simp add: markup_def)

text \<open>Fields add no markup: what a template writes of it depends on its conditions alone.\<close>

fun skeleton_part :: "'d part \<Rightarrow> 'd \<Rightarrow> string"
  and skeleton :: "'d part list \<Rightarrow> 'd \<Rightarrow> string" where
  "skeleton_part (Lit s) d = markup (strip_comments s)"
| "skeleton_part (Branch b ps qs) d = (if b d then skeleton ps d else skeleton qs d)"
| "skeleton_part (Field f) d = []"
| "skeleton_part (Url f) d = []"
| "skeleton [] d = []"
| "skeleton (p # ps) d = skeleton_part p d @ skeleton ps d"

lemma execute_markup:
  "markup (execute_part p d) = skeleton_part p d"
  "markup (execute ps d) = skeleton ps d"
  by (induction p d and ps d rule: execute_part_execute.induct) (simp_all, simp add: markup_def)

text \<open>A reader of the mail sees the text that was entered.\<close>

function entity_decode :: "string \<Rightarrow> string" where
  "entity_decode [] = []"
| "entity_decode (c # r) =
     (if c \<noteq> CHR ''&'' then c # entity_decode r
      else if prefix ''#34;'' r then CHR 0x22 # entity_decode (drop 4 r)
      else if prefix ''amp;'' r then CHR ''&'' # entity_decode (drop 4 r)
      else if prefix ''#39;'' r then CHR 0x27 # entity_decode (drop 4 r)
      else if prefix ''#43;'' r then CHR ''+'' # entity_decode (drop 4 r)
      else if prefix ''lt;'' r then CHR ''<'' # entity_decode (drop 3 r)
      else if prefix ''gt;'' r then CHR ''>'' # entity_decode (drop 3 r)
      else c # entity_decode r)"
  by pat_completeness auto
termination by (relation "measure length") auto

lemma entity_decode_escape: "CHR 0x00 \<noteq> c \<Longrightarrow> entity_decode (escape_char c @ s) = c # entity_decode s"
  by (simp add: escape_char_def)

lemma html_escape_decodes: "CHR 0x00 \<notin> set s \<Longrightarrow> entity_decode (html_escape s) = s"
  by (induction s) (simp_all add: html_escape_def entity_decode_escape del: entity_decode.simps(2))

text \<open>
  A comment leaves nothing behind, whatever it says. So neither the numbers that the mail draws for Outlook
  nor the table of fixed width reach it, and what they stand in for is told to hide there.
\<close>

lemma strip_inside:
  assumes "\<not> sublist ''-->'' c"
  shows "strip True (c @ ''-->'' @ s) = strip False s"
  using assms
proof (induction c)
  case (Cons a c)
  have "\<not> prefix ''-->'' (a # c)" using Cons.prems by (meson prefix_imp_sublist)
  then have n: "\<not> prefix ''-->'' (a # c @ ''-->'' @ s)"
    by (cases c; cases "tl c") auto
  have "\<not> sublist ''-->'' c" using Cons.prems by (metis sublist_Cons_right)
  note ih = Cons.IH [OF this]
  have "strip True (a # t) = strip True t" if "\<not> prefix ''-->'' (a # t)" for t
    by (simp only: strip.simps(3) if_not_P [OF that])
  from this [OF n] ih show ?case by (simp only: append.simps)
qed simp

lemma comment_dropped:
  assumes "CHR ''<'' \<notin> set u" and "\<not> sublist ''-->'' c"
  shows "strip_comments (u @ ''<!--'' @ c @ ''-->'' @ v) = u @ strip_comments v"
  using assms(1)
proof (induction u)
  case Nil
  show ?case using strip_inside [OF assms(2), of v] by (simp add: strip_comments_def)
qed (auto simp: strip_comments_def)

lemma mso_fallback_dropped:
  "strip_comments ''a<!--[if mso]><b>1</b><![endif]--><!--[if !mso]><!--><i>2</i><!--<![endif]-->c'' = ''a<i>2</i>c''"
  by code_simp

text \<open>
  The field that is described as a host name is a link in the mail: with a port it is replaced, without
  one it is relative to wherever the mail is read.
\<close>

lemma server_name_link:
  "urlFilter ''vpn.example.com:8443'' = ''#ZgotmplZ''" "urlFilter ''vpn.example.com'' = ''vpn.example.com''"
  "urlFilter ''https://vpn.example.com:8443'' = ''https://vpn.example.com:8443''"
  by code_simp+

section \<open>Mails of the same kind have the same markup\<close>

lemmas skeleton_eval = skeleton_part.simps skeleton.simps

lemma skeleton_peer:
  assumes "td_PeerName d = [] \<longleftrightarrow> td_PeerName e = []" and "td_Note d = [] \<longleftrightarrow> td_Note e = []"
    and "td_HasQR d = td_HasQR e"
  shows "skeleton peerConfigTmpl d = skeleton peerConfigTmpl e"
  unfolding peerConfigTmpl_def by (simp only: skeleton_eval assms)

lemma skeleton_alert:
  assumes "at_IsConnect d = at_IsConnect e" and "at_Endpoint d = [] \<longleftrightarrow> at_Endpoint e = []"
    and "at_HasTransfer d = at_HasTransfer e" and "at_Duration d = [] \<longleftrightarrow> at_Duration e = []"
  shows "skeleton alertTmpl d = skeleton alertTmpl e"
  unfolding alertTmpl_def by (simp only: skeleton_eval assms)

lemma skeleton_test: "skeleton testTmpl d = skeleton testTmpl e"
  unfolding testTmpl_def by (simp only: skeleton_eval)

text \<open>The texts of the fields in a page, as they stand between its tags.\<close>

fun shown_part :: "'d part \<Rightarrow> 'd \<Rightarrow> string list"
  and shown :: "'d part list \<Rightarrow> 'd \<Rightarrow> string list" where
  "shown_part (Lit s) d = []"
| "shown_part (Field f) d = [f d]"
| "shown_part (Url f) d = []"
| "shown_part (Branch b ps qs) d = (if b d then shown ps d else shown qs d)"
| "shown [] d = []"
| "shown (p # ps) d = shown_part p d @ shown ps d"

lemma sublist_either: "sublist t u \<or> sublist t v \<Longrightarrow> sublist t (u @ v)"
  by (auto simp: sublist_append)

lemma shown_in_page:
  "t \<in> set (shown_part p d) \<Longrightarrow> sublist (html_escape t) (execute_part p d)"
  "t \<in> set (shown ps d) \<Longrightarrow> sublist (html_escape t) (execute ps d)"
  by (induction p d and ps d rule: shown_part_shown.induct) (auto split: if_splits intro: sublist_either)

lemma shown_peer:
  "shown peerConfigTmpl d =
     (if td_PeerName d \<noteq> [] then [td_PeerName d] else []) @ (if td_Note d \<noteq> [] then [td_Note d] else []) @ [td_Filename d]"
  unfolding peerConfigTmpl_def by (simp only: shown_part.simps shown.simps append.simps append_Nil2 if_cancel append_assoc)

lemma shown_alert:
  "shown alertTmpl d =
     [at_PeerName d, at_InterfaceName d, at_PublicKey d, at_Message d]
     @ (if at_Endpoint d \<noteq> [] then [at_Endpoint d] else [])
     @ (if at_HasTransfer d then [at_TransferRx d, at_TransferTx d] else [])
     @ (if at_Duration d \<noteq> [] then [at_Duration d] else []) @ [at_Timestamp d]"
  unfolding alertTmpl_def
  by (simp only: shown_part.simps shown.simps append.simps append_Nil2 if_cancel append_assoc)

lemmas render_mail = renderPeerConfigEmail_def renderAlertEmail_def renderTestEmail_def execute_template_def

lemma alert_markup_fixed:
  assumes "ae_Event a = ''connected'' \<longleftrightarrow> ae_Event b = ''connected''" and "ae_Endpoint a = [] \<longleftrightarrow> ae_Endpoint b = []"
    and "(ae_TransferRx a > 0 \<or> ae_TransferTx a > 0) \<longleftrightarrow> (ae_TransferRx b > 0 \<or> ae_TransferTx b > 0)"
    and "ae_Duration a = [] \<longleftrightarrow> ae_Duration b = []"
  shows "map_sum id markup (renderAlertEmail (html_mailer g) a) = map_sum id markup (renderAlertEmail (html_mailer g) b)"
  unfolding renderAlertEmail_def html_mailer_simps execute_template_def template.case map_sum.simps execute_markup
  by (rule arg_cong [where f = Inr], rule skeleton_alert) (use assms in simp_all)

text \<open>C25. What is written into the mail of a configuration adds no markup: two mails with the same parts
  have the same sequence of angle brackets and double quotes, whatever their names and notes say and wherever
  their link leads. A name and a note stand in the page, and a reader who decodes its entities sees the text that was entered.\<close>

theorem mail_adds_no_markup:
  assumes "pe_PeerName p = [] \<longleftrightarrow> pe_PeerName q = []" and "pe_Note p = [] \<longleftrightarrow> pe_Note q = []"
    and "pe_QRCodePNG p = [] \<longleftrightarrow> pe_QRCodePNG q = []"
  shows "\<exists>h k. renderPeerConfigEmail (html_mailer g) p = Inr h \<and> renderPeerConfigEmail (html_mailer g) q = Inr k
    \<and> markup h = markup k
    \<and> (\<forall>t \<in> {pe_PeerName p, pe_Note p}. t \<noteq> [] \<longrightarrow>
         (\<exists>e. sublist e h \<and> markup e = [] \<and> (CHR 0x00 \<notin> set t \<longrightarrow> entity_decode e = t)))"
proof -
  let ?d = "\<lambda>p. \<lparr>td_PeerName = pe_PeerName p, td_Note = pe_Note p, td_HasQR = (pe_QRCodePNG p \<noteq> []),
    td_Filename = (if pe_PeerName p \<noteq> [] then pe_PeerName p @ ''.conf'' else ''wgrift.conf''), td_ServerURL = or_hash (pe_ServerName p)\<rparr>"
  have r: "renderPeerConfigEmail (html_mailer g) p = Inr (execute peerConfigTmpl (?d p))" for p
    by (simp add: renderPeerConfigEmail_def execute_template_def)
  have "skeleton peerConfigTmpl (?d p) = skeleton peerConfigTmpl (?d q)"
    by (rule skeleton_peer) (use assms in simp_all)
  then have m: "markup (execute peerConfigTmpl (?d p)) = markup (execute peerConfigTmpl (?d q))"
    by (simp only: execute_markup)
  have "sublist (html_escape t) (execute peerConfigTmpl (?d p))" if "t \<in> {pe_PeerName p, pe_Note p}" "t \<noteq> []" for t
    by (rule shown_in_page(2)) (use that in \<open>auto simp: shown_peer\<close>)
  then show ?thesis using r m html_escape_decodes html_escape_markup by metis
qed

lemma mail_adds_no_markup_witness:
  "\<exists>h k. renderPeerConfigEmail (html_mailer sample_mailer) (sample_mail\<lparr>pe_Note := ''</td><img src=x onerror=\"f()\">''\<rparr>) = Inr h
    \<and> renderPeerConfigEmail (html_mailer sample_mailer) (sample_mail\<lparr>pe_Note := ''hello''\<rparr>) = Inr k
    \<and> markup h = markup k
    \<and> (\<exists>e. sublist e h \<and> markup e = [] \<and> entity_decode e = ''</td><img src=x onerror=\"f()\">'')"
  using mail_adds_no_markup [of "sample_mail\<lparr>pe_Note := ''</td><img src=x onerror=\"f()\">''\<rparr>" "sample_mail\<lparr>pe_Note := ''hello''\<rparr>" sample_mailer]
  by (simp add: sample_mail_def) blast

end
