(* ===== verification/WebRequests.thy ===== *)
theory WebRequests
  imports Routes WebViews
begin

text \<open>
  The agreement between the web application and the server: the patterns of the protected routes
  (internal/server/routes.go) as \<^verbatim>\<open>http.ServeMux\<close> matches them, and the requests that the pages
  and their buttons send (ui/web). No two patterns with the same method match the same path, so the
  first match is the most specific one.
\<close>

section \<open>Patterns\<close>

text \<open>A body, as each handler would decode it.\<close>

record bodies =
  bd_create :: "error + createInterfaceRequest"
  bd_import :: "error + importConfigRequest"
  bd_adopt :: "error + adoptInterfaceRequest"
  bd_update :: "error + updateInterfaceRequest"
  bd_addPeer :: "error + addPeerRequest"
  bd_updatePeer :: "error + updatePeerRequest"
  bd_email :: "error + string \<times> string"
  bd_text :: "error + string"
  bd_user :: "error + createUserRequest"
  bd_provider :: "error + oidcProviderRequest"
  bd_smtp :: "error + updateSMTPRequest"

text \<open>A segment of a pattern in braces is a wildcard for one segment of the path.\<close>

definition wildcard :: "string \<Rightarrow> bool" where "wildcard p \<longleftrightarrow> p \<noteq> [] \<and> hd p = CHR ''{''"

fun match_segments :: "string list \<Rightarrow> string list \<Rightarrow> string list option" where
  "match_segments [] [] = Some []"
| "match_segments (p # ps) (x # xs) =
     (if wildcard p then (if x = [] then None else map_option (Cons x) (match_segments ps xs))
      else if p = x then match_segments ps xs else None)"
| "match_segments _ _ = None"

text \<open>Method, the segments behind \<^verbatim>\<open>/api/v1/\<close>, and the handler with the values of the wildcards. The
  handlers of peers do not look at the interface in the path.\<close>

definition registerRoutes :: "bodies \<Rightarrow> string \<Rightarrow> string \<Rightarrow> (string \<times> string list \<times> (string list \<Rightarrow> protected_request)) list" where
  "registerRoutes b lim off =
     [(''GET'', [''dashboard''], \<lambda>v. Dashboard),
      (''GET'', [''interfaces''], \<lambda>v. ListIfaces),
      (''POST'', [''interfaces''], \<lambda>v. CreateIface (bd_create b)),
      (''POST'', [''interfaces'', ''import''], \<lambda>v. ImportIface (bd_import b)),
      (''POST'', [''interfaces'', ''adopt''], \<lambda>v. AdoptIface (bd_adopt b)),
      (''GET'', [''interfaces'', ''{id}''], \<lambda>v. GetIface (v ! 0)),
      (''PUT'', [''interfaces'', ''{id}''], \<lambda>v. UpdateIface (v ! 0) (bd_update b)),
      (''DELETE'', [''interfaces'', ''{id}''], \<lambda>v. DeleteIface (v ! 0)),
      (''POST'', [''interfaces'', ''{id}'', ''sync''], \<lambda>v. SyncIface (v ! 0)),
      (''POST'', [''interfaces'', ''{id}'', ''start''], \<lambda>v. StartIface (v ! 0)),
      (''POST'', [''interfaces'', ''{id}'', ''stop''], \<lambda>v. StopIface (v ! 0)),
      (''POST'', [''interfaces'', ''{id}'', ''restart''], \<lambda>v. RestartIface (v ! 0)),
      (''GET'', [''interfaces'', ''{id}'', ''status''], \<lambda>v. IfaceStatus (v ! 0)),
      (''GET'', [''interfaces'', ''{ifaceId}'', ''peers''], \<lambda>v. ListPeersOf (v ! 0)),
      (''POST'', [''interfaces'', ''{ifaceId}'', ''peers''], \<lambda>v. AddPeerTo (v ! 0) (bd_addPeer b)),
      (''PUT'', [''interfaces'', ''{ifaceId}'', ''peers'', ''{id}''], \<lambda>v. UpdatePeerReq (v ! 1) (bd_updatePeer b)),
      (''DELETE'', [''interfaces'', ''{ifaceId}'', ''peers'', ''{id}''], \<lambda>v. DeletePeerReq (v ! 1)),
      (''POST'', [''interfaces'', ''{ifaceId}'', ''peers'', ''{id}'', ''enable''], \<lambda>v. EnablePeerReq (v ! 1)),
      (''POST'', [''interfaces'', ''{ifaceId}'', ''peers'', ''{id}'', ''disable''], \<lambda>v. DisablePeerReq (v ! 1)),
      (''PUT'', [''interfaces'', ''{ifaceId}'', ''peers'', ''{id}'', ''private-key''], \<lambda>v. SetPeerKey (v ! 1) (bd_text b)),
      (''GET'', [''interfaces'', ''{ifaceId}'', ''peers'', ''{id}'', ''config''], \<lambda>v. PeerConfig (v ! 1)),
      (''GET'', [''interfaces'', ''{ifaceId}'', ''peers'', ''{id}'', ''qr''], \<lambda>v. PeerQR (v ! 1)),
      (''POST'', [''interfaces'', ''{ifaceId}'', ''peers'', ''{id}'', ''email''], \<lambda>v. EmailPeer (v ! 1) (bd_email b)),
      (''GET'', [''interfaces'', ''{ifaceId}'', ''logs''], \<lambda>v. IfaceLogs (v ! 0) lim off),
      (''GET'', [''peers'', ''{id}'', ''logs''], \<lambda>v. PeerLogs (v ! 0) lim off),
      (''GET'', [''users''], \<lambda>v. ListUsersReq),
      (''POST'', [''users''], \<lambda>v. CreateUserReq (bd_user b)),
      (''DELETE'', [''users'', ''{id}''], \<lambda>v. DeleteUserReq (v ! 0)),
      (''PUT'', [''users'', ''{id}'', ''password''], \<lambda>v. ChangePassword (v ! 0) (bd_text b)),
      (''GET'', [''settings''], \<lambda>v. GetSettings),
      (''PUT'', [''settings''], \<lambda>v. UpdateSettings (bd_text b)),
      (''POST'', [''settings'', ''oidc''], \<lambda>v. CreateProvider (bd_provider b)),
      (''PUT'', [''settings'', ''oidc'', ''{id}''], \<lambda>v. UpdateProvider (v ! 0) (bd_provider b)),
      (''DELETE'', [''settings'', ''oidc'', ''{id}''], \<lambda>v. DeleteProvider (v ! 0)),
      (''PUT'', [''settings'', ''smtp''], \<lambda>v. UpdateSMTP (bd_smtp b)),
      (''POST'', [''settings'', ''smtp'', ''test''], \<lambda>v. TestSMTP (bd_text b)),
      (''DELETE'', [''settings'', ''smtp''], \<lambda>v. DeleteSMTP)]"

fun first_route :: "string \<Rightarrow> string list \<Rightarrow> (string \<times> string list \<times> (string list \<Rightarrow> 'r)) list \<Rightarrow> 'r option" where
  "first_route m xs [] = None"
| "first_route m xs ((m', ps, f) # rs) =
     (if m = m' then (case match_segments ps xs of Some v \<Rightarrow> Some (f v) | None \<Rightarrow> first_route m xs rs)
      else first_route m xs rs)"

text \<open>The request line of a client: the query is not part of the path. A path that needs cleaning or
  decoding does not occur here.\<close>

definition route :: "bodies \<Rightarrow> string \<Rightarrow> string \<Rightarrow> string \<times> string \<Rightarrow> protected_request option" where
  "route b lim off rq = (case rq of (m, url) \<Rightarrow>
     (case split_char CHR ''/'' (takeWhile (\<lambda>c. c \<noteq> CHR ''?'') url) of
        e # a # v # xs \<Rightarrow>
          if e = [] \<and> a = ''api'' \<and> v = ''v1'' then first_route m xs (registerRoutes b lim off) else None
      | _ \<Rightarrow> None))"

section \<open>The buttons of the other pages\<close>

definition card_buttons :: "string \<Rightarrow> bool \<Rightarrow> unit button list" where
  "card_buttons i running =
     (if running then
        [\<lparr>bt_Title = ''Restart'', bt_Confirm = None, bt_Request = Some (''POST'', iface_path i @ ''/restart''),
           bt_Update = \<lambda>s. s, bt_Route = None\<rparr>,
         \<lparr>bt_Title = ''Stop'', bt_Confirm = None, bt_Request = Some (''POST'', iface_path i @ ''/stop''),
           bt_Update = \<lambda>s. s, bt_Route = None\<rparr>]
      else
        [\<lparr>bt_Title = ''Start'', bt_Confirm = None, bt_Request = Some (''POST'', iface_path i @ ''/start''),
           bt_Update = \<lambda>s. s, bt_Route = None\<rparr>])
     @ [\<lparr>bt_Title = ''Manage '' @ [CHR 0xE2, CHR 0x86, CHR 0x92], bt_Confirm = None, bt_Request = None,
           bt_Update = \<lambda>s. s, bt_Route = Some (''/interfaces/'' @ i)\<rparr>]"

record users_state =
  us_ShowForm :: bool
  us_PasswordUser :: string

text \<open>The actions of a row of the users: nobody is offered to delete themselves, and only local users
  have a password to change.\<close>

definition user_buttons :: "string option \<Rightarrow> string \<Rightarrow> string \<Rightarrow> string \<Rightarrow> users_state button list" where
  "user_buttons me k username provider =
     (if provider = [] then
        [\<lparr>bt_Title = ''Change password'', bt_Confirm = None, bt_Request = None,
           bt_Update = \<lambda>s. s\<lparr>us_ShowForm := False, us_PasswordUser := (if us_PasswordUser s = k then [] else k)\<rparr>,
           bt_Route = None\<rparr>]
      else [])
     @ (if me = Some k then []
        else [\<lparr>bt_Title = ''Delete user'',
           bt_Confirm = Some (if provider \<noteq> []
             then ''Remove SSO user '' @ username @ ''? They will be re-created on next SSO login.''
             else ''Delete user '' @ username @ ''? This cannot be undone.''),
           bt_Request = Some (''DELETE'', ''/api/v1/users/'' @ k), bt_Update = \<lambda>s. s\<lparr>us_PasswordUser := []\<rparr>,
           bt_Route = None\<rparr>])"

record settings_state =
  ss_ShowOIDC :: bool
  ss_EditProvider :: string
  ss_ShowSMTP :: bool

definition provider_buttons :: "oidc_provider \<Rightarrow> settings_state button list" where
  "provider_buttons p =
     [\<lparr>bt_Title = ''Edit provider'', bt_Confirm = None, bt_Request = None,
        bt_Update = \<lambda>s. s\<lparr>ss_ShowOIDC := True, ss_EditProvider := op_ID p\<rparr>, bt_Route = None\<rparr>,
      \<lparr>bt_Title = ''Delete provider'', bt_Confirm = Some (''Delete OIDC provider '' @ op_Name p @ ''?''),
        bt_Request = Some (''DELETE'', ''/api/v1/settings/oidc/'' @ op_ID p),
        bt_Update = \<lambda>s. s\<lparr>ss_ShowOIDC := False, ss_EditProvider := []\<rparr>, bt_Route = None\<rparr>]"

definition smtp_buttons :: "bool \<Rightarrow> settings_state button list" where
  "smtp_buttons configured =
     (if configured then
        [\<lparr>bt_Title = ''Edit'', bt_Confirm = None, bt_Request = None,
           bt_Update = \<lambda>s. s\<lparr>ss_ShowSMTP := \<not> ss_ShowSMTP s\<rparr>, bt_Route = None\<rparr>,
         \<lparr>bt_Title = ''Remove'', bt_Confirm = Some ''Remove SMTP configuration? Email features will be disabled.'',
           bt_Request = Some (''DELETE'', ''/api/v1/settings/smtp''), bt_Update = \<lambda>s. s\<lparr>ss_ShowSMTP := False\<rparr>,
           bt_Route = None\<rparr>]
      else
        [\<lparr>bt_Title = ''Configure'', bt_Confirm = None, bt_Request = None,
           bt_Update = \<lambda>s. s\<lparr>ss_ShowSMTP := \<not> ss_ShowSMTP s\<rparr>, bt_Route = None\<rparr>])"

definition add_user_button :: "users_state button" where
  "add_user_button =
     \<lparr>bt_Title = ''Add User'', bt_Confirm = None, bt_Request = None,
      bt_Update = \<lambda>s. s\<lparr>us_ShowForm := \<not> us_ShowForm s, us_PasswordUser := []\<rparr>, bt_Route = None\<rparr>"

section \<open>The requests of pages and forms\<close>

definition dashboard_load :: "string \<times> string" where "dashboard_load = (''GET'', ''/api/v1/dashboard'')"
definition status_load :: "string \<Rightarrow> string \<times> string" where "status_load i = (''GET'', iface_path i @ ''/status'')"
definition ifaces_load :: "string \<times> string" where "ifaces_load = (''GET'', ''/api/v1/interfaces'')"
definition logs_load :: "string \<Rightarrow> string \<times> string" where "logs_load i = (''GET'', iface_path i @ ''/logs?limit=100'')"
definition config_load :: "string \<Rightarrow> string \<Rightarrow> string \<times> string" where "config_load i k = (''GET'', peer_path i k @ ''/config'')"
definition users_load :: "string \<times> string" where "users_load = (''GET'', ''/api/v1/users'')"
definition settings_load :: "string \<times> string" where "settings_load = (''GET'', ''/api/v1/settings'')"

definition create_form :: "string \<times> string" where "create_form = (''POST'', ''/api/v1/interfaces'')"
definition import_form :: "string \<times> string" where "import_form = (''POST'', ''/api/v1/interfaces/import'')"
definition interface_form :: "string \<Rightarrow> string \<times> string" where "interface_form i = (''PUT'', iface_path i)"
definition add_form :: "string \<Rightarrow> string \<times> string" where "add_form i = (''POST'', iface_path i @ ''/peers'')"
definition edit_form :: "string \<Rightarrow> string \<Rightarrow> string \<times> string" where "edit_form i k = (''PUT'', peer_path i k)"
definition key_form :: "string \<Rightarrow> string \<Rightarrow> string \<times> string" where "key_form i k = (''PUT'', peer_path i k @ ''/private-key'')"
definition email_form :: "string \<Rightarrow> string \<Rightarrow> string \<times> string" where "email_form i k = (''POST'', peer_path i k @ ''/email'')"
definition user_form :: "string \<times> string" where "user_form = (''POST'', ''/api/v1/users'')"
definition password_form :: "string \<Rightarrow> string \<times> string" where "password_form k = (''PUT'', ''/api/v1/users/'' @ k @ ''/password'')"
definition url_form :: "string \<times> string" where "url_form = (''PUT'', ''/api/v1/settings'')"
definition smtp_form :: "string \<times> string" where "smtp_form = (''PUT'', ''/api/v1/settings/smtp'')"
definition smtp_test_form :: "string \<times> string" where "smtp_test_form = (''POST'', ''/api/v1/settings/smtp/test'')"

text \<open>The form of a provider creates it, or saves the one that is edited.\<close>

definition provider_form :: "string \<Rightarrow> string \<times> string" where
  "provider_form editID = (if editID \<noteq> [] then (''PUT'', ''/api/v1/settings/oidc/'' @ editID) else (''POST'', ''/api/v1/settings/oidc''))"

section \<open>The dialog that mails a configuration\<close>

record email_modal =
  em_Peer :: "(string \<times> string \<times> string) option" \<comment> \<open>name, interface and identifier of the peer\<close>
  em_To :: string
  em_Note :: string
  em_Sending :: bool
  em_Err :: ErrorInfo

datatype modal_event =
    Open string string string
  | Backdrop
  | TypeTo string
  | TypeNote string
  | CancelMail
  | SendMail
  | Answered "ErrorInfo option"

definition no_error :: ErrorInfo where "no_error = \<lparr>ei_Message = [], ei_Detail = []\<rparr>"

text \<open>The new state and the request that is sent, with recipient and note.\<close>

fun EmailModal :: "modal_event \<Rightarrow> email_modal \<Rightarrow> email_modal \<times> ((string \<times> string) \<times> string \<times> string) option" where
  "EmailModal (Open name i k) m = (m\<lparr>em_Peer := Some (name, i, k)\<rparr>, None)"
| "EmailModal Backdrop m = (if em_Sending m then m else m\<lparr>em_Peer := None\<rparr>, None)"
| "EmailModal (TypeTo s) m = (m\<lparr>em_To := s\<rparr>, None)"
| "EmailModal (TypeNote s) m = (m\<lparr>em_Note := s\<rparr>, None)"
| "EmailModal CancelMail m =
     (if em_Sending m then m else m\<lparr>em_To := [], em_Note := [], em_Err := no_error, em_Peer := None\<rparr>, None)"
| "EmailModal SendMail m =
     (if em_Sending m then (m, None)
      else if em_To m = [] then (m\<lparr>em_Err := \<lparr>ei_Message = ''Email address is required'', ei_Detail = []\<rparr>\<rparr>, None)
      else case em_Peer m of
        None \<Rightarrow> (m, None)
      | Some (name, i, k) \<Rightarrow> (m\<lparr>em_Sending := True, em_Err := no_error\<rparr>, Some (email_form i k, em_To m, em_Note m)))"
| "EmailModal (Answered (Some e)) m = (m\<lparr>em_Sending := False, em_Err := e\<rparr>, None)"
| "EmailModal (Answered None) m =
     (m\<lparr>em_Sending := False, em_To := [], em_Note := [], em_Err := no_error, em_Peer := None\<rparr>, None)"

section \<open>Every request has its handler\<close>

text \<open>A text that stays one segment of a path on its way through browser and server.\<close>

definition plain_segment :: "string \<Rightarrow> bool" where
  "plain_segment x \<longleftrightarrow> x \<noteq> [] \<and> x \<noteq> ''.'' \<and> x \<noteq> ''..''
     \<and> (\<forall>c \<in> set x. c \<notin> set ''/?#%'' \<and> c \<noteq> CHR 0x5C \<and> (of_char c :: nat) \<ge> 32)"

lemma plain_segmentD:
  "plain_segment x \<Longrightarrow> x \<noteq> []" "plain_segment x \<Longrightarrow> CHR ''/'' \<notin> set x" "plain_segment x \<Longrightarrow> CHR ''?'' \<notin> set x"
  by (auto simp: plain_segment_def)

definition segments :: "string \<Rightarrow> string list" where
  "segments url = split_char CHR ''/'' (takeWhile (\<lambda>c. c \<noteq> CHR ''?'') url)"

lemma segments_append: "CHR ''/'' \<notin> set x \<Longrightarrow> CHR ''?'' \<notin> set x \<Longrightarrow> segments (x @ CHR ''/'' # s) = x # segments s"
  by (simp add: segments_def takeWhile_append split_char_append)

lemma segments_last: "CHR ''/'' \<notin> set x \<Longrightarrow> CHR ''?'' \<notin> set x \<Longrightarrow> segments x = [x]"
proof -
  assume x: "CHR ''/'' \<notin> set x" "CHR ''?'' \<notin> set x"
  from x(2) have "takeWhile (\<lambda>c. c \<noteq> CHR ''?'') x = x" by (induction x) auto
  then show ?thesis unfolding segments_def by (simp only: split_char_single [OF x(1)])
qed

lemma segments_slash: "segments (CHR ''/'' # s) = [] # segments s"
  using segments_append [of "[]" s] by simp

lemma segments_api: "segments (''/api/v1/'' @ s) = [] # ''api'' # ''v1'' # segments s"
  using segments_append [of "''api''" "''v1/'' @ s"] segments_append [of "''v1''" s] by (simp add: segments_slash)

lemma route_api:
  "route b lim off (m, ''/api/v1/'' @ s) = first_route m (segments s) (registerRoutes b lim off)"
  using segments_api [of s] by (simp add: route_def segments_def)

lemma segments_iface:
  "plain_segment i \<Longrightarrow> segments (''interfaces/'' @ i) = [''interfaces'', i]"
  "plain_segment i \<Longrightarrow> segments (''interfaces/'' @ i @ CHR ''/'' # s) = ''interfaces'' # i # segments s"
  using segments_append [of "''interfaces''" i] segments_append [of "''interfaces''" "i @ CHR ''/'' # s"]
  by (simp_all add: segments_last segments_append plain_segmentD)

lemma segments_peer:
  assumes "plain_segment i" and "plain_segment k"
  shows "segments (''interfaces/'' @ i @ ''/peers/'' @ k) = [''interfaces'', i, ''peers'', k]"
    and "segments (''interfaces/'' @ i @ ''/peers/'' @ k @ CHR ''/'' # s) = [''interfaces'', i, ''peers'', k] @ segments s"
  using segments_iface(2) [OF assms(1), of "''peers/'' @ k"] segments_iface(2) [OF assms(1), of "''peers/'' @ k @ CHR ''/'' # s"]
    segments_append [of "''peers''" k] segments_append [of "''peers''" "k @ CHR ''/'' # s"] assms(2)
  by (simp_all add: segments_last segments_append plain_segmentD)

lemmas url_defs = iface_path_def peer_path_def dashboard_load_def status_load_def ifaces_load_def logs_load_def
  config_load_def users_load_def settings_load_def create_form_def import_form_def interface_form_def add_form_def
  edit_form_def key_form_def email_form_def user_form_def password_form_def url_form_def smtp_form_def
  smtp_test_form_def provider_form_def

lemmas route_simps = registerRoutes_def wildcard_def plain_segmentD segments_last segments_slash

text \<open>The routes below an interface, below a peer, and the others.\<close>

lemma route_iface:
  assumes "plain_segment i"
  shows "route d lim off (m, iface_path i) = first_route m [''interfaces'', i] (registerRoutes d lim off)"
    and "route d lim off (m, iface_path i @ CHR ''/'' # s) = first_route m ([''interfaces'', i] @ segments s) (registerRoutes d lim off)"
  using route_api [of d lim off m "''interfaces/'' @ i"] route_api [of d lim off m "''interfaces/'' @ i @ CHR ''/'' # s"]
    segments_iface [OF assms]
  by (simp_all add: iface_path_def)

lemma route_peer:
  assumes "plain_segment i" and "plain_segment k"
  shows "route d lim off (m, peer_path i k) = first_route m [''interfaces'', i, ''peers'', k] (registerRoutes d lim off)"
    and "route d lim off (m, peer_path i k @ CHR ''/'' # s) =
      first_route m ([''interfaces'', i, ''peers'', k] @ segments s) (registerRoutes d lim off)"
  using route_api [of d lim off m "''interfaces/'' @ i @ ''/peers/'' @ k"]
    route_api [of d lim off m "''interfaces/'' @ i @ ''/peers/'' @ k @ CHR ''/'' # s"]
    segments_peer [OF assms]
  by (simp_all add: peer_path_def iface_path_def)

lemma route_iface_ops:
  assumes "plain_segment i"
  shows "route d lim off (''POST'', iface_path i @ ''/sync'') = Some (SyncIface i)"
    and "route d lim off (''POST'', iface_path i @ ''/start'') = Some (StartIface i)"
    and "route d lim off (''POST'', iface_path i @ ''/stop'') = Some (StopIface i)"
    and "route d lim off (''POST'', iface_path i @ ''/restart'') = Some (RestartIface i)"
    and "route d lim off (''DELETE'', iface_path i) = Some (DeleteIface i)"
  using route_iface [OF assms, of d lim off] plain_segmentD(1) [OF assms] by (simp_all add: route_simps)

lemma route_peer_ops:
  assumes "plain_segment i" and "plain_segment k"
  shows "route d lim off (''POST'', peer_path i k @ ''/enable'') = Some (EnablePeerReq k)"
    and "route d lim off (''POST'', peer_path i k @ ''/disable'') = Some (DisablePeerReq k)"
    and "route d lim off (''DELETE'', peer_path i k) = Some (DeletePeerReq k)"
  using route_peer [OF assms, of d lim off] plain_segmentD(1) [OF assms(1)] plain_segmentD(1) [OF assms(2)]
  by (simp_all add: route_simps)

lemma segments_users:
  "plain_segment u \<Longrightarrow> segments (''users/'' @ u) = [''users'', u]"
  "plain_segment u \<Longrightarrow> segments (''users/'' @ u @ CHR ''/'' # s) = ''users'' # u # segments s"
  using segments_append [of "''users''" u] segments_append [of "''users''" "u @ CHR ''/'' # s"]
  by (simp_all add: segments_last segments_append plain_segmentD)

lemma segments_settings:
  "plain_segment u \<Longrightarrow> segments (''settings/oidc/'' @ u) = [''settings'', ''oidc'', u]"
  "segments (''settings/'' @ s) = ''settings'' # segments s"
  using segments_append [of "''settings''" "''oidc/'' @ u"] segments_append [of "''oidc''" u] segments_append [of "''settings''" s]
  by (simp_all add: segments_last segments_append plain_segmentD)

lemma route_user_ops:
  assumes "plain_segment u"
  shows "route d lim off (''DELETE'', ''/api/v1/users/'' @ u) = Some (DeleteUserReq u)"
    and "route d lim off (password_form u) = Some (ChangePassword u (bd_text d))"
  using route_api [of d lim off "''DELETE''" "''users/'' @ u"] route_api [of d lim off "''PUT''" "''users/'' @ u @ ''/password''"]
    segments_users [OF assms] plain_segmentD(1) [OF assms]
  by (simp_all add: route_simps password_form_def)

lemma route_settings_ops:
  assumes "plain_segment k"
  shows "route d lim off (''DELETE'', ''/api/v1/settings/oidc/'' @ k) = Some (DeleteProvider k)"
    and "route d lim off (''DELETE'', ''/api/v1/settings/smtp'') = Some DeleteSMTP"
    and "route d lim off (provider_form k) = Some (UpdateProvider k (bd_provider d))"
  using route_api [of d lim off "''DELETE''" "''settings/oidc/'' @ k"] route_api [of d lim off "''PUT''" "''settings/oidc/'' @ k"]
    route_api [of d lim off "''DELETE''" "''settings/smtp''"] segments_settings(2) [of "''smtp''"]
    segments_settings(1) [OF assms] plain_segmentD(1) [OF assms]
  by (simp_all add: route_simps provider_form_def)

definition reached :: "bodies \<Rightarrow> string \<Rightarrow> string \<Rightarrow> 's button \<Rightarrow> protected_request option option" where
  "reached d lim off b = map_option (route d lim off) (bt_Request b)"


definition plain_peer :: PeerStatus where
  "plain_peer = \<lparr>st_Peer = zero_peer\<lparr>p_ID := ''9f1c'', p_Name := ''laptop'', p_Enabled := True\<rparr>, st_HasPrivateKey = True,
     st_LastHandshake = 0, st_TransferRx = 0, st_TransferTx = 0, st_Connected = False, st_Endpoint = [],
     st_ConnectedSince = None\<rparr>"

definition plain_provider :: oidc_provider where
  "plain_provider = \<lparr>op_ID = ''idp'', op_Name = ''Corp'', op_Issuer = ''https://idp'', op_ClientID = ''c'',
     op_ClientSecretEncrypted = [], op_Scopes = ''openid'', op_AutoDiscover = True, op_AdminClaim = [], op_AdminValue = [],
     op_DefaultRole = ''viewer'', op_Enabled = True, op_CreatedAt = 0, op_UpdatedAt = 0\<rparr>"


section \<open>Pages and forms\<close>

text \<open>The same for what the pages load and the forms send.\<close>

lemma loads_reach_handlers:
  assumes "plain_segment i" and "plain_segment k"
  shows "route d lim off dashboard_load = Some Dashboard" and "route d lim off ifaces_load = Some ListIfaces"
    and "route d lim off users_load = Some ListUsersReq" and "route d lim off settings_load = Some GetSettings"
    and "route d lim off (status_load i) = Some (IfaceStatus i)" and "route d lim off (config_load i k) = Some (PeerConfig k)"
    and "route d lim off (logs_load i) = Some (IfaceLogs i lim off)"
proof -
  note r = route_api [of d lim off "''GET''"] and nonempty = plain_segmentD(1) [OF assms(1)] plain_segmentD(1) [OF assms(2)]
  show "route d lim off dashboard_load = Some Dashboard"
    using r [of "''dashboard''"] by (simp add: route_simps dashboard_load_def)
  show "route d lim off ifaces_load = Some ListIfaces"
    using r [of "''interfaces''"] by (simp add: route_simps ifaces_load_def)
  show "route d lim off users_load = Some ListUsersReq"
    using r [of "''users''"] by (simp add: route_simps users_load_def)
  show "route d lim off settings_load = Some GetSettings"
    using r [of "''settings''"] by (simp add: route_simps settings_load_def)
  show "route d lim off (status_load i) = Some (IfaceStatus i)"
    using nonempty route_iface(2) [OF assms(1), of d lim off "''GET''" "''status''"] by (simp add: route_simps status_load_def)
  show "route d lim off (config_load i k) = Some (PeerConfig k)"
    using nonempty route_peer(2) [OF assms, of d lim off "''GET''" "''config''"] by (simp add: route_simps config_load_def)
  have "segments ''logs?limit=100'' = [''logs'']" by code_simp
  then show "route d lim off (logs_load i) = Some (IfaceLogs i lim off)"
    using nonempty route_iface(2) [OF assms(1), of d lim off "''GET''" "''logs?limit=100''"] by (simp add: route_simps logs_load_def)
qed

lemma forms_reach_handlers:
  assumes "plain_segment i" and "plain_segment k"
  shows "route d lim off create_form = Some (CreateIface (bd_create d))"
    and "route d lim off import_form = Some (ImportIface (bd_import d))"
    and "route d lim off (interface_form i) = Some (UpdateIface i (bd_update d))"
    and "route d lim off (add_form i) = Some (AddPeerTo i (bd_addPeer d))"
    and "route d lim off (edit_form i k) = Some (UpdatePeerReq k (bd_updatePeer d))"
    and "route d lim off (key_form i k) = Some (SetPeerKey k (bd_text d))"
    and "route d lim off (email_form i k) = Some (EmailPeer k (bd_email d))"
proof -
  note nonempty = plain_segmentD(1) [OF assms(1)] plain_segmentD(1) [OF assms(2)]
  have "segments ''interfaces/import'' = [''interfaces'', ''import'']" by code_simp
  then show "route d lim off import_form = Some (ImportIface (bd_import d))"
    using route_api [of d lim off "''POST''" "''interfaces/import''"] by (simp add: route_simps import_form_def)
  show "route d lim off create_form = Some (CreateIface (bd_create d))"
    using route_api [of d lim off "''POST''" "''interfaces''"] by (simp add: route_simps create_form_def)
  show "route d lim off (interface_form i) = Some (UpdateIface i (bd_update d))"
    using nonempty route_iface(1) [OF assms(1), of d lim off "''PUT''"] by (simp add: route_simps interface_form_def)
  show "route d lim off (add_form i) = Some (AddPeerTo i (bd_addPeer d))"
    using nonempty route_iface(2) [OF assms(1), of d lim off "''POST''" "''peers''"] by (simp add: route_simps add_form_def)
  show "route d lim off (edit_form i k) = Some (UpdatePeerReq k (bd_updatePeer d))"
    using nonempty route_peer(1) [OF assms, of d lim off "''PUT''"] by (simp add: route_simps edit_form_def)
  show "route d lim off (key_form i k) = Some (SetPeerKey k (bd_text d))"
    using nonempty route_peer(2) [OF assms, of d lim off "''PUT''" "''private-key''"] by (simp add: route_simps key_form_def)
  show "route d lim off (email_form i k) = Some (EmailPeer k (bd_email d))"
    using nonempty route_peer(2) [OF assms, of d lim off "''POST''" "''email''"] by (simp add: route_simps email_form_def)
qed

lemma admin_forms_reach_handlers:
  shows "route d lim off user_form = Some (CreateUserReq (bd_user d))"
    and "route d lim off url_form = Some (UpdateSettings (bd_text d))"
    and "route d lim off smtp_form = Some (UpdateSMTP (bd_smtp d))"
    and "route d lim off smtp_test_form = Some (TestSMTP (bd_text d))"
    and "route d lim off (provider_form []) = Some (CreateProvider (bd_provider d))"
proof -
  show "route d lim off user_form = Some (CreateUserReq (bd_user d))"
    using route_api [of d lim off "''POST''" "''users''"] by (simp add: route_simps user_form_def)
  show "route d lim off url_form = Some (UpdateSettings (bd_text d))"
    using route_api [of d lim off "''PUT''" "''settings''"] by (simp add: route_simps url_form_def)
  have "segments ''settings/smtp'' = [''settings'', ''smtp'']" "segments ''settings/smtp/test'' = [''settings'', ''smtp'', ''test'']"
    "segments ''settings/oidc'' = [''settings'', ''oidc'']" by code_simp+
  note s = this
  show "route d lim off smtp_form = Some (UpdateSMTP (bd_smtp d))"
    using s route_api [of d lim off "''PUT''" "''settings/smtp''"] by (simp add: route_simps smtp_form_def)
  show "route d lim off smtp_test_form = Some (TestSMTP (bd_text d))"
    using s route_api [of d lim off "''POST''" "''settings/smtp/test''"] by (simp add: route_simps smtp_test_form_def)
  show "route d lim off (provider_form []) = Some (CreateProvider (bd_provider d))"
    using s route_api [of d lim off "''POST''" "''settings/oidc''"] by (simp add: route_simps provider_form_def)
qed

section \<open>One mail at a time\<close>

text \<open>A sequence of events: its state, the requests that were sent and not answered.\<close>

definition unanswered :: "modal_event \<Rightarrow> 'r option \<Rightarrow> nat \<Rightarrow> nat" where
  "unanswered e r n = (case r of Some _ \<Rightarrow> n + 1 | None \<Rightarrow> (case e of Answered _ \<Rightarrow> n - 1 | _ \<Rightarrow> n))"

fun modal_run :: "modal_event list \<Rightarrow> email_modal \<Rightarrow> nat \<Rightarrow> email_modal \<times> nat" where
  "modal_run [] m n = (m, n)"
| "modal_run (e # es) m n = (case EmailModal e m of (m', r) \<Rightarrow> modal_run es m' (unanswered e r n))"

lemma unanswered_sending:
  "EmailModal e m = (m', r) \<Longrightarrow> unanswered e r (if em_Sending m then 1 else 0) = (if em_Sending m' then 1 else 0)"
  by (cases "(e, m)" rule: EmailModal.cases) (auto simp: unanswered_def split: if_splits option.splits prod.splits)

lemma one_mail_at_a_time:
  "modal_run es m (if em_Sending m then 1 else 0) = (m', n) \<Longrightarrow> n = (if em_Sending m' then 1 else 0)"
proof (induction es arbitrary: m)
  case (Cons e es)
  obtain m1 r where e: "EmailModal e m = (m1, r)" by (cases "EmailModal e m")
  with Cons.prems unanswered_sending [OF e] have "modal_run es m1 (if em_Sending m1 then 1 else 0) = (m', n)" by simp
  then show ?case by (rule Cons.IH)
qed simp

end
