(* ===== verification/WebDialogs.thy ===== *)
theory WebDialogs
  imports WebRequests
begin

text \<open>
  The dialogs of the web application (ui/web/common.go): the question in front of an action that cannot
  be undone, the notes that appear and vanish, and the form of the login. An action that asks first
  sends its request only when the question is answered with yes.
\<close>

section \<open>The question\<close>

text \<open>\<open>confirmState\<close>: the message and what happens on yes; here that is the button that was clicked.\<close>

record 's dialog =
  cm_State :: "(string \<times> 's button) option"
  cm_Page :: 's
  cm_Sent :: "(string \<times> string) list"

datatype 's ui_event = Click "'s button" | ConfirmYes | ConfirmNo | ConfirmBackdrop

text \<open>What a button does once nothing is in its way: send its request, then change the state of the page.\<close>

definition perform :: "'s button \<Rightarrow> 's dialog \<Rightarrow> 's dialog" where
  "perform b d = d\<lparr>cm_Page := bt_Update b (cm_Page d),
     cm_Sent := cm_Sent d @ (case bt_Request b of Some r \<Rightarrow> [r] | None \<Rightarrow> [])\<rparr>"

definition ConfirmAction :: "string \<Rightarrow> 's button \<Rightarrow> 's dialog \<Rightarrow> 's dialog" where
  "ConfirmAction m b d = d\<lparr>cm_State := Some (m, b)\<rparr>"

definition dismissConfirm :: "'s dialog \<Rightarrow> 's dialog" where
  "dismissConfirm d = d\<lparr>cm_State := None\<rparr>"

fun ConfirmModal :: "'s ui_event \<Rightarrow> 's dialog \<Rightarrow> 's dialog" where
  "ConfirmModal (Click b) d = (case bt_Confirm b of Some m \<Rightarrow> ConfirmAction m b d | None \<Rightarrow> perform b d)"
| "ConfirmModal ConfirmYes d = (case cm_State d of
       Some (m, b) \<Rightarrow> perform b (dismissConfirm d)
     | None \<Rightarrow> dismissConfirm d)"
| "ConfirmModal ConfirmNo d = dismissConfirm d"
| "ConfirmModal ConfirmBackdrop d = dismissConfirm d"

text \<open>What is shown: nothing without a question.\<close>

definition confirm_text :: "'s dialog \<Rightarrow> string" where
  "confirm_text d = (case cm_State d of Some (m, _) \<Rightarrow> m | None \<Rightarrow> [])"

text \<open>A button is careful if it asks before it deletes or disables.\<close>

definition dangerous :: "string \<times> string \<Rightarrow> bool" where
  "dangerous r \<longleftrightarrow> fst r = ''DELETE'' \<or> ends_with (snd r) ''/disable''"

definition careful :: "'s button \<Rightarrow> bool" where
  "careful b \<longleftrightarrow> (case bt_Request b of Some r \<Rightarrow> dangerous r \<longrightarrow> bt_Confirm b \<noteq> None | None \<Rightarrow> True)"

lemma buttons_careful:
  "b \<in> set (detail_buttons i) \<Longrightarrow> careful b" "b \<in> set (status_buttons i r) \<Longrightarrow> careful b"
  "b \<in> set (peerActions i ps h) \<Longrightarrow> careful b" "c \<in> set (card_buttons i r) \<Longrightarrow> careful c"
  "u \<in> set (user_buttons me k n p) \<Longrightarrow> careful u" "s \<in> set (provider_buttons pr) \<Longrightarrow> careful s"
  "s \<in> set (smtp_buttons r) \<Longrightarrow> careful s"
  by (auto simp: detail_buttons_def status_buttons_def peerActions_def card_buttons_def user_buttons_def
      provider_buttons_def smtp_buttons_def careful_def dangerous_def ends_with_def Let_def split: if_splits)

text \<open>Without a yes nothing dangerous is sent, whatever is clicked, asked and dismissed.\<close>

lemma deletes_need_confirmation:
  assumes "\<forall>e \<in> set es. case e of Click b \<Rightarrow> careful b | ConfirmYes \<Rightarrow> False | _ \<Rightarrow> True"
  shows "filter dangerous (cm_Sent (fold ConfirmModal es d)) = filter dangerous (cm_Sent d)"
  using assms
proof (induction es arbitrary: d)
  case (Cons e es)
  have "filter dangerous (cm_Sent (ConfirmModal e d)) = filter dangerous (cm_Sent d)"
    using Cons.prems by (cases e)
      (auto simp: careful_def perform_def ConfirmAction_def dismissConfirm_def split: option.splits)
  with Cons show ?case by simp
qed simp

text \<open>A yes sends the request of the question that is shown, once: the question is gone afterwards.\<close>

lemma yes_sends_once:
  assumes "cm_State d = Some (m, b)" and "bt_Request b = Some r"
  shows "cm_Sent (ConfirmModal ConfirmYes (ConfirmModal ConfirmYes d)) = cm_Sent d @ [r]"
  using assms by (simp add: perform_def dismissConfirm_def)

section \<open>Notes\<close>

text \<open>A note is shown until a timer clears it; a timer clears whatever note is shown then.\<close>

record note_state =
  nt_Toast :: string
  nt_ToastTimers :: nat
  nt_Celebrated :: string
  nt_PartyTimers :: nat

datatype note_event = ShowToast string | ToastTimer | Celebrate string | PartyTimer

fun note_step :: "note_event \<Rightarrow> note_state \<Rightarrow> note_state" where
  "note_step (ShowToast m) s = s\<lparr>nt_Toast := m, nt_ToastTimers := nt_ToastTimers s + 1\<rparr>"
| "note_step ToastTimer s = s\<lparr>nt_Toast := [], nt_ToastTimers := nt_ToastTimers s - 1\<rparr>"
| "note_step (Celebrate n) s = s\<lparr>nt_Celebrated := n, nt_PartyTimers := nt_PartyTimers s + 1\<rparr>"
| "note_step PartyTimer s = s\<lparr>nt_Celebrated := [], nt_PartyTimers := nt_PartyTimers s - 1\<rparr>"

definition nbsp :: string where "nbsp = [CHR 0xC2, CHR 0xA0]"

definition Toast :: "note_state \<Rightarrow> string" where
  "Toast s = (if nt_Toast s = [] then nbsp else nt_Toast s)"

definition CelebrationToast :: "note_state \<Rightarrow> string" where
  "CelebrationToast s = (if nt_Celebrated s = [] then nbsp
     else [CHR 0xF0, CHR 0x9F, CHR 0x8E, CHR 0x89] @ ''  '' @ nt_Celebrated s @ '' is connected!'')"

text \<open>A note shown while an older timer runs is cut short by it.\<close>

lemma toast_cut_short: "Toast (note_step ToastTimer (note_step (ShowToast b) (note_step (ShowToast a) s))) = nbsp"
  by (simp add: Toast_def)

section \<open>The form of the login\<close>

record login_form =
  lf_Username :: string
  lf_Password :: string
  lf_Err :: ErrorInfo
  lf_Loading :: bool

text \<open>What follows an answer: a message, a place to go, or a reload of the page.\<close>

datatype login_outcome = Stay | GoTo string | Reload_page

definition doLogin :: "login_form \<Rightarrow> login_form \<times> (string \<times> string) option" where
  "doLogin f = (if lf_Loading f then (f, None)
     else (f\<lparr>lf_Err := no_error, lf_Loading := True\<rparr>, Some (lf_Username f, lf_Password f)))"

text \<open>The answer: an error of the call, the error in its body, or the session if the data decodes.\<close>

definition login_answered ::
  "client_error + string \<times> bool \<Rightarrow> browser \<Rightarrow> login_form \<Rightarrow> login_form \<times> browser \<times> login_outcome" where
  "login_answered r br f = (case r of
       Inl _ \<Rightarrow> (f\<lparr>lf_Err := \<lparr>ei_Message = ''Invalid credentials'', ei_Detail = []\<rparr>, lf_Loading := False\<rparr>, br, Stay)
     | Inr (e, decodes) \<Rightarrow>
         if e \<noteq> [] then (f\<lparr>lf_Err := \<lparr>ei_Message = e, ei_Detail = []\<rparr>, lf_Loading := False\<rparr>, br, Stay)
         else if decodes then
           (case consumeRedirectPath br of (dest, br') \<Rightarrow> (f, br', if dest \<noteq> [] then GoTo dest else Reload_page))
         else (f\<lparr>lf_Loading := False\<rparr>, br, Stay))"

text \<open>Every failure of the call, a timeout or an unreachable server included, reads as a wrong password.\<close>

lemma login_error_message: "ei_Message (lf_Err (fst (login_answered (Inl e) br f))) = ''Invalid credentials''"
  by (simp add: login_answered_def)

section \<open>Pages without content\<close>

definition EmptyState_icon :: "string \<Rightarrow> string" where
  "EmptyState_icon msg =
     (let l = ToLower msg in
      if contains l ''log'' \<or> contains l ''connection'' then ''scroll-text''
      else if contains l ''interface'' then ''chevrons-left-right-ellipsis''
      else if contains l ''peer'' then ''network''
      else if contains l ''user'' then ''users''
      else ''inbox'')"

definition setPageTitle :: "string \<Rightarrow> string" where
  "setPageTitle title = (if title = [] then ''wgRift'' else title @ '' '' @ [CHR 0xC2, CHR 0xB7] @ '' wgRift'')"

end
