(* ===== verification/WebNodes.thy ===== *)
theory WebNodes
  imports WebDialogs
begin

text \<open>
  The trees of elements that the web application shows, and the components they are made of
  (ui/web/common.go, icons.go). A node keeps tag, attributes, texts and buttons of an element. Its CSS
  classes are left out, with these exceptions: \<open>Hidden\<close> is an element that the class \<^verbatim>\<open>hidden\<close> takes out
  of the page; where the code chooses between classes, or shows an element on narrow or on wide screens
  only, the choice is kept as the attribute \<^verbatim>\<open>variant\<close>. A drawing is kept by its name and size. \<open>Act\<close> is
  an element with a click handler, which is its \<open>button\<close>; \<open>Submit\<close> is a button whose handler is one of the
  functions of the forms in \<open>WebClient\<close>, \<open>WebForms\<close> and \<open>WebDialogs\<close> (a drawing on it is left out); \<open>Copy\<close> is an element that copies a text
  on a click. The handlers of inputs are the events of those forms.
\<close>

datatype 's node =
    Elem string "(string \<times> string) list" "'s node list"
  | Text string
  | Icon string nat
  | Act "'s button" "(string \<times> string) list" "'s node list"
  | Submit string string
  | Copy string "(string \<times> string) list" "'s node list"
  | Hidden "'s node"

abbreviation Div :: "'s node list \<Rightarrow> 's node" where "Div \<equiv> Elem ''div'' []"
abbreviation Span :: "'s node list \<Rightarrow> 's node" where "Span \<equiv> Elem ''span'' []"
abbreviation Para :: "'s node list \<Rightarrow> 's node" where "Para \<equiv> Elem ''p'' []"

definition variant :: "string \<Rightarrow> string \<times> string" where "variant v = (''variant'', v)"

definition hidden_unless :: "bool \<Rightarrow> 's node \<Rightarrow> 's node" where
  "hidden_unless b n = (if b then n else Hidden n)"

text \<open>All buttons of a tree, hidden ones included.\<close>

fun node_buttons :: "'s node \<Rightarrow> 's button list" where
  "node_buttons (Elem t as ns) = concat (map node_buttons ns)"
| "node_buttons (Text s) = []"
| "node_buttons (Icon n k) = []"
| "node_buttons (Act b as ns) = b # concat (map node_buttons ns)"
| "node_buttons (Submit l v) = []"
| "node_buttons (Copy s as ns) = concat (map node_buttons ns)"
| "node_buttons (Hidden n) = node_buttons n"

text \<open>The buttons that can be clicked, and the texts that can be read, in order.\<close>

fun shown_buttons :: "'s node \<Rightarrow> 's button list" where
  "shown_buttons (Elem t as ns) = concat (map shown_buttons ns)"
| "shown_buttons (Text s) = []"
| "shown_buttons (Icon n k) = []"
| "shown_buttons (Act b as ns) = b # concat (map shown_buttons ns)"
| "shown_buttons (Submit l v) = []"
| "shown_buttons (Copy s as ns) = concat (map shown_buttons ns)"
| "shown_buttons (Hidden n) = []"

fun shown_texts :: "'s node \<Rightarrow> string list" where
  "shown_texts (Elem t as ns) = concat (map shown_texts ns)"
| "shown_texts (Text s) = [s]"
| "shown_texts (Icon n k) = []"
| "shown_texts (Act b as ns) = concat (map shown_texts ns)"
| "shown_texts (Submit l v) = [l]"
| "shown_texts (Copy s as ns) = concat (map shown_texts ns)"
| "shown_texts (Hidden n) = []"

lemma shown_buttons_sub: "set (shown_buttons n) \<subseteq> set (node_buttons n)"
  by (induction n) auto

text \<open>What a \<^verbatim>\<open>select\<close> element shows: the first option marked as selected, else its first option.\<close>

fun option_value :: "'s node \<Rightarrow> (string \<times> bool) option" where
  "option_value (Elem t as ns) =
     (if t = ''option'' then map_option (\<lambda>v. (v, map_of as ''selected'' \<noteq> None)) (map_of as ''value'') else None)"
| "option_value _ = None"

definition shown_option :: "'s node list \<Rightarrow> string option" where
  "shown_option ns =
     (let vs = List.map_filter option_value ns in
      case List.find snd vs of Some (v, _) \<Rightarrow> Some v | None \<Rightarrow> (case vs of [] \<Rightarrow> None | (v, _) # _ \<Rightarrow> Some v))"

section \<open>Icons\<close>

text \<open>\<open>itoa\<close> of icons.go.\<close>

function icon_digits :: "int \<Rightarrow> string" where
  "icon_digits n = (if n > 0 then icon_digits (n div 10) @ [char_of (48 + nat (n mod 10))] else [])"
  by auto
termination by (relation "measure nat") auto

definition icon_itoa :: "int \<Rightarrow> string" where
  "icon_itoa n = (if n = 0 then ''0'' else icon_digits n)"

section \<open>Surfaces and buttons\<close>

definition Card :: "'s node list \<Rightarrow> 's node" where "Card ns = Div ns"

definition CardHeader :: "string \<Rightarrow> 's node list \<Rightarrow> 's node" where
  "CardHeader title extra = Div (Elem ''h3'' [] [Text title] # extra)"

definition PageHeader :: "string \<Rightarrow> string \<Rightarrow> 's node list \<Rightarrow> 's node" where
  "PageHeader title subtitle actions =
     Div (Div [Elem ''h2'' [] [Text title], if subtitle \<noteq> [] then Para [Text subtitle] else Span []]
       # (if actions \<noteq> [] then [Div actions] else []))"

text \<open>The three kinds of buttons; what a button does is part of the button.\<close>

definition btn_variant :: "string \<Rightarrow> string" where
  "btn_variant v = (if v \<in> set [''primary'', ''danger''] then v else ''ghost'')"

definition Btn :: "string \<Rightarrow> 's button \<Rightarrow> 's node" where
  "Btn v b = Act b [variant (btn_variant v)] [Text (bt_Title b)]"

definition IconBtn :: "string \<Rightarrow> 's button \<Rightarrow> 's node" where
  "IconBtn iconName b = Act b [variant ''plain'', (''title'', bt_Title b)] [Icon iconName 15]"

definition IconBtnDanger :: "string \<Rightarrow> 's button \<Rightarrow> 's node" where
  "IconBtnDanger iconName b = Act b [variant ''danger'', (''title'', bt_Title b)] [Icon iconName 15]"

section \<open>Signs\<close>

definition StatusDot :: "bool \<Rightarrow> bool \<Rightarrow> 's node" where
  "StatusDot enabled connected =
     (if \<not> enabled then Elem ''span'' [variant ''disabled''] [Span []]
      else if connected then Elem ''span'' [variant ''connected''] []
      else Elem ''span'' [variant ''idle''] [])"

definition Badge :: "string \<Rightarrow> string \<Rightarrow> 's node" where
  "Badge label color =
     Elem ''span'' [variant (if color \<in> set [''teal'', ''amber'', ''red'', ''emerald''] then color else ''plain'')] [Text label]"

definition Tooltip :: "'s node \<Rightarrow> string list \<Rightarrow> 's node" where
  "Tooltip trigger items =
     Elem ''span'' [(''tabindex'', ''0'')] [trigger, Div [Div (map (\<lambda>i. Div [Text i]) items)]]"

definition MonoText :: "string \<Rightarrow> 's node" where "MonoText content = Span [Text content]"

definition TypeBadge :: "string \<Rightarrow> 's node" where
  "TypeBadge t = (if t = ''site-to-site'' then Badge ''Site-to-Site'' ''amber'' else Badge ''Client Access'' ''teal'')"

definition PeerTypeBadge :: "string \<Rightarrow> 's node" where
  "PeerTypeBadge t = (if t = ''site'' then Badge ''Site'' ''amber'' else Badge ''Client'' ''teal'')"

definition Spinner :: "'s node" where "Spinner = Div [Div []]"

definition LoadingView :: "bool \<Rightarrow> 's node" where
  "LoadingView loading = (if loading then Div [Div []] else Hidden (Div [Hidden (Div [])]))"

definition EmptyState :: "string \<Rightarrow> 's node" where
  "EmptyState msg = Div [Span [Icon (EmptyState_icon msg) 32], Para [Text msg]]"

definition ErrorAlert :: "ErrorInfo \<Rightarrow> 's node" where
  "ErrorAlert info =
     (let shown = ei_Message info \<noteq> [];
          details = Elem ''details'' [] [Elem ''summary'' [] [Text ''Technical details''],
            Elem ''pre'' [] [Text (if shown then ei_Detail info else [])]];
          box = Div [Div [Span (if shown then [Icon ''triangle-alert'' 15] else []), Span [Text (ei_Message info)]],
            if shown \<and> ei_Detail info \<noteq> [] then details else Hidden details]
      in if shown then box else Hidden box)"

section \<open>Fields\<close>

definition value_attr :: "string \<Rightarrow> (string \<times> string) list" where
  "value_attr v = (if v \<noteq> [] then [(''value'', v)] else [])"

definition FormField :: "string \<Rightarrow> string \<Rightarrow> string \<Rightarrow> string \<Rightarrow> 's node" where
  "FormField label inputType placeholder val =
     Div [Elem ''label'' [] [Text label],
       Elem ''input'' ([(''type'', inputType), (''placeholder'', placeholder)] @ value_attr val) []]"

definition FormFieldWithHelp :: "string \<Rightarrow> string \<Rightarrow> string \<Rightarrow> string \<Rightarrow> string \<Rightarrow> 's node" where
  "FormFieldWithHelp label inputType placeholder helpText val =
     Div [Elem ''label'' [] [Text label],
       Elem ''input'' ([(''type'', inputType), (''placeholder'', placeholder)] @ value_attr val) [],
       hidden_unless (helpText \<noteq> []) (Para [Text helpText])]"

definition typeSelectorCard :: "string \<Rightarrow> string \<Rightarrow> string \<Rightarrow> bool \<Rightarrow> 's button \<Rightarrow> 's node" where
  "typeSelectorCard iconName title description selected onClick =
     Act onClick [variant (if selected then ''selected'' else ''plain'')] [Elem ''span'' [variant (if selected then ''selected'' else ''plain'')] [Icon iconName 20],
       Div [Elem ''span'' [variant (if selected then ''selected'' else ''plain'')] [Text title], Span [Text description]]]"

section \<open>Uptimes\<close>

text \<open>Seconds since 1970 of a time; the zero time is 62135596800 seconds before that.\<close>

definition unix_seconds :: "time \<Rightarrow> int" where "unix_seconds t = t div second - 62135596800"

text \<open>\<open>FormatDuration\<close> at the moment \<open>now\<close>; a difference that lies in the future counts as zero.\<close>

definition FormatDuration :: "time \<Rightarrow> time \<Rightarrow> string" where
  "FormatDuration now since = FormatSeconds (max 0 (time_sub now since) div second)"

definition UptimeSpan :: "time \<Rightarrow> time option \<Rightarrow> 's node" where
  "UptimeSpan now since = (case since of
       None \<Rightarrow> Hidden (Span [Text []])
     | Some t \<Rightarrow> Elem ''span'' [(''data-since'', itoa (unix_seconds t))] [Text (FormatDuration now t)])"

section \<open>The dialogs as trees\<close>

definition ConfirmModal_view :: "'s dialog \<Rightarrow> 's node" where
  "ConfirmModal_view d =
     (let visible = cm_State d \<noteq> None;
          question = Div [Div [Span [Icon ''triangle-alert'' 16]],
            Div [Para [Text ''Confirm action''], Para [Text (confirm_text d)]]];
          box = Div [Div [], Div [question], Div [Submit ''Cancel'' ''ghost'', Submit ''Confirm'' ''danger'']]
      in hidden_unless visible (Div [hidden_unless visible box]))"

text \<open>Without a note the toasts stay in the page, transparent.\<close>

definition Toast_view :: "note_state \<Rightarrow> 's node" where
  "Toast_view s = Elem ''div'' [variant (if nt_Toast s = [] then ''transparent'' else ''toast'')]
     [Div [Icon ''check'' 16, Span [Text (Toast s)]]]"

definition CelebrationToast_view :: "note_state \<Rightarrow> 's node" where
  "CelebrationToast_view s = Elem ''div'' [variant (if nt_Celebrated s = [] then ''transparent'' else ''celebrate'')]
     [Div [Span [Text (CelebrationToast s)]]]"

section \<open>The address field as a tree\<close>

definition cidrPrefixOptions :: "string list" where
  "cidrPrefixOptions =
     [''8'', ''12'', ''16'', ''20'', ''24'', ''25'', ''26'', ''27'', ''28'', ''29'', ''30'', ''31'', ''32'']"

text \<open>\<open>init\<close> is the field as it was built: the options are marked once, the text is set in the input after the
  page is mounted and then belongs to the browser. \<open>k\<close> is the number of the field.\<close>

definition CIDRField_view ::
  "string \<Rightarrow> string \<Rightarrow> string \<Rightarrow> string \<Rightarrow> nat \<Rightarrow> cidr_field \<Rightarrow> cidr_field \<Rightarrow> 's node" where
  "CIDRField_view label placeholder helpText defaultPrefix k init f =
     (let fieldID = ''cidr-field-'' @ itoa (int k); hostOnly = defaultPrefix = ''/32'';
          summary = cidrSummary (ff_IP f) (ff_Prefix f);
          rightSide = (if hostOnly then Div [Span [Text ''/32'']]
            else Div [Elem ''select'' [(''id'', fieldID @ ''-pfx'')]
                (map (\<lambda>v. Elem ''option'' ((''value'', v) # (if v = ff_Prefix init then [(''selected'', ''selected'')] else []))
                   [Text (CHR ''/'' # v)]) cidrPrefixOptions),
              Span [Icon ''chevron-down'' 12]])
      in Div ([Elem ''label'' [] [Text label],
           Elem ''div'' [(''id'', fieldID), variant (if ff_Hint f \<noteq> [] then ''red'' else ''plain'')]
             [Elem ''input'' [(''id'', fieldID @ ''-ip''), (''type'', ''text''),
                (''placeholder'', fst (splitCIDR placeholder defaultPrefix))] [], rightSide]]
         @ (if hostOnly then []
            else [Elem ''p'' [(''id'', fieldID @ ''-summary''), variant (if summary \<noteq> [] then ''summary'' else ''transparent'')]
              [Text (if summary \<noteq> [] then summary else nbsp)]])
         @ [Elem ''p'' [variant (if ff_Hint f \<noteq> [] then ''hint'' else ''transparent'')]
              [Text (if ff_Hint f \<noteq> [] then ff_Hint f else nbsp)],
            hidden_unless (helpText \<noteq> []) (Para [Text helpText])]))"

end
