(* ===== verification/WebPages.thy ===== *)
theory WebPages
  imports WebNodes
begin

text \<open>
  The pages of interfaces and peers as trees of elements (ui/web/interface_detail.go, peer_form.go,
  dashboard.go, interfaces.go, logs.go). A page is a function of what the server answered, of the state of
  the page and of its forms; \<open>now\<close> is the time the uptimes are counted to, \<open>k\<close> the number of the next
  address field.
\<close>

section \<open>Pieces of text\<close>

definition arrow_down :: string where "arrow_down = [CHR 0xE2, CHR 0x86, CHR 0x93]"
definition arrow_up :: string where "arrow_up = [CHR 0xE2, CHR 0x86, CHR 0x91]"
definition arrow_right :: string where "arrow_right = [CHR 0xE2, CHR 0x86, CHR 0x92]"
definition middle_dot :: string where "middle_dot = '' '' @ [CHR 0xC2, CHR 0xB7] @ '' ''"

text \<open>Received and sent bytes, with \<open>a\<close> behind the arrows and \<open>gap\<close> between the two.\<close>

definition traffic :: "string \<Rightarrow> string \<Rightarrow> int \<Rightarrow> int \<Rightarrow> string" where
  "traffic a gap rx tx = arrow_down @ a @ FormatBytes rx @ gap @ arrow_up @ a @ FormatBytes tx"

definition plain_button :: "string \<Rightarrow> ('s \<Rightarrow> 's) \<Rightarrow> string option \<Rightarrow> 's button" where
  "plain_button title f r = \<lparr>bt_Title = title, bt_Confirm = None, bt_Request = None, bt_Update = f, bt_Route = r\<rparr>"

text \<open>Start, Stop and the rest each have one look wherever they appear.\<close>

definition run_variant :: "string \<Rightarrow> string" where
  "run_variant title = (if title = ''Start'' then ''primary'' else if title = ''Stop'' then ''danger'' else ''ghost'')"

definition run_btn :: "'s button \<Rightarrow> 's node" where "run_btn b = Btn (run_variant (bt_Title b)) b"

definition text_area :: "string \<Rightarrow> string \<Rightarrow> (string \<times> string) list \<Rightarrow> 's node" where
  "text_area placeholder rows as = Elem ''textarea'' ([(''placeholder'', placeholder), (''rows'', rows)] @ as) []"

section \<open>The page of an interface\<close>

definition infoItem :: "string \<Rightarrow> string \<Rightarrow> 's node" where
  "infoItem label val = Div [Div [Text label], Div [Text val]]"

definition hookInfoItem :: "string \<Rightarrow> string \<Rightarrow> 's node" where
  "hookInfoItem label val = Div (Div [Text label] #
     map (\<lambda>c. Div [Text c]) (filter (\<lambda>c. c \<noteq> []) (map TrimSpace (split_char (CHR 0x0A) val))))"

definition click_to_copy :: "(string \<times> string) list" where "click_to_copy = [(''title'', ''Click to copy'')]"

definition copyableKey :: "string \<Rightarrow> 's node" where
  "copyableKey key = Copy key click_to_copy
     [Elem ''span'' [variant ''mobile''] [Text (truncateKey key)], Elem ''span'' [variant ''desktop''] [Text key]]"

definition copyableInfoItem :: "string \<Rightarrow> string \<Rightarrow> 's node" where
  "copyableInfoItem label val = Div [Div [Text label], Copy val click_to_copy [Text (truncateKey val)]]"

definition readOnlyCopyField :: "string \<Rightarrow> string \<Rightarrow> 's node" where
  "readOnlyCopyField label val = Div [Elem ''label'' [] [Text label], Copy val click_to_copy [Text val]]"

definition ip_badge :: "string \<Rightarrow> string \<Rightarrow> string \<Rightarrow> 's node" where
  "ip_badge many one csv = (case parseCSV csv of
       [] \<Rightarrow> Span []
     | [ip] \<Rightarrow> Tooltip (Badge one []) [ip]
     | ips \<Rightarrow> Tooltip (Badge (itoa (int (length ips)) @ many) []) ips)"

text \<open>The actions of a peer, with the icons they are drawn with.\<close>

definition peerActions_view :: "string \<Rightarrow> PeerStatus \<Rightarrow> detail_state node" where
  "peerActions_view i ps =
     (case peerActions i ps (st_HasPrivateKey ps) of
        [key, edit, toggle, remove] \<Rightarrow>
          Div [IconBtn (if st_HasPrivateKey ps then ''qr-code'' else ''key-round'') key, IconBtn ''pencil'' edit,
            IconBtn (if p_Enabled (st_Peer ps) then ''power-off'' else ''power'') toggle, IconBtnDanger ''trash-2'' remove]
      | _ \<Rightarrow> Div [])"

section \<open>The forms of peers\<close>

record peerLabels =
  lb_headerAdd :: string
  lb_headerEdit :: string
  lb_namePlaceholder :: string
  lb_serverIPsLabel :: string
  lb_serverIPsPlaceholder :: string
  lb_serverIPsHelp :: string
  lb_clientIPsLabel :: string
  lb_clientIPsPlaceholder :: string
  lb_clientIPsHelp :: string
  lb_keepaliveHelp :: string
  lb_submitAdd :: string

definition labelsForType :: "string \<Rightarrow> peerLabels" where
  "labelsForType peerType =
     (if peerType = ''site'' then
        \<lparr>lb_headerAdd = ''Add Site'', lb_headerEdit = ''Edit Site'',
         lb_namePlaceholder = ''Branch Office, Data Center, etc.'',
         lb_serverIPsLabel = ''Remote Subnets'',
         lb_serverIPsPlaceholder = ''Networks behind this site (e.g. 192.168.1.0/24)'',
         lb_serverIPsHelp = ''Subnets reachable through this site'' @ [CHR 0x27] @ ''s gateway'',
         lb_clientIPsLabel = ''Routes to Advertise'',
         lb_clientIPsPlaceholder = ''Subnets this side shares with the remote site'',
         lb_clientIPsHelp = ''Networks on your side the remote site should reach'',
         lb_keepaliveHelp = ''Required if either side is behind NAT'', lb_submitAdd = ''Add Site''\<rparr>
      else
        \<lparr>lb_headerAdd = ''Add Client'', lb_headerEdit = ''Edit Client'', lb_namePlaceholder = ''Phone, Laptop, etc.'',
         lb_serverIPsLabel = ''Server Allowed IPs'', lb_serverIPsPlaceholder = ''Subnets behind this peer'',
         lb_serverIPsHelp = ''Auto-filled with tunnel IP if left empty'',
         lb_clientIPsLabel = ''Client Allowed IPs'', lb_clientIPsPlaceholder = ''Empty = route all traffic through tunnel'',
         lb_clientIPsHelp = ''Leave empty for full tunnel. Add subnets for split tunnel.'',
         lb_keepaliveHelp = ''Keeps connection alive through NAT'', lb_submitAdd = ''Add Client''\<rparr>)"

text \<open>A container of chips; the chips are put into it by \<open>renderChipList\<close>.\<close>

definition chips_box :: "string \<Rightarrow> string \<Rightarrow> string \<Rightarrow> 's node" where
  "chips_box chipsID inputID placeholder =
     Div [Elem ''div'' [(''id'', chipsID)] [],
       Elem ''input'' [(''id'', inputID), (''placeholder'', placeholder @ '' '' @ dash @ '' Enter to add'')] []]"

definition chipInput :: "string \<Rightarrow> string \<Rightarrow> string \<Rightarrow> string \<Rightarrow> string \<Rightarrow> 's node" where
  "chipInput label placeholder helpText chipsID inputID =
     Div [Elem ''label'' [] [Text label], chips_box chipsID inputID placeholder,
       hidden_unless (helpText \<noteq> []) (Para [Text helpText])]"

definition alert_check :: "string \<Rightarrow> string \<Rightarrow> bool \<Rightarrow> 's node" where
  "alert_check ident label b =
     Div [Elem ''input'' ([(''type'', ''checkbox''), (''id'', ident)] @ (if b then [(''checked'', ''checked'')] else [])) [],
       Elem ''label'' [(''for'', ident)] [Text label]]"

definition alertSection :: "bool \<Rightarrow> bool \<Rightarrow> 's node" where
  "alertSection alertConnect alertDisconnect =
     Div [Div [Span [Text ''Email Alerts''],
         Tooltip (Span [Icon ''info'' 13]) [''Requires SMTP to be configured in Settings'']],
       Div [Elem ''label'' [] [Text ''Recipients''],
         chips_box ''alert-emails-chips'' ''alert-emails-input'' ''admin@example.com''],
       Div [alert_check ''alert-connect'' ''Connect'' alertConnect,
         alert_check ''alert-disconnect'' ''Disconnect'' alertDisconnect]]"

text \<open>What the two forms share. A click on one of the two cards changes the form, not the page, so its button
  keeps the state of the page.\<close>

definition type_cards :: "string \<Rightarrow> 's node" where
  "type_cards t =
     Div [typeSelectorCard ''laptop'' ''Client'' ''Remote device connecting to your network'' (t = ''client'')
         (plain_button ''Client'' (\<lambda>s. s) None),
       typeSelectorCard ''building-2'' ''Site'' ''Gateway connecting two networks together'' (t = ''site'')
         (plain_button ''Site'' (\<lambda>s. s) None)]"

definition peer_inputs :: "nat \<Rightarrow> string \<Rightarrow> cidr_field \<Rightarrow> peer_form \<Rightarrow> 's node" where
  "peer_inputs k ids cf f =
     (let lbl = labelsForType (pf_Type f) in
      Div [FormField ''Name'' ''text'' (lb_namePlaceholder lbl) (pf_Name f),
        CIDRField_view ''Tunnel Address'' ''10.100.0.2/32'' [] ''/32'' k (CIDRField ''/32'' (pf_Address f)) cf,
        chipInput (lb_serverIPsLabel lbl) (lb_serverIPsPlaceholder lbl) (lb_serverIPsHelp lbl)
          (ids @ ''allowed-ips-chips'') (ids @ ''allowed-ips-input''),
        chipInput (lb_clientIPsLabel lbl) (lb_clientIPsPlaceholder lbl) (lb_clientIPsHelp lbl)
          (ids @ ''client-allowed-ips-chips'') (ids @ ''client-allowed-ips-input''),
        FormField ''DNS'' ''text'' ''Override interface DNS (optional)'' (pf_DNS f),
        FormFieldWithHelp ''Keepalive (sec)'' ''number'' ''25'' (lb_keepaliveHelp lbl) (pf_Keepalive f)])"

definition peer_done_button :: "detail_state button" where
  "peer_done_button = plain_button ''Cancel'' (\<lambda>s. s\<lparr>dt_EditPeer := []\<rparr>) None"

definition PeerEditForm_view :: "nat \<Rightarrow> cidr_field \<Rightarrow> ErrorInfo \<Rightarrow> peer_form \<Rightarrow> detail_state node" where
  "PeerEditForm_view k cf err f =
     Card [Span [Text (lb_headerEdit (labelsForType (pf_Type f)))], Div [ErrorAlert err], type_cards (pf_Type f),
       peer_inputs k ''edit-'' cf f, alertSection (pf_AlertConnect f) (pf_AlertDisconnect f),
       Div [Submit ''Save'' ''primary'', Btn ''ghost'' peer_done_button]]"

definition PeerForm_view :: "nat \<Rightarrow> cidr_field \<Rightarrow> ErrorInfo \<Rightarrow> peer_form \<Rightarrow> detail_state node" where
  "PeerForm_view k cf err f =
     (let lbl = labelsForType (pf_Type f) in
      Card [Span [Text (lb_headerAdd lbl)], Div [ErrorAlert err], type_cards (pf_Type f), peer_inputs k [] cf f,
        alertSection (pf_AlertConnect f) (pf_AlertDisconnect f),
        Div [Div [Elem ''input'' [(''type'', ''checkbox''), (''id'', ''psk-check'')] [],
            Elem ''label'' [(''for'', ''psk-check'')] [Text ''Generate preshared key'']],
          Div [], Btn ''ghost'' peer_done_button, Submit (lb_submitAdd lbl) ''primary'']])"

section \<open>The list of peers\<close>

text \<open>The private key form.\<close>

definition cancel_key_button :: "detail_state button" where
  "cancel_key_button = plain_button ''Cancel'' (\<lambda>s. s\<lparr>dt_SetKey := []\<rparr>) None"

definition peerSetKeyForm :: "string \<Rightarrow> ErrorInfo \<Rightarrow> bool \<Rightarrow> string \<Rightarrow> detail_state node" where
  "peerSetKeyForm peerName err success key =
     Div [Div [Text (''Set private key for '' @ peerName)],
       Div [Text (''Paste the peer'' @ [CHR 0x27] @ ''s WireGuard private key to enable config and QR code generation.'')],
       ErrorAlert err,
       (if success then Div [Text ''Private key set successfully''] else Hidden (Div [Text []])),
       Div [Div [FormField ''Private Key'' ''password'' ''base64-encoded WireGuard private key'' key],
         Div [Submit ''Save Key'' ''primary'', Btn ''ghost'' cancel_key_button]]]"

text \<open>The state of the forms of the page. At most one of each is open.\<close>

record detail_forms =
  fm_Number :: nat
  fm_Err :: ErrorInfo
  fm_Field :: cidr_field
  fm_Peer :: peer_form
  fm_KeyErr :: ErrorInfo
  fm_KeySet :: bool
  fm_Key :: string

definition peer_card :: "time \<Rightarrow> string \<Rightarrow> detail_state \<Rightarrow> detail_forms \<Rightarrow> PeerStatus \<Rightarrow> detail_state node" where
  "peer_card now i s fm ps =
     (let p = st_Peer ps; from_endpoint = st_Connected ps \<and> st_Endpoint ps \<noteq> [] in
      Div ([Div [Div [StatusDot (p_Enabled p) (st_Connected ps),
               Div [Div [Span [Text (p_Name p)], PeerTypeBadge (p_Type p)], copyableKey (p_PublicKey p)]],
             peerActions_view i ps],
           Div [Span [Text (p_Address p)],
             hidden_unless from_endpoint
               (Span [Span [Text ''from ''], Text (if from_endpoint then st_Endpoint ps else [])]),
             Span [Text (traffic [] ''  '' (st_TransferRx ps) (st_TransferTx ps))],
             UptimeSpan now (if st_Connected ps then st_ConnectedSince ps else None)],
           Div [ip_badge '' Allowed IPs'' ''1 Allowed IP'' (p_AllowedIPs p),
             ip_badge '' Routed IPs'' ''1 Routed IP'' (p_ClientAllowedIPs p),
             (if parseCSV (p_DNS p) \<noteq> [] then Tooltip (Badge ''DNS'' []) (parseCSV (p_DNS p)) else Span [])]]
         @ (if dt_EditPeer s = p_ID p
            then [Div [PeerEditForm_view (fm_Number fm) (fm_Field fm) (fm_Err fm) (fm_Peer fm)]] else [])
         @ (if dt_SetKey s = p_ID p
            then [Div [peerSetKeyForm (p_Name p) (fm_KeyErr fm) (fm_KeySet fm) (fm_Key fm)]] else [])))"

definition peerCardList :: "time \<Rightarrow> string \<Rightarrow> detail_state \<Rightarrow> detail_forms \<Rightarrow> PeerStatus list \<Rightarrow> detail_state node" where
  "peerCardList now i s fm peers = Div (map (peer_card now i s fm) peers)"

section \<open>The settings of an interface\<close>

definition hook_area :: "string \<Rightarrow> string \<Rightarrow> string \<Rightarrow> string \<Rightarrow> 's node" where
  "hook_area label placeholder ident help =
     Div [Elem ''label'' [] [Text label], text_area placeholder ''3'' [(''id'', ident)], Div [Text help]]"

definition cancel_edit_button :: "detail_state button" where
  "cancel_edit_button = plain_button ''Cancel'' (\<lambda>s. s\<lparr>dt_EditInterface := False\<rparr>) None"

text \<open>\<open>interfaceEditForm\<close>: the texts of the two areas are set after the page is mounted.\<close>

definition interfaceEditForm :: "detail_forms \<Rightarrow> iface \<Rightarrow> string \<Rightarrow> detail_state node" where
  "interfaceEditForm fm i publicKey =
     Div [ErrorAlert (fm_Err fm),
       Div [CIDRField_view ''Address (CIDR)'' ''10.100.0.1/24'' [] ''/24'' (fm_Number fm)
           (CIDRField ''/24'' (if_Address i)) (fm_Field fm),
         FormField ''Listen Port'' ''number'' ''51820'' (itoa (if_ListenPort i)),
         FormField ''Public Endpoint'' ''text'' ''vpn.example.com'' (if_Endpoint i),
         FormField ''DNS'' ''text'' ''1.1.1.1'' (if_DNS i), FormField ''MTU'' ''number'' ''1420'' (itoa (if_MTU i)),
         readOnlyCopyField ''Public Key'' publicKey],
       Div [hook_area ''PostUp Commands'' ''iptables -A FORWARD -i %i -j ACCEPT'' ''postup-input''
           ''One command per line. Runs when interface starts.'',
         hook_area ''PostDown Commands'' ''iptables -D FORWARD -i %i -j ACCEPT'' ''postdown-input''
           ''One command per line. Runs when interface stops.''],
       Div [Submit ''Save'' ''primary'', Btn ''ghost'' cancel_edit_button]]"

definition edit_interface_button :: "detail_state button" where
  "edit_interface_button = plain_button ''Edit'' (\<lambda>s. s\<lparr>dt_EditInterface := True, dt_EditPeer := []\<rparr>) None"

text \<open>The three buttons that start and stop are all in the page; two or one of them are hidden.\<close>

definition run_buttons :: "string \<Rightarrow> bool \<Rightarrow> detail_state node list" where
  "run_buttons i running =
     (case (status_buttons i False, status_buttons i True) of
        (start # _, restart # stop # _) \<Rightarrow>
          [hidden_unless (\<not> running) (Span [run_btn start]), hidden_unless running (Span [run_btn restart]),
           hidden_unless running (Span [run_btn stop])]
      | _ \<Rightarrow> [])"

definition interfaceDetailContent ::
  "time \<Rightarrow> string \<Rightarrow> detail_state \<Rightarrow> detail_forms \<Rightarrow> InterfaceStatus \<Rightarrow> detail_state node" where
  "interfaceDetailContent now i s fm st =
     (let iface = is_Interface st; state = (if is_Running st then ''running'' else ''stopped'') in
      Div [Div [Elem ''div'' [variant state] [],
          Div [Div [Elem ''span'' [variant state] [],
              Elem ''span'' [variant state] [Text (if is_Running st then ''Running'' else ''Stopped'')]],
            Div (run_buttons i (is_Running st) @ [run_btn (List.last (status_buttons i (is_Running st)))])]],
        Div [Div [Span [Text ''Interface Settings''],
            if dt_EditInterface s then Span [] else Btn ''ghost'' edit_interface_button],
          (if dt_EditInterface s then interfaceEditForm fm iface (is_PublicKey st)
           else Div [Div [infoItem ''Address'' (if_Address iface), infoItem ''Port'' (itoa (if_ListenPort iface)),
                infoItem ''Endpoint'' (if if_Endpoint iface \<noteq> [] then if_Endpoint iface else ''(auto-detect)''),
                copyableInfoItem ''Public Key'' (is_PublicKey st),
                infoItem ''Available IPs'' (formatAvailableIPs (if_Address iface) (int (length (is_Peers st))))],
              (if if_PostUp iface = [] \<and> if_PostDown iface = [] then Span []
               else Div ((if if_PostUp iface \<noteq> [] then [hookInfoItem ''PostUp'' (if_PostUp iface)] else [])
                 @ (if if_PostDown iface \<noteq> [] then [hookInfoItem ''PostDown'' (if_PostDown iface)] else [])))])],
        (if dt_EditPeer s = ''__add__''
         then Div [PeerForm_view (fm_Number fm) (fm_Field fm) (fm_Err fm) (fm_Peer fm)] else Span []),
        Div [Div [Elem ''h3'' [] [Text ''Peers''], Span [Text (itoa (int (length (is_Peers st))) @ '' total'')]],
          (if is_Peers st = [] then EmptyState ''No peers configured'' else peerCardList now i s fm (is_Peers st))]])"

definition InterfaceDetailView_page ::
  "time \<Rightarrow> string \<Rightarrow> detail_state \<Rightarrow> detail_forms \<Rightarrow> bool \<Rightarrow> InterfaceStatus option \<Rightarrow> detail_state node" where
  "InterfaceDetailView_page now i s fm loading answered =
     (case detail_buttons i of
        [interfaces, addPeer, delete] \<Rightarrow>
          Div ([Div [Div [Act interfaces [] [Icon ''chevron-left'' 16, Text (bt_Title interfaces)], Span [Text ''/''], Span [Text i]],
              Div [Btn ''primary'' addPeer, Btn ''danger'' delete]],
            LoadingView loading]
            @ (if loading then [] else case answered of
                 None \<Rightarrow> [Div [EmptyState ''Interface not found'']]
               | Some st \<Rightarrow> [interfaceDetailContent now i s fm st]))
      | _ \<Rightarrow> Div [])"

end
