(* ===== verification/WebLists.thy ===== *)
theory WebLists
  imports WebPages
begin

text \<open>
  The dashboard, the list of interfaces with its two forms, and the log page as trees of elements
  (ui/web/dashboard.go, interfaces.go, logs.go). An element for wide screens and its twin for narrow ones
  have the variants \<^verbatim>\<open>desktop\<close> and \<^verbatim>\<open>mobile\<close>.
\<close>

section \<open>The dashboard\<close>

definition status_word :: "bool \<Rightarrow> string" where
  "status_word running = (if running then ''Running'' else ''Stopped'')"

definition status_mark :: "bool \<Rightarrow> string \<times> string" where
  "status_mark running = variant (if running then ''running'' else ''stopped'')"

definition peer_stats :: "interfaceSummary \<Rightarrow> 's node" where
  "peer_stats su = Span [Span [Text (itoa (su_ConnectedPeers su))], Text (''/'' @ itoa (su_TotalPeers su) @ '' peers'')]"

definition summary_traffic :: "interfaceSummary \<Rightarrow> 's node" where
  "summary_traffic su = Span [Text (traffic [] '' '' (su_TotalRx su) (su_TotalTx su))]"

definition summary_address :: "interfaceSummary \<Rightarrow> 's node" where
  "summary_address su = Div [Text (su_Address su @ middle_dot @ formatListenAddr (su_Endpoint su) (su_ListenPort su))]"

definition summary_title :: "interfaceSummary \<Rightarrow> 's node" where
  "summary_title su = Div [Span [Text (su_ID su)], Elem ''span'' [status_mark (su_Running su)] [Text (status_word (su_Running su))]]"

definition interfaceCard :: "interfaceSummary \<Rightarrow> unit node" where
  "interfaceCard su =
     (let r = su_Running su; buttons = map run_btn (card_buttons (su_ID su) r); dot = Elem ''div'' [status_mark r] [];
          stats = Div (peer_stats su # (if su_TotalRx su > 0 \<or> su_TotalTx su > 0 then [summary_traffic su] else []))
      in Div [Div [
        Elem ''div'' [variant ''desktop'']
          [Div [dot, Div [summary_title su, summary_address su, stats]], Div buttons],
        Elem ''div'' [variant ''mobile'']
          [Div [dot, Div [summary_title su, summary_address su]], stats,
           Elem ''div'' [variant (if r then ''three columns'' else ''two columns'')] buttons]]])"

definition interfaceCards :: "interfaceSummary list \<Rightarrow> unit node list" where
  "interfaceCards sus = map interfaceCard sus"

text \<open>The whole row is clickable.\<close>

definition connection_button :: "activeConnection \<Rightarrow> unit button" where
  "connection_button c = plain_button [] (\<lambda>s. s) (Some (''/interfaces/'' @ cn_InterfaceID c))"

definition activeConnectionRow :: "time \<Rightarrow> activeConnection \<Rightarrow> unit node" where
  "activeConnectionRow now c =
     (let moved = Span [Text (traffic [] '' '' (cn_TransferRx c) (cn_TransferTx c))];
          uptime = UptimeSpan now (cn_ConnectedSince c)
      in Act (connection_button c) [] [Div [
        Elem ''div'' [variant ''desktop'']
          [Div [Div [], Div [Div [Span [Text (cn_PeerName c)], Badge (cn_InterfaceID c) [], PeerTypeBadge (cn_PeerType c)],
             Div [Span [Text (cn_Address c)],
               hidden_unless (cn_Endpoint c \<noteq> []) (Span [Span [Text ''from ''], Text (cn_Endpoint c)]),
               moved, uptime]]],
           Span [Text arrow_right]],
        Elem ''div'' [variant ''mobile'']
          [Div [Div [], Div [Div [Span [Text (cn_PeerName c)], Badge (cn_InterfaceID c) []], Div [Text (cn_Address c)]], uptime],
           Div [hidden_unless (cn_Endpoint c \<noteq> []) (Span [Text (cn_Endpoint c)]), moved]]]])"

definition activeConnectionsSection :: "time \<Rightarrow> activeConnection list \<Rightarrow> unit node" where
  "activeConnectionsSection now cs =
     Div [Div [Elem ''h3'' [] [Text ''Active Connections''], Span [Text (itoa (int (length cs)) @ '' connected'')]],
       (if cs = [] then EmptyState ''No active connections'' else Div (map (activeConnectionRow now) cs))]"

definition health_name :: "health \<Rightarrow> string" where
  "health_name h = (case h of AllRunning \<Rightarrow> ''all'' | SomeRunning \<Rightarrow> ''some'' | NoneRunning \<Rightarrow> ''none'')"

definition new_interface_button :: "unit button" where
  "new_interface_button = plain_button ''New Interface'' (\<lambda>s. s) (Some ''/interfaces?action=create'')"

text \<open>Without data the page shows the spinner and asks for the data.\<close>

definition DashboardView_page :: "time \<Rightarrow> bool \<Rightarrow> dashboardResponse option \<Rightarrow> unit node" where
  "DashboardView_page now loading cached = (case cached of
       None \<Rightarrow> Div [LoadingView loading]
     | Some d \<Rightarrow>
       (let n = int (length (da_Interfaces d)); h = dashboard_health (map su_Running (da_Interfaces d));
            mark = variant (health_name (snd h)); rxtx = traffic '' '' middle_dot (da_TotalRx d) (da_TotalTx d)
        in Div [
          Div [Div [Elem ''div'' [mark] [],
              Elem ''h2'' [] [Elem ''span'' [mark] [Text (itoa (int (fst h)))],
                Span [Text ('' of '' @ itoa n @ '' '' @ pluralize n ''interface'' ''interfaces'' @ '' running'')]]],
            Div [Span [Text (itoa (da_TotalPeers d) @ '' peers'' @ middle_dot @ itoa (da_ActivePeers d) @ '' active'')],
              Elem ''span'' [variant ''desktop''] [Text (middle_dot @ rxtx)], Elem ''div'' [variant ''mobile''] [Text rxtx]]],
          activeConnectionsSection now (da_ActiveConnections d),
          Div [Div [Elem ''h3'' [] [Text ''Interfaces''], Btn ''primary'' new_interface_button],
            (if da_Interfaces d = [] then EmptyState ''No interfaces configured''
             else Div (interfaceCards (da_Interfaces d)))]]))"

section \<open>The list of interfaces\<close>

text \<open>\<open>interfacesFormMode\<close>, and the query part of the address bar, which \<open>replaceState\<close> clears.\<close>

record ifaces_state =
  im_Mode :: string
  im_Search :: string

definition InterfacesView_mount :: "ifaces_state \<Rightarrow> ifaces_state" where
  "InterfacesView_mount s =
     (if contains (im_Search s) ''action=create'' then s\<lparr>im_Mode := ''create''\<rparr>
      else if contains (im_Search s) ''action=import'' then s\<lparr>im_Mode := ''import''\<rparr> else s)"

definition toggle_mode :: "string \<Rightarrow> ifaces_state \<Rightarrow> ifaces_state" where
  "toggle_mode m s = \<lparr>im_Mode = (if im_Mode s = m then ''none'' else m), im_Search = []\<rparr>"

definition close_form :: "ifaces_state \<Rightarrow> ifaces_state" where
  "close_form s = \<lparr>im_Mode = ''none'', im_Search = []\<rparr>"

definition import_button :: "ifaces_state button" where
  "import_button = plain_button ''Import Config'' (toggle_mode ''import'') None"

definition create_button :: "ifaces_state button" where
  "create_button = plain_button ''New Interface'' (toggle_mode ''create'') None"

definition cancel_button :: "ifaces_state button" where
  "cancel_button = plain_button ''Cancel'' close_form None"

definition open_iface_button :: "string \<Rightarrow> ifaces_state button" where
  "open_iface_button i = plain_button [] (\<lambda>s. s) (Some (''/interfaces/'' @ i))"

definition summaryToInterfaceData :: "interfaceSummary list \<Rightarrow> interfaceData list" where
  "summaryToInterfaceData sus =
     map (\<lambda>su. \<lparr>id_ID = su_ID su, id_ListenPort = su_ListenPort su, id_Address = su_Address su\<rparr>) sus"

definition interfaceListCard :: "interfaceSummary \<Rightarrow> ifaces_state node" where
  "interfaceListCard su =
     (let dot = Elem ''div'' [status_mark (su_Running su)] [];
          stats = Div [peer_stats su, if su_TotalRx su > 0 \<or> su_TotalTx su > 0 then summary_traffic su else Span []]
      in Act (open_iface_button (su_ID su)) [] [Div [
        Elem ''div'' [variant ''desktop'']
          [Div [dot, Div [summary_title su, summary_address su, stats]], Span [Text arrow_right]],
        Elem ''div'' [variant ''mobile'']
          [Div [dot, Div [summary_title su, summary_address su]], stats]]])"

record create_form_state =
  cr_ID :: string
  cr_Port :: string
  cr_DNS :: string
  cr_Endpoint :: string
  cr_Field :: cidr_field

text \<open>The address field as it is built: from the suggested address.\<close>

definition createInterfaceForm :: "nat \<Rightarrow> ErrorInfo \<Rightarrow> interfaceData list \<Rightarrow> create_form_state \<Rightarrow> ifaces_state node" where
  "createInterfaceForm k err existing f =
     (case nextInterfaceDefaults existing of (_, _, addr) \<Rightarrow>
      Card [CardHeader ''New Interface'' [], ErrorAlert err,
        Div [FormField ''Interface ID'' ''text'' ''wg0'' (cr_ID f), FormField ''Listen Port'' ''number'' ''51820'' (cr_Port f),
          CIDRField_view ''Address (CIDR)'' ''10.100.0.1/24'' ''The tunnel network. Each peer gets an IP from this range.''
            ''/24'' k (CIDRField ''/24'' addr) (cr_Field f),
          FormFieldWithHelp ''DNS'' ''text'' ''1.1.1.1'' ''DNS resolver pushed to clients (optional)'' (cr_DNS f),
          FormFieldWithHelp ''Public Endpoint'' ''text'' ''vpn.example.com'' ''Public hostname or IP that peers connect to'' (cr_Endpoint f)],
        Div [Submit ''Create'' ''primary'', Btn ''ghost'' cancel_button]])"

definition import_placeholder :: string where
  "import_placeholder = join [CHR 0x0A] [''[Interface]'', ''PrivateKey = ...'', ''Address = 10.200.0.1/30'',
     ''ListenPort = 51820'', [], ''[Peer]'', ''# My Peer'', ''PublicKey = ...'', ''AllowedIPs = 10.200.0.2/32'']"

definition importInterfaceForm :: "ErrorInfo \<Rightarrow> string \<Rightarrow> ifaces_state node" where
  "importInterfaceForm err ident =
     Card [CardHeader ''Import WireGuard Config'' [], ErrorAlert err,
       Div [FormField ''Interface ID'' ''text'' ''wg0'' ident, Div []],
       Div [Elem ''label'' [] [Text ''Configuration''], text_area import_placeholder ''12'' []],
       Div [Submit ''Import'' ''primary'']]"

definition InterfacesView_page ::
  "nat \<Rightarrow> ErrorInfo \<Rightarrow> create_form_state \<Rightarrow> ifaces_state \<Rightarrow> bool \<Rightarrow> interfaceSummary list \<Rightarrow> ifaces_state node" where
  "InterfacesView_page k err f s loading sus =
     (let form = (if im_Mode s = ''create'' then Div [createInterfaceForm k err (summaryToInterfaceData sus) f]
            else if im_Mode s = ''import'' then Div [importInterfaceForm err (cr_ID f)] else Span []);
          content = (if sus = [] then Div [form, EmptyState ''No interfaces configured'']
            else Div [form, Div (map interfaceListCard sus)])
      in Div ([PageHeader ''Interfaces'' ''Manage WireGuard tunnel interfaces'' [Btn ''ghost'' import_button, Btn ''primary'' create_button],
           LoadingView loading] @ (if loading then [] else [content])))"

text \<open>The link of the dashboard opens the form, and cancelling closes it for good.\<close>

lemma create_link_opens: "im_Mode (InterfacesView_mount \<lparr>im_Mode = m, im_Search = ''?action=create''\<rparr>) = ''create''"
proof -
  have "contains ''?action=create'' ''action=create''" by code_simp
  then show ?thesis by (simp add: InterfacesView_mount_def)
qed

lemma cancel_closes: "im_Mode (InterfacesView_mount (bt_Update cancel_button s)) = ''none''"
proof -
  have "\<not> contains [] ''action=create''" "\<not> contains [] ''action=import''" by code_simp+
  then show ?thesis by (simp add: InterfacesView_mount_def cancel_button_def plain_button_def close_form_def)
qed

section \<open>The log page\<close>

text \<open>\<open>local_time\<close> writes a time in the time zone of the browser. A card panics for the identifier of a peer
  with less than 8 bytes.\<close>

definition log_card :: "(time \<Rightarrow> string) \<Rightarrow> conn_log \<Rightarrow> 's node option" where
  "log_card local_time l = (case peer_label l (cl_PeerName l) of
       None \<Rightarrow> None
     | Some label \<Rightarrow>
       (let rx = Span [Text (arrow_down @ FormatBytes (cl_TransferRx l))]; tx = Span [Text (arrow_up @ FormatBytes (cl_TransferTx l))]
        in Some (Div [Div [
          Div [Badge (cl_Event l) (if cl_Event l = ''connected'' then ''emerald'' else [])],
          Div [Div [Span [Text label], if cl_Endpoint l \<noteq> [] then Span [Text (cl_Endpoint l)] else Span []],
            Div [Span [Text (local_time (cl_RecordedAt l))],
              (if cl_Duration l > 0 then Span [Text (''('' @ FormatSeconds (cl_Duration l) @ '')'')] else Span [])],
            Elem ''div'' [variant ''mobile''] [rx, tx]],
          Elem ''div'' [variant ''desktop''] [rx, tx]]])))"

definition iface_option :: "string \<Rightarrow> string \<Rightarrow> 's node" where
  "iface_option active i =
     Elem ''option'' ((''value'', i) # (if i = active then [(''selected'', ''selected'')] else [])) [Text i]"

text \<open>The page for one state: a spinner while it loads, else the log; \<open>None\<close> is a panic.\<close>

definition LogsView_page :: "(time \<Rightarrow> string) \<Rightarrow> bool \<Rightarrow> logs_state \<times> logs_action \<Rightarrow> 's node option" where
  "LogsView_page local_time loading m = (case m of
       (s, Render) \<Rightarrow>
         (let ifaces = (case lg_Ifaces s of Some l \<Rightarrow> l | None \<Rightarrow> []);
              selector = (if ifaces \<noteq> [] then Elem ''select'' [] (map (iface_option (lg_Iface s) \<circ> id_ID) ifaces) else Span []);
              page = (\<lambda>content. Div [Div [Div [Elem ''h2'' [] [Text ''Connection Logs''],
                Elem ''p'' [variant ''desktop''] [Text ''Real-time connection activity'']], selector], content])
          in if lg_Logs s = [] then Some (page (EmptyState ''No connection logs yet''))
             else map_option (\<lambda>cards. page (Div cards)) (those (map (log_card local_time) (lg_Logs s))))
     | _ \<Rightarrow> Some (Div [LoadingView loading]))"

text \<open>The selector: a choice replaces the address and drops the log that is shown.\<close>

definition choose_iface :: "string \<Rightarrow> logs_state \<Rightarrow> logs_state" where
  "choose_iface v s = s\<lparr>lg_Iface := v, lg_Logs := []\<rparr>"

end
