(* ===== verification/WebAdmin.thy ===== *)
theory WebAdmin
  imports WebLists
begin

text \<open>
  The pages of users and settings as trees of elements (ui/web/users.go, settings.go). The states of the
  forms are the requests they send; a message of success, a text in progress and the like are arguments.
\<close>

section \<open>Users\<close>

text \<open>\<open>strings.ToUpper (u.Username[:1])\<close>: the first byte, which is not the first letter of a name that starts
  with more than one byte; such a byte alone is no UTF-8 and becomes U+FFFD. The empty name panics.\<close>

definition upper_char :: "char \<Rightarrow> char" where
  "upper_char c = (if (of_char c :: nat) \<in> {97..122} then char_of ((of_char c :: nat) - 32) else c)"

definition avatar :: "string \<Rightarrow> string option" where
  "avatar name = (case name of
       [] \<Rightarrow> None
     | c # _ \<Rightarrow> Some (if (of_char c :: nat) < 128 then [upper_char c] else [CHR 0xEF, CHR 0xBF, CHR 0xBD]))"

definition select_field :: "string \<Rightarrow> (string \<times> string) list \<Rightarrow> 's node" where
  "select_field label opts =
     Div [Elem ''label'' [] [Text label],
       Elem ''select'' [] (map (\<lambda>(v, t). Elem ''option'' [(''value'', v)] [Text t]) opts)]"

definition role_options :: "(string \<times> string) list" where
  "role_options = [(''viewer'', ''Viewer''), (''admin'', ''Admin'')]"

definition cancel_user_button :: "users_state button" where
  "cancel_user_button = plain_button ''Cancel'' (\<lambda>s. s\<lparr>us_ShowForm := False\<rparr>) None"

definition close_password_button :: "users_state button" where
  "close_password_button = plain_button ''Close'' (\<lambda>s. s\<lparr>us_PasswordUser := []\<rparr>) None"

definition createUserForm :: "ErrorInfo \<Rightarrow> createUserRequest \<Rightarrow> users_state node" where
  "createUserForm err q =
     Card [CardHeader ''New User'' [], ErrorAlert err,
       Div [FormField ''Username'' ''text'' ''jdoe'' (cuq_Username q),
         FormField ''Display Name'' ''text'' ''John Doe'' (cuq_DisplayName q),
         FormField ''Password'' ''password'' ''min 16 characters'' (cuq_Password q), select_field ''Role'' role_options],
       Div [Submit ''Create User'' ''primary'', Btn ''ghost'' cancel_user_button]]"

definition changePasswordForm :: "string \<Rightarrow> ErrorInfo \<Rightarrow> bool \<Rightarrow> string \<Rightarrow> users_state node" where
  "changePasswordForm username err success password =
     Div [Div [Text (''Change password for '' @ username)], ErrorAlert err,
       (if success then Div [Text ''Password updated successfully''] else Hidden (Div [Text []])),
       Div [Div [FormField ''New Password'' ''password'' ''min 16 characters'' password],
         Div [Submit ''Update'' ''primary'', Btn ''ghost'' close_password_button]]]"

text \<open>\<open>me\<close> is the identifier of the user who is logged in.\<close>

definition user_actions :: "string option \<Rightarrow> user \<Rightarrow> users_state node" where
  "user_actions me u =
     (let bs = user_buttons me (u_ID u) (u_Username u) (u_OIDCProvider u);
          own = me = Some (u_ID u);
          password = (if u_OIDCProvider u = [] then IconBtn ''settings'' (hd bs)
            else if u_OIDCIssuer u \<noteq> [] then
              Elem ''a'' [(''title'', ''Open identity provider''), (''href'', u_OIDCIssuer u), (''target'', ''_blank''),
                (''rel'', ''noopener noreferrer'')] [Icon ''external-link'' 15]
            else Span [])
      in Div [password, if own then Span [] else IconBtnDanger ''trash-2'' (List.last bs)])"

definition user_card :: "string option \<Rightarrow> users_state \<Rightarrow> users_state node \<Rightarrow> user \<Rightarrow> users_state node option" where
  "user_card me s pwf u = (case avatar (u_Username u) of
       None \<Rightarrow> None
     | Some a \<Rightarrow> Some (Div (
         [Div [Div [Div [Text a],
             Div [Div [Span [Text (u_Username u)], Badge (u_Role u) (if u_Role u = ''admin'' then ''teal'' else []),
                 (if u_OIDCProvider u \<noteq> [] then Badge (''SSO: '' @ u_OIDCProvider u) ''amber'' else Span [])],
               (if u_DisplayName u \<noteq> [] then Div [Text (u_DisplayName u)] else Span [])]],
           user_actions me u]]
         @ (if us_PasswordUser s = u_ID u then [Div [pwf]] else []))))"

text \<open>\<open>q\<close>, \<open>pw\<close>: the two forms. \<open>None\<close> is a panic.\<close>

definition UsersView_page ::
  "string option \<Rightarrow> users_state \<Rightarrow> ErrorInfo \<Rightarrow> createUserRequest \<Rightarrow> ErrorInfo \<times> bool \<times> string \<Rightarrow> bool \<Rightarrow> user list
    \<Rightarrow> users_state node option" where
  "UsersView_page me s err q pw loading users =
     (let form = (\<lambda>u. case pw of (e, success, password) \<Rightarrow> changePasswordForm (u_Username u) e success password);
          page = (\<lambda>content. Div ([PageHeader ''Users'' ''Manage access to wgRift'' [Btn ''primary'' add_user_button],
            (if us_ShowForm s then Div [createUserForm err q] else Span []), LoadingView loading] @ content))
      in if loading then Some (page [])
         else if users = [] then Some (page [EmptyState ''No users''])
         else map_option (\<lambda>cards. page [Div cards]) (those (map (\<lambda>u. user_card me s (form u) u) users)))"

section \<open>General settings\<close>

definition externalURLSection :: "string \<Rightarrow> bool \<Rightarrow> bool \<Rightarrow> 's node" where
  "externalURLSection url saving saved =
     Card [CardHeader ''General'' [],
       Div [Div [FormField ''External URL'' ''text'' ''https://vpn.example.com'' url,
           Para [Text ''Public URL for this server. Required for OIDC callback URLs.'']],
         Div [Submit ''Save'' ''primary'',
           (if saving then Elem ''span'' [variant ''saving''] [Text ''Saving...'']
            else if saved then Elem ''span'' [variant ''saved''] [Text ''Saved'']
            else Hidden (Span [Text []]))]]]"

definition copyableField :: "string \<Rightarrow> string \<Rightarrow> bool \<Rightarrow> 's node" where
  "copyableField label val copied =
     Div [Div [Text label], Div [Div [Text val],
       Copy val [variant (if copied then ''copied'' else ''plain'')] [Text (if copied then ''Copied'' else ''Copy'')]]]"

section \<open>Mail\<close>

definition smtpInfoRow :: "string \<Rightarrow> string \<Rightarrow> 's node" where
  "smtpInfoRow label val = Div [Span [Text label], Span [Text val]]"

record test_form =
  tf_To :: string
  tf_Testing :: bool
  tf_Result :: string
  tf_Show :: bool

datatype test_event = OpenTest | TypeTestTo string | SendTest | CancelTest | Tested "client_error option"

definition test_sent :: string where "test_sent = ''Test email sent!''"

text \<open>The new state, and the recipient the test is sent to.\<close>

fun smtpTestButton :: "test_event \<Rightarrow> test_form \<Rightarrow> test_form \<times> string option" where
  "smtpTestButton OpenTest t = (t\<lparr>tf_Show := True\<rparr>, None)"
| "smtpTestButton (TypeTestTo v) t = (t\<lparr>tf_To := v\<rparr>, None)"
| "smtpTestButton SendTest t =
     (if tf_Testing t \<or> tf_To t = [] then (t, None) else (t\<lparr>tf_Testing := True, tf_Result := []\<rparr>, Some (tf_To t)))"
| "smtpTestButton CancelTest t = (t\<lparr>tf_Show := False, tf_Result := []\<rparr>, None)"
| "smtpTestButton (Tested r) t =
     (t\<lparr>tf_Testing := False, tf_Result := (case r of Some e \<Rightarrow> error_text e | None \<Rightarrow> test_sent)\<rparr>, None)"

definition smtpTestButton_view :: "test_form \<Rightarrow> 's node" where
  "smtpTestButton_view t =
     (let shown = tf_Show t \<and> tf_Result t \<noteq> []; fine = tf_Result t = test_sent in
      Div [Div [hidden_unless (\<not> tf_Show t) (Submit ''Send Test Email'' ''ghost''),
        hidden_unless (tf_Show t)
          (Div [Elem ''input'' [(''type'', ''email''), (''placeholder'', ''test@example.com'')] [],
            Submit (if tf_Testing t then ''Sending...'' else ''Send'') (if tf_Testing t then ''waiting'' else ''primary''),
            Submit ''Cancel'' ''plain'']),
        hidden_unless shown
          (Elem ''span'' [variant (if fine then ''green'' else ''red'')]
            [Span (if shown then [Icon (if fine then ''check'' else ''triangle-alert'') 14] else []),
             Span [Text (tf_Result t)]])]])"

definition cancel_smtp_button :: "settings_state button" where
  "cancel_smtp_button = plain_button ''Cancel'' (\<lambda>s. s\<lparr>ss_ShowSMTP := False\<rparr>) None"

definition smtp_configured :: "settingsResponse \<Rightarrow> bool" where
  "smtp_configured sg = (case sg_SMTP sg of Some d \<Rightarrow> sd_Host d \<noteq> [] | None \<Rightarrow> False)"

definition tls_options :: "(string \<times> string) list" where
  "tls_options = [(''starttls'', ''STARTTLS (port 587)''), (''tls'', ''TLS (port 465)''), (''none'', ''None (port 25)'')]"

definition smtpSettingsForm_view :: "bool \<Rightarrow> ErrorInfo \<Rightarrow> updateSMTPRequest \<Rightarrow> settings_state node" where
  "smtpSettingsForm_view isEdit err q =
     Div [Div [Text (if isEdit then ''Edit SMTP Settings'' else ''Configure SMTP'')], ErrorAlert err,
       Div [FormField ''Host'' ''text'' ''smtp.example.com'' (usq_Host q), FormField ''Port'' ''text'' ''587'' (usq_Port q),
         FormField ''From Address'' ''email'' ''wgrift@example.com'' (usq_From q),
         select_field ''TLS Mode'' tls_options,
         FormField ''Username'' ''text'' ''username (optional)'' (usq_Username q),
         FormField ''Password'' ''password'' (if isEdit then ''leave blank to keep current'' else ''password'') (usq_Password q)],
       Div [Submit ''Save'' ''primary'', Btn ''ghost'' cancel_smtp_button]]"

definition smtpSection ::
  "settings_state \<Rightarrow> test_form \<Rightarrow> ErrorInfo \<Rightarrow> updateSMTPRequest \<Rightarrow> settingsResponse \<Rightarrow> settings_state node" where
  "smtpSection s t err q sg =
     (let configured = smtp_configured sg in
      Card [CardHeader ''Email (SMTP)'' [case smtp_buttons configured of
          [edit, remove] \<Rightarrow> Div [Btn ''ghost'' edit, Btn ''danger'' remove]
        | bs \<Rightarrow> Btn ''primary'' (hd bs)],
        (case sg_SMTP sg of
           Some d \<Rightarrow>
             if sd_Host d = [] then (if \<not> ss_ShowSMTP s then Div [Text ''No SMTP server configured. Email features are disabled.''] else Span [])
             else if ss_ShowSMTP s then Span []
             else Div [smtpInfoRow ''Host'' (sd_Host d @ '':'' @ sd_Port d), smtpInfoRow ''From'' (sd_From d),
               smtpInfoRow ''Username'' (if sd_Username d = [] then ''(none)'' else sd_Username d),
               smtpInfoRow ''Password'' (if sd_HasPassword d then concat (replicate 8 bullet) else ''(none)''),
               smtpInfoRow ''TLS'' (sd_TLS d), Div [smtpTestButton_view t]]
         | None \<Rightarrow> if \<not> ss_ShowSMTP s then Div [Text ''No SMTP server configured. Email features are disabled.''] else Span []),
        (if ss_ShowSMTP s then Div [smtpSettingsForm_view configured err q] else Span [])])"

section \<open>Identity providers\<close>

definition cancel_provider_button :: "settings_state button" where
  "cancel_provider_button = plain_button ''Cancel'' (\<lambda>s. s\<lparr>ss_ShowOIDC := False, ss_EditProvider := []\<rparr>) None"

definition add_provider_button :: "settings_state button" where
  "add_provider_button = plain_button ''Add Provider''
     (\<lambda>s. s\<lparr>ss_ShowOIDC := \<not> ss_ShowOIDC s, ss_EditProvider := []\<rparr>) None"

definition oidcProviderForm_view :: "bool \<Rightarrow> ErrorInfo \<Rightarrow> oidcProviderRequest \<Rightarrow> settings_state node" where
  "oidcProviderForm_view isEdit err q =
     Div [Div [Text (if isEdit then ''Edit OIDC Provider'' else ''New OIDC Provider'')], ErrorAlert err,
       Div [FormField ''Name'' ''text'' ''Pocket ID'' (opq_Name q),
         FormField ''Issuer URL'' ''text'' ''https://id.example.com'' (opq_Issuer q),
         FormField ''Client ID'' ''text'' ''wgrift'' (opq_ClientID q),
         FormField ''Client Secret'' ''password'' (if isEdit then ''leave blank to keep current'' else ''client secret'')
           (opq_ClientSecret q),
         FormField ''Scopes'' ''text'' ''openid profile email groups'' (opq_Scopes q),
         select_field ''Default Role'' role_options,
         FormField ''Admin Claim'' ''text'' ''groups'' (opq_AdminClaim q),
         FormField ''Admin Value'' ''text'' ''admins'' (opq_AdminValue q)],
       Div [Elem ''label'' [] [Elem ''input'' ((''type'', ''checkbox'') # (if opq_Enabled q then [(''checked'', ''true'')] else [])) [],
         Text ''Enabled'']],
       Div [Submit (if isEdit then ''Update Provider'' else ''Create Provider'') ''primary'', Btn ''ghost'' cancel_provider_button]]"

definition provider_card :: "oidc_provider \<Rightarrow> settings_state node" where
  "provider_card p = (case provider_buttons p of
       [edit, delete] \<Rightarrow>
         Div [Div [Div [Div [Span [Text (op_Name p)],
               (if op_Enabled p then Badge ''Enabled'' ''emerald'' else Badge ''Disabled'' ''red''), Badge (op_DefaultRole p) []],
             Div [Text (op_Issuer p)], Div [Text (''Client: '' @ op_ClientID p)]],
           Div [IconBtn ''settings'' edit, IconBtnDanger ''trash-2'' delete]]]
     | _ \<Rightarrow> Div [])"

definition oidcProvidersSection ::
  "settings_state \<Rightarrow> bool \<Rightarrow> ErrorInfo \<Rightarrow> oidcProviderRequest \<Rightarrow> settingsResponse \<Rightarrow> settings_state node" where
  "oidcProvidersSection s copied err q sg =
     Div [Card [CardHeader ''OIDC Providers'' [Btn ''primary'' add_provider_button],
       copyableField ''Callback URL (register this in your OIDC provider)'' (oidcCallbackURL (Some sg)) copied, Div [],
       (if ss_ShowOIDC s then Div [oidcProviderForm_view (ss_EditProvider s \<noteq> []) err q] else Span []),
       (if sg_OIDCProviders sg = [] then EmptyState ''No OIDC providers configured''
        else Div (map provider_card (sg_OIDCProviders sg)))]]"

text \<open>The provider whose form is open, and the form as it is built.\<close>

definition edited_provider :: "settings_state \<Rightarrow> settingsResponse \<Rightarrow> oidc_provider option" where
  "edited_provider s sg =
     (if ss_EditProvider s \<noteq> [] then List.find (\<lambda>p. op_ID p = ss_EditProvider s) (sg_OIDCProviders sg) else None)"

record settings_forms =
  sf_URL :: "string \<times> bool \<times> bool"
  sf_Test :: test_form
  sf_SMTP :: "ErrorInfo \<times> updateSMTPRequest"
  sf_Copied :: bool
  sf_OIDC :: "ErrorInfo \<times> oidcProviderRequest"

definition SettingsView_page ::
  "settings_state \<Rightarrow> settings_forms \<Rightarrow> ErrorInfo \<Rightarrow> bool \<Rightarrow> settingsResponse option \<Rightarrow> settings_state node" where
  "SettingsView_page s fm err loading answered =
     Div ([PageHeader ''Settings'' ''Server configuration and SSO providers'' [], ErrorAlert err, LoadingView loading]
       @ (case answered of
            Some sg \<Rightarrow> if loading then [] else
              [Div [case sf_URL fm of (url, saving, saved) \<Rightarrow> externalURLSection url saving saved,
                smtpSection s (sf_Test fm) (fst (sf_SMTP fm)) (snd (sf_SMTP fm)) sg,
                oidcProvidersSection s (sf_Copied fm) (fst (sf_OIDC fm)) (snd (sf_OIDC fm)) sg]]
          | None \<Rightarrow> []))"

end
