(* ===== verification/WebShell.thy ===== *)
theory WebShell
  imports WebAdmin
begin

text \<open>
  What stands around the pages, and the pages of login, setup and configuration, as trees of elements
  (ui/web/nav.go, layout.go, email_modal.go, login.go, setup.go, peer_config.go).
\<close>

section \<open>Navigation\<close>

text \<open>\<open>string([]rune(name)[0:1])\<close>: the bytes of the first letter, U+FFFD if they are no UTF-8; the empty name panics.\<close>

definition rune_width :: "char \<Rightarrow> nat" where
  "rune_width c = (let b = (of_char c :: nat) in
     if b < 128 then 1 else if b < 194 then 0 else if b < 224 then 2 else if b < 240 then 3 else if b < 245 then 4 else 0)"

definition second_byte :: "nat \<Rightarrow> nat \<Rightarrow> bool" where
  "second_byte b c \<longleftrightarrow> (if b = 224 then 160 \<le> c else 128 \<le> c)
     \<and> (if b = 237 then c \<le> 159 else if b = 244 then c \<le> 143 else c \<le> 191) \<and> (b = 240 \<longrightarrow> 144 \<le> c)"

definition valid_rune :: "string \<Rightarrow> bool" where
  "valid_rune w = (case w of
       [] \<Rightarrow> False
     | [c] \<Rightarrow> (of_char c :: nat) < 128
     | c # d # r \<Rightarrow> length w = rune_width c \<and> second_byte (of_char c) (of_char d)
         \<and> list_all (\<lambda>e. (of_char e :: nat) \<in> {128..191}) r)"

definition first_rune :: "string \<Rightarrow> string option" where
  "first_rune name = (case name of
       [] \<Rightarrow> None
     | c # _ \<Rightarrow> let w = take (rune_width c) name in Some (if valid_rune w then w else [CHR 0xEF, CHR 0xBF, CHR 0xBD]))"

text \<open>The state of the shell is whether the drawer of a narrow screen is open.\<close>

definition brand :: "'s node" where "brand = Div [Span [Text ''wg''], Span [Text ''Rift'']]"

definition nav_button :: "(bool \<Rightarrow> bool) \<Rightarrow> string \<Rightarrow> string \<Rightarrow> bool button" where
  "nav_button f href label = plain_button label f (Some href)"

definition navItem :: "(bool \<Rightarrow> bool) \<Rightarrow> string \<Rightarrow> string \<Rightarrow> string \<Rightarrow> string \<Rightarrow> bool node" where
  "navItem f here href label iconName =
     Act (nav_button f href label) [variant (if nav_active here href then ''active'' else ''plain'')]
       [Icon iconName 17, Span [Text label]]"

definition mobileNavItem :: "string \<Rightarrow> string \<Rightarrow> string \<Rightarrow> string \<Rightarrow> bool node" where
  "mobileNavItem href label iconName here = navItem (\<lambda>_. False) here href label iconName"

definition nav_entries :: "(string \<times> string \<times> string) list \<times> (string \<times> string \<times> string) list" where
  "nav_entries =
     ([(''/'', ''Status'', ''activity''), (''/interfaces'', ''Interfaces'', ''chevrons-left-right-ellipsis''),
       (''/logs'', ''Logs'', ''scroll-text'')],
      [(''/users'', ''Users'', ''users''), (''/settings'', ''Settings'', ''settings'')])"

text \<open>After the answer to the logout, whatever it is, the browser loads the page again.\<close>

definition logout_button :: "bool button" where
  "logout_button = \<lparr>bt_Title = ''Sign out'', bt_Confirm = None, bt_Request = Some (''POST'', ''/api/v1/auth/logout''),
     bt_Update = \<lambda>s. s, bt_Route = None\<rparr>"

definition user_section :: "user \<Rightarrow> bool node option" where
  "user_section u = (case first_rune (u_Username u) of
       None \<Rightarrow> None
     | Some initial \<Rightarrow> Some (Div [Div [Div [Div [Text initial], Div [Div [Text (u_Username u)], Div [Text (u_Role u)]]],
         Act logout_button [(''title'', ''Sign out'')] [Icon ''log-out'' 15]]]))"

definition nav_lists :: "(string \<Rightarrow> string \<Rightarrow> string \<Rightarrow> bool node) \<Rightarrow> bool node" where
  "nav_lists item =
     Div [Div (map (\<lambda>(h, l, i). item h l i) (fst nav_entries)), Div [],
       Div (Div [Text ''Admin''] # map (\<lambda>(h, l, i). item h l i) (snd nav_entries))]"

definition close_drawer :: "bool button" where "close_drawer = plain_button [] (\<lambda>_. False) None"

definition with_user :: "user option \<Rightarrow> (bool node list \<Rightarrow> bool node) \<Rightarrow> bool node option" where
  "with_user me f = (case me of
       None \<Rightarrow> Some (f [])
     | Some u \<Rightarrow> map_option (\<lambda>n. f [n]) (user_section u))"

definition mobileNavContent :: "user option \<Rightarrow> string \<Rightarrow> bool node option" where
  "mobileNavContent me here = with_user me (\<lambda>section.
     Div ([Div [Div [brand, Act close_drawer [] [Icon ''x'' 18]]], Div [],
       nav_lists (\<lambda>h l i. mobileNavItem h l i here)] @ section))"

definition NavRail :: "user option \<Rightarrow> string \<Rightarrow> bool node option" where
  "NavRail me here = with_user me (\<lambda>section.
     Elem ''nav'' [] ([Div [brand, Div [Text ''VPN Management'']], nav_lists (\<lambda>h l i. navItem (\<lambda>s. s) here h l i)] @ section))"

definition MobileTopBar :: "bool node" where
  "MobileTopBar = Elem ''div'' [variant ''mobile'']
     [Act (plain_button [] Not None) [] [Icon ''menu'' 20],
      Div [Act (plain_button ''wgRift'' (\<lambda>s. s) (Some ''/'')) [] [Span [Text ''wg''], Span [Text ''Rift'']]], Div []]"

definition MobileNavOverlay :: "bool \<Rightarrow> user option \<Rightarrow> string \<Rightarrow> bool node option" where
  "MobileNavOverlay shown me here = map_option (\<lambda>content.
     Div [hidden_unless shown (Act close_drawer [variant ''mobile''] []),
       hidden_unless shown (Elem ''nav'' [] [content])]) (mobileNavContent me here)"

section \<open>The shell\<close>

text \<open>The dialogs and notes belong to all pages; they are given as trees. \<open>year\<close> comes from the browser.\<close>

definition footer :: "int \<Rightarrow> 's node" where
  "footer year = Elem ''footer'' [] [Text ([CHR 0xC2, CHR 0xA9] @ '' '' @ itoa year @ '' ''),
     Elem ''a'' [(''href'', ''https://www.penree.com''), (''target'', ''_blank''), (''rel'', ''noopener noreferrer'')] [Text ''Nicholas Penree''],
     Text (middle_dot @ ''MIT License'')]"

definition Layout :: "int \<Rightarrow> bool \<Rightarrow> user option \<Rightarrow> string \<Rightarrow> bool node \<Rightarrow> bool node list \<Rightarrow> bool node option" where
  "Layout year shown me here content dialogs = (case (NavRail me here, MobileNavOverlay shown me here) of
       (Some rail, Some overlay) \<Rightarrow>
         Some (Div ([Elem ''div'' [variant ''desktop''] [rail], MobileTopBar, overlay,
           Div [Div [Div [content], footer year]]] @ dialogs))
     | _ \<Rightarrow> None)"

text \<open>The dialog that mails a configuration; a peer without name is called by its identifier.\<close>

definition EmailModal_view :: "email_modal \<Rightarrow> 's node option" where
  "EmailModal_view m =
     (let view = (\<lambda>visible peerName.
        hidden_unless visible (Div [hidden_unless visible (Div [Div [],
          Div [Div [Div [Span [Icon ''mail'' 16]], Div [Para [Text ''Email Configuration''], Para [Text peerName]]]],
          Div [ErrorAlert (em_Err m),
            Div [Elem ''label'' [] [Text ''Recipient Email''],
              Elem ''input'' [(''type'', ''email''), (''placeholder'', ''user@example.com''), (''id'', ''email-modal-to'')] []],
            Div [Elem ''label'' [] [Text ''Note (optional)''],
              text_area (''Here'' @ [CHR 0x27] @ ''s your VPN configuration...'') ''3'' []]],
          Div [Submit ''Cancel'' ''ghost'', Submit (if em_Sending m then ''Sending...'' else ''Send'')
            (if em_Sending m then ''waiting'' else ''primary'')]])]))
      in case em_Peer m of
           None \<Rightarrow> Some (view False [])
         | Some (name, _, k) \<Rightarrow>
             if name \<noteq> [] then Some (view True name) else map_option (view True) (short_id k))"

section \<open>Login and setup\<close>

definition brand_panels :: "'s node \<times> 's node" where
  "brand_panels =
     (let motto = Para [Text ''WireGuard VPN Management'']; name = Div [Span [Text ''wg''], Span [Text ''Rift'']] in
      (Elem ''div'' [variant ''desktop''] [Div [], Div [name, motto], Div []],
       Elem ''div'' [variant ''mobile''] [name, motto]))"

text \<open>The buttons of the providers lead to the address that \<open>provider_button\<close> computes when they are clicked.\<close>

definition login_content :: "bool \<Rightarrow> oidcProviderInfo list \<Rightarrow> bool \<Rightarrow> login_form \<Rightarrow> 's node list" where
  "login_content demo providers hasLocal f =
     (if demo then [Div [Span [Text ''Demo Mode''], Span [Text ('' '' @ dash @ '' sign in with '')],
        Span [Text ''admin''], Span [Text '' / ''], Span [Text ''admin'']]] else [])
     @ (if providers \<noteq> [] then [Div (map (\<lambda>p. Submit (''Sign in with '' @ oi_Name p) ''sso'') providers)] else [])
     @ (if providers \<noteq> [] \<and> hasLocal then [Div [Div [], Span [Text ''or''], Div []]] else [])
     @ (if hasLocal then
          [Div [ErrorAlert (lf_Err f), FormField ''Username'' ''text'' ''admin'' (lf_Username f),
             FormField ''Password'' ''password'' [] (lf_Password f)],
           Submit ''Sign In'' ''primary''] else [])"

definition LoginView_page :: "bool \<Rightarrow> oidcProviderInfo list \<Rightarrow> bool \<Rightarrow> login_form \<Rightarrow> 's node" where
  "LoginView_page demo providers hasLocal f =
     (let subtitle = (if providers \<noteq> [] \<and> \<not> hasLocal then ''Use your SSO provider to continue''
            else if providers \<noteq> [] \<and> hasLocal then ''Choose a sign-in method''
            else ''Enter your credentials to continue'')
      in Div [fst brand_panels, Div [Div ([snd brand_panels, Div [Elem ''h2'' [] [Text ''Sign in''], Para [Text subtitle]]]
           @ login_content demo providers hasLocal f)]])"

definition SetupView_page :: "ErrorInfo \<Rightarrow> bool \<Rightarrow> string \<Rightarrow> string \<Rightarrow> string \<Rightarrow> 's node" where
  "SetupView_page err loading username password confirm =
     Div [fst brand_panels, Div [Div [snd brand_panels,
       Div [Elem ''h2'' [] [Text ''Welcome''], Para [Text ''Create your admin account to get started'']],
       Div [ErrorAlert err, FormField ''Username'' ''text'' ''admin'' username,
         FormField ''Password'' ''password'' ''min 16 characters'' password,
         FormField ''Confirm Password'' ''password'' [] confirm],
       Submit (if loading then ''Creating account...'' else ''Create Admin Account'') ''primary'']]]"

section \<open>The page of a configuration\<close>

definition setupStep :: "string \<Rightarrow> string \<Rightarrow> string \<Rightarrow> 's node" where
  "setupStep number title description = Div [Div [Text number], Div [Div [Text title], Div [Text description]]]"

definition appLink :: "string \<Rightarrow> string \<Rightarrow> 's node" where
  "appLink label url =
     Elem ''a'' [(''href'', url), (''target'', ''_blank''), (''rel'', ''noopener noreferrer'')] [Text label, Icon ''external-link'' 14]"

text \<open>The answer to the request for the configuration, with the name of the peer from its header.\<close>

record conf_state =
  cf_Loading :: bool
  cf_Err :: string
  cf_Conf :: string
  cf_PeerName :: string
  cf_ShowKey :: bool
  cf_Copied :: bool
  cf_Expanded :: bool

definition loadConfig :: "conf_state \<Rightarrow> conf_state" where
  "loadConfig s = s\<lparr>cf_Loading := True, cf_Err := [], cf_Conf := []\<rparr>"

definition config_answered :: "client_error + string \<times> string \<Rightarrow> conf_state \<Rightarrow> conf_state" where
  "config_answered r s = (case r of
       Inl e \<Rightarrow> s\<lparr>cf_Err := ei_Message (apiErrorInfo e), cf_Loading := False\<rparr>
     | Inr (body, name) \<Rightarrow>
         s\<lparr>cf_Conf := body, cf_PeerName := (if name \<noteq> [] then name else cf_PeerName s), cf_Loading := False\<rparr>)"

text \<open>The file that is downloaded: nothing without a configuration.\<close>

definition downloadConf :: "string \<Rightarrow> conf_state \<Rightarrow> (string \<times> string) option" where
  "downloadConf peerID s = (if cf_Conf s = [] then None else Some (peerID @ ''.conf'', cf_Conf s))"

definition iface_back_button :: "string \<Rightarrow> string \<Rightarrow> conf_state button" where
  "iface_back_button title i = plain_button title (\<lambda>s. s) (Some (''/interfaces/'' @ i))"

definition expand_button :: "conf_state button" where
  "expand_button = plain_button [] (\<lambda>s. s\<lparr>cf_Expanded := \<not> cf_Expanded s\<rparr>) None"

definition reveal_button :: "conf_state button" where
  "reveal_button = plain_button [] (\<lambda>s. s\<lparr>cf_ShowKey := \<not> cf_ShowKey s\<rparr>) None"

definition retry_button :: "string \<Rightarrow> string \<Rightarrow> conf_state button" where
  "retry_button i k = \<lparr>bt_Title = ''Retry'', bt_Confirm = None, bt_Request = Some (config_load i k), bt_Update = loadConfig, bt_Route = None\<rparr>"

definition conf_actions :: "bool \<Rightarrow> conf_state \<Rightarrow> conf_state node list" where
  "conf_actions hasMail s =
     [Copy (cf_Conf s) [variant (if cf_Copied s then ''copied'' else ''plain'')]
        [Span [Icon (if cf_Copied s then ''check'' else ''copy'') 14], Span [Text (if cf_Copied s then ''Copied!'' else ''Copy'')]],
      Submit ''Download'' ''plain'',
      hidden_unless hasMail (Submit ''Email'' ''plain'')]"

definition conf_text :: "conf_state \<Rightarrow> string" where
  "conf_text s = shown_conf (cf_ShowKey s) (cf_Conf s)"

definition conf_card :: "bool \<Rightarrow> conf_state \<Rightarrow> conf_state node" where
  "conf_card hasMail s =
     Card [Elem ''div'' [variant ''mobile''] [Div [Act expand_button [] [Text ''Configuration''],
         Act expand_button [variant (if cf_Expanded s then ''turned'' else ''plain'')] [Icon ''chevron-down'' 16]],
         Div (conf_actions hasMail s)],
       Elem ''div'' [variant ''desktop''] [CardHeader ''Configuration'' [Div (conf_actions hasMail s)]],
       Elem ''div'' [variant (if cf_Expanded s then ''block'' else ''desktop'')]
         [Elem ''pre'' [] [Text (conf_text s)],
          Div [Act reveal_button [] [Span [Icon (if cf_ShowKey s then ''eye-off'' else ''eye'') 14],
            Span [Text (if cf_ShowKey s then ''Hide private key'' else ''Reveal private key'')]]]]]"

definition qr_card :: "string \<Rightarrow> string \<Rightarrow> 's node" where
  "qr_card i k = Card [CardHeader ''QR Code'' [],
     Div [Elem ''img'' [(''src'', peer_path i k @ ''/qr''), (''alt'', ''WireGuard QR Code'')] []]]"

definition setup_card :: "'s node" where
  "setup_card = Card [CardHeader ''Setup Instructions'' [],
     Div [setupStep ''1'' ''Install WireGuard'' ''Download and install the WireGuard app for your platform.'',
       Div [appLink ''macOS'' ''https://itunes.apple.com/us/app/wireguard/id1451685025?ls=1&mt=12'',
         appLink ''iOS'' ''https://itunes.apple.com/us/app/wireguard/id1441195209?ls=1&mt=8'',
         appLink ''Android'' ''https://play.google.com/store/apps/details?id=com.wireguard.android'',
         appLink ''Windows'' ''https://download.wireguard.com/windows-client/wireguard-installer.exe''],
       setupStep ''2'' ''Add Tunnel'' (''Open WireGuard, tap + or '' @ [CHR 0x22] @ ''Add Tunnel'' @ [CHR 0x22] @ '', then either scan the QR code above or import the downloaded .conf file.''),
       setupStep ''3'' ''Activate'' ''Toggle the tunnel on. You should see a handshake within a few seconds confirming the connection is active.'']]"

definition PeerConfigView_page :: "bool \<Rightarrow> string \<Rightarrow> string \<Rightarrow> conf_state \<Rightarrow> conf_state node option" where
  "PeerConfigView_page hasMail i k s =
     map_option (\<lambda>name. Div ([Div [Act (iface_back_button ''Interfaces'' i) [] [Icon ''chevron-left'' 16, Text ''Interfaces''],
         Span [Text ''/''], Act (iface_back_button i i) [] [Text i], Span [Text ''/''], Span [Text name]],
         LoadingView (cf_Loading s)]
       @ (if \<not> cf_Loading s \<and> cf_Err s \<noteq> [] then
            [Card [Div [Div [Text [CHR 0xF0, CHR 0x9F, CHR 0x94, CHR 0x92]], Div [Text ''Config Unavailable''], Div [Text (cf_Err s)],
              Div [Btn ''ghost'' (iface_back_button ([CHR 0xE2, CHR 0x86, CHR 0x90] @ '' Back'') i), Btn ''primary'' (retry_button i k)]]]]
          else [])
       @ (if \<not> cf_Loading s \<and> cf_Err s = [] then
            [Div [conf_card hasMail s,
              qr_card i k,
              Div [setup_card]]]
          else [])))
     (if cf_PeerName s \<noteq> [] then Some (cf_PeerName s) else short_id k)"

end
