(* ===== verification/PageFacts.thy ===== *)
theory PageFacts
  imports WebShell
begin

text \<open>
  What the trees of elements show and offer: every button of every page is one of the known ones and asks
  before it deletes; the buttons of a page can be clicked exactly when they should; and the places where
  what a page shows is not what the application holds.
\<close>

section \<open>The buttons of the pages\<close>

lemma plain_careful [simp]: "careful (plain_button t f r)"
  by (simp add: careful_def plain_button_def)


lemma hidden_unless_buttons [simp]: "node_buttons (hidden_unless b n) = node_buttons n"
  by (simp add: hidden_unless_def)

lemmas quiet_defs = CardHeader_def Card_def FormField_def FormFieldWithHelp_def ErrorAlert_def LoadingView_def
  EmptyState_def Badge_def TypeBadge_def PeerTypeBadge_def StatusDot_def MonoText_def UptimeSpan_def Spinner_def

text \<open>The components without buttons.\<close>

lemma quiet [simp]:
  "node_buttons (FormField l t p v) = []" "node_buttons (FormFieldWithHelp l t p h v) = []"
  "node_buttons (ErrorAlert e) = []" "node_buttons (LoadingView b) = []" "node_buttons (EmptyState m) = []"
  "node_buttons (Badge l c) = []" "node_buttons (PeerTypeBadge t) = []" "node_buttons (StatusDot b a) = []"
  "node_buttons (UptimeSpan now s) = []"
  by (simp_all add: quiet_defs Let_def hidden_unless_def split: option.splits)

lemma quiet_fields [simp]:
  "node_buttons (CIDRField_view l p h d k f0 f1) = []" "node_buttons (infoItem l v) = []"
  "node_buttons (hookInfoItem l v) = []" "node_buttons (copyableKey v) = []" "node_buttons (copyableInfoItem l v) = []"
  "node_buttons (readOnlyCopyField l v) = []" "node_buttons (ip_badge m one csv) = []"
  "node_buttons (chipInput l p h c1 c2) = []" "node_buttons (alertSection b1 b2) = []" "node_buttons (hook_area l p c1 h) = []"
  "node_buttons (text_area p r atts) = []" "node_buttons (select_field l opts) = []"
  by (simp_all add: CIDRField_view_def Let_def infoItem_def hookInfoItem_def copyableKey_def copyableInfoItem_def
      readOnlyCopyField_def ip_badge_def Tooltip_def chipInput_def chips_box_def alertSection_def alert_check_def
      hook_area_def text_area_def select_field_def comp_def split: list.splits prod.splits)

lemma tooltip_buttons [simp]: "node_buttons (Tooltip n items) = node_buttons n"
  by (simp add: Tooltip_def comp_def)

lemma header_buttons [simp]: "node_buttons (CardHeader t ns) = concat (map node_buttons ns)"
  "node_buttons (Card ns) = concat (map node_buttons ns)" "node_buttons (PageHeader t u ns) = concat (map node_buttons ns)"
  by (simp_all add: CardHeader_def Card_def PageHeader_def)

lemma btn_buttons [simp]: "node_buttons (Btn v b) = [b]" "node_buttons (IconBtn i b) = [b]"
  "node_buttons (IconBtnDanger i b) = [b]" "node_buttons (run_btn b) = [b]"
  "node_buttons (typeSelectorCard i t d s b) = [b]"
  by (simp_all add: Btn_def IconBtn_def IconBtnDanger_def run_btn_def typeSelectorCard_def)

abbreviation guarded :: "'s node \<Rightarrow> bool" where "guarded n \<equiv> list_all careful (node_buttons n)"

lemma guarded_concat: "list_all careful (concat (map node_buttons ns)) \<longleftrightarrow> (\<forall>n \<in> set ns. guarded n)"
  by (induction ns) simp_all

lemma guarded_map: "list_all careful (concat (map (node_buttons \<circ> f) xs)) \<longleftrightarrow> (\<forall>x \<in> set xs. guarded (f x))"
  by (induction xs) simp_all

text \<open>The page of an interface.\<close>

lemma list_all_careful: "(\<And>b. b \<in> set bs \<Longrightarrow> careful b) \<Longrightarrow> list_all careful bs"
  by (simp add: list_all_iff)

lemmas known_careful = list_all_careful [OF buttons_careful(1)] list_all_careful [OF buttons_careful(2)]
  list_all_careful [OF buttons_careful(3)] list_all_careful [OF buttons_careful(4)]
  list_all_careful [OF buttons_careful(5)] list_all_careful [OF buttons_careful(6)] list_all_careful [OF buttons_careful(7)]

lemma peerActions_guarded: "guarded (peerActions_view i ps)"
proof -
  have "list_all careful (peerActions i ps (st_HasPrivateKey ps))" by (rule known_careful(3))
  then show ?thesis by (auto simp: peerActions_view_def split: list.split)
qed

lemma peer_form_guarded: "guarded (PeerEditForm_view k cf e f)" "guarded (PeerForm_view k cf e f)"
  by (simp_all add: PeerEditForm_view_def PeerForm_view_def peer_inputs_def type_cards_def peer_done_button_def Let_def)

lemma peer_card_guarded: "guarded (peer_card now i s fm ps)"
  using peerActions_guarded [of i ps] peer_form_guarded(1)
  by (simp add: peer_card_def Let_def peerSetKeyForm_def cancel_key_button_def)

lemma run_buttons_guarded: "list_all careful (concat (map node_buttons (run_buttons i r)))"
  by (simp add: run_buttons_def status_buttons_def careful_def dangerous_def ends_with_def)

lemma last_careful: "bs \<noteq> [] \<Longrightarrow> list_all careful bs \<Longrightarrow> careful (List.last bs)"
  by (simp add: list_all_iff)

lemma status_last_careful: "careful (List.last (status_buttons i r))"
proof (rule last_careful)
  show "status_buttons i r \<noteq> []" by (simp add: status_buttons_def)
  show "list_all careful (status_buttons i r)" by (rule known_careful(2))
qed

lemma edit_form_guarded: "guarded (interfaceEditForm fm i k)"
  by (simp add: interfaceEditForm_def cancel_edit_button_def)

lemma content_guarded: "guarded (interfaceDetailContent now i s fm st)"
  using run_buttons_guarded [of i "is_Running st"] status_last_careful [of i "is_Running st"] edit_form_guarded
    peer_form_guarded(2) peer_card_guarded
  by (simp add: interfaceDetailContent_def Let_def edit_interface_button_def peerCardList_def guarded_concat guarded_map)

lemma detail_guarded: "guarded (InterfaceDetailView_page now i s fm loading answered)"
proof -
  have "list_all careful (detail_buttons i)" by (rule known_careful(1))
  then show ?thesis
    by (auto simp: InterfaceDetailView_page_def content_guarded split: list.split option.split)
qed

text \<open>The other pages.\<close>

lemma run_btns_guarded: "list_all careful bs \<Longrightarrow> list_all careful (concat (map node_buttons (map run_btn bs)))"
  by (induction bs) simp_all

lemma interfaceCard_guarded: "guarded (interfaceCard su)"
proof -
  have "list_all careful (card_buttons (su_ID su) (su_Running su))" by (rule known_careful(4))
  then have "list_all careful (concat (map node_buttons (map run_btn (card_buttons (su_ID su) (su_Running su)))))"
    by (rule run_btns_guarded)
  then show ?thesis by (simp add: interfaceCard_def Let_def summary_title_def summary_address_def peer_stats_def summary_traffic_def)
qed

lemma dashboard_guarded: "guarded (DashboardView_page now loading cached)"
  by (simp add: DashboardView_page_def Let_def activeConnectionsSection_def activeConnectionRow_def connection_button_def
      new_interface_button_def interfaceCards_def guarded_map interfaceCard_guarded split: option.split)

lemma interfaces_guarded: "guarded (InterfacesView_page k err f s loading sus)"
  by (simp add: InterfacesView_page_def Let_def createInterfaceForm_def importInterfaceForm_def interfaceListCard_def
      import_button_def create_button_def cancel_button_def open_iface_button_def guarded_map
      summary_title_def summary_address_def peer_stats_def summary_traffic_def split: prod.split)

lemma user_actions_guarded: "guarded (user_actions me u)"
  by (simp add: user_actions_def user_buttons_def Let_def careful_def)

lemma those_set: "those (map f xs) = Some ys \<Longrightarrow> y \<in> set ys \<Longrightarrow> \<exists>x \<in> set xs. f x = Some y"
proof (induction xs arbitrary: ys)
  case (Cons x xs)
  then obtain z zs where "f x = Some z" "those (map f xs) = Some zs" "ys = z # zs"
    by (auto split: option.splits)
  with Cons show ?case by auto
qed simp

lemma user_card_guarded: "user_card me s n u = Some v \<Longrightarrow> guarded n \<Longrightarrow> guarded v"
  using user_actions_guarded [of me u] by (auto simp: user_card_def split: option.splits)

lemma user_forms_guarded: "guarded (createUserForm err q)" "guarded (changePasswordForm name err b w)"
  by (simp_all add: createUserForm_def changePasswordForm_def cancel_user_button_def close_password_button_def)

lemma add_user_careful: "careful add_user_button"
  by (simp add: add_user_button_def careful_def)

lemma users_page_guarded:
  "guarded (Div ([PageHeader t u [Btn v add_user_button], (if b then Div [createUserForm err q] else Span []), LoadingView l] @ ns))
    \<longleftrightarrow> (\<forall>n \<in> set ns. guarded n)"
  by (simp add: user_forms_guarded add_user_careful guarded_concat)

lemma users_guarded:
  assumes "UsersView_page me s err q pw loading users = Some n"
  shows "guarded n"
proof -
  obtain e b w where pw: "pw = (e, b, w)" by (cases pw)
  let ?f = "\<lambda>u. user_card me s (changePasswordForm (u_Username u) e b w) u"
  from assms have "\<exists>ns. n = Div ([PageHeader ''Users'' ''Manage access to wgRift'' [Btn ''primary'' add_user_button],
      (if us_ShowForm s then Div [createUserForm err q] else Span []), LoadingView loading] @ ns)
    \<and> (ns = [] \<or> ns = [EmptyState ''No users''] \<or> (\<exists>cards. ns = [Div cards] \<and> those (map ?f users) = Some cards))"
    by (auto simp: UsersView_page_def pw split: if_splits)
  then obtain ns where n: "n = Div ([PageHeader ''Users'' ''Manage access to wgRift'' [Btn ''primary'' add_user_button],
      (if us_ShowForm s then Div [createUserForm err q] else Span []), LoadingView loading] @ ns)"
    and ns: "ns = [] \<or> ns = [EmptyState ''No users''] \<or> (\<exists>cards. ns = [Div cards] \<and> those (map ?f users) = Some cards)"
    by blast
  have "\<forall>m \<in> set ns. guarded m"
    using ns
  proof (elim disjE exE conjE)
    fix cards assume "ns = [Div cards]" "those (map ?f users) = Some cards"
    then show ?thesis
      using those_set [of ?f users cards] user_card_guarded user_forms_guarded(2) by (fastforce simp: guarded_concat)
  qed simp_all
  then show ?thesis unfolding n users_page_guarded .
qed

lemma known_settings_careful:
  "careful add_provider_button" "careful cancel_provider_button" "careful cancel_smtp_button"
  by (simp_all add: add_provider_button_def cancel_provider_button_def cancel_smtp_button_def)

lemma provider_card_guarded: "guarded (provider_card p)"
proof -
  have "list_all careful (provider_buttons p)" by (rule known_careful(6))
  then show ?thesis by (auto simp: provider_card_def split: list.split)
qed

lemma smtp_section_guarded: "guarded (smtpSection s t err q sg)"
  by (simp add: smtpSection_def Let_def smtp_buttons_def smtpInfoRow_def smtpTestButton_view_def smtpSettingsForm_view_def
      cancel_smtp_button_def careful_def plain_button_def split: option.split)

lemma providers_section_guarded: "guarded (oidcProvidersSection s c err q sg)"
  by (simp add: oidcProvidersSection_def copyableField_def oidcProviderForm_view_def known_settings_careful
      guarded_map provider_card_guarded)

lemma settings_guarded: "guarded (SettingsView_page s fm err loading answered)"
  by (simp add: SettingsView_page_def smtp_section_guarded providers_section_guarded externalURLSection_def
      split: option.split prod.split)

lemma retry_careful: "careful (retry_button i k)"
  by (simp add: retry_button_def config_load_def careful_def dangerous_def peer_path_def iface_path_def ends_with_def)

lemma config_buttons: "careful (iface_back_button t i)" "careful expand_button" "careful reveal_button"
  by (simp_all add: iface_back_button_def expand_button_def reveal_button_def)

lemma setup_card_buttons [simp]: "node_buttons setup_card = []" "node_buttons (qr_card i k) = []"
  by (simp_all add: setup_card_def setupStep_def appLink_def qr_card_def)

lemma conf_card_guarded: "guarded (conf_card m s)"
  by (simp add: conf_card_def conf_actions_def config_buttons)

lemma config_page_guarded: "PeerConfigView_page m i k s = Some n \<Longrightarrow> guarded n"
  by (auto simp: PeerConfigView_page_def conf_card_guarded config_buttons retry_careful simp del: list_all_append)

lemma guarded_iff: "guarded n \<longleftrightarrow> set (node_buttons n) \<subseteq> Collect careful"
  by (auto simp: list_all_iff)

text \<open>A run of clicks on buttons of a page, whatever the server answers and the page shows in between.\<close>

definition clicks :: "'s node set \<Rightarrow> 's ui_event set" where
  "clicks pages = Click ` (\<Union>n \<in> pages. set (node_buttons n)) \<union> {ConfirmNo, ConfirmBackdrop}"

lemma clicks_harmless:
  assumes "\<And>n. n \<in> pages \<Longrightarrow> guarded n" and "set es \<subseteq> clicks pages"
  shows "filter dangerous (cm_Sent (fold ConfirmModal es d)) = filter dangerous (cm_Sent d)"
proof (rule deletes_need_confirmation, rule ballI)
  fix e assume "e \<in> set es"
  with assms(2) have "e \<in> clicks pages" by blast
  then show "case e of Click b \<Rightarrow> careful b | ConfirmYes \<Rightarrow> False | _ \<Rightarrow> True"
    using assms(1) by (auto simp: clicks_def list_all_iff)
qed

section \<open>What the selects show\<close>

fun selects :: "'s node \<Rightarrow> 's node list list" where
  "selects (Elem t as ns) = (if t = ''select'' then [ns] else []) @ concat (map selects ns)"
| "selects (Text s) = []"
| "selects (Icon n k) = []"
| "selects (Act b as ns) = concat (map selects ns)"
| "selects (Submit l v) = []"
| "selects (Copy s as ns) = concat (map selects ns)"
| "selects (Hidden n) = selects n"

lemma option_rows [simp]:
  "List.map_filter option_value (map (\<lambda>(v, t). Elem ''option'' [(''value'', v)] [Text t]) opts)
    = map (\<lambda>(v, t). (v, False)) opts"
  by (induction opts) (auto simp: List.map_filter_simps)

lemma select_field_shows:
  "selects (select_field l opts) = [map (\<lambda>(v, t). Elem ''option'' [(''value'', v)] [Text t]) opts]"
  by (simp add: select_field_def comp_def split_def)

lemma no_selects [simp]:
  "selects (FormField l t p v) = []" "selects (ErrorAlert e) = []" "selects (Btn v b) = []"
  by (simp_all add: FormField_def ErrorAlert_def Btn_def Let_def)

lemma find_unmarked: "List.find snd (map (\<lambda>(v, t). (v, False)) opts) = None"
  by (induction opts) auto

lemma first_of_select: "opts \<noteq> [] \<Longrightarrow> shown_option (map (\<lambda>(v, t). Elem ''option'' [(''value'', v)] [Text t]) opts) = Some (fst (hd opts))"
  by (cases opts) (auto simp: shown_option_def find_unmarked)

lemma provider_select: "map shown_option (selects (oidcProviderForm_view b err q)) = [Some ''viewer'']"
  using first_of_select [of role_options]
  by (simp add: oidcProviderForm_view_def select_field_shows) (simp add: role_options_def)

lemma smtp_select: "map shown_option (selects (smtpSettingsForm_view b err q)) = [Some ''starttls'']"
  using first_of_select [of tls_options]
  by (simp add: smtpSettingsForm_view_def select_field_shows) (simp add: tls_options_def)

lemma prefix_select:
  assumes "ff_Prefix f \<notin> set cidrPrefixOptions"
  shows "map shown_option (selects (CIDRField_view l p h ''/24'' k f g)) = [Some ''8'']"
proof -
  have s: "selects (CIDRField_view l p h ''/24'' k f g)
      = [map (\<lambda>v. Elem ''option'' [(''value'', v)] [Text (CHR ''/'' # v)]) cidrPrefixOptions]"
    using assms by (auto simp: CIDRField_view_def Let_def hidden_unless_def comp_def)
  show ?thesis unfolding s by (simp add: cidrPrefixOptions_def shown_option_def List.map_filter_simps)
qed

text \<open>What the forms send after they are opened and saved unchanged.\<close>

lemma provider_saved:
  assumes "op_Name p \<noteq> []" "op_Issuer p \<noteq> []" "op_ClientID p \<noteq> []"
  shows "map_sum id opq_DefaultRole (oidcProviderForm_doSave True (oidcProviderForm (Some p))) = Inr (op_DefaultRole p)"
  using assms by (simp add: oidcProviderForm_doSave_def oidcProviderForm_def)

lemma smtp_saved:
  assumes "sd_Host d \<noteq> []" "sd_From d \<noteq> []"
  shows "map_sum id usq_TLS (smtpSettingsForm_doSave (Some d) (smtpSettingsForm (Some d))) = Inr (sd_TLS d)"
  using assms by (simp add: smtpSettingsForm_doSave_def smtpSettingsForm_def Let_def)


definition admin_provider :: oidc_provider where
  "admin_provider = plain_provider\<lparr>op_DefaultRole := ''admin''\<rparr>"

definition tls_server :: smtpSettingsData where
  "tls_server = \<lparr>sd_Host = ''mail'', sd_Port = ''465'', sd_Username = [], sd_HasPassword = False, sd_From = ''vpn@corp'', sd_TLS = ''tls''\<rparr>"


section \<open>No page deletes on one click\<close>


text \<open>The buttons of the peers are among those of the page of their interface.\<close>

lemma detail_shows_peers:
  assumes "ps \<in> set (is_Peers st)" and "b \<in> set (peerActions i ps (st_HasPrivateKey ps))"
  shows "b \<in> set (node_buttons (InterfaceDetailView_page now i s fm False (Some st)))"
proof -
  have "set (peerActions i ps (st_HasPrivateKey ps)) \<subseteq> set (node_buttons (peerActions_view i ps))"
    by (simp add: peerActions_view_def peerActions_def Let_def)
  with assms(2) have "b \<in> set (node_buttons (peer_card now i s fm ps))"
    by (auto simp: peer_card_def Let_def)
  with assms(1) show ?thesis
    by (auto simp: InterfaceDetailView_page_def detail_buttons_def interfaceDetailContent_def Let_def peerCardList_def)
qed

definition sample_status :: InterfaceStatus where
  "sample_status = \<lparr>is_Interface = zero_iface, is_PublicKey = [], is_Running = True, is_Peers = [plain_peer]\<rparr>"


section \<open>More about the pages\<close>

text \<open>Of the three buttons that start and stop exactly those can be clicked that fit the state.\<close>

lemma shown_run_buttons:
  "concat (map shown_buttons (run_buttons i r)) @ [List.last (status_buttons i r)] = status_buttons i r"
  by (simp add: run_buttons_def status_buttons_def hidden_unless_def run_btn_def Btn_def)

text \<open>The page of an interface does not depend on the encrypted keys, which the server sends along.\<close>

lemma card_without_secrets:
  "peer_card now i s fm (ps\<lparr>st_Peer := st_Peer ps\<lparr>p_PrivateKeyEncrypted := a, p_PresharedKeyEncrypted := b\<rparr>\<rparr>) = peer_card now i s fm ps"
  by (simp add: peer_card_def peerActions_view_def peerActions_def Let_def cong del: if_weak_cong)

lemma page_without_secrets:
  "InterfaceDetailView_page now i s fm l (Some (st\<lparr>is_Interface := is_Interface st\<lparr>if_PrivateKeyEncrypted := c\<rparr>,
      is_Peers := map (\<lambda>ps. ps\<lparr>st_Peer := st_Peer ps\<lparr>p_PrivateKeyEncrypted := a, p_PresharedKeyEncrypted := b\<rparr>\<rparr>) (is_Peers st)\<rparr>))
   = InterfaceDetailView_page now i s fm l (Some st)"
  by (simp add: InterfaceDetailView_page_def detail_buttons_def interfaceDetailContent_def Let_def interfaceEditForm_def
      peerCardList_def card_without_secrets comp_def cong del: if_weak_cong)

text \<open>The avatar of a user takes a byte for a letter, where the navigation takes the letter.\<close>

lemma avatar_breaks_letters:
  "avatar ([CHR 0xC3, CHR 0x85] @ ''sa'') = Some [CHR 0xEF, CHR 0xBF, CHR 0xBD]
   \<and> first_rune ([CHR 0xC3, CHR 0x85] @ ''sa'') = Some [CHR 0xC3, CHR 0x85]"
  by code_simp

lemma those_None: "those xs = None \<longleftrightarrow> None \<in> set xs"
  by (induction xs) (auto split: option.splits)

text \<open>The page of the logs panics exactly for an entry whose peer has a short identifier.\<close>

lemma logs_page_panics:
  "LogsView_page tz l (s, Render) = None \<longleftrightarrow> (\<exists>e \<in> set (lg_Logs s). length (cl_PeerID e) < 8)"
  by (auto simp: LogsView_page_def Let_def those_None log_card_def peer_label_def short_id_def split: if_splits)

text \<open>
  The selector of the log page. Opened at /logs/i, the page takes every other choice back and loads the log
  of i again; opened at /logs, it shows the chosen interface as having no log until the next poll.
\<close>

lemma logs_choice_undone:
  assumes "lg_Ifaces s = Some xs" and "i \<noteq> []" and "v \<noteq> i"
  shows "LogsView_mount i (choose_iface v s) = (s\<lparr>lg_Iface := i, lg_Logs := []\<rparr>, LoadLogs i)"
  using assms by (simp add: LogsView_mount_def choose_iface_def)

lemma logs_choice_empty:
  assumes "lg_Ifaces s = Some xs"
  shows "LogsView_mount [] (choose_iface v s) = (choose_iface v s, Render) \<and> lg_Logs (choose_iface v s) = []"
  using assms by (simp add: LogsView_mount_def choose_iface_def)

end
