(* ===== verification/WebRuntime.thy ===== *)
theory WebRuntime
  imports WebDialogs
begin

text \<open>
  The web application between two events: a call of the API waiting for its answer (ui/web/api.go), and the
  router that mounts a page for the current route (ui/web/router.go). Both are step relations; what the
  browser may do next is the documented behaviour of \<^verbatim>\<open>fetch\<close> and of the history.
\<close>

section \<open>Waiting for an answer\<close>

text \<open>
  \<open>apiFetchWithTimeout\<close> and \<open>apiFetchText\<close> start a request and a timer and wait for the channel \<open>done\<close>.
  \<open>fe_Headers\<close> is the status once the headers have arrived, \<open>fe_Over\<close> says that the browser has nothing
  more to report.
\<close>

record fetch_state =
  fe_Timer :: bool
  fe_Aborted :: bool
  fe_Headers :: "int option"
  fe_Over :: bool
  fe_Done :: "fetched option"

definition fetch_start :: fetch_state where
  "fetch_start = \<lparr>fe_Timer = True, fe_Aborted = False, fe_Headers = None, fe_Over = False, fe_Done = None\<rparr>"

datatype fetch_event = Timeout | Headers int | Body string json_object | BodyError string | NetError string

text \<open>
  The callbacks: the timer aborts the request; \<open>thenFn\<close> clears the timer and asks for the text, whose
  promise it neither returns nor gives a \<^verbatim>\<open>catch\<close>; the text is the answer; \<open>catchFn\<close> clears the timer and
  answers with the error. Nothing is registered for a body that breaks.
\<close>

fun on_event :: "fetch_event \<Rightarrow> fetch_state \<Rightarrow> fetch_state" where
  "on_event Timeout s = s\<lparr>fe_Timer := False, fe_Aborted := True\<rparr>"
| "on_event (Headers st) s = s\<lparr>fe_Timer := False, fe_Headers := Some st\<rparr>"
| "on_event (Body body parsed) s = s\<lparr>fe_Over := True, fe_Done := map_option (\<lambda>st. fetched.Answered st body parsed) (fe_Headers s)\<rparr>"
| "on_event (BodyError reason) s = s\<lparr>fe_Over := True\<rparr>"
| "on_event (NetError reason) s = s\<lparr>fe_Timer := False, fe_Over := True, fe_Done := Some (Rejected reason)\<rparr>"

text \<open>What the browser can report: headers once, unless the request was aborted; then a text or a broken
  body; or, before the headers, a failure, which is also how an aborted request ends.\<close>

inductive fetch_trans :: "fetch_state \<Rightarrow> fetch_event \<Rightarrow> fetch_state \<Rightarrow> bool" where
  timeout: "fe_Timer s \<Longrightarrow> fetch_trans s Timeout (on_event Timeout s)"
| headers: "\<lbrakk>\<not> fe_Over s; \<not> fe_Aborted s; fe_Headers s = None\<rbrakk> \<Longrightarrow> fetch_trans s (Headers st) (on_event (Headers st) s)"
| failure: "\<lbrakk>\<not> fe_Over s; fe_Headers s = None\<rbrakk> \<Longrightarrow> fetch_trans s (NetError r) (on_event (NetError r) s)"
| body: "\<lbrakk>\<not> fe_Over s; fe_Headers s = Some st\<rbrakk> \<Longrightarrow> fetch_trans s (Body t p) (on_event (Body t p) s)"
| broken: "\<lbrakk>\<not> fe_Over s; fe_Headers s = Some st\<rbrakk> \<Longrightarrow> fetch_trans s (BodyError r) (on_event (BodyError r) s)"

inductive_cases fetch_transE: "fetch_trans s e t"

inductive fetch_run :: "fetch_event list \<Rightarrow> fetch_state \<Rightarrow> bool" where
  start: "fetch_run [] fetch_start"
| step: "fetch_run es s \<Longrightarrow> fetch_trans s e t \<Longrightarrow> fetch_run (es @ [e]) t"

text \<open>The shape of a run.\<close>

definition fetch_inv :: "fetch_event list \<Rightarrow> fetch_state \<Rightarrow> bool" where
  "fetch_inv es s \<longleftrightarrow>
     (if fe_Over s then \<not> fe_Timer s
        \<and> (fe_Done s = None \<longleftrightarrow> (\<exists>r. BodyError r \<in> set es)) \<and> ((\<exists>r. BodyError r \<in> set es) \<longrightarrow> fe_Headers s \<noteq> None)
      else fe_Done s = None \<and> (\<forall>r. BodyError r \<notin> set es)
        \<and> (fe_Headers s = None \<longrightarrow> fe_Timer s \<or> fe_Aborted s) \<and> (fe_Headers s \<noteq> None \<longrightarrow> \<not> fe_Timer s))
     \<and> (fe_Aborted s \<longrightarrow> fe_Headers s = None)
     \<and> length es = (if fe_Aborted s then 1 else 0) + (if fe_Headers s \<noteq> None then 1 else 0) + (if fe_Over s then 1 else 0)"

lemma fetch_run_inv: "fetch_run es s \<Longrightarrow> fetch_inv es s \<and> (fe_Timer s \<longrightarrow> \<not> fe_Aborted s \<and> \<not> fe_Over s)"
proof (induction rule: fetch_run.induct)
  case start
  show ?case by (simp add: fetch_inv_def fetch_start_def)
next
  case (step es s e t)
  then show ?case by (elim fetch_transE) (auto simp: fetch_inv_def split: if_splits)
qed

lemma fetch_can_continue: "fetch_run es s \<Longrightarrow> \<not> fe_Over s \<Longrightarrow> \<exists>e t. fetch_trans s e t"
  by (cases "fe_Headers s") (blast intro: fetch_trans.intros)+

text \<open>\<open>apiFetchText\<close> also hands back the headers it is asked for. \<open>hdr\<close> is \<^verbatim>\<open>headers.get\<close> read as a text, which
  is \<^verbatim>\<open><null>\<close> for a header that is missing.\<close>

definition captured_headers :: "(string \<Rightarrow> string) \<Rightarrow> string list \<Rightarrow> (string \<times> string) list" where
  "captured_headers hdr keys = map (\<lambda>k. (k, hdr k)) (filter (\<lambda>k. hdr k \<noteq> [] \<and> hdr k \<noteq> ''<null>'') keys)"

definition apiFetchText ::
  "string \<Rightarrow> fetched \<Rightarrow> (string \<Rightarrow> string) \<Rightarrow> string list \<Rightarrow> browser \<Rightarrow> (client_error + string \<times> (string \<times> string) list) \<times> browser" where
  "apiFetchText path got hdr keys b = (case apiFetch path got b of
       (Inl e, b') \<Rightarrow> (Inl e, b')
     | (Inr body, b') \<Rightarrow> (Inr (body, captured_headers hdr keys), b'))"

text \<open>The session watch: a tab that becomes visible asks whether its session is alive.\<close>

definition startSessionWatch :: "string \<Rightarrow> client_error + auth_body \<Rightarrow> browser \<Rightarrow> browser" where
  "startSessionWatch visibilityState got b =
     (if visibilityState = ''visible'' then checkSessionAlive got b else b)"

text \<open>What the dialog of the mail is told when the call returns: never anything, if it does not.\<close>

definition modal_answer :: "browser \<Rightarrow> string \<Rightarrow> fetch_state \<Rightarrow> modal_event list" where
  "modal_answer b path s = (case fe_Done s of
       None \<Rightarrow> []
     | Some a \<Rightarrow> [modal_event.Answered (case fst (apiFetch path a b) of Inl e \<Rightarrow> Some (apiErrorInfo e) | Inr _ \<Rightarrow> None)])"

definition user_events :: "modal_event set" where
  "user_events = {Backdrop, CancelMail, SendMail} \<union> range TypeTo \<union> range TypeNote"

lemma sending_ignores:
  assumes "e \<in> user_events" and "em_Sending m"
  shows "em_Sending (fst (EmailModal e m)) \<and> em_Peer (fst (EmailModal e m)) = em_Peer m"
  using assms by (auto simp: user_events_def)

lemma dialog_stuck:
  "set us \<subseteq> user_events \<Longrightarrow> em_Sending m \<Longrightarrow>
    em_Sending (fold (\<lambda>e m. fst (EmailModal e m)) us m) \<and> em_Peer (fold (\<lambda>e m. fst (EmailModal e m)) us m) = em_Peer m"
proof (induction us arbitrary: m)
  case (Cons e us)
  then show ?case using sending_ignores [of e m] by simp
qed simp



section \<open>The router\<close>

text \<open>The four intervals that views poll with; \<open>None\<close> stands for a page that does not poll.\<close>

datatype page_poll = DashboardPoll | DetailPoll | LogsPoll | ConfigPoll

text \<open>
  \<open>rt_Route\<close> is the signal \<open>currentRoute\<close>, \<open>rt_Last\<close> the variable \<open>lastRoute\<close> of the effect, \<open>rt_Timers\<close> the
  mounts put off to the next tick, \<open>rt_Url\<close> the address bar, \<open>rt_View\<close> what is in the container and
  \<open>rt_Polls\<close> the intervals that run.
\<close>

record router =
  rt_Url :: string
  rt_Route :: string
  rt_Last :: string
  rt_Timers :: nat
  rt_View :: "view option"
  rt_Polls :: "page_poll list"

definition own_polls :: "(string \<Rightarrow> bool) \<Rightarrow> view \<Rightarrow> page_poll list" where
  "own_polls cel v = (case v of
       DashboardView \<Rightarrow> [DashboardPoll]
     | InterfaceDetailView _ \<Rightarrow> [DetailPoll]
     | LogsView _ \<Rightarrow> [LogsPoll]
     | PeerConfigView _ k \<Rightarrow> if cel k then [] else [ConfigPoll]
     | _ \<Rightarrow> [])"

definition stopPolling :: "router \<Rightarrow> router" where "stopPolling s = s\<lparr>rt_Polls := []\<rparr>"

text \<open>A view starts its interval when it is mounted; its effects run before the next event. \<open>cel\<close> is
  what the local storage of the browser holds.\<close>

definition mountRoute :: "(string \<Rightarrow> bool) \<Rightarrow> router \<Rightarrow> router" where
  "mountRoute cel s =
     (let v = snd (resolveRoute (rt_Route s)); t = stopPolling s
      in t\<lparr>rt_View := Some v, rt_Polls := rt_Polls t @ own_polls cel v\<rparr>)"

text \<open>The effect of \<open>Router\<close>, which runs when the signal changes.\<close>

definition route_effect :: "router \<Rightarrow> router" where
  "route_effect s = (if rt_Route s = rt_Last s then s
     else s\<lparr>rt_Last := rt_Route s, rt_Timers := rt_Timers s + 1\<rparr>)"

definition path_or_root :: "string \<Rightarrow> string" where "path_or_root p = (if p = [] then ''/'' else p)"

text \<open>\<open>initRouter\<close> and the first run of the effect, with \<open>lastRoute\<close> empty.\<close>

definition initRouter :: "string \<Rightarrow> router" where
  "initRouter path = route_effect \<lparr>rt_Url = path, rt_Route = path_or_root path, rt_Last = [], rt_Timers = 0,
     rt_View = None, rt_Polls = []\<rparr>"

text \<open>A navigation, the back and forward buttons with the path they lead to, \<open>refreshRoute\<close> after a change or
  an answer of a poll, the timer of the effect, \<open>replaceState\<close>, and a peer that is celebrated, which ends the
  interval of its page.\<close>

datatype router_event = Navigate string | PopState string | Refresh | MountTimer | ReplaceState string | Party

fun router_step :: "(string \<Rightarrow> bool) \<Rightarrow> router_event \<Rightarrow> router \<Rightarrow> router" where
  "router_step cel (Navigate path) s =
     (case navigate (rt_Route s) path of (r, same) \<Rightarrow>
        let t = s\<lparr>rt_Url := path\<rparr> in if same then mountRoute cel t else route_effect (t\<lparr>rt_Route := r\<rparr>))"
| "router_step cel (PopState path) s = route_effect (s\<lparr>rt_Url := path, rt_Route := path_or_root path\<rparr>)"
| "router_step cel Refresh s = mountRoute cel s"
| "router_step cel MountTimer s = (if rt_Timers s = 0 then s else mountRoute cel (s\<lparr>rt_Timers := rt_Timers s - 1\<rparr>))"
| "router_step cel (ReplaceState url) s = s\<lparr>rt_Url := url\<rparr>"
| "router_step cel Party s = s\<lparr>rt_Polls := filter (\<lambda>p. p \<noteq> ConfigPoll) (rt_Polls s)\<rparr>"

text \<open>The peers that were celebrated may be different at every step.\<close>

inductive router_reachable :: "router \<Rightarrow> bool" where
  init: "router_reachable (initRouter path)"
| step: "router_reachable s \<Longrightarrow> router_reachable (router_step cel e s)"

definition view_polls :: "view option \<Rightarrow> page_poll set" where
  "view_polls v = (case v of None \<Rightarrow> {} | Some w \<Rightarrow> set (own_polls (\<lambda>_. False) w))"

definition settled :: "router \<Rightarrow> bool" where
  "settled s \<longleftrightarrow> rt_View s = Some (snd (resolveRoute (rt_Route s)))"

lemma own_polls_sub: "set (own_polls cel v) \<subseteq> view_polls (Some v)" "length (own_polls cel v) \<le> 1"
  by (cases v; simp add: own_polls_def view_polls_def)+

lemma mountRoute_simps:
  "rt_View (mountRoute cel s) = Some (snd (resolveRoute (rt_Route s)))" "rt_Polls (mountRoute cel s) = own_polls cel (snd (resolveRoute (rt_Route s)))"
  "rt_Route (mountRoute cel s) = rt_Route s" "rt_Timers (mountRoute cel s) = rt_Timers s" "rt_Last (mountRoute cel s) = rt_Last s"
  by (simp_all add: mountRoute_def stopPolling_def Let_def)

definition router_inv :: "router \<Rightarrow> bool" where
  "router_inv s \<longleftrightarrow> set (rt_Polls s) \<subseteq> view_polls (rt_View s) \<and> length (rt_Polls s) \<le> 1
     \<and> (0 < rt_Timers s \<or> settled s) \<and> rt_Last s = rt_Route s"

lemma router_inv_mount: "rt_Last s = rt_Route s \<Longrightarrow> router_inv (mountRoute cel s)"
  using own_polls_sub by (simp add: router_inv_def mountRoute_simps settled_def)

lemma router_inv_reachable: "router_reachable s \<Longrightarrow> router_inv s"
proof (induction rule: router_reachable.induct)
  case (init path)
  show ?case by (simp add: initRouter_def route_effect_def router_inv_def path_or_root_def)
next
  case (step s cel e)
  show ?case
  proof (cases e)
    case (Navigate path)
    show ?thesis
    proof (cases "before CHR ''?'' path = rt_Route s")
      case True
      have "rt_Last (s\<lparr>rt_Url := path\<rparr>) = rt_Route (s\<lparr>rt_Url := path\<rparr>)" using step.IH by (simp add: router_inv_def)
      with True show ?thesis by (simp add: Navigate navigate_def Let_def router_inv_mount)
    next
      case False
      with Navigate step.IH show ?thesis
        by (auto simp: navigate_def Let_def router_inv_def route_effect_def settled_def)
    qed
  next
    case (PopState path)
    with step.IH show ?thesis by (auto simp: router_inv_def route_effect_def settled_def)
  next
    case Refresh
    moreover have "rt_Last s = rt_Route s" using step.IH by (simp add: router_inv_def)
    ultimately show ?thesis by (simp add: router_inv_mount)
  next
    case MountTimer
    moreover have "rt_Last (s\<lparr>rt_Timers := rt_Timers s - 1\<rparr>) = rt_Route (s\<lparr>rt_Timers := rt_Timers s - 1\<rparr>)"
      using step.IH by (simp add: router_inv_def)
    ultimately show ?thesis using step.IH by (simp add: router_inv_mount)
  next
    case (ReplaceState url)
    with step.IH show ?thesis by (auto simp: router_inv_def settled_def)
  next
    case Party
    with step.IH show ?thesis
      by (auto simp: router_inv_def settled_def intro: order_trans [OF length_filter_le])
  qed
qed

text \<open>C39. Whatever is clicked, answered and put off: at most one interval runs, and it belongs to the page that is
  shown; and once no mount is put off the page is that of the current route.\<close>

theorem router_shows_route:
  assumes "router_reachable s"
  shows "set (rt_Polls s) \<subseteq> view_polls (rt_View s) \<and> length (rt_Polls s) \<le> 1
    \<and> (0 < rt_Timers s \<or> rt_View s = Some (snd (resolveRoute (rt_Route s))))"
  using router_inv_reachable [OF assms] by (simp add: router_inv_def settled_def)

lemma router_shows_route_witness:
  "\<forall>cel. let s = router_step cel MountTimer (router_step cel (Navigate ''/users'') (initRouter ''/'')) in
     set (rt_Polls s) \<subseteq> view_polls (rt_View s) \<and> length (rt_Polls s) \<le> 1
     \<and> (0 < rt_Timers s \<or> rt_View s = Some (snd (resolveRoute (rt_Route s))))"
proof
  fix cel
  have "router_reachable (router_step cel MountTimer (router_step cel (Navigate ''/users'') (initRouter ''/'')))"
    by (intro router_reachable.intros)
  from router_shows_route [OF this]
  show "let s = router_step cel MountTimer (router_step cel (Navigate ''/users'') (initRouter ''/'')) in
     set (rt_Polls s) \<subseteq> view_polls (rt_View s) \<and> length (rt_Polls s) \<le> 1
     \<and> (0 < rt_Timers s \<or> rt_View s = Some (snd (resolveRoute (rt_Route s))))"
    by (simp add: Let_def)
qed

end
