(* ===== verification/WireTypes.thy ===== *)
theory WireTypes
  imports WebClient
begin

text \<open>
  What the handlers write and what the web application reads, as \<^verbatim>\<open>encoding/json\<close> sees it: the tags and types of
  the structs on both sides, the encoder and the decoder. The other theories let JSON be the identity on
  a struct; here it is shown that the web application reads the values that the server wrote. Texts are UTF-8.
\<close>

section \<open>Types, values and JSON\<close>

text \<open>\<open>Skip\<close> is the tag \<^verbatim>\<open>-\<close>. A time is its text in RFC 3339, which is how it is encoded.\<close>

datatype tag = Skip | Key string | OmitEmpty string

datatype shape = GString | GInt | GBool | GTime | GPtr shape | GSlice shape | GStruct "fld list"
  and fld = Fld tag shape

datatype gov = VString string | VInt int | VBool bool | VTime string | VNil | VRef gov | VSlice "gov list" | VStruct "gov list"

datatype js = JsNull | JsString string | JsNumber int | JsBool bool | JsArray "js list" | JsObject "(string \<times> js) list"

definition tag_key :: "tag \<Rightarrow> string option" where
  "tag_key t = (case t of Skip \<Rightarrow> None | Key k \<Rightarrow> Some k | OmitEmpty k \<Rightarrow> Some k)"

fun is_empty :: "gov \<Rightarrow> bool" where
  "is_empty (VString s) = (s = [])"
| "is_empty (VInt i) = (i = 0)"
| "is_empty (VBool b) = (\<not> b)"
| "is_empty VNil = True"
| "is_empty (VSlice vs) = (vs = [])"
| "is_empty v = False"

text \<open>\<open>json.Marshal\<close>.\<close>

fun encode :: "shape \<Rightarrow> gov \<Rightarrow> js"
  and encode_fields :: "fld list \<Rightarrow> gov list \<Rightarrow> (string \<times> js) list" where
  "encode (GPtr s) (VRef v) = encode s v"
| "encode (GSlice s) (VSlice vs) = JsArray (map (encode s) vs)"
| "encode (GStruct fs) (VStruct vs) = JsObject (encode_fields fs vs)"
| "encode s (VString t) = JsString t"
| "encode s (VTime t) = JsString t"
| "encode s (VInt i) = JsNumber i"
| "encode s (VBool b) = JsBool b"
| "encode s v = JsNull"
| "encode_fields (Fld t s # fs) (v # vs) =
     (case t of
        Skip \<Rightarrow> encode_fields fs vs
      | Key k \<Rightarrow> (k, encode s v) # encode_fields fs vs
      | OmitEmpty k \<Rightarrow> (if is_empty v then [] else [(k, encode s v)]) @ encode_fields fs vs)"
| "encode_fields fs vs = []"

text \<open>\<open>json.Unmarshal\<close> into a zero value; \<open>None\<close> is an \<^verbatim>\<open>UnmarshalTypeError\<close>. A null or a key that is missing leaves the zero.\<close>

fun zero_gov :: "shape \<Rightarrow> gov" and zero_fields :: "fld list \<Rightarrow> gov list" where
  "zero_gov GString = VString []"
| "zero_gov GInt = VInt 0"
| "zero_gov GBool = VBool False"
| "zero_gov GTime = VTime ''0001-01-01T00:00:00Z''"
| "zero_gov (GPtr s) = VNil"
| "zero_gov (GSlice s) = VNil"
| "zero_gov (GStruct fs) = VStruct (zero_fields fs)"
| "zero_fields [] = []"
| "zero_fields (Fld t s # fs) = zero_gov s # zero_fields fs"

fun all_some :: "'a option list \<Rightarrow> 'a list option" where
  "all_some [] = Some []"
| "all_some (None # xs) = None"
| "all_some (Some x # xs) = map_option (Cons x) (all_some xs)"

fun decode :: "shape \<Rightarrow> js \<Rightarrow> gov option"
  and decode_fields :: "fld list \<Rightarrow> (string \<times> js) list \<Rightarrow> gov list option" where
  "decode s JsNull = Some (zero_gov s)"
| "decode GString (JsString t) = Some (VString t)"
| "decode GTime (JsString t) = Some (VTime t)"
| "decode GInt (JsNumber i) = (if - (2 ^ 63) \<le> i \<and> i < 2 ^ 63 then Some (VInt i) else None)"
| "decode GBool (JsBool b) = Some (VBool b)"
| "decode (GPtr s) j = map_option VRef (decode s j)"
| "decode (GSlice s) (JsArray js) = map_option VSlice (all_some (map (decode s) js))"
| "decode (GStruct fs) (JsObject obj) = map_option VStruct (decode_fields fs obj)"
| "decode s j = None"
| "decode_fields [] obj = Some []"
| "decode_fields (Fld t s # fs) obj =
     (case (case Option.bind (tag_key t) (map_of obj) of None \<Rightarrow> Some (zero_gov s) | Some j \<Rightarrow> decode s j) of
        None \<Rightarrow> None
      | Some v \<Rightarrow> map_option (Cons v) (decode_fields fs obj))"

section \<open>The structs of the server\<close>

text \<open>Of \<open>sessionResponse\<close>, the field \<open>User\<close> of type \<^verbatim>\<open>any\<close> always holds a pointer to a user.\<close>

definition Interface_json :: shape where
  "Interface_json = GStruct
    [Fld (Key ''id'') GString,
     Fld (Key ''type'') GString,
     Fld (Key ''listen_port'') GInt,
     Fld (Key ''private_key_encrypted'') GString,
     Fld (Key ''address'') GString,
     Fld (Key ''dns'') GString,
     Fld (Key ''mtu'') GInt,
     Fld (Key ''endpoint'') GString,
     Fld (Key ''post_up'') GString,
     Fld (Key ''post_down'') GString,
     Fld (Key ''enabled'') GBool,
     Fld (Key ''created_at'') GTime,
     Fld (Key ''updated_at'') GTime]"

definition Peer_json :: shape where
  "Peer_json = GStruct
    [Fld (Key ''id'') GString,
     Fld (Key ''interface_id'') GString,
     Fld (Key ''type'') GString,
     Fld (Key ''name'') GString,
     Fld (Key ''public_key'') GString,
     Fld (Key ''private_key_encrypted'') GString,
     Fld (OmitEmpty ''preshared_key_encrypted'') GString,
     Fld (Key ''address'') GString,
     Fld (Key ''allowed_ips'') GString,
     Fld (Key ''client_allowed_ips'') GString,
     Fld (Key ''dns'') GString,
     Fld (OmitEmpty ''endpoint'') GString,
     Fld (Key ''persistent_keepalive'') GInt,
     Fld (Key ''alert_on_connect'') GBool,
     Fld (Key ''alert_on_disconnect'') GBool,
     Fld (Key ''alert_emails'') GString,
     Fld (Key ''enabled'') GBool,
     Fld (OmitEmpty ''expires_at'') (GPtr GTime),
     Fld (OmitEmpty ''last_handshake'') (GPtr GTime),
     Fld (Key ''transfer_rx'') GInt,
     Fld (Key ''transfer_tx'') GInt,
     Fld (Key ''created_at'') GTime,
     Fld (Key ''updated_at'') GTime]"

definition User_json :: shape where
  "User_json = GStruct
    [Fld (Key ''id'') GString,
     Fld (Key ''username'') GString,
     Fld Skip GString,
     Fld (Key ''display_name'') GString,
     Fld (Key ''role'') GString,
     Fld (Key ''is_initial'') GBool,
     Fld (OmitEmpty ''oidc_provider'') GString,
     Fld (OmitEmpty ''oidc_subject'') GString,
     Fld (OmitEmpty ''oidc_issuer'') GString,
     Fld (Key ''created_at'') GTime,
     Fld (Key ''updated_at'') GTime]"

definition OIDCProvider_json :: shape where
  "OIDCProvider_json = GStruct
    [Fld (Key ''id'') GString,
     Fld (Key ''name'') GString,
     Fld (Key ''issuer'') GString,
     Fld (Key ''client_id'') GString,
     Fld Skip GString,
     Fld (Key ''scopes'') GString,
     Fld (Key ''auto_discover'') GBool,
     Fld (Key ''admin_claim'') GString,
     Fld (Key ''admin_value'') GString,
     Fld (Key ''default_role'') GString,
     Fld (Key ''enabled'') GBool,
     Fld (Key ''created_at'') GTime,
     Fld (Key ''updated_at'') GTime]"

definition ConnectionLog_json :: shape where
  "ConnectionLog_json = GStruct
    [Fld (Key ''id'') GInt,
     Fld (Key ''peer_id'') GString,
     Fld (Key ''peer_name'') GString,
     Fld (Key ''interface_id'') GString,
     Fld (Key ''event'') GString,
     Fld (OmitEmpty ''endpoint'') GString,
     Fld (Key ''transfer_rx'') GInt,
     Fld (Key ''transfer_tx'') GInt,
     Fld (Key ''recorded_at'') GTime,
     Fld (OmitEmpty ''duration'') GInt]"

definition PeerStatus_json :: shape where
  "PeerStatus_json = GStruct
    [Fld (Key ''peer'') Peer_json,
     Fld (Key ''has_private_key'') GBool,
     Fld (Key ''last_handshake'') GTime,
     Fld (Key ''transfer_rx'') GInt,
     Fld (Key ''transfer_tx'') GInt,
     Fld (Key ''connected'') GBool,
     Fld (OmitEmpty ''endpoint'') GString,
     Fld (OmitEmpty ''connected_since'') (GPtr GTime)]"

definition InterfaceStatus_json :: shape where
  "InterfaceStatus_json = GStruct
    [Fld (Key ''interface'') Interface_json,
     Fld (Key ''public_key'') GString,
     Fld (Key ''running'') GBool,
     Fld (Key ''peers'') (GSlice PeerStatus_json)]"

definition interfaceSummary_json :: shape where
  "interfaceSummary_json = GStruct
    [Fld (Key ''id'') GString,
     Fld (Key ''type'') GString,
     Fld (Key ''address'') GString,
     Fld (Key ''listen_port'') GInt,
     Fld (OmitEmpty ''endpoint'') GString,
     Fld (Key ''enabled'') GBool,
     Fld (Key ''running'') GBool,
     Fld (Key ''public_key'') GString,
     Fld (Key ''total_peers'') GInt,
     Fld (Key ''connected_peers'') GInt,
     Fld (Key ''total_rx'') GInt,
     Fld (Key ''total_tx'') GInt]"

definition activeConnection_json :: shape where
  "activeConnection_json = GStruct
    [Fld (Key ''interface_id'') GString,
     Fld (Key ''peer_id'') GString,
     Fld (Key ''peer_name'') GString,
     Fld (Key ''peer_type'') GString,
     Fld (Key ''address'') GString,
     Fld (OmitEmpty ''endpoint'') GString,
     Fld (Key ''last_handshake'') GString,
     Fld (OmitEmpty ''connected_since'') GString,
     Fld (Key ''transfer_rx'') GInt,
     Fld (Key ''transfer_tx'') GInt]"

definition dashboardResponse_json :: shape where
  "dashboardResponse_json = GStruct
    [Fld (Key ''interfaces'') (GSlice interfaceSummary_json),
     Fld (Key ''active_connections'') (GSlice activeConnection_json),
     Fld (Key ''total_peers'') GInt,
     Fld (Key ''active_peers'') GInt,
     Fld (Key ''total_rx'') GInt,
     Fld (Key ''total_tx'') GInt]"

definition smtpSettingsData_json :: shape where
  "smtpSettingsData_json = GStruct
    [Fld (Key ''host'') GString,
     Fld (Key ''port'') GString,
     Fld (Key ''username'') GString,
     Fld (Key ''has_password'') GBool,
     Fld (Key ''from'') GString,
     Fld (Key ''tls'') GString]"

definition settingsResponse_json :: shape where
  "settingsResponse_json = GStruct
    [Fld (Key ''external_url'') GString,
     Fld (Key ''oidc_providers'') (GSlice OIDCProvider_json),
     Fld (Key ''local_auth_enabled'') GBool,
     Fld (OmitEmpty ''smtp'') (GPtr smtpSettingsData_json)]"

definition sessionResponse_json :: shape where
  "sessionResponse_json = GStruct
    [Fld (Key ''user'') (GPtr User_json),
     Fld (Key ''csrf_token'') GString,
     Fld (OmitEmpty ''smtp_enabled'') GBool]"

definition setupCheckResponse_json :: shape where
  "setupCheckResponse_json = GStruct
    [Fld (Key ''needs_setup'') GBool]"

definition oidcProviderInfo_json :: shape where
  "oidcProviderInfo_json = GStruct
    [Fld (Key ''id'') GString,
     Fld (Key ''name'') GString,
     Fld (Key ''login_url'') GString]"

definition authOptionsResponse_json :: shape where
  "authOptionsResponse_json = GStruct
    [Fld (Key ''auth_required'') GBool,
     Fld (Key ''oidc_providers'') (GSlice oidcProviderInfo_json),
     Fld (Key ''local_auth_enabled'') GBool,
     Fld (OmitEmpty ''demo'') GBool]"

section \<open>The structs of the web application\<close>

definition userData_web :: shape where
  "userData_web = GStruct
    [Fld (Key ''id'') GString,
     Fld (Key ''username'') GString,
     Fld (Key ''display_name'') GString,
     Fld (Key ''role'') GString,
     Fld (Key ''is_initial'') GBool,
     Fld (OmitEmpty ''oidc_provider'') GString,
     Fld (OmitEmpty ''oidc_issuer'') GString]"

definition sessionData_web :: shape where
  "sessionData_web = GStruct
    [Fld (Key ''user'') userData_web,
     Fld (Key ''csrf_token'') GString,
     Fld (Key ''smtp_enabled'') GBool]"

definition setupCheck_web :: shape where
  "setupCheck_web = GStruct
    [Fld (Key ''needs_setup'') GBool]"

definition oidcProviderInfo_web :: shape where
  "oidcProviderInfo_web = GStruct
    [Fld (Key ''id'') GString,
     Fld (Key ''name'') GString,
     Fld (Key ''login_url'') GString]"

definition authOptions_web :: shape where
  "authOptions_web = GStruct
    [Fld (Key ''auth_required'') GBool,
     Fld (Key ''oidc_providers'') (GSlice oidcProviderInfo_web),
     Fld (Key ''local_auth_enabled'') GBool,
     Fld (Key ''demo'') GBool]"

definition smtpSettingsData_web :: shape where
  "smtpSettingsData_web = GStruct
    [Fld (Key ''host'') GString,
     Fld (Key ''port'') GString,
     Fld (Key ''username'') GString,
     Fld (Key ''has_password'') GBool,
     Fld (Key ''from'') GString,
     Fld (Key ''tls'') GString]"

definition oidcProviderData_web :: shape where
  "oidcProviderData_web = GStruct
    [Fld (Key ''id'') GString,
     Fld (Key ''name'') GString,
     Fld (Key ''issuer'') GString,
     Fld (Key ''client_id'') GString,
     Fld (Key ''scopes'') GString,
     Fld (Key ''auto_discover'') GBool,
     Fld (Key ''admin_claim'') GString,
     Fld (Key ''admin_value'') GString,
     Fld (Key ''default_role'') GString,
     Fld (Key ''enabled'') GBool]"

definition settingsData_web :: shape where
  "settingsData_web = GStruct
    [Fld (Key ''external_url'') GString,
     Fld (Key ''oidc_providers'') (GSlice oidcProviderData_web),
     Fld (Key ''local_auth_enabled'') GBool,
     Fld (Key ''smtp'') (GPtr smtpSettingsData_web)]"

definition interfaceData_web :: shape where
  "interfaceData_web = GStruct
    [Fld (Key ''id'') GString,
     Fld (Key ''type'') GString,
     Fld (Key ''listen_port'') GInt,
     Fld (Key ''address'') GString,
     Fld (Key ''dns'') GString,
     Fld (Key ''mtu'') GInt,
     Fld (Key ''endpoint'') GString,
     Fld (Key ''post_up'') GString,
     Fld (Key ''post_down'') GString,
     Fld (Key ''enabled'') GBool]"

definition peerData_web :: shape where
  "peerData_web = GStruct
    [Fld (Key ''id'') GString,
     Fld (Key ''interface_id'') GString,
     Fld (Key ''type'') GString,
     Fld (Key ''name'') GString,
     Fld (Key ''public_key'') GString,
     Fld (Key ''address'') GString,
     Fld (Key ''allowed_ips'') GString,
     Fld (Key ''client_allowed_ips'') GString,
     Fld (Key ''dns'') GString,
     Fld (Key ''endpoint'') GString,
     Fld (Key ''persistent_keepalive'') GInt,
     Fld (Key ''alert_on_connect'') GBool,
     Fld (Key ''alert_on_disconnect'') GBool,
     Fld (Key ''alert_emails'') GString,
     Fld (Key ''enabled'') GBool,
     Fld (Key ''transfer_rx'') GInt,
     Fld (Key ''transfer_tx'') GInt]"

definition activeConnectionData_web :: shape where
  "activeConnectionData_web = GStruct
    [Fld (Key ''interface_id'') GString,
     Fld (Key ''peer_id'') GString,
     Fld (Key ''peer_name'') GString,
     Fld (Key ''peer_type'') GString,
     Fld (Key ''address'') GString,
     Fld (OmitEmpty ''endpoint'') GString,
     Fld (Key ''last_handshake'') GString,
     Fld (OmitEmpty ''connected_since'') GString,
     Fld (Key ''transfer_rx'') GInt,
     Fld (Key ''transfer_tx'') GInt]"

definition interfaceSummaryData_web :: shape where
  "interfaceSummaryData_web = GStruct
    [Fld (Key ''id'') GString,
     Fld (Key ''type'') GString,
     Fld (Key ''address'') GString,
     Fld (Key ''listen_port'') GInt,
     Fld (OmitEmpty ''endpoint'') GString,
     Fld (Key ''enabled'') GBool,
     Fld (Key ''running'') GBool,
     Fld (Key ''public_key'') GString,
     Fld (Key ''total_peers'') GInt,
     Fld (Key ''connected_peers'') GInt,
     Fld (Key ''total_rx'') GInt,
     Fld (Key ''total_tx'') GInt]"

definition dashboardData_web :: shape where
  "dashboardData_web = GStruct
    [Fld (Key ''interfaces'') (GSlice interfaceSummaryData_web),
     Fld (Key ''active_connections'') (GSlice activeConnectionData_web),
     Fld (Key ''total_peers'') GInt,
     Fld (Key ''active_peers'') GInt,
     Fld (Key ''total_rx'') GInt,
     Fld (Key ''total_tx'') GInt]"

definition peerStatusData_web :: shape where
  "peerStatusData_web = GStruct
    [Fld (Key ''peer'') peerData_web,
     Fld (Key ''has_private_key'') GBool,
     Fld (Key ''last_handshake'') GString,
     Fld (OmitEmpty ''connected_since'') GString,
     Fld (Key ''transfer_rx'') GInt,
     Fld (Key ''transfer_tx'') GInt,
     Fld (Key ''connected'') GBool,
     Fld (OmitEmpty ''endpoint'') GString]"

definition interfaceStatusData_web :: shape where
  "interfaceStatusData_web = GStruct
    [Fld (Key ''interface'') interfaceData_web,
     Fld (Key ''public_key'') GString,
     Fld (Key ''running'') GBool,
     Fld (Key ''peers'') (GSlice peerStatusData_web)]"

definition connectionLogData_web :: shape where
  "connectionLogData_web = GStruct
    [Fld (Key ''id'') GInt,
     Fld (Key ''peer_id'') GString,
     Fld (Key ''peer_name'') GString,
     Fld (Key ''interface_id'') GString,
     Fld (Key ''event'') GString,
     Fld (OmitEmpty ''endpoint'') GString,
     Fld (Key ''transfer_rx'') GInt,
     Fld (Key ''transfer_tx'') GInt,
     Fld (Key ''recorded_at'') GString,
     Fld (OmitEmpty ''duration'') GInt]"

section \<open>What a reader sees of what a writer sent\<close>

text \<open>A value of a type: its integers are those of 64 bits.\<close>

fun fits :: "shape \<Rightarrow> gov \<Rightarrow> bool" and fits_fields :: "fld list \<Rightarrow> gov list \<Rightarrow> bool" where
  "fits GString v = (case v of VString t \<Rightarrow> True | _ \<Rightarrow> False)"
| "fits GInt v = (case v of VInt i \<Rightarrow> - (2 ^ 63) \<le> i \<and> i < 2 ^ 63 | _ \<Rightarrow> False)"
| "fits GBool v = (case v of VBool b \<Rightarrow> True | _ \<Rightarrow> False)"
| "fits GTime v = (case v of VTime t \<Rightarrow> True | _ \<Rightarrow> False)"
| "fits (GPtr s) v = (case v of VNil \<Rightarrow> True | VRef w \<Rightarrow> fits s w | _ \<Rightarrow> False)"
| "fits (GSlice s) v = (case v of VNil \<Rightarrow> True | VSlice vs \<Rightarrow> list_all (fits s) vs | _ \<Rightarrow> False)"
| "fits (GStruct fs) v = (case v of VStruct vs \<Rightarrow> fits_fields fs vs | _ \<Rightarrow> False)"
| "fits_fields [] vs = (vs = [])"
| "fits_fields (Fld t s # fs) vs = (case vs of [] \<Rightarrow> False | v # ws \<Rightarrow> fits s v \<and> fits_fields fs ws)"

fun field_at :: "string \<Rightarrow> fld list \<Rightarrow> gov list \<Rightarrow> (tag \<times> shape \<times> gov) option" where
  "field_at k (Fld t s # fs) (v # vs) = (if tag_key t = Some k then Some (t, s, v) else field_at k fs vs)"
| "field_at k fs vs = None"

fun field_type :: "string \<Rightarrow> fld list \<Rightarrow> (tag \<times> shape) option" where
  "field_type k (Fld t s # fs) = (if tag_key t = Some k then Some (t, s) else field_type k fs)"
| "field_type k [] = None"

fun field_keys :: "fld list \<Rightarrow> string list" where
  "field_keys (Fld t s # fs) = (case tag_key t of None \<Rightarrow> [] | Some k \<Rightarrow> [k]) @ field_keys fs"
| "field_keys [] = []"

definition nullable :: "shape \<Rightarrow> bool" where
  "nullable s = (case s of GPtr r \<Rightarrow> True | GSlice r \<Rightarrow> True | _ \<Rightarrow> False)"

definition is_slice :: "shape \<Rightarrow> bool" where
  "is_slice s = (case s of GSlice r \<Rightarrow> True | _ \<Rightarrow> False)"

definition omits :: "tag \<Rightarrow> bool" where
  "omits t = (case t of OmitEmpty k \<Rightarrow> True | _ \<Rightarrow> False)"

text \<open>The value of the reader's type that has, under every key, the value of the writer, and zero where the writer has no such key.\<close>

fun as_read :: "shape \<Rightarrow> shape \<Rightarrow> gov \<Rightarrow> gov" and fields_as_read :: "fld list \<Rightarrow> fld list \<Rightarrow> gov list \<Rightarrow> gov list" where
  "as_read c (GPtr s) v =
     (case v of VRef w \<Rightarrow> (case c of GPtr d \<Rightarrow> VRef (as_read d s w) | _ \<Rightarrow> as_read c s w) | _ \<Rightarrow> zero_gov c)"
| "as_read (GSlice c) (GSlice s) v = (case v of VSlice vs \<Rightarrow> VSlice (map (as_read c s) vs) | _ \<Rightarrow> VNil)"
| "as_read (GStruct cs) (GStruct ss) v = (case v of VStruct vs \<Rightarrow> VStruct (fields_as_read cs ss vs) | _ \<Rightarrow> v)"
| "as_read GString GTime v = (case v of VTime t \<Rightarrow> VString t | _ \<Rightarrow> v)"
| "as_read c s v = v"
| "fields_as_read [] ss vs = []"
| "fields_as_read (Fld t c # cs) ss vs =
     (case Option.bind (tag_key t) (\<lambda>k. field_at k ss vs) of None \<Rightarrow> zero_gov c | Some (u, s, v) \<Rightarrow> as_read c s v)
     # fields_as_read cs ss vs"

text \<open>The types agree under every key that both have, and the keys of the writer are distinct.\<close>

fun agrees :: "shape \<Rightarrow> shape \<Rightarrow> bool" and agrees_fields :: "fld list \<Rightarrow> fld list \<Rightarrow> bool" where
  "agrees c (GPtr s) = (case c of GPtr d \<Rightarrow> \<not> nullable s \<and> agrees d s | _ \<Rightarrow> agrees c s)"
| "agrees (GSlice c) (GSlice s) = agrees c s"
| "agrees (GStruct cs) (GStruct ss) = (distinct (field_keys ss) \<and> agrees_fields cs ss)"
| "agrees GString s = (s = GString \<or> s = GTime)"
| "agrees GInt s = (s = GInt)"
| "agrees GBool s = (s = GBool)"
| "agrees c s = False"
| "agrees_fields [] ss = True"
| "agrees_fields (Fld t c # cs) ss =
     ((case Option.bind (tag_key t) (\<lambda>k. field_type k ss) of None \<Rightarrow> True | Some (u, s) \<Rightarrow> agrees c s \<and> \<not> (omits u \<and> is_slice s))
      \<and> agrees_fields cs ss)"

lemma field_keys_at: "k \<notin> set (field_keys fs) \<Longrightarrow> field_at k fs vs = None"
  by (induction k fs vs rule: field_at.induct) (auto split: option.splits)

lemma encode_keys: "k \<notin> set (field_keys fs) \<Longrightarrow> map_of (encode_fields fs vs) k = None"
proof (induction fs arbitrary: vs)
  case (Cons f fs)
  then show ?case by (cases f; cases vs) (auto simp: tag_key_def split: tag.splits)
qed simp

lemma map_of_encode_fields:
  assumes "distinct (field_keys fs)"
  shows "map_of (encode_fields fs vs) k =
    (case field_at k fs vs of None \<Rightarrow> None
     | Some (t, s, v) \<Rightarrow> if omits t \<and> is_empty v then None else Some (encode s v))"
  using assms
proof (induction k fs vs rule: field_at.induct)
  case (1 k t s fs v vs)
  then show ?case
    using encode_keys [of k fs vs] by (cases t) (auto simp: tag_key_def omits_def field_keys_at split: option.splits)
qed (auto simp: tag_key_def)

lemma fits_fields_Nil [simp]: "fits_fields fs [] \<longleftrightarrow> fs = []"
proof (cases fs)
  case (Cons f gs)
  then show ?thesis by (cases f) simp
qed simp

lemma field_at_type:
  "fits_fields fs vs \<Longrightarrow>
     (case field_at k fs vs of None \<Rightarrow> field_type k fs = None | Some (t, s, v) \<Rightarrow> field_type k fs = Some (t, s) \<and> fits s v)"
  by (induction k fs vs rule: field_at.induct) (auto split: option.splits list.splits fld.splits)

lemma encode_null: "fits s v \<Longrightarrow> encode s v = JsNull \<Longrightarrow> nullable s"
  by (cases s; cases v) (auto simp: nullable_def)

lemma all_some_map: "(\<And>x. x \<in> set xs \<Longrightarrow> f x = Some (g x)) \<Longrightarrow> all_some (map f xs) = Some (map g xs)"
  by (induction xs) auto

lemma empty_view:
  "fits s v \<Longrightarrow> is_empty v \<Longrightarrow> agrees c s \<Longrightarrow> \<not> is_slice s \<Longrightarrow> as_read c s v = zero_gov c"
  by (cases s; cases v; cases c) (auto simp: is_slice_def)

lemma ptr_case:
  assumes d: "\<not> nullable s" and fit: "fits s w" and dec: "decode d (encode s w) = Some (as_read d s w)"
  shows "decode (GPtr d) (encode (GPtr s) (VRef w)) = Some (as_read (GPtr d) (GPtr s) (VRef w))"
proof -
  have n: "encode s w \<noteq> JsNull" using encode_null [OF fit] d by blast
  have e: "decode (GPtr d) j = map_option VRef (decode d j)" if "j \<noteq> JsNull" for j
    using that by (cases j) (simp_all only: decode.simps simp_thms)
  show ?thesis
   by (simp only: encode.simps e [OF n] dec as_read.simps gov.case shape.case option.map)
qed
lemma decode_encode:
  "agrees c s \<Longrightarrow> fits s v \<Longrightarrow> decode c (encode s v) = Some (as_read c s v)"
  "agrees_fields cs ss \<Longrightarrow> distinct (field_keys ss) \<Longrightarrow> fits_fields ss vs
     \<Longrightarrow> decode_fields cs (encode_fields ss vs) = Some (fields_as_read cs ss vs)"
proof (induction c s and cs ss arbitrary: v and vs rule: agrees_agrees_fields.induct)
  case (1 c s)
  show ?case
  proof (cases v)
    case (VRef w)
    have fit: "fits s w" using "1.prems"(2) VRef by simp
    show ?thesis
    proof (cases "\<exists>d. c = GPtr d")
      case True
      then obtain d where c: "c = GPtr d" by blast
      have d: "\<not> nullable s" "agrees d s" using "1.prems"(1) unfolding c by simp_all
      show ?thesis unfolding VRef c by (rule ptr_case [OF d(1) fit "1.IH"(5) [OF c d(2) fit]])
    next
      case False
      then have "agrees c s" using "1.prems"(1) by (cases c) simp_all
      then have dec: "decode c (encode s w) = Some (as_read c s w)"
        using "1.IH"(1-4,6,7) [OF _ _ fit] False by (cases c) blast+
      have "as_read c (GPtr s) (VRef w) = as_read c s w" using False by (cases c) auto
      with dec show ?thesis unfolding VRef by (simp only: encode.simps)
    qed
  qed (use "1.prems" in simp_all)
next
  case (2 c s)
  show ?case
  proof (cases v)
    case (VSlice vs)
    then have "all_some (map (decode c) (map (encode s) vs)) = Some (map (as_read c s) vs)"
      unfolding map_map o_def by (intro all_some_map) (use "2.IH" "2.prems" VSlice in \<open>simp add: list_all_iff\<close>)
    then show ?thesis using VSlice by simp
  qed (use "2.prems" in simp_all)
next
  case (3 cs ss)
  then show ?case by (cases v) (simp_all del: distinct.simps)
next
  case (9 t c cs ss)
  have rest: "decode_fields cs (encode_fields ss vs) = Some (fields_as_read cs ss vs)" using 9 by simp
  show ?case
  proof (cases "Option.bind (tag_key t) (\<lambda>k. field_at k ss vs)")
    case None
    then have "Option.bind (tag_key t) (map_of (encode_fields ss vs)) = None"
      using map_of_encode_fields [OF "9.prems"(2)] by (cases "tag_key t") simp_all
    with None rest show ?thesis by simp
  next
    case (Some x)
    then obtain k u s v where k: "tag_key t = Some k" and x: "x = (u, s, v)" and f: "field_at k ss vs = Some (u, s, v)"
      by (cases x; cases "tag_key t") auto
    have ty: "field_type k ss = Some (u, s)" and fit: "fits s v"
      using field_at_type [OF "9.prems"(3), of k] f by auto
    have com: "agrees c s" and om: "\<not> (omits u \<and> is_slice s)" using "9.prems"(1) k ty by auto
    have dec: "decode c (encode s v) = Some (as_read c s v)" using "9.IH"(1) k ty com fit by simp
    have m: "map_of (encode_fields ss vs) k
        = (if omits u \<and> is_empty v then None else Some (encode s v))"
      using map_of_encode_fields [OF "9.prems"(2), of vs k] f by simp
    show ?thesis
    proof (cases "omits u \<and> is_empty v")
      case True
      then have "as_read c s v = zero_gov c" using empty_view [OF fit _ com] om by blast
      moreover have "map_of (encode_fields ss vs) k = None" using m True by (simp only: if_P)
      ultimately show ?thesis using k f rest by simp
    next
      case False
      then have "map_of (encode_fields ss vs) k = Some (encode s v)" using m by (simp only: if_False)
      with k f rest dec show ?thesis by simp
    qed
  qed
qed (auto split: gov.splits)

section \<open>The answers of the server\<close>

text \<open>Every field of the reader is sent, at every level.\<close>

fun sent :: "shape \<Rightarrow> shape \<Rightarrow> bool" and sent_fields :: "fld list \<Rightarrow> fld list \<Rightarrow> bool" where
  "sent c (GPtr s) = (case c of GPtr d \<Rightarrow> sent d s | _ \<Rightarrow> sent c s)"
| "sent (GSlice c) (GSlice s) = sent c s"
| "sent (GStruct cs) (GStruct ss) = sent_fields cs ss"
| "sent c s = True"
| "sent_fields [] ss = True"
| "sent_fields (Fld t c # cs) ss =
     ((case Option.bind (tag_key t) (\<lambda>k. field_type k ss) of None \<Rightarrow> False | Some (u, s) \<Rightarrow> sent c s) \<and> sent_fields cs ss)"

text \<open>What a page decodes an answer into, and what the handler of the route encodes.\<close>

definition answer_types :: "(string \<times> shape \<times> shape) list" where
  "answer_types =
     [(''GET /api/v1/dashboard'', dashboardData_web, dashboardResponse_json),
      (''GET /api/v1/interfaces'', GSlice interfaceData_web, GSlice Interface_json),
      (''GET /api/v1/interfaces/{id}/status'', interfaceStatusData_web, GPtr InterfaceStatus_json),
      (''GET /api/v1/interfaces/{id}/logs'', GSlice connectionLogData_web, GSlice ConnectionLog_json),
      (''GET /api/v1/users'', GSlice userData_web, GSlice User_json),
      (''GET /api/v1/settings'', settingsData_web, settingsResponse_json),
      (''GET /api/v1/auth/session'', sessionData_web, sessionResponse_json),
      (''GET /api/v1/auth/session'', authOptions_web, authOptionsResponse_json),
      (''GET /api/v1/auth/session'', setupCheck_web, setupCheckResponse_json),
      (''POST /api/v1/auth/login'', sessionData_web, sessionResponse_json),
      (''POST /api/v1/setup'', sessionData_web, sessionResponse_json)]"

lemmas wire_defs =
  Interface_json_def Peer_json_def User_json_def OIDCProvider_json_def ConnectionLog_json_def PeerStatus_json_def
  InterfaceStatus_json_def interfaceSummary_json_def activeConnection_json_def dashboardResponse_json_def
  smtpSettingsData_json_def settingsResponse_json_def sessionResponse_json_def setupCheckResponse_json_def
  oidcProviderInfo_json_def authOptionsResponse_json_def userData_web_def sessionData_web_def setupCheck_web_def
  oidcProviderInfo_web_def authOptions_web_def smtpSettingsData_web_def oidcProviderData_web_def settingsData_web_def
  interfaceData_web_def peerData_web_def activeConnectionData_web_def interfaceSummaryData_web_def dashboardData_web_def
  peerStatusData_web_def interfaceStatusData_web_def connectionLogData_web_def

lemma answer_types_agree: "list_all (\<lambda>(r, c, s). agrees c s \<and> sent c s) answer_types"
  by code_simp

text \<open>What is tagged \<^verbatim>\<open>-\<close> has no influence on an answer: neither the hash of a password nor the secret of a provider leaves.\<close>

lemma secrets_stay:
  "encode User_json (VStruct (i # n # h # vs)) = encode User_json (VStruct (i # n # h' # vs))"
  "encode OIDCProvider_json (VStruct (i # n # u # c # h # vs)) = encode OIDCProvider_json (VStruct (i # n # u # c # h' # vs))"
  by (simp_all add: User_json_def OIDCProvider_json_def)

section \<open>Three answers on one route\<close>

text \<open>
  \<open>/auth/session\<close> answers one of three structs, and the web application finds out which by decoding the answer
  as each of them. \<open>body_gov\<close> is what is sent, with its type; \<open>stamp\<close> is the format of a time.
\<close>

definition user_gov :: "(time \<Rightarrow> string) \<Rightarrow> user \<Rightarrow> gov" where
  "user_gov stamp u = VStruct
     [VString (u_ID u), VString (u_Username u), VString (u_PasswordHash u), VString (u_DisplayName u), VString (u_Role u),
      VBool (u_IsInitial u), VString (u_OIDCProvider u), VString (u_OIDCSubject u), VString (u_OIDCIssuer u),
      VTime (stamp (u_CreatedAt u)), VTime (stamp (u_UpdatedAt u))]"

definition body_gov :: "(time \<Rightarrow> string) \<Rightarrow> auth_body \<Rightarrow> shape \<times> gov" where
  "body_gov stamp x = (case x of
       SetupCheck b \<Rightarrow> (setupCheckResponse_json, VStruct [VBool b])
     | AuthOptions a \<Rightarrow> (authOptionsResponse_json, VStruct
         [VBool (ao_AuthRequired a),
          VSlice (map (\<lambda>p. VStruct [VString (oi_ID p), VString (oi_Name p), VString (oi_LoginURL p)]) (ao_OIDCProviders a)),
          VBool (ao_LocalAuthEnabled a), VBool (ao_Demo a)])
     | SessionBody r c \<Rightarrow> (sessionResponse_json, VStruct
         [VRef (user_gov stamp (sr_User r)), VString (sr_CSRFToken r), VBool (sr_SMTPEnabled r)])
     | LoggedOut c \<Rightarrow> (GStruct [Fld (Key ''status'') GString], VStruct [VString ''ok'']))"

lemma body_fits: "body_gov stamp x = (s, v) \<Longrightarrow> fits s v"
  by (auto simp: body_gov_def user_gov_def wire_defs list_all_iff split: auth_body.splits)

lemma body_agrees:
  "body_gov stamp x = (s, v) \<Longrightarrow> agrees setupCheck_web s"
  "body_gov stamp x = (s, v) \<Longrightarrow> agrees authOptions_web s"
  "body_gov stamp x = (s, v) \<Longrightarrow> agrees sessionData_web s"
  by (auto simp: body_gov_def wire_defs tag_key_def nullable_def is_slice_def omits_def split: auth_body.splits)

lemmas body_decode = decode_encode(1) [OF body_agrees(1) body_fits] decode_encode(1) [OF body_agrees(2) body_fits]
  decode_encode(1) [OF body_agrees(3) body_fits]

lemma body_view:
  assumes "body_gov stamp x = (s, v)"
  shows "as_read setupCheck_web s v = VStruct [VBool (as_setup x)]"
    and "\<exists>w. as_read authOptions_web s v = VStruct (VBool (as_options x \<noteq> None) # w)"
    and "\<exists>i us w. as_read sessionData_web s v = VStruct (VStruct (VString i # us) # w) \<and> (i \<noteq> [] \<longleftrightarrow> as_session x \<noteq> None)"
  using assms
  by (auto simp: body_gov_def user_gov_def as_setup_def as_options_def as_session_def wire_defs tag_key_def split: auth_body.splits)

lemma preload_reads_body:
  assumes "body_gov stamp x = (s, v)"
  shows "decode setupCheck_web (encode s v) = Some (VStruct [VBool (as_setup x)])"
    and "\<exists>w. decode authOptions_web (encode s v) = Some (VStruct (VBool (as_options x \<noteq> None) # w))"
    and "\<exists>i us w. decode sessionData_web (encode s v) = Some (VStruct (VStruct (VString i # us) # w)) \<and> (i \<noteq> [] \<longleftrightarrow> as_session x \<noteq> None)"
  unfolding body_decode [OF assms assms] option.inject by (rule body_view [OF assms])+

text \<open>C40. Whatever a page decodes, it reads as it was written: every field that the web application knows is sent
  by the handler of the route, with the same type or as the text of a time, and decoding the encoded answer
  gives the value that the server had, through all levels of structs, slices and pointers. Integers are those of 64 bits.\<close>

theorem answers_read_as_written:
  assumes "(r, c, s) \<in> set answer_types" and "fits s v"
  shows "decode c (encode s v) = Some (as_read c s v) \<and> sent c s"
  using assms answer_types_agree decode_encode(1) by (auto simp: list_all_iff)

lemma answers_read_as_written_witness:
  "decode (GSlice userData_web) (encode (GSlice User_json) (VSlice [user_gov (\<lambda>t. ''2026-01-01T00:00:00Z'') zero_user]))
     = Some (VSlice [VStruct [VString [], VString [], VString [], VString [], VBool False, VString [], VString []]])"
proof -
  have "(''GET /api/v1/users'', GSlice userData_web, GSlice User_json) \<in> set answer_types" by (simp add: answer_types_def)
  from answers_read_as_written [OF this, of "VSlice [user_gov (\<lambda>t. ''2026-01-01T00:00:00Z'') zero_user]"]
  show ?thesis by (simp add: user_gov_def zero_user_def userData_web_def User_json_def tag_key_def)
qed

end
