(* ===== verification/WebEffects.thy ===== *)
theory WebEffects
  imports WebPages WebLists
begin

text \<open>
  What touches the elements of a page after they are drawn (ui/web/common.go): the uptimes that tick, and the
  input that gets the focus when a form opens. The script of the uptimes, \<open>initUptimeTimers\<close>, rewrites every second
  the text of each element with the attribute \<^verbatim>\<open>data-since\<close>; it repeats in JavaScript what \<open>FormatSeconds\<close> does in Go, and
  is shown to agree with it.
\<close>

section \<open>The uptimes\<close>

definition fmtUptime :: "int \<Rightarrow> string" where
  "fmtUptime s0 =
     (let s = if s0 < 0 then 0 else s0;
          d = s div 86400; h = s mod 86400 div 3600; m = s mod 3600 div 60; sec = s mod 60 in
      if d > 0 then (if h > 0 then itoa d @ ''d '' @ itoa h @ ''h'' else itoa d @ ''d'')
      else if h > 0 then (if m > 0 then itoa h @ ''h '' @ itoa m @ ''m'' else itoa h @ ''h'')
      else if m > 0 then (if sec > 0 then itoa m @ ''m '' @ itoa sec @ ''s'' else itoa m @ ''m'')
      else itoa sec @ ''s'')"

text \<open>
  One tick at the Unix time \<open>now\<close>. The attribute is written by \<open>UptimeSpan\<close> alone, always as the decimal text of an
  integer, on which \<open>parseInt\<close> and \<open>Atoi\<close> agree. Setting \<open>textContent\<close> replaces all children.
\<close>

primrec uptime_tick :: "int \<Rightarrow> 's node \<Rightarrow> 's node" where
  "uptime_tick now (Elem t as ns) =
     (case Option.bind (map_of as ''data-since'') (\<lambda>v. case Atoi v of Inr i \<Rightarrow> Some i | Inl _ \<Rightarrow> None) of
        Some since \<Rightarrow> Elem t as [Text (fmtUptime (now - since))]
      | None \<Rightarrow> Elem t as (map (uptime_tick now) ns))"
| "uptime_tick now (Text s) = Text s"
| "uptime_tick now (Icon n k) = Icon n k"
| "uptime_tick now (Act b as ns) = Act b as (map (uptime_tick now) ns)"
| "uptime_tick now (Submit l v) = Submit l v"
| "uptime_tick now (Copy s as ns) = Copy s as (map (uptime_tick now) ns)"
| "uptime_tick now (Hidden n) = Hidden (uptime_tick now n)"

lemma fmtUptime_FormatSeconds: "fmtUptime s = FormatSeconds s"
proof (cases "s \<le> 0")
  case True
  have "itoa 0 = ''0''" by code_simp
  with True show ?thesis by (simp add: fmtUptime_def FormatSeconds_def Let_def)
next
  case False
  define d h m sec where "d = s div 86400" "h = s mod 86400 div 3600" "m = s mod 3600 div 60" "sec = s mod 60"
  have n: "(if s < 0 then 0 else s) = s" using False by simp
  show ?thesis
    unfolding fmtUptime_def FormatSeconds_def n Let_def d_h_m_sec_def [symmetric] using False by (simp only: if_False) auto
qed

text \<open>The seconds that the script counts are those of the first rendering, or one more.\<close>

lemma unix_difference: "unix_seconds now - unix_seconds t - (now - t) div second \<in> {0, 1}"
proof -
  have s: "second = 1000000000" by (simp add: second_def)
  show ?thesis unfolding unix_seconds_def s by simp linarith
qed

lemma ticking_uptime:
  assumes "t \<le> now" and "now - t < 2 ^ 63" and "\<bar>unix_seconds t\<bar> < 2 ^ 63"
  shows "\<exists>e \<in> {0, 1}. uptime_tick (unix_seconds now) (UptimeSpan now (Some t) :: 's node)
      = Elem ''span'' [(''data-since'', itoa (unix_seconds t))] [Text (FormatSeconds ((now - t) div second + e))]
    \<and> UptimeSpan now (Some t)
      = (Elem ''span'' [(''data-since'', itoa (unix_seconds t))] [Text (FormatSeconds ((now - t) div second))] :: 's node)"
proof -
  have a: "Atoi (itoa (unix_seconds t)) = Inr (unix_seconds t)" using assms(3) by (intro Atoi_itoa) auto
  have "time_sub now t = now - t" using assms(1,2) by (intro time_sub_small) simp
  then have d: "FormatDuration now t = FormatSeconds ((now - t) div second)"
    using assms(1) by (simp add: FormatDuration_def)
  have u: "UptimeSpan now (Some t)
      = (Elem ''span'' [(''data-since'', itoa (unix_seconds t))] [Text (FormatSeconds ((now - t) div second))] :: 's node)"
    by (simp add: UptimeSpan_def d)
  have x: "uptime_tick (unix_seconds now) (UptimeSpan now (Some t))
      = (Elem ''span'' [(''data-since'', itoa (unix_seconds t))] [Text (FormatSeconds (unix_seconds now - unix_seconds t))] :: 's node)"
    unfolding u by (simp add: a fmtUptime_FormatSeconds)
  define e where "e = unix_seconds now - unix_seconds t - (now - t) div second"
  have e: "e \<in> {0, 1}" unfolding e_def by (rule unix_difference)
  have "unix_seconds now - unix_seconds t = (now - t) div second + e" by (simp add: e_def)
  with x have "uptime_tick (unix_seconds now) (UptimeSpan now (Some t))
      = (Elem ''span'' [(''data-since'', itoa (unix_seconds t))] [Text (FormatSeconds ((now - t) div second + e))] :: 's node)"
    by (simp only:)
  then show ?thesis using e u by (intro bexI [of _ e] conjI)
qed

section \<open>The focus\<close>

text \<open>The attributes of the inputs of a tree, in the order of the document.\<close>

fun node_inputs :: "'s node \<Rightarrow> (string \<times> string) list list" where
  "node_inputs (Elem t as ns) = (if t = ''input'' then [as] else []) @ concat (map node_inputs ns)"
| "node_inputs (Text s) = []"
| "node_inputs (Icon n k) = []"
| "node_inputs (Act b as ns) = concat (map node_inputs ns)"
| "node_inputs (Submit l v) = []"
| "node_inputs (Copy s as ns) = concat (map node_inputs ns)"
| "node_inputs (Hidden n) = node_inputs n"

text \<open>\<open>FocusInput\<close> with a selector \<^verbatim>\<open>input[name="value"]\<close>: the first input that it matches, if there is one.\<close>

definition FocusInput :: "string \<Rightarrow> string \<Rightarrow> 's node \<Rightarrow> (string \<times> string) list option" where
  "FocusInput name val n = List.find (\<lambda>as. map_of as name = Some val) (node_inputs n)"

lemma error_inputs [simp]: "node_inputs (ErrorAlert e) = []"
  by (simp add: ErrorAlert_def Let_def)

lemma form_field_inputs [simp]:
  "node_inputs (FormField l t p v) = [[(''type'', t), (''placeholder'', p)] @ value_attr v]"
  "node_inputs (FormFieldWithHelp l t p h v) = [[(''type'', t), (''placeholder'', p)] @ value_attr v]"
  by (simp_all add: FormField_def FormFieldWithHelp_def hidden_unless_def)

lemma cidr_field_inputs:
  "node_inputs (CIDRField_view l p h d k init f)
     = [[(''id'', ''cidr-field-'' @ itoa (int k) @ ''-ip''), (''type'', ''text''), (''placeholder'', fst (splitCIDR p d))]]"
  by (simp add: CIDRField_view_def Let_def hidden_unless_def comp_def)

lemma form_parts_inputs [simp]:
  "node_inputs (chips_box c i p) = [[(''id'', i), (''placeholder'', p @ '' '' @ dash @ '' Enter to add'')]]"
  "node_inputs (text_area p r as) = []"
  "node_inputs (Btn v b) = []"
  by (simp_all add: chips_box_def text_area_def Btn_def comp_def split: option.split)

text \<open>
  The form that creates an interface, the one that imports it and the one for a private key focus their first
  input, and so does the form of a peer, for a client. The form for a site focuses nothing, as its
  first input has another placeholder; nor does the form of an interface, ever: \<open>CIDRField\<close> cuts the prefix off the placeholder.
\<close>

lemma focus_first:
  "\<exists>as. FocusInput ''placeholder'' ''wg0'' (createInterfaceForm k err ex f) = Some as"
  "\<exists>as. FocusInput ''placeholder'' ''wg0'' (importInterfaceForm err ident) = Some as"
  "\<exists>as. FocusInput ''placeholder'' ''base64-encoded WireGuard private key'' (peerSetKeyForm n err b key) = Some as"
  by (simp_all add: FocusInput_def createInterfaceForm_def importInterfaceForm_def peerSetKeyForm_def Card_def CardHeader_def split: prod.split)

lemma focus_interface_form: "FocusInput ''placeholder'' ''10.100.0.1/24'' (interfaceEditForm fm i key) = None"
proof -
  have "fst (splitCIDR ''10.100.0.1/24'' ''/24'') = ''10.100.0.1''" by code_simp
  then show ?thesis
    by (simp add: FocusInput_def interfaceEditForm_def cidr_field_inputs hook_area_def readOnlyCopyField_def value_attr_def)
qed

lemma focus_peer_form:
  "(\<exists>as. FocusInput ''placeholder'' ''Phone, Laptop, etc.'' (PeerEditForm_view k cf err f) = Some as) \<longleftrightarrow> pf_Type f \<noteq> ''site''"
proof -
  have "fst (splitCIDR ''10.100.0.2/32'' ''/32'') = ''10.100.0.2''" by code_simp
  then show ?thesis
    by (simp add: FocusInput_def PeerEditForm_view_def peer_inputs_def type_cards_def typeSelectorCard_def alertSection_def
        alert_check_def chipInput_def cidr_field_inputs labelsForType_def Card_def Tooltip_def hidden_unless_def Let_def
        value_attr_def dash_def)
qed

end
