(* ===== verification/LinuxNet.thy ===== *)
theory LinuxNet
  imports HandlersNet
begin

text \<open>
  The Linux implementation of \<^verbatim>\<open>NetManager\<close> (internal/wg/netmanager_linux.go): each operation as the
  calls it makes on the machine. The answers of the machine are a parameter; an answer may depend
  on all calls made before. The error of a command comes with the output of the command, the answer
  to \<open>CreateTemp\<close> is the name of the new file, other answers that carry no value are empty texts.
\<close>

section \<open>The machine\<close>

datatype sys_call =
    LinkAdd string string
  | LinkByName string
  | LinkDel string
  | ParseAddr string
  | AddrReplace string string
  | LinkSetMTU string int
  | LinkSetUp string
  | LinkSetDown string
  | Command "string list"
  | CreateTemp string
  | WriteTemp string string
  | CloseFile string
  | RemoveFile string
  | WriteFile string string nat
  | InterfaceByName string

type_synonym machine = "sys_call list \<Rightarrow> sys_call \<Rightarrow> error + string"

type_synonym 'a sys = "(sys_call list, 'a) state"

definition sys :: "machine \<Rightarrow> sys_call \<Rightarrow> (error + string) sys" where
  "sys m c = State (\<lambda>h. (m h c, h @ [c]))"

lemma run_sys [run_simps]: "run_state (sys m c) h = (m h c, h @ [c])"
  by (simp add: sys_def)

section \<open>Operations\<close>

definition linux_Create :: "machine \<Rightarrow> string \<Rightarrow> (error + unit) sys" where
  "linux_Create m name =
     check (''creating interface '' @ name) (sys m (LinkAdd name ''wireguard'')) (\<lambda>_. ok ())"

text \<open>The operations on an existing link look it up first.\<close>

definition with_link :: "machine \<Rightarrow> string \<Rightarrow> (error + unit) sys \<Rightarrow> (error + unit) sys" where
  "with_link m name k = check (''finding interface '' @ name) (sys m (LinkByName name)) (\<lambda>_. k)"

definition linux_Delete :: "machine \<Rightarrow> string \<Rightarrow> (error + unit) sys" where
  "linux_Delete m name =
     with_link m name (check (''deleting interface '' @ name) (sys m (LinkDel name)) (\<lambda>_. ok ()))"

definition linux_SetAddress :: "machine \<Rightarrow> string \<Rightarrow> string \<Rightarrow> (error + unit) sys" where
  "linux_SetAddress m name address =
     with_link m name
       (check (''parsing address '' @ address) (sys m (ParseAddr address)) (\<lambda>addr.
        check (''setting address on '' @ name) (sys m (AddrReplace name addr)) (\<lambda>_. ok ())))"

definition linux_SetMTU :: "machine \<Rightarrow> string \<Rightarrow> int \<Rightarrow> (error + unit) sys" where
  "linux_SetMTU m name mtu =
     with_link m name (check (''setting MTU on '' @ name) (sys m (LinkSetMTU name mtu)) (\<lambda>_. ok ()))"

definition linux_SetUp :: "machine \<Rightarrow> string \<Rightarrow> (error + unit) sys" where
  "linux_SetUp m name =
     with_link m name (check (''bringing up '' @ name) (sys m (LinkSetUp name)) (\<lambda>_. ok ()))"

definition linux_SetDown :: "machine \<Rightarrow> string \<Rightarrow> (error + unit) sys" where
  "linux_SetDown m name =
     with_link m name (check (''bringing down '' @ name) (sys m (LinkSetDown name)) (\<lambda>_. ok ()))"

definition linux_QuickUp :: "machine \<Rightarrow> string \<Rightarrow> (error + unit) sys" where
  "linux_QuickUp m name =
     check (''wg-quick up '' @ name) (sys m (Command [''wg-quick'', ''up'', name])) (\<lambda>_. ok ())"

definition linux_QuickDown :: "machine \<Rightarrow> string \<Rightarrow> (error + unit) sys" where
  "linux_QuickDown m name =
     check (''wg-quick down '' @ name) (sys m (Command [''wg-quick'', ''down'', name])) (\<lambda>_. ok ())"

text \<open>A deferred call runs after the rest, whatever that returned.\<close>

definition deferred :: "'a sys \<Rightarrow> 'b sys \<Rightarrow> 'b sys" where
  "deferred d k = State_Monad.bind k (\<lambda>r. ignore d (State_Monad.return r))"

definition linux_SyncConf :: "machine \<Rightarrow> string \<Rightarrow> string \<Rightarrow> (error + unit) sys" where
  "linux_SyncConf m name confData =
     check ''creating temp file'' (sys m (CreateTemp (''wgrift-'' @ name @ ''-*.conf''))) (\<lambda>tmp.
     deferred (sys m (RemoveFile tmp))
       (attempt (sys m (WriteTemp tmp confData))
          (\<lambda>e. ignore (sys m (CloseFile tmp)) (fail (Wrap ''writing temp config'' e)))
          (\<lambda>_. ignore (sys m (CloseFile tmp))
             (check (''wg syncconf '' @ name) (sys m (Command [''wg'', ''syncconf'', name, tmp])) (\<lambda>_. ok ())))))"

definition linux_SaveConf :: "machine \<Rightarrow> string \<Rightarrow> string \<Rightarrow> (error + unit) sys" where
  "linux_SaveConf m name confData =
     check (''writing config '' @ conf_path name) (sys m (WriteFile (conf_path name) confData 384)) (\<lambda>_. ok ())"

definition linux_Exists :: "machine \<Rightarrow> string \<Rightarrow> (error + bool) sys" where
  "linux_Exists m name = attempt (sys m (InterfaceByName name)) (\<lambda>_. ok False) (\<lambda>_. ok True)"

text \<open>The operations the manager calls, by the constructors of \<open>net_op\<close>; only \<open>Exists\<close> has a value.\<close>

definition plain :: "(error + unit) sys \<Rightarrow> (error + bool) sys" where
  "plain k = attempt k fail (\<lambda>_. ok True)"

fun linuxNetManager :: "machine \<Rightarrow> net_op \<Rightarrow> (error + bool) sys" where
  "linuxNetManager m (NetDelete n) = plain (linux_Delete m n)"
| "linuxNetManager m (NetSetDown n) = plain (linux_SetDown m n)"
| "linuxNetManager m (NetExists n) = linux_Exists m n"
| "linuxNetManager m (NetQuickUp n) = plain (linux_QuickUp m n)"
| "linuxNetManager m (NetQuickDown n) = plain (linux_QuickDown m n)"
| "linuxNetManager m (NetSyncConf n c) = plain (linux_SyncConf m n c)"
| "linuxNetManager m (NetSaveConf n c) = plain (linux_SaveConf m n c)"

fun run_ops :: "machine \<Rightarrow> net_op list \<Rightarrow> unit sys" where
  "run_ops m [] = State_Monad.return ()"
| "run_ops m (c # cs) = ignore (linuxNetManager m c) (run_ops m cs)"

section \<open>No configuration is left behind\<close>

text \<open>The temporary files of a history: those that were created, as long as they were not removed.\<close>

fun temp_files :: "machine \<Rightarrow> sys_call list \<Rightarrow> sys_call list \<Rightarrow> string list \<Rightarrow> string list" where
  "temp_files m old [] open = open"
| "temp_files m old (c # cs) open = temp_files m (old @ [c]) cs
     (case c of
        CreateTemp p \<Rightarrow> (case m old c of Inr f \<Rightarrow> f # open | Inl _ \<Rightarrow> open)
      | RemoveFile f \<Rightarrow> remove1 f open
      | _ \<Rightarrow> open)"

lemma temp_files_append:
  "temp_files m old (xs @ ys) open = temp_files m (old @ xs) ys (temp_files m old xs open)"
  by (induction xs arbitrary: old "open") simp_all

lemma run_deferred [run_simps]:
  "run_state (deferred d k) h = (case run_state k h of (r, h') \<Rightarrow> (r, snd (run_state d h')))"
  by (simp add: deferred_def run_simps split: prod.splits)

lemma linuxNetManager_clean:
  "\<exists>new. snd (run_state (linuxNetManager m c) h) = h @ new \<and> temp_files m h new open = open
     \<and> (\<forall>f d p. WriteFile f d p \<in> set new \<longrightarrow> (\<exists>n. c = NetSaveConf n d \<and> f = conf_path n \<and> p = 384))"
proof -
  note defs = plain_def with_link_def linux_Delete_def linux_SetDown_def linux_Exists_def linux_QuickUp_def
    linux_QuickDown_def linux_SyncConf_def linux_SaveConf_def run_simps
  show ?thesis by (cases c) (auto simp: defs split: sum.splits)
qed

lemma run_ops_clean:
  "\<exists>new. snd (run_state (run_ops m cs) h) = h @ new \<and> temp_files m h new [] = []
     \<and> (\<forall>f d p. WriteFile f d p \<in> set new \<longrightarrow> (\<exists>n. NetSaveConf n d \<in> set cs \<and> f = conf_path n \<and> p = 384))"
proof (induction cs arbitrary: h)
  case (Cons c cs)
  obtain a where a: "snd (run_state (linuxNetManager m c) h) = h @ a" "temp_files m h a [] = []"
    "\<forall>f d p. WriteFile f d p \<in> set a \<longrightarrow> (\<exists>n. c = NetSaveConf n d \<and> f = conf_path n \<and> p = 384)"
    using linuxNetManager_clean by blast
  from Cons.IH [of "h @ a"] obtain b where "snd (run_state (run_ops m cs) (h @ a)) = (h @ a) @ b"
    "temp_files m (h @ a) b [] = []"
    "\<forall>f d p. WriteFile f d p \<in> set b \<longrightarrow> (\<exists>n. NetSaveConf n d \<in> set cs \<and> f = conf_path n \<and> p = 384)"
    by blast
  note b = this
  have "WriteFile f d p \<in> set (a @ b) \<Longrightarrow> \<exists>n. NetSaveConf n d \<in> set (c # cs) \<and> f = conf_path n \<and> p = 384" for f d p
    using a(3) b(3) by (auto 0 4)
  with a(1,2) b(1,2) show ?case
    by (intro exI [of _ "a @ b"]) (auto simp: run_ignore temp_files_append)
qed simp


end
