(* ===== verification/PathFacts.thy ===== *)
theory PathFacts
  imports ManagerFacts WebFacts LinuxNet
begin

text \<open>
  From a request to a file of the machine: the identifier of an interface is not checked anywhere on
  this way.
\<close>

lemma Manager_CreateInterface_returns:
  assumes "run_state (Manager_CreateInterface env i) w = (Inr j, w')"
  shows "get_iface (if_ID i) (wdb w') = Some j \<and> if_ID j = if_ID i \<and> if_Enabled j"
proof -
  obtain key x e y where "run_state (GenerateKeyPair env) w = (Inr key, x)" "run_state (Encrypt env (fst key)) x = (Inr e, y)"
    and c: "run_state (CreateInterface env (i\<lparr>if_PrivateKeyEncrypted := e, if_Enabled := True\<rparr>)) y = (Inr j, w')"
    using assms by (auto simp: Manager_CreateInterface_def returns split: prod.splits)
  obtain d now where "sql_insert_interface (i\<lparr>if_PrivateKeyEncrypted := e, if_Enabled := True, if_CreatedAt := now, if_UpdatedAt := now\<rparr>) d = Inr (wdb w')"
    "j = i\<lparr>if_PrivateKeyEncrypted := e, if_Enabled := True, if_CreatedAt := now, if_UpdatedAt := now\<rparr>"
    using c by (auto simp: CreateInterface_def run_simps Let_def split: option.splits sum.splits)
  then show ?thesis using interfaces.get_after_ins by fastforce
qed

lemma handleCreateInterface_returns:
  assumes "run_state (handleCreateInterface env (Inr q)) w = (JSON n i, w')"
  shows "get_iface (ciq_ID q) (wdb w') = Some i \<and> if_Enabled i"
proof -
  obtain y where "run_state (or_error 500 (Manager_CreateInterface env (requested_iface q)) (\<lambda>i. State_Monad.return (JSON 201 i))) y = (JSON n i, w')"
    using assms by (auto simp: handleCreateInterface_def with_body_def json_returns dest!: check_tunnel_ip_returns split: if_splits)
  then have "run_state (Manager_CreateInterface env (requested_iface q)) y = (Inr i, w')"
    by (auto simp: run_or_error run_simps split: sum.splits prod.splits)
  from Manager_CreateInterface_returns [OF this] show ?thesis by (simp add: requested_iface_def)
qed

section \<open>The path of a configuration\<close>

lemma split_no_slash: "CHR ''/'' \<notin> set s \<Longrightarrow> split_char CHR ''/'' s = [s]"
  by (rule split_char_single)

lemma conf_path_parent:
  assumes "CHR ''/'' \<notin> set s"
  shows "conf_path (''../../'' @ s) = ''/'' @ s @ ''.conf''"
proof -
  have "split_char CHR ''/'' ''/etc/wireguard'' = [[], ''etc'', ''wireguard'']" by code_simp
  moreover have "split_char CHR ''/'' (''../../'' @ s @ ''.conf'') = [''..'', ''..'', s @ ''.conf'']"
    using assms split_char_append [of "CHR ''/''" "''..''" "''../'' @ s @ ''.conf''"]
      split_char_append [of "CHR ''/''" "''..''" "s @ ''.conf''"] by (simp add: split_no_slash)
  moreover have "s @ ''.conf'' \<noteq> []" "s @ ''.conf'' \<noteq> ''.''" "s @ ''.conf'' \<noteq> ''..''"
    by (auto dest: arg_cong [of _ _ length])
  ultimately show ?thesis by (simp add: conf_path_def filepath_Join_def)
qed

lemma save_conf_writes:
  "WriteFile (conf_path n) c 384 \<in> set (snd (run_state (linuxNetManager m (NetSaveConf n c)) h))"
  by (simp add: plain_def linux_SaveConf_def run_simps split: sum.splits)

text \<open>C34. The identifier of an interface is not checked between the request that creates it and the file that
  a sync writes for it: an identifier of the form \<^verbatim>\<open>../../NAME\<close> is accepted from any user, and the
  configuration, with the commands of the user in it, is written to \<^verbatim>\<open>/NAME.conf\<close>.\<close>

theorem interface_id_escapes:
  assumes "run_state (handleCreateInterface env (Inr q)) w = (JSON n i, w1)"
    and "run_state (SyncInterface env (ciq_ID q)) w1 = (Inr u, w2)"
    and "ciq_ID q = ''../../'' @ name" and "CHR ''/'' \<notin> set name"
  shows "\<exists>c. NetSaveConf (ciq_ID q) c \<in> set (net_log w2)
    \<and> WriteFile (''/'' @ name @ ''.conf'') c 384 \<in> set (snd (run_state (linuxNetManager m (NetSaveConf (ciq_ID q) c)) h))"
proof -
  have "get_iface (ciq_ID q) (wdb w1) = Some i" "if_Enabled i" using handleCreateInterface_returns [OF assms(1)] by auto
  with SyncInterface_returns [OF assms(2)] obtain params where
    "net_log w2 = net_log w1 @ [NetExists (ciq_ID q), NetSyncConf (ciq_ID q) (GenerateStrippedConf params),
        NetSaveConf (ciq_ID q) (GenerateServerConf params)]
      \<or> net_log w2 = net_log w1 @ [NetExists (ciq_ID q), NetSaveConf (ciq_ID q) (GenerateServerConf params),
        NetQuickUp (ciq_ID q)]"
    by auto
  then have "NetSaveConf (ciq_ID q) (GenerateServerConf params) \<in> set (net_log w2)" by auto
  then obtain c where "NetSaveConf (ciq_ID q) c \<in> set (net_log w2)" by blast
  moreover have "WriteFile (''/'' @ name @ ''.conf'') c 384 \<in> set (snd (run_state (linuxNetManager m (NetSaveConf (ciq_ID q) c)) h))"
    using save_conf_writes [of "ciq_ID q"] conf_path_parent [OF assms(4)] unfolding assms(3) by metis
  ultimately show ?thesis by blast
qed

definition escaping_request :: createInterfaceRequest where
  "escaping_request = \<lparr>ciq_ID = ''../../evil'', ciq_Type = ''client-access'', ciq_ListenPort = 51821,
     ciq_Address = ''10.9.0.1/24'', ciq_DNS = [], ciq_MTU = 0, ciq_Endpoint = [], ciq_PostUp = ''reboot'', ciq_PostDown = []\<rparr>"

lemma interface_id_escapes_witness:
  "\<exists>w1 w2 c. snd (run_state (handleCreateInterface sample_env (Inr escaping_request)) sample_world) = w1
    \<and> snd (run_state (SyncInterface sample_env ''../../evil'') w1) = w2 \<and> NetSaveConf ''../../evil'' c \<in> set (net_log w2)
    \<and> WriteFile ''/evil.conf'' c 384 \<in> set (snd (run_state (linuxNetManager (\<lambda>_ _. Inr []) (NetSaveConf ''../../evil'' c)) []))"
proof -
  let ?create = "run_state (handleCreateInterface sample_env (Inr escaping_request)) sample_world"
  have "case fst ?create of JSON _ _ \<Rightarrow> True | _ \<Rightarrow> False" by code_simp
  then obtain n i where "fst ?create = JSON n i" by (auto split: response.splits)
  then obtain w1 where c: "?create = (JSON n i, w1)" by (rule run_obtain)
  have "case fst (run_state (SyncInterface sample_env ''../../evil'') (snd ?create)) of Inr _ \<Rightarrow> True | _ \<Rightarrow> False" by code_simp
  then obtain u where "fst (run_state (SyncInterface sample_env ''../../evil'') w1) = Inr u" unfolding c by (auto split: sum.splits)
  then obtain w2 where s: "run_state (SyncInterface sample_env ''../../evil'') w1 = (Inr u, w2)" by (rule run_obtain)
  have q: "ciq_ID escaping_request = ''../../evil''" by (simp add: escaping_request_def)
  from interface_id_escapes [OF c, unfolded q, OF s, of "''evil''" "\<lambda>_ _. Inr []" "[]"] c s show ?thesis by auto
qed

end
