(* ===== verification/Spec2Isabelle.thy ===== *)
theory Spec2Isabelle
  imports TunnelIPs Integrity AccessControl ManagerFacts PollerFacts LogFacts OidcFacts Migrations
    WebViewFacts Startup StaticFiles QrCodes LoginFlow MailTemplates PageFacts WebRuntime WireTypes WebEffects PathFacts
begin

text \<open>
  wgRift is a server that manages WireGuard interfaces and their peers: a Go process with an HTTP API,
  an SQLite database, calls on the machine (\<^verbatim>\<open>wg\<close>, \<^verbatim>\<open>wg-quick\<close>, netlink), and a web application,
  also written in Go, that runs in the browser. This development models the process from its start to
  its answers, the browser side up to the elements it draws, and states what makes each part correct.

  \<^bold>\<open>The parts and how they work together.\<close> A request passes the middleware (session, CSRF token) and
  reaches a handler, which checks its body and calls the store or the manager. The store is the only
  way to the tables; the manager keeps the tables and the machine in step by rewriting the configuration
  of an interface from its rows after every change. The poller compares what WireGuard reports with its
  last snapshot, writes connection logs and raises alerts; it writes rows of the same tables. The web
  application loads what the handlers answer, fills its forms from it and sends requests back.

  \<^bold>\<open>How the code is written here.\<close> A Go function that touches the outside is an action of the state monad
  on a \<open>world\<close> (tables, snapshots, outbox, the calls made on the machine, a counter of interactions);
  an \<open>env\<close> answers each interaction as a function of the counter, so it may fail or change its mind at any
  moment. An error is the left side of a sum, an early return a branch of \<open>attempt\<close>, \<open>check\<close>, \<open>or_error\<close>.
  Handlers return a \<open>response\<close>. Pages and forms are records of their signals with step functions.

  \<^bold>\<open>Theories and sources.\<close>
  \<^item> \<open>Prelude\<close>, \<open>GoLib\<close>, \<open>NetIP\<close>, \<open>Durations\<close>: the monad with its rules, and what the code uses of the
    standard library (strings, strconv, time, net, bufio, \<^verbatim>\<open>time.ParseDuration\<close>).
  \<^item> \<open>Models\<close> (internal/models), \<open>Tables\<close> (the SQL statements and the constraints of
    internal/store/migrations), \<open>Schema\<close> (the invariants of the tables), \<open>Store\<close> (internal/store),
    \<open>Migrations\<close> (internal/store/migrate.go).
  \<^item> \<open>Crypto\<close> (internal/crypto), \<open>Confgen\<close> (internal/confgen), \<open>Manager\<close> (internal/wg/manager.go),
    \<open>LinuxNet\<close> (internal/wg/netmanager_linux.go), \<open>Demo\<close> (the demo mode of internal/wg).
  \<^item> \<open>Auth\<close> (internal/auth/auth.go, internal/server/middleware.go), \<open>Oidc\<close> (internal/auth/oidc.go),
    \<open>Poller\<close> (internal/server/poller.go), \<open>Config\<close> (internal/config), \<open>MailMessage\<close> and \<open>MailTemplates\<close> (internal/mail),
    \<open>QrCodes\<close> (internal/qr), \<open>StaticFiles\<close> (internal/server/static.go).
  \<^item> \<open>Respond\<close>, \<open>HandlersNet\<close>, \<open>HandlersUsers\<close>, \<open>HandlersSettings\<close>: the handlers of internal/server;
    \<open>Routes\<close>: the protected routes and the server as a transition system; \<open>Startup\<close>: cmd/wgrift/main.go
    and the constructors it calls.
  \<^item> \<open>WebForms\<close>, \<open>WebClient\<close>, \<open>WebViews\<close>, \<open>WebRequests\<close>, \<open>WebDialogs\<close>: ui/web, from the address helpers and the forms
    to the client of the API, the pages' state, their buttons, the routes their requests take, and the dialogs.
  \<^item> \<open>WebNodes\<close> (trees of elements, the shared components of common.go), \<open>WebPages\<close> (page of an interface, peer
    forms), \<open>WebLists\<close> (dashboard, interfaces, logs), \<open>WebAdmin\<close> (users, settings), \<open>WebShell\<close> (layout, login,
    setup, the other dialogs): what every page draws from its state; \<open>PageFacts\<close>: theorems on these trees.
  \<^item> \<open>WebRuntime\<close>: a fetch as a step relation of promise, callbacks and waiting goroutine, the watch on the
    session, and the router with the polls of the pages as one transition system.
  \<^item> \<open>WebEffects\<close>: the script behind the uptimes, and the input that a form focuses.
  \<^item> \<open>WireTypes\<close>: the structs of both sides with their JSON tags, the encoder and the decoder.
  \<^item> \<open>Samples\<close>: a concrete world for the witnesses.

  \<^bold>\<open>Interfaces.\<close> \<open>db_table\<close> is the contract of a keyed table; it is interpreted on the six tables with a
  text key. \<open>account_invariant\<close> and \<open>net_invariant\<close> have one assumption per SQL statement; inside them
  every operation, from the store up to a step of the server, is shown once to keep the invariant.
  \<open>db_invariant\<close> joins them and is interpreted on the constraints of the schema and on its references;
  \<open>net_invariant\<close> also on the accounts that a viewer cannot change, \<open>account_invariant\<close> on the uniqueness
  of tunnel addresses.

  \<^bold>\<open>What the lemmas show.\<close>
  \<^item> Configuration files (\<open>Confgen\<close>, C1, C2): parsing a generated file gives its fields back, unless a
    name carries a line end, which injects commands.
  \<^item> Data (\<open>TunnelIPs\<close>, \<open>Integrity\<close>, \<open>Migrations\<close>, C3 to C7, C23): tunnel addresses stay distinct,
    reachable states obey the schema, deletes cascade, migrations run once and in order.
  \<^item> Access (\<open>AccessControl\<close>, \<open>LoginFlow\<close>, \<open>OidcFacts\<close>, C8 to C10, C21, C22, C28): who may do what, what a
    login opens, that it is accepted afterwards, and what a callback has verified.
  \<^item> Manager and poller (\<open>ManagerFacts\<close>, \<open>PollerFacts\<close>, \<open>LogFacts\<close>, C11 to C20): the calls on the machine
    and the file they hand over, what is left behind on failure, the connection log as the sequence of
    changes, and the races between the poller and a request.
  \<^item> Machine (\<open>LinuxNet\<close>, \<open>PathFacts\<close>, C30, C34): no temporary file is left, and where saved files go.
  \<^item> Mail, start, files (\<open>MailMessage\<close>, \<open>MailTemplates\<close>, \<open>Startup\<close>, \<open>QrCodes\<close>, \<open>StaticFiles\<close>, \<open>Demo\<close>, C24, C25, C29):
    attachments decode, what is typed into a mail adds no markup, which settings take effect, codes read
    back, files are served unchanged, and the loop that invents a history ends.
  \<^item> Browser (\<open>WebFacts\<close>, \<open>WebViewFacts\<close>, \<open>WebRequests\<close>, C26, C27, C31 to C33, C35): the address that is
    offered is the first free one, what saving a form erases, when a page stops loading, what it shows
    unescaped or masked, that every button reaches its handler, and that nothing is deleted unasked (\<open>WebDialogs\<close>).
  \<^item> Pages (\<open>PageFacts\<close>, \<open>WebRuntime\<close>, \<open>WireTypes\<close>, C36 to C40): what the role and peer forms show first, that no page
    draws a button that deletes without asking, when a fetch returns, that the page shown is the one of
    the route and that only its poll runs, and that an answer is read as it was written.

  \<^bold>\<open>Loops and bounds.\<close> No definition has fuel. Loops over rows and lines are structural; the others
  terminate by a measure: the ports and addresses that are tried, the time that is left in an invented
  history, the text that is left to a parser or to the mask. The loop of the log page is a sequence of
  rounds of any length. Integers that Go keeps in 64 bits are wrapped by \<open>int64\<close> where the code
  multiplies or adds what a user chooses; bytes of addresses are numbers below 256.

  \<^bold>\<open>Parameters.\<close> What is not in the repository is an argument or a field of \<open>env\<close>, with its documented
  laws as named hypotheses: the SQLite driver (its failures, and whether a connection enforces foreign
  keys), the clock, random bytes, age, bcrypt, the curve, \<^verbatim>\<open>wgctrl\<close>, the kernel and the external commands,
  the identity provider, the mail server, the QR encoder, YAML, the embedded files,
  \<^verbatim>\<open>http.FileServer\<close>. Requests arrive decoded; elsewhere than in \<open>WireTypes\<close>, JSON is the identity on the
  structs, except where a nil slice matters (\<open>json_slice\<close>).

  \<^bold>\<open>Not modelled.\<close> Of the web application: the CSS classes of the elements, the drawings of the
  icons, the confetti, and what the loom library does with a tree. \<^verbatim>\<open>detectExternalIP\<close>, a probe of the network at start. Command flags, signals and
  logging. cmd/serve-web, magefiles and the screenshots, which are tools. A step of the server is
  atomic, apart from the poller, whose cycle is cut where other requests can come in between.
\<close>

end
